(* ===== verification/Prelude.thy ===== *)
theory Prelude
  imports
    Main
    "HOL-Library.Multiset"
    "HOL-Library.List_Lexorder"
    "HOL-Library.Char_ord"
    "HOL-Library.Word"
    "HOL-Library.Sublist"
begin

text \<open>
  What the component theories share: the fallible state-passing computations that model Rust's
  \<open>Result\<close> and \<open>?\<close>, the parts of \<open>str\<close> the source uses (byte strings in UTF-8), relational tables
  as lists of rows in rowid order, and reachability for the step relations.
\<close>

section \<open>Collections of facts\<close>

named_theorems sem_defs \<open>definitions of the fallible state-passing computations\<close>
named_theorems keeps \<open>introduction rules: a computation keeps a state invariant\<close>

section \<open>Fallible computations over a state\<close>

text \<open>
  A Rust function on \<open>&self\<close> that returns \<open>Result<T>\<close> is a function from the state to a sum
  (\<open>Inl\<close> the error, \<open>Inr\<close> the value) and the state afterwards. \<open>bnd\<close> is the \<open>?\<close> operator: on an
  error the rest is skipped, and what was written before stays written.
\<close>

type_synonym ('s, 'e, 'a) sem = "'s \<Rightarrow> ('e + 'a) \<times> 's"

definition ok :: "'a \<Rightarrow> ('s, 'e, 'a) sem" where
  [sem_defs]: "ok x s = (Inr x, s)"

definition fail :: "'e \<Rightarrow> ('s, 'e, 'a) sem" where
  [sem_defs]: "fail e s = (Inl e, s)"

definition bnd :: "('s, 'e, 'a) sem \<Rightarrow> ('a \<Rightarrow> ('s, 'e, 'b) sem) \<Rightarrow> ('s, 'e, 'b) sem" where
  "bnd m f s = (case m s of (Inl e, t) \<Rightarrow> (Inl e, t) | (Inr x, t) \<Rightarrow> f x t)"

definition thn :: "('s, 'e, 'a) sem \<Rightarrow> ('s, 'e, 'b) sem \<Rightarrow> ('s, 'e, 'b) sem" where
  [sem_defs]: "thn m k = bnd m (\<lambda>_. k)"

text \<open>\<open>modify\<close> always succeeds; \<open>attempt\<close> is a single statement that fails without an effect.\<close>

definition modify :: "('s \<Rightarrow> 's) \<Rightarrow> ('s, 'e, unit) sem" where
  [sem_defs]: "modify f s = (Inr (), f s)"

definition attempt :: "('s \<Rightarrow> 'e + 's) \<Rightarrow> ('s, 'e, unit) sem" where
  [sem_defs]: "attempt f s = (case f s of Inl e \<Rightarrow> (Inl e, s) | Inr t \<Rightarrow> (Inr (), t))"

definition asks :: "('s \<Rightarrow> 'e + 'a) \<Rightarrow> ('s, 'e, 'a) sem" where
  [sem_defs]: "asks f s = (f s, s)"

primrec for_each :: "('a \<Rightarrow> ('s, 'e, 'b) sem) \<Rightarrow> 'a list \<Rightarrow> ('s, 'e, 'b list) sem" where
  "for_each f [] = ok []"
| "for_each f (x # xs) = bnd (f x) (\<lambda>y. bnd (for_each f xs) (\<lambda>ys. ok (y # ys)))"

text \<open>\<open>collect::<Result<Vec<_>>>()\<close>: the first error, or all the values.\<close>

fun collect :: "('e + 'a) list \<Rightarrow> 'e + 'a list" where
  "collect [] = Inr []"
| "collect (Inl e # xs) = Inl e"
| "collect (Inr x # xs) = (case collect xs of Inl e \<Rightarrow> Inl e | Inr ys \<Rightarrow> Inr (x # ys))"

lemma collect_map_Inr [simp]: "collect (map (\<lambda>x. Inr (f x)) xs) = Inr (map f xs)"
  by (induction xs) auto

lemma collect_Inr_iff:
  "(\<exists>ys. collect xs = Inr ys) \<longleftrightarrow> (\<forall>x \<in> set xs. \<exists>y. x = Inr y)"
  by (induction xs rule: collect.induct) (auto split: sum.splits)

lemma collect_map_eq:
  "(\<And>x. x \<in> set xs \<Longrightarrow> f x = Inr (g x)) \<Longrightarrow> collect (map f xs) = Inr (map g xs)"
  by (induction xs) auto

lemma bnd_Inl [simp]: "m s = (Inl e, t) \<Longrightarrow> bnd m f s = (Inl e, t)"
  by (simp add: bnd_def)

lemma bnd_Inr [simp]: "m s = (Inr x, t) \<Longrightarrow> bnd m f s = f x t"
  by (simp add: bnd_def)

lemma bnd_ok [simp]: "bnd (ok x) f = f x"
  by (simp add: fun_eq_iff bnd_def ok_def)

lemma bnd_fail [simp]: "bnd (fail e) f = fail e"
  by (simp add: fun_eq_iff bnd_def fail_def)

lemma bnd_InrE:
  assumes "bnd m f s = (Inr x, t)"
  obtains y u where "m s = (Inr y, u)" and "f y u = (Inr x, t)"
  using assms by (auto simp: bnd_def split: prod.splits sum.splits)

lemma thn_InrE:
  assumes "thn m k s = (Inr x, t)"
  obtains y u where "m s = (Inr y, u)" and "k u = (Inr x, t)"
  using assms by (auto simp: thn_def elim: bnd_InrE)

lemma bnd_assoc: "bnd (bnd m f) g = bnd m (\<lambda>x. bnd (f x) g)"
  by (auto simp: fun_eq_iff bnd_def split: prod.splits sum.splits)

subsection \<open>Keeping an invariant\<close>

definition preserves :: "('s \<Rightarrow> bool) \<Rightarrow> ('s, 'e, 'a) sem \<Rightarrow> bool" where
  "preserves P m \<longleftrightarrow> (\<forall>s. P s \<longrightarrow> P (snd (m s)))"

lemma preservesI: "(\<And>s. P s \<Longrightarrow> P (snd (m s))) \<Longrightarrow> preserves P m"
  by (simp add: preserves_def)

lemma preservesD: "preserves P m \<Longrightarrow> P s \<Longrightarrow> P (snd (m s))"
  by (simp add: preserves_def)

lemma preserves_ok [keeps]: "preserves P (ok x)"
  by (simp add: preserves_def ok_def)

lemma preserves_fail [keeps]: "preserves P (fail e)"
  by (simp add: preserves_def fail_def)

lemma preserves_asks [keeps]: "preserves P (asks f)"
  by (simp add: preserves_def asks_def)

lemma preserves_bnd [keeps]:
  "preserves P m \<Longrightarrow> (\<And>x. preserves P (f x)) \<Longrightarrow> preserves P (bnd m f)"
  by (fastforce simp: preserves_def bnd_def split: prod.splits sum.splits)

lemma preserves_thn [keeps]: "preserves P m \<Longrightarrow> preserves P k \<Longrightarrow> preserves P (thn m k)"
  by (simp add: thn_def preserves_bnd)

lemma preserves_modify: "(\<And>s. P s \<Longrightarrow> P (f s)) \<Longrightarrow> preserves P (modify f)"
  by (simp add: preserves_def modify_def)

lemma preserves_attempt: "(\<And>s t. P s \<Longrightarrow> f s = Inr t \<Longrightarrow> P t) \<Longrightarrow> preserves P (attempt f)"
  by (auto simp: preserves_def attempt_def split: sum.splits)

lemma preserves_if [keeps]:
  "(b \<Longrightarrow> preserves P m) \<Longrightarrow> (\<not> b \<Longrightarrow> preserves P k) \<Longrightarrow> preserves P (if b then m else k)"
  by simp

lemma preserves_for_each [keeps]:
  "(\<And>x. preserves P (f x)) \<Longrightarrow> preserves P (for_each f xs)"
  by (induction xs) (auto intro!: keeps)

section \<open>Strings\<close>

text \<open>
  A Rust \<open>str\<close> is its UTF-8 bytes; \<open>string\<close> is a list of characters that each stand for one byte,
  so the order of \<open>List_Lexorder\<close> over \<open>Char_ord\<close> is the byte order of \<open>str::cmp\<close> and of SQLite's
  BINARY collation.
\<close>

definition byte :: "char \<Rightarrow> nat" where
  "byte c = of_char c"

text \<open>The code points with the property White_Space, by their UTF-8 bytes (\<open>char::is_whitespace\<close>).\<close>

fun ws_bytes :: "nat list \<Rightarrow> bool" where
  "ws_bytes [a] \<longleftrightarrow> 9 \<le> a \<and> a \<le> 13 \<or> a = 32"
| "ws_bytes [a, b] \<longleftrightarrow> a = 194 \<and> (b = 133 \<or> b = 160)"
| "ws_bytes [a, b, c] \<longleftrightarrow>
     a = 225 \<and> b = 154 \<and> c = 128 \<or>
     a = 226 \<and> b = 128 \<and> (128 \<le> c \<and> c \<le> 138 \<or> c = 168 \<or> c = 169 \<or> c = 175) \<or>
     a = 226 \<and> b = 129 \<and> c = 159 \<or>
     a = 227 \<and> b = 128 \<and> c = 128"
| "ws_bytes _ \<longleftrightarrow> False"

definition is_ws :: "string \<Rightarrow> bool" where
  "is_ws s = ws_bytes (map byte s)"

definition take_last :: "nat \<Rightarrow> 'a list \<Rightarrow> 'a list" where
  "take_last n xs = drop (length xs - n) xs"

definition drop_last :: "nat \<Rightarrow> 'a list \<Rightarrow> 'a list" where
  "drop_last n xs = take (length xs - n) xs"

text \<open>The length in bytes of the white-space character at the start (at the end), 0 for none.\<close>

definition ws_head :: "string \<Rightarrow> nat" where
  "ws_head s = (if is_ws (take 1 s) then 1 else if is_ws (take 2 s) then 2
                else if is_ws (take 3 s) then 3 else 0)"

definition ws_tail :: "string \<Rightarrow> nat" where
  "ws_tail s = (if is_ws (take_last 1 s) then 1 else if is_ws (take_last 2 s) then 2
                else if is_ws (take_last 3 s) then 3 else 0)"

lemma is_ws_Nil [simp]: "\<not> is_ws []"
  by (simp add: is_ws_def)

lemma ws_head_Nil [simp]: "ws_head [] = 0"
  by (simp add: ws_head_def)

lemma ws_tail_Nil [simp]: "ws_tail [] = 0"
  by (simp add: ws_tail_def take_last_def)

function trim_start :: "string \<Rightarrow> string" where
  "trim_start s = (if ws_head s = 0 then s else trim_start (drop (ws_head s) s))"
  by pat_completeness auto
termination
proof (relation "measure length", simp)
  fix s :: string
  assume "ws_head s \<noteq> 0"
  then have "s \<noteq> []" by auto
  with \<open>ws_head s \<noteq> 0\<close> show "(drop (ws_head s) s, s) \<in> measure length" by simp
qed

function trim_end :: "string \<Rightarrow> string" where
  "trim_end s = (if ws_tail s = 0 then s else trim_end (drop_last (ws_tail s) s))"
  by pat_completeness auto
termination
proof (relation "measure length", simp)
  fix s :: string
  assume "ws_tail s \<noteq> 0"
  then have "s \<noteq> []" by auto
  with \<open>ws_tail s \<noteq> 0\<close> show "(drop_last (ws_tail s) s, s) \<in> measure length"
    by (simp add: drop_last_def)
qed

declare trim_start.simps [simp del] trim_end.simps [simp del]

text \<open>\<open>str::trim\<close>.\<close>

definition trim :: "string \<Rightarrow> string" where
  "trim s = trim_end (trim_start s)"

lemma ws_head_zero: "ws_head s = 0 \<longleftrightarrow> (\<forall>n \<in> {1, 2, 3}. \<not> is_ws (take n s))"
  by (auto simp: ws_head_def)

lemma ws_head_trim_start: "ws_head (trim_start s) = 0"
proof (induction s rule: trim_start.induct)
  case (1 s)
  then show ?case by (cases "ws_head s = 0") (simp_all add: trim_start.simps [of s])
qed

lemma ws_tail_trim_end: "ws_tail (trim_end s) = 0"
proof (induction s rule: trim_end.induct)
  case (1 s)
  then show ?case by (cases "ws_tail s = 0") (simp_all add: trim_end.simps [of s])
qed

lemma trim_end_prefix: "prefix (trim_end s) s"
proof (induction s rule: trim_end.induct)
  case (1 s)
  show ?case
  proof (cases "ws_tail s = 0")
    case True
    then show ?thesis by (simp add: trim_end.simps [of s])
  next
    case False
    with 1 have "prefix (trim_end (drop_last (ws_tail s) s)) (drop_last (ws_tail s) s)" by simp
    moreover have "prefix (drop_last (ws_tail s) s) s"
      by (simp add: drop_last_def take_is_prefix)
    ultimately show ?thesis using False by (simp add: trim_end.simps [of s])
  qed
qed

text \<open>A white-space character at the start of a prefix is one at the start of the whole.\<close>

lemma ws_head_prefix:
  assumes "prefix p s" and "ws_head s = 0"
  shows "ws_head p = 0"
proof (unfold ws_head_zero, rule ballI)
  fix n :: nat
  assume n: "n \<in> {1, 2, 3}"
  show "\<not> is_ws (take n p)"
  proof (cases "p = []")
    case False
    from assms(1) obtain q where s: "s = p @ q" by (auto simp: prefix_def)
    have "take n p = take (min n (length p)) s" by (simp add: s min_def)
    moreover have "1 \<le> min n (length p) \<and> min n (length p) \<le> 3"
      using n False by (auto simp: Suc_le_eq)
    then have "min n (length p) \<in> {1, 2, 3}" by auto
    ultimately show ?thesis using assms(2) by (metis ws_head_zero)
  qed simp
qed

theorem trim_idem [simp]: "trim (trim s) = trim s"
proof -
  have "ws_head (trim s) = 0"
    unfolding trim_def by (rule ws_head_prefix [OF trim_end_prefix ws_head_trim_start])
  then have "trim_start (trim s) = trim s" by (simp add: trim_start.simps [of "trim s"])
  moreover have "ws_tail (trim s) = 0" by (simp add: trim_def ws_tail_trim_end)
  then have "trim_end (trim s) = trim s" by (simp add: trim_end.simps [of "trim s"])
  ultimately show ?thesis by (simp add: trim_def [of "trim s"])
qed

text \<open>\<open>str::starts_with\<close> and \<open>str::trim_start_matches\<close> for a non-empty pattern.\<close>

definition starts_with :: "string \<Rightarrow> string \<Rightarrow> bool" where
  "starts_with p s \<longleftrightarrow> take (length p) s = p"

function trim_start_matches :: "string \<Rightarrow> string \<Rightarrow> string" where
  "trim_start_matches p s =
     (if p \<noteq> [] \<and> starts_with p s then trim_start_matches p (drop (length p) s) else s)"
  by pat_completeness auto
termination
proof (relation "measure (\<lambda>(p, s). length s)", simp)
  fix p s :: string
  assume a: "p \<noteq> [] \<and> starts_with p s"
  then have "s \<noteq> []" by (auto simp: starts_with_def)
  with a show "((p, drop (length p) s), p, s) \<in> measure (\<lambda>(p, s). length s)" by simp
qed

declare trim_start_matches.simps [simp del]

lemma starts_with_append [simp]: "starts_with p (p @ s)"
  by (simp add: starts_with_def)

lemma trim_start_matches_append: "p \<noteq> [] \<Longrightarrow> trim_start_matches p (p @ s) = trim_start_matches p s"
  by (simp add: trim_start_matches.simps [of p "p @ s"])

lemma trim_start_matches_none: "\<not> starts_with p s \<Longrightarrow> trim_start_matches p s = s"
  by (simp add: trim_start_matches.simps [of p s])

lemma trim_start_matches_length: "length (trim_start_matches p s) \<le> length s"
proof (induction p s rule: trim_start_matches.induct)
  case (1 p s)
  show ?case
  proof (cases "p \<noteq> [] \<and> starts_with p s")
    case True
    with 1 have "length (trim_start_matches p (drop (length p) s)) \<le> length (drop (length p) s)" by blast
    with True show ?thesis by (simp add: trim_start_matches.simps [of p s])
  qed (auto simp: trim_start_matches.simps [of p s])
qed

lemma trim_start_matches_id_iff: "p \<noteq> [] \<Longrightarrow> trim_start_matches p s = s \<longleftrightarrow> \<not> starts_with p s"
proof
  assume p: "p \<noteq> []" and e: "trim_start_matches p s = s"
  show "\<not> starts_with p s"
  proof
    assume st: "starts_with p s"
    then have "s \<noteq> []" using p by (auto simp: starts_with_def)
    then have "length (drop (length p) s) < length s" using p by simp
    moreover have "trim_start_matches p s = trim_start_matches p (drop (length p) s)"
      using p st by (simp add: trim_start_matches.simps [of p s])
    ultimately have "length (trim_start_matches p s) < length s"
      using trim_start_matches_length [of p "drop (length p) s"] by simp
    with e show False by simp
  qed
qed (simp add: trim_start_matches_none)

text \<open>ASCII case mapping (\<open>to_ascii_lowercase\<close>, and \<open>to_uppercase\<close> on ASCII text).\<close>

definition ascii_lower_char :: "char \<Rightarrow> char" where
  "ascii_lower_char c = (if 65 \<le> byte c \<and> byte c \<le> 90 then char_of (byte c + 32) else c)"

definition ascii_upper_char :: "char \<Rightarrow> char" where
  "ascii_upper_char c = (if 97 \<le> byte c \<and> byte c \<le> 122 then char_of (byte c - 32) else c)"

definition to_ascii_lowercase :: "string \<Rightarrow> string" where
  "to_ascii_lowercase = map ascii_lower_char"

definition to_ascii_uppercase :: "string \<Rightarrow> string" where
  "to_ascii_uppercase = map ascii_upper_char"

text \<open>\<open>[String]::join\<close>.\<close>

fun join_strs :: "string \<Rightarrow> string list \<Rightarrow> string" where
  "join_strs sep [] = []"
| "join_strs sep [x] = x"
| "join_strs sep (x # y # xs) = x @ sep @ join_strs sep (y # xs)"

text \<open>Decimal and two-digit hexadecimal printing of \<open>format!\<close>.\<close>

fun show_nat :: "nat \<Rightarrow> string" where
  "show_nat n = (if n < 10 then [char_of (48 + n)] else show_nat (n div 10) @ [char_of (48 + n mod 10)])"

declare show_nat.simps [simp del]

definition show_int :: "int \<Rightarrow> string" where
  "show_int i = (if i < 0 then ''-'' @ show_nat (nat (- i)) else show_nat (nat i))"


section \<open>Tables\<close>

text \<open>
  A SQL table is the list of its rows in rowid order: an insertion appends, an \<open>UPDATE\<close> works in
  place. \<open>key\<close> is the column (or tuple of columns) of a uniqueness constraint.
\<close>

definition update_where :: "('r \<Rightarrow> bool) \<Rightarrow> ('r \<Rightarrow> 'r) \<Rightarrow> 'r list \<Rightarrow> 'r list" where
  "update_where p f t = map (\<lambda>r. if p r then f r else r) t"

definition lookup_row :: "('r \<Rightarrow> 'k) \<Rightarrow> 'k \<Rightarrow> 'r list \<Rightarrow> 'r option" where
  "lookup_row key k t = List.find (\<lambda>r. key r = k) t"

definition has_row :: "('r \<Rightarrow> 'k) \<Rightarrow> 'k \<Rightarrow> 'r list \<Rightarrow> bool" where
  "has_row key k t \<longleftrightarrow> k \<in> set (map key t)"

text \<open>\<open>INSERT OR REPLACE\<close>: the conflicting row goes, the new one gets the next rowid.\<close>

definition replace_row :: "('r \<Rightarrow> 'k) \<Rightarrow> 'r \<Rightarrow> 'r list \<Rightarrow> 'r list" where
  "replace_row key r t = filter (\<lambda>x. key x \<noteq> key r) t @ [r]"

text \<open>\<open>INSERT ... ON CONFLICT(key) DO UPDATE\<close>: the conflicting row is changed in place.\<close>

definition upsert_row :: "('r \<Rightarrow> 'k) \<Rightarrow> ('r \<Rightarrow> 'r) \<Rightarrow> 'r \<Rightarrow> 'r list \<Rightarrow> 'r list" where
  "upsert_row key f r t =
     (if has_row key (key r) t then update_where (\<lambda>x. key x = key r) f t else t @ [r])"

lemma set_update_where: "set (update_where p f t) = (\<lambda>r. if p r then f r else r) ` set t"
  by (simp add: update_where_def)

lemma length_update_where [simp]: "length (update_where p f t) = length t"
  by (simp add: update_where_def)

lemma update_where_Nil [simp]: "update_where p f [] = []"
  by (simp add: update_where_def)

lemma update_where_Cons [simp]:
  "update_where p f (r # t) = (if p r then f r else r) # update_where p f t"
  by (simp add: update_where_def)

lemma update_where_append [simp]: "update_where p f (t @ u) = update_where p f t @ update_where p f u"
  by (simp add: update_where_def)

lemma map_update_where:
  "(\<And>r. p r \<Longrightarrow> g (f r) = g r) \<Longrightarrow> map g (update_where p f t) = map g t"
  by (simp add: update_where_def)

lemma has_row_iff: "has_row key k t \<longleftrightarrow> (\<exists>r \<in> set t. key r = k)"
  by (auto simp: has_row_def)

lemma has_row_Nil [simp]: "\<not> has_row key k []"
  by (simp add: has_row_def)

lemma has_row_Cons [simp]: "has_row key k (r # t) \<longleftrightarrow> key r = k \<or> has_row key k t"
  by (auto simp: has_row_def)

lemma has_row_append [simp]: "has_row key k (t @ u) \<longleftrightarrow> has_row key k t \<or> has_row key k u"
  by (auto simp: has_row_def)

lemma has_row_filter_key [simp]:
  "has_row key k (filter (\<lambda>r. key r \<noteq> g) t) \<longleftrightarrow> k \<noteq> g \<and> has_row key k t"
  by (auto simp: has_row_iff)

lemma distinct_map_filter_weaken:
  "distinct (map f (filter p xs)) \<Longrightarrow> distinct (map f (filter (\<lambda>x. q x \<and> p x) xs))"
  by (induction xs) (auto split: if_splits)

lemma length_filter_other_key:
  "distinct (map key t) \<Longrightarrow> has_row key k t \<Longrightarrow> length (filter (\<lambda>r. key r \<noteq> k) t) + 1 = length t"
proof (induction t)
  case (Cons r t)
  then show ?case
    by (cases "key r = k") (auto simp: has_row_def image_iff intro!: arg_cong [where f = length] filter_True)
qed simp

lemma has_row_update_where:
  "(\<And>r. p r \<Longrightarrow> key (f r) = key r) \<Longrightarrow> has_row key k (update_where p f t) = has_row key k t"
  unfolding has_row_def by (simp add: map_update_where del: set_map)

lemma has_row_replace_row [simp]: "has_row key k (replace_row key r t) \<longleftrightarrow> has_row key k t \<or> key r = k"
  by (auto simp: has_row_iff replace_row_def)

lemma has_row_upsert_row:
  "(\<And>x. key (f x) = key x) \<Longrightarrow> has_row key k (upsert_row key f r t) \<longleftrightarrow> has_row key k t \<or> key r = k"
  by (auto simp: upsert_row_def has_row_update_where)

lemma lookup_row_Nil [simp]: "lookup_row key k [] = None"
  by (simp add: lookup_row_def)

lemma lookup_row_Cons [simp]:
  "lookup_row key k (r # t) = (if key r = k then Some r else lookup_row key k t)"
  by (simp add: lookup_row_def)

lemma lookup_row_append:
  "lookup_row key k (t @ u) = (case lookup_row key k t of Some r \<Rightarrow> Some r | None \<Rightarrow> lookup_row key k u)"
  by (induction t) auto

lemma lookup_row_None: "lookup_row key k t = None \<longleftrightarrow> \<not> has_row key k t"
  by (induction t) auto

lemma lookup_row_SomeD: "lookup_row key k t = Some r \<Longrightarrow> r \<in> set t \<and> key r = k"
  by (induction t) (auto split: if_splits)

lemma lookup_row_Some:
  "distinct (map key t) \<Longrightarrow> lookup_row key k t = Some r \<longleftrightarrow> r \<in> set t \<and> key r = k"
  by (induction t) (auto simp: has_row_def image_iff)

lemma lookup_row_filter:
  "(\<And>r. r \<in> set t \<Longrightarrow> key r = k \<Longrightarrow> p r) \<Longrightarrow> lookup_row key k (filter p t) = lookup_row key k t"
  by (induction t) auto

lemma lookup_row_update_where:
  "(\<And>r. p r \<Longrightarrow> key (f r) = key r) \<Longrightarrow>
   lookup_row key k (update_where p f t) = map_option (\<lambda>r. if p r then f r else r) (lookup_row key k t)"
  by (induction t) auto

lemma lookup_row_replace_row:
  "lookup_row key k (replace_row key r t) = (if key r = k then Some r else lookup_row key k t)"
proof -
  have "lookup_row key (key r) (filter (\<lambda>x. key x \<noteq> key r) t) = None" by (simp add: lookup_row_None)
  moreover have "key r \<noteq> k \<Longrightarrow>
      lookup_row key k (filter (\<lambda>x. key x \<noteq> key r) t) = lookup_row key k t"
    by (rule lookup_row_filter) simp
  ultimately show ?thesis
    by (auto simp: replace_row_def lookup_row_append split: option.splits)
qed

lemma lookup_row_upsert_row:
  assumes "\<And>x. key (f x) = key x"
  shows "lookup_row key k (upsert_row key f r t) =
    (if key r = k then Some (case lookup_row key k t of None \<Rightarrow> r | Some x \<Rightarrow> f x)
     else lookup_row key k t)"
proof (cases "has_row key (key r) t")
  case True
  then have "lookup_row key (key r) t \<noteq> None" by (simp add: lookup_row_None)
  moreover have "lookup_row key k (upsert_row key f r t) =
      map_option (\<lambda>x. if key x = key r then f x else x) (lookup_row key k t)"
    using True assms by (simp add: upsert_row_def lookup_row_update_where)
  ultimately show ?thesis
    by (auto dest: lookup_row_SomeD split: option.splits)
next
  case False
  then have "upsert_row key f r t = t @ [r]" and "lookup_row key (key r) t = None"
    by (simp_all add: upsert_row_def lookup_row_None)
  then show ?thesis by (auto simp: lookup_row_append split: option.splits)
qed

lemma distinct_replace_row [intro]:
  "distinct (map key t) \<Longrightarrow> distinct (map key (replace_row key r t))"
  by (auto simp: replace_row_def distinct_map_filter)

lemma distinct_upsert_row:
  "(\<And>x. key (f x) = key x) \<Longrightarrow> distinct (map key t) \<Longrightarrow> distinct (map key (upsert_row key f r t))"
  by (auto simp: upsert_row_def map_update_where has_row_def)

section \<open>Reachable states\<close>

text \<open>The states a step relation reaches from its initial states, and the invariant rule.\<close>

inductive reachable :: "('s \<Rightarrow> bool) \<Rightarrow> ('s \<Rightarrow> 's \<Rightarrow> bool) \<Rightarrow> 's \<Rightarrow> bool" for init step where
  reach_init: "init s \<Longrightarrow> reachable init step s"
| reach_step: "reachable init step s \<Longrightarrow> step s t \<Longrightarrow> reachable init step t"

locale inductive_invariant =
  fixes init :: "'s \<Rightarrow> bool"
    and step :: "'s \<Rightarrow> 's \<Rightarrow> bool"
    and I :: "'s \<Rightarrow> bool"
  assumes init_inv: "init s \<Longrightarrow> I s"
    and step_inv: "I s \<Longrightarrow> step s t \<Longrightarrow> I t"
begin

lemma reachable_inv: "reachable init step s \<Longrightarrow> I s"
  by (induction rule: reachable.induct) (auto intro: init_inv step_inv)

lemma steps_inv: "step\<^sup>*\<^sup>* s t \<Longrightarrow> I s \<Longrightarrow> I t"
  by (induction rule: rtranclp_induct) (auto intro: step_inv)

end

end
