(* ===== verification/Files.thy ===== *)
theory Files
  imports Prelude
begin

text \<open>
  The parts of \<open>std::path\<close> and \<open>std::fs\<close> the core uses, for the Windows build it is made for: joining
  paths, the last component of a path, and files that are read and written whole. A path the
  process may not use (\<open>blocked\<close>, with the text of the error) fails every operation without an effect;
  partial writes are not modelled. Errors are the text that \<open>Display\<close> of \<open>anyhow::Error\<close> shows, which
  is the outermost context.
\<close>

section \<open>Paths\<close>

definition is_sep :: "char \<Rightarrow> bool" where
  "is_sep c \<longleftrightarrow> c = CHR ''/'' \<or> byte c = 92"

definition backslash :: char where
  "backslash = char_of (92 :: nat)"

definition is_letter :: "char \<Rightarrow> bool" where
  "is_letter c \<longleftrightarrow> 65 \<le> byte c \<and> byte c \<le> 90 \<or> 97 \<le> byte c \<and> byte c \<le> 122"

text \<open>A path that is a drive and nothing else, such as \<open>C:\<close>, joins without a separator.\<close>

fun is_bare_drive :: "string \<Rightarrow> bool" where
  "is_bare_drive [c, d] \<longleftrightarrow> is_letter c \<and> d = CHR '':''"
| "is_bare_drive _ \<longleftrightarrow> False"

text \<open>\<open>Path::join\<close> with a relative path that has no drive.\<close>

definition join_path :: "string \<Rightarrow> string \<Rightarrow> string" where
  "join_path d n = (if d = [] \<or> is_sep (last d) \<or> is_bare_drive d then d @ n else d @ [backslash] @ n)"

text \<open>The components of a path, without its drive; \<open>file_name\<close> is the last one unless it is \<open>..\<close>.\<close>

fun split_seps :: "string \<Rightarrow> string \<Rightarrow> string list" where
  "split_seps acc [] = [rev acc]"
| "split_seps acc (c # cs) = (if is_sep c then rev acc # split_seps [] cs else split_seps (c # acc) cs)"

definition strip_drive :: "string \<Rightarrow> string" where
  "strip_drive p = (if is_bare_drive (take 2 p) then drop 2 p else p)"

definition file_name :: "string \<Rightarrow> string option" where
  "file_name p = (case rev (filter (\<lambda>c. c \<noteq> [] \<and> c \<noteq> ''.'') (split_seps [] (strip_drive p))) of
     [] \<Rightarrow> None | c # _ \<Rightarrow> if c = ''..'' then None else Some c)"

lemma join_path_inj: "join_path d n = join_path d m \<longleftrightarrow> n = m"
  by (auto simp: join_path_def)

lemma join_path_neq [simp]: "n \<noteq> m \<Longrightarrow> join_path d n \<noteq> join_path d m"
  by (simp add: join_path_inj)

lemma split_seps_no_sep: "\<not> list_ex is_sep n \<Longrightarrow> split_seps acc n = [rev acc @ n]"
  by (induction n arbitrary: acc) auto

lemma split_seps_append_sep:
  "is_sep s \<Longrightarrow> split_seps acc (p @ s # n) = split_seps acc p @ split_seps [] n"
  by (induction p arbitrary: acc) auto

lemma split_seps_nonempty: "split_seps acc p \<noteq> []"
  by (induction p arbitrary: acc) auto

section \<open>Files\<close>

record disk =
  files :: "string \<Rightarrow> string option"
  blocked :: "string \<Rightarrow> string option"

definition not_found :: string where
  "not_found = ''entity not found''"

definition file_exists :: "string \<Rightarrow> disk \<Rightarrow> bool" where
  "file_exists p d \<longleftrightarrow> files d p \<noteq> None"

definition read_file :: "string \<Rightarrow> disk \<Rightarrow> string + string" where
  "read_file p d = (case blocked d p of Some e \<Rightarrow> Inl e
     | None \<Rightarrow> (case files d p of None \<Rightarrow> Inl not_found | Some c \<Rightarrow> Inr c))"

definition write_file :: "string \<Rightarrow> string \<Rightarrow> (disk, string, unit) sem" where
  "write_file p c = attempt (\<lambda>d. case blocked d p of Some e \<Rightarrow> Inl e
     | None \<Rightarrow> Inr (d\<lparr>files := (files d)(p := Some c)\<rparr>))"

definition remove_file :: "string \<Rightarrow> (disk, string, unit) sem" where
  "remove_file p = attempt (\<lambda>d. case blocked d p of Some e \<Rightarrow> Inl e
     | None \<Rightarrow> if file_exists p d then Inr (d\<lparr>files := (files d)(p := None)\<rparr>) else Inl not_found)"

text \<open>Directories are not tracked; creating one can only fail where the path is blocked.\<close>

definition create_dir_all :: "string \<Rightarrow> (disk, string, unit) sem" where
  "create_dir_all p = asks (\<lambda>d. case blocked d p of Some e \<Rightarrow> Inl e | None \<Rightarrow> Inr ())"

definition with_context :: "string \<Rightarrow> ('s, string, 'a) sem \<Rightarrow> ('s, string, 'a) sem" where
  "with_context ctx m s = (case m s of (Inl _, t) \<Rightarrow> (Inl ctx, t) | (Inr x, t) \<Rightarrow> (Inr x, t))"

section \<open>The interface of a file store\<close>

text \<open>
  What the components that persist something rely on: a write that succeeds can be read back, does
  not touch other files, and a write that fails changes nothing.
\<close>

locale file_store =
  fixes rd :: "'p \<Rightarrow> 's \<Rightarrow> 'e + 'c"
    and wr :: "'p \<Rightarrow> 'c \<Rightarrow> 's \<Rightarrow> ('e + unit) \<times> 's"
  assumes read_written: "wr p c s = (Inr u, t) \<Longrightarrow> rd p t = Inr c"
    and read_other: "p \<noteq> q \<Longrightarrow> rd q (snd (wr p c s)) = rd q s"
    and write_failed: "wr p c s = (Inl e, t) \<Longrightarrow> t = s"
begin

lemma read_after_write: "fst (wr p c s) = Inr u \<Longrightarrow> rd p (snd (wr p c s)) = Inr c"
  by (metis read_written prod.collapse)

lemma read_after_other:
  "fst (wr p c s) = Inr u \<Longrightarrow> p \<noteq> q \<Longrightarrow> rd p (snd (wr q c' (snd (wr p c s)))) = Inr c"
  by (simp add: read_other read_after_write)

end

interpretation fs: file_store read_file write_file
  by unfold_locales
    (auto simp: read_file_def write_file_def attempt_def split: option.splits sum.splits)

lemma blocked_write_file [simp]: "blocked (snd (write_file p c d)) = blocked d"
  by (simp add: write_file_def attempt_def split: option.splits)

lemma write_file_ok_iff: "(\<exists>u. fst (write_file p c d) = Inr u) \<longleftrightarrow> blocked d p = None"
  by (simp add: write_file_def attempt_def split: option.splits)

lemma file_exists_write: "fst (write_file p c d) = Inr u \<Longrightarrow> file_exists p (snd (write_file p c d))"
  by (auto simp: write_file_def attempt_def file_exists_def split: option.splits)

end
