(* ===== verification/OsConfig.thy ===== *)
theory OsConfig
  imports Files
begin

text \<open>
  \<open>rust/src/os_config.rs\<close>: the device identity, decoded from an activation code or held by a relay,
  and its file. The relay's answer, the base64 and protobuf decoders (third-party and generated code),
  serde, and the random bytes and ids are arguments.
\<close>

section \<open>Hexadecimal text\<close>

definition hex_digit :: "nat \<Rightarrow> char" where
  "hex_digit n = char_of (if n < 10 then 48 + n else 55 + n)"

definition hex_byte :: "8 word \<Rightarrow> string" where
  "hex_byte b = [hex_digit (unat b div 16), hex_digit (unat b mod 16)]"

text \<open>\<open>generate_udid\<close>: the fold over the 32 random bytes with \<open>{:02X}\<close>.\<close>

definition generate_udid :: "8 word list \<Rightarrow> string" where
  "generate_udid bytes = fold (\<lambda>b s. s @ hex_byte b) bytes []"

section \<open>The types of a device identity\<close>

record HardwareConfig =
  hc_product_name :: string
  hc_io_mac_address :: "8 word list"
  hc_platform_serial_number :: string
  hc_platform_uuid :: string
  hc_root_disk_uuid :: string
  hc_board_id :: string
  hc_os_build_num :: string
  hc_platform_serial_number_enc :: "8 word list"
  hc_platform_uuid_enc :: "8 word list"
  hc_root_disk_uuid_enc :: "8 word list"
  hc_rom :: "8 word list"
  hc_rom_enc :: "8 word list"
  hc_mlb :: string
  hc_mlb_enc :: "8 word list"

record MacOSConfig =
  mc_inner :: HardwareConfig
  mc_version :: string
  mc_protocol_version :: "32 word"
  mc_device_id :: string
  mc_icloud_ua :: string
  mc_aoskit_version :: string
  mc_udid :: "string option"

text \<open>The messages of \<open>mac_hw_info.proto\<close>; an embedded message is optional, an \<open>int32\<close> is signed.\<close>

record InnerHwInfo =
  ih_product_name :: string
  ih_io_mac_address :: "8 word list"
  ih_platform_serial_number :: string
  ih_platform_uuid :: string
  ih_root_disk_uuid :: string
  ih_board_id :: string
  ih_os_build_num :: string
  ih_platform_serial_number_enc :: "8 word list"
  ih_platform_uuid_enc :: "8 word list"
  ih_root_disk_uuid_enc :: "8 word list"
  ih_rom :: "8 word list"
  ih_rom_enc :: "8 word list"
  ih_mlb :: string
  ih_mlb_enc :: "8 word list"

record HwInfo =
  hw_inner :: "InnerHwInfo option"
  hw_version :: string
  hw_protocol_version :: int
  hw_device_id :: string
  hw_icloud_ua :: string
  hw_aoskit_version :: string

text \<open>\<open>rc_version\<close> is the version record the relay serves, in its serialised form.\<close>

record RelayConfig =
  rc_version :: string
  rc_icloud_ua :: string
  rc_aoskit_version :: string
  rc_dev_uuid :: string
  rc_protocol_version :: nat
  rc_host :: string
  rc_code :: string
  rc_beeper_token :: "string option"
  rc_udid :: "string option"

datatype DeviceConfig = Local string string | Relay RelayConfig

text \<open>What \<open>Arc<dyn OSConfig>\<close> can be here.\<close>

datatype os_config = MacOS MacOSConfig | RelayOS RelayConfig

definition DEFAULT_RELAY_HOST :: string where
  "DEFAULT_RELAY_HOST = ''https://hw.openbubbles.app''"

text \<open>\<open>b\"OABS\"\<close>.\<close>

definition LOCAL_CODE_MAGIC :: "8 word list" where
  "LOCAL_CODE_MAGIC = [79, 65, 66, 83]"

section \<open>Code that is not in the repository\<close>

text \<open>
  \<open>b64_decode\<close> is the standard base64 engine, \<open>hw_decode\<close> the generated protobuf decoder,
  \<open>get_versions\<close> the request to the relay.
\<close>

record device_env =
  b64_decode :: "string \<Rightarrow> 8 word list option"
  hw_decode :: "8 word list \<Rightarrow> string + HwInfo"
  get_versions :: "string \<Rightarrow> string \<Rightarrow> string option \<Rightarrow> string + string"

section \<open>Activation codes\<close>

definition base64_decode :: "device_env \<Rightarrow> string \<Rightarrow> 8 word list option" where
  "base64_decode env s = b64_decode env s"

definition hardware_config :: "InnerHwInfo \<Rightarrow> 8 word list \<Rightarrow> HardwareConfig" where
  "hardware_config inner mac = \<lparr>hc_product_name = ih_product_name inner, hc_io_mac_address = mac,
     hc_platform_serial_number = ih_platform_serial_number inner,
     hc_platform_uuid = ih_platform_uuid inner, hc_root_disk_uuid = ih_root_disk_uuid inner,
     hc_board_id = ih_board_id inner, hc_os_build_num = ih_os_build_num inner,
     hc_platform_serial_number_enc = ih_platform_serial_number_enc inner,
     hc_platform_uuid_enc = ih_platform_uuid_enc inner,
     hc_root_disk_uuid_enc = ih_root_disk_uuid_enc inner, hc_rom = ih_rom inner,
     hc_rom_enc = ih_rom_enc inner, hc_mlb = ih_mlb inner, hc_mlb_enc = ih_mlb_enc inner\<rparr>"

definition parse_payload :: "device_env \<Rightarrow> 8 word list \<Rightarrow> 8 word list \<Rightarrow> string + MacOSConfig" where
  "parse_payload env rnd payload =
     (case hw_decode env payload of
        Inl _ \<Rightarrow> Inl ''decoding the hardware info inside the activation code''
      | Inr hw \<Rightarrow> case hw_inner hw of
        None \<Rightarrow> Inl ''activation code has no hardware section''
      | Some inner \<Rightarrow>
        if length (ih_io_mac_address inner) \<noteq> 6
        then Inl (''activation code has a '' @ show_nat (length (ih_io_mac_address inner)) @
                  ''-byte MAC address, expected 6'')
        else Inr \<lparr>mc_inner = hardware_config inner (ih_io_mac_address inner), mc_version = hw_version hw,
               mc_protocol_version = word_of_int (hw_protocol_version hw),
               mc_device_id = hw_device_id hw, mc_icloud_ua = hw_icloud_ua hw,
               mc_aoskit_version = hw_aoskit_version hw, mc_udid = Some (generate_udid rnd)\<rparr>)"

definition parse_local_code ::
    "device_env \<Rightarrow> 8 word list \<Rightarrow> string \<Rightarrow> string + MacOSConfig option" where
  "parse_local_code env rnd code =
     (case base64_decode env (trim code) of
        None \<Rightarrow> Inr None
      | Some raw \<Rightarrow>
        if length raw < length LOCAL_CODE_MAGIC + 1 \<or>
           take (length LOCAL_CODE_MAGIC) raw \<noteq> LOCAL_CODE_MAGIC
        then Inr None
        else map_sum id Some (parse_payload env rnd (drop (length LOCAL_CODE_MAGIC + 1) raw)))"

section \<open>Device configurations\<close>

definition as_os_config :: "device_env \<Rightarrow> 8 word list \<Rightarrow> DeviceConfig \<Rightarrow> string + os_config" where
  "as_os_config env rnd c =
     (case c of
        Local code _ \<Rightarrow>
          (case parse_local_code env rnd code of
             Inl e \<Rightarrow> Inl e
           | Inr None \<Rightarrow> Inl ''stored activation code is no longer readable''
           | Inr (Some parsed) \<Rightarrow> Inr (MacOS parsed))
      | Relay r \<Rightarrow> Inr (RelayOS r))"

text \<open>\<open>chars().take(n)\<close> on UTF-8: a character is a byte and the continuation bytes after it.\<close>

definition is_continuation :: "char \<Rightarrow> bool" where
  "is_continuation c \<longleftrightarrow> 128 \<le> byte c \<and> byte c < 192"

fun take_chars :: "nat \<Rightarrow> string \<Rightarrow> string" where
  "take_chars 0 s = []"
| "take_chars (Suc n) [] = []"
| "take_chars (Suc n) (c # cs) =
     c # takeWhile is_continuation cs @ take_chars n (dropWhile is_continuation cs)"

definition ellipsis :: string where
  "ellipsis = map char_of [226, 128, 166 :: nat]"

definition summary :: "DeviceConfig \<Rightarrow> string" where
  "summary c =
     (case c of
        Local _ label \<Rightarrow> label
      | Relay r \<Rightarrow> ''relay '' @ rc_host r @ '' code='' @ take_chars 8 (rc_code r) @ ellipsis @
          '' udid='' @ (case rc_udid r of None \<Rightarrow> '''' | Some u \<Rightarrow> u) @
          '' proto='' @ show_nat (rc_protocol_version r))"

definition is_local :: "DeviceConfig \<Rightarrow> bool" where
  "is_local c = (case c of Local _ _ \<Rightarrow> True | Relay _ \<Rightarrow> False)"

definition describe :: "MacOSConfig \<Rightarrow> string" where
  "describe cfg = ''local '' @ hc_product_name (mc_inner cfg) @ '' ('' @ mc_version cfg @ '') build '' @
     hc_os_build_num (mc_inner cfg)"

definition relay_config ::
    "string \<Rightarrow> string \<Rightarrow> string option \<Rightarrow> string \<Rightarrow> string \<Rightarrow> 8 word list \<Rightarrow> RelayConfig" where
  "relay_config host code beeper_token versions uuid rnd = \<lparr>rc_version = versions,
     rc_icloud_ua = ''com.apple.iCloudHelper/282 CFNetwork/1408.0.4 Darwin/22.5.0'',
     rc_aoskit_version = ''com.apple.AOSKit/282 (com.apple.accountsd/113)'',
     rc_dev_uuid = uuid, rc_protocol_version = 1660, rc_host = host, rc_code = code,
     rc_beeper_token = beeper_token, rc_udid = Some (generate_udid rnd)\<rparr>"

definition pair ::
    "device_env \<Rightarrow> 8 word list \<Rightarrow> string \<Rightarrow> string \<Rightarrow> string \<Rightarrow> string option \<Rightarrow> string + DeviceConfig" where
  "pair env rnd uuid host code beeper_token =
     (case parse_local_code env rnd code of
        Inl e \<Rightarrow> Inl e
      | Inr (Some cfg) \<Rightarrow> Inr (Local (trim code) (describe cfg))
      | Inr None \<Rightarrow>
          (case get_versions env host code beeper_token of
             Inl _ \<Rightarrow> Inl (''fetching version info from '' @ host)
           | Inr versions \<Rightarrow> Inr (Relay (relay_config host code beeper_token versions uuid rnd))))"

section \<open>The identity file\<close>

text \<open>\<open>serde_json\<close> for the type \<open>'a\<close>: the pretty printer and the parser, each of which may fail.\<close>

record 'a json_codec =
  to_string_pretty :: "'a \<Rightarrow> string + string"
  from_str :: "string \<Rightarrow> string + 'a"

definition config_path :: "string \<Rightarrow> string" where
  "config_path data_dir = join_path data_dir ''os_config.json''"

definition save :: "DeviceConfig json_codec \<Rightarrow> string \<Rightarrow> DeviceConfig \<Rightarrow> (disk, string, unit) sem" where
  "save js path config =
     bnd (asks (\<lambda>_. to_string_pretty js config))
       (\<lambda>json. with_context (''writing '' @ path) (write_file path json))"

definition load :: "DeviceConfig json_codec \<Rightarrow> string \<Rightarrow> disk \<Rightarrow> string + DeviceConfig option" where
  "load js path d =
     (if \<not> file_exists path d then Inr None
      else case read_file path d of Inl e \<Rightarrow> Inl e
         | Inr json \<Rightarrow> map_sum id Some (from_str js json))"

definition clear :: "string \<Rightarrow> (disk, string, unit) sem" where
  "clear path d = (if file_exists path d then remove_file path d else (Inr (), d))"

end
