(* ===== verification/Session.thy ===== *)
theory Session
  imports OsConfig
begin

text \<open>
  \<open>rust/src/session.rs\<close>: the signed-in session, the files it keeps, registration with IDS and the
  IMClient. The types of rustpush that the code only passes around, saves and loads (the APS state,
  the identity, the account data, the IDS user) stand for their serialised form, a string. The
  network calls and serde are the fields of \<open>session_env\<close>.
\<close>

definition em_dash :: string where
  "em_dash = map char_of [226, 128, 148 :: nat]"

section \<open>The session\<close>

text \<open>The client keeps the users and the identity it was built with.\<close>

record IMClient =
  ic_users :: "string list"
  ic_identity :: string

text \<open>\<open>as_aps\<close> is the state of the APS connection. The account and anisette live in rustpush.\<close>

record AuthSession =
  as_data_dir :: string
  as_config :: os_config
  as_identity :: string
  as_aps :: string
  as_ids_user :: "string option"
  as_im_client :: "IMClient option"

record session_env =
  aps_json :: "string json_codec"
  identity_json :: "string json_codec"
  account_json :: "string json_codec"
  user_json :: "string json_codec"
  aps_connect :: "os_config \<Rightarrow> string option \<Rightarrow> string \<times> string option"
  new_identity :: "string + string"
  new_account :: "os_config \<Rightarrow> string option \<Rightarrow> string + unit"
  update_postdata :: "string + unit"
  get_pet :: "string option"
  login_delegates :: "string + string option"
  authenticate_ids :: "string \<Rightarrow> string + string"
  register_ids :: "os_config \<Rightarrow> string \<Rightarrow> string \<Rightarrow> string \<Rightarrow> string + string"
  sha256 :: "string \<Rightarrow> string"

definition aps_state_path :: "string \<Rightarrow> string" where
  "aps_state_path data_dir = join_path data_dir ''aps_state.json''"

definition identity_path :: "string \<Rightarrow> string" where
  "identity_path data_dir = join_path data_dir ''identity.json''"

definition ids_user_path :: "string \<Rightarrow> string" where
  "ids_user_path data_dir = join_path data_dir ''ids_user.json''"

definition anisette_dir :: "string \<Rightarrow> string" where
  "anisette_dir data_dir = join_path data_dir ''anisette''"

definition account_path :: "string \<Rightarrow> string" where
  "account_path data_dir = join_path data_dir ''account.json''"

definition load_json :: "'a json_codec \<Rightarrow> string \<Rightarrow> disk \<Rightarrow> string + 'a option" where
  "load_json js path d =
     (if \<not> file_exists path d then Inr None
      else case read_file path d of Inl e \<Rightarrow> Inl e
         | Inr s \<Rightarrow> map_sum id Some (from_str js s))"

definition save_json :: "'a json_codec \<Rightarrow> string \<Rightarrow> 'a \<Rightarrow> (disk, string, unit) sem" where
  "save_json js path value =
     bnd (asks (\<lambda>_. to_string_pretty js value)) (\<lambda>json. write_file path json)"

text \<open>\<open>load_json(..).unwrap_or(None)\<close>: an unreadable file counts as none.\<close>

definition load_or_none :: "'a json_codec \<Rightarrow> string \<Rightarrow> disk \<Rightarrow> 'a option" where
  "load_or_none js path d = (case load_json js path d of Inl _ \<Rightarrow> None | Inr v \<Rightarrow> v)"

text \<open>\<open>map_err(|e| anyhow!(\"what: {e:?}\"))\<close>.\<close>

definition map_err :: "string \<Rightarrow> string + 'a \<Rightarrow> string + 'a" where
  "map_err what r = (case r of Inl e \<Rightarrow> Inl (what @ '': '' @ e) | Inr x \<Rightarrow> Inr x)"

section \<open>Creating a session\<close>

definition load_identity :: "session_env \<Rightarrow> string \<Rightarrow> (disk, string, string) sem" where
  "load_identity env dir d =
     (case load_or_none (identity_json env) (identity_path dir) d of
        Some i \<Rightarrow> (Inr i, d)
      | None \<Rightarrow>
          bnd (asks (\<lambda>_. map_err ''new identity'' (new_identity env)))
            (\<lambda>fresh. bnd (save_json (identity_json env) (identity_path dir) fresh) (\<lambda>_. ok fresh)) d)"

definition create_session :: "session_env \<Rightarrow> string \<Rightarrow> os_config \<Rightarrow> (disk, string, AuthSession) sem" where
  "create_session env dir config =
     thn (create_dir_all dir)
    (thn (create_dir_all (anisette_dir dir))
    (bnd (asks (\<lambda>d. Inr (aps_connect env config (load_or_none (aps_json env) (aps_state_path dir) d))))
      (\<lambda>(aps, err). case err of
         Some e \<Rightarrow> fail (''APS connection failed: '' @ e)
       | None \<Rightarrow>
           thn (save_json (aps_json env) (aps_state_path dir) aps)
          (bnd (load_identity env dir)
             (\<lambda>identity. bnd (asks (\<lambda>d. map_err ''new apple account''
                 (new_account env config (load_or_none (account_json env) (account_path dir) d))))
             (\<lambda>_. asks (\<lambda>d. Inr \<lparr>as_data_dir = dir, as_config = config, as_identity = identity, as_aps = aps,
                  as_ids_user = load_or_none (user_json env) (ids_user_path dir) d,
                  as_im_client = None\<rparr>)))))))"

text \<open>The callback \<open>AppleAccount\<close> runs when its tokens are refreshed; an error is only logged.\<close>

definition on_account_refreshed :: "session_env \<Rightarrow> string \<Rightarrow> string \<Rightarrow> disk \<Rightarrow> disk" where
  "on_account_refreshed env dir data d = snd (save_json (account_json env) (account_path dir) data d)"

section \<open>Registration\<close>

type_synonym 'a in_session = "(AuthSession \<times> disk, string, 'a) sem"

definition on_disk :: "(disk, string, 'a) sem \<Rightarrow> 'a in_session" where
  "on_disk m = (\<lambda>(s, d). case m d of (r, d') \<Rightarrow> (r, (s, d')))"

definition set_ids_user :: "string \<Rightarrow> unit in_session" where
  "set_ids_user u = modify (\<lambda>(s, d). (s\<lparr>as_ids_user := Some u\<rparr>, d))"

text \<open>\<open>update_postdata\<close>, the PET check, the delegates and the IDS exchange, each with its own error.\<close>

definition login_ids_user :: "session_env \<Rightarrow> string + string" where
  "login_ids_user env =
     (case map_err ''update_postdata'' (update_postdata env) of Inl e \<Rightarrow> Inl e
      | Inr _ \<Rightarrow> if get_pet env = None then Inl (''no PET after login '' @ em_dash @ '' auth incomplete'')
      else case map_err ''login_apple_delegates'' (login_delegates env) of Inl e \<Rightarrow> Inl e
      | Inr None \<Rightarrow> Inl ''IDS delegate missing in login response''
      | Inr (Some delegate) \<Rightarrow> map_err ''authenticate_apple'' (authenticate_ids env delegate))"

definition finalize_login_and_register_ids :: "session_env \<Rightarrow> string in_session" where
  "finalize_login_and_register_ids env =
     bnd (asks (\<lambda>_. login_ids_user env))
       (\<lambda>user. bnd (asks (\<lambda>(s, _). Inr (ids_user_path (as_data_dir s))))
       (\<lambda>path. thn (on_disk (save_json (user_json env) path user))
              (thn (set_ids_user user) (ok user))))"

text \<open>\<open>prepare_im_client\<close> waits twice for the network: it reads the stored user, registers it, and installs the
  client made of what came back.\<close>

definition stored_user :: "string in_session" where
  "stored_user = asks (\<lambda>(s, _). case as_ids_user s of
     None \<Rightarrow> Inl (''no IDSUser yet '' @ em_dash @ '' finalize login first'') | Some user \<Rightarrow> Inr user)"

definition register_user :: "session_env \<Rightarrow> string \<Rightarrow> string in_session" where
  "register_user env stored =
     bnd (asks (\<lambda>(s, _). map_err ''ids register'' (register_ids env (as_config s) (as_aps s) stored (as_identity s))))
       (\<lambda>user. bnd (asks (\<lambda>(s, _). Inr (ids_user_path (as_data_dir s))))
       (\<lambda>path. thn (on_disk (save_json (user_json env) path user))
              (thn (set_ids_user user) (ok user))))"

definition install_client :: "string \<Rightarrow> IMClient in_session" where
  "install_client user =
     bnd (asks (\<lambda>(s, _). Inr \<lparr>ic_users = [user], ic_identity = as_identity s\<rparr>))
       (\<lambda>client. thn (modify (\<lambda>(s, d). (s\<lparr>as_im_client := Some client\<rparr>, d))) (ok client))"

definition prepare_im_client :: "session_env \<Rightarrow> IMClient in_session" where
  "prepare_im_client env = bnd stored_user (\<lambda>stored. bnd (register_user env stored) install_client)"

text \<open>The callback of the IMClient: the first updated user is saved, errors ignored, and kept.\<close>

definition on_users_updated :: "session_env \<Rightarrow> string list \<Rightarrow> AuthSession \<times> disk \<Rightarrow> AuthSession \<times> disk" where
  "on_users_updated env updated sd =
     (case updated of [] \<Rightarrow> sd
      | u # _ \<Rightarrow> (case sd of (s, d) \<Rightarrow>
          (s\<lparr>as_ids_user := Some u\<rparr>, snd (save_json (user_json env) (ids_user_path (as_data_dir s)) u d))))"

definition hash_password :: "session_env \<Rightarrow> string \<Rightarrow> string" where
  "hash_password env password = sha256 env password"

section \<open>Login states\<close>

text \<open>\<open>LoginState\<close> as \<open>rust/src/api/mirrors.rs\<close> mirrors it; the SMS body stands for its serialised form.\<close>

datatype LoginState =
    LoggedIn
  | NeedsDevice2FA
  | Needs2FAVerification
  | NeedsSMS2FA
  | NeedsSMS2FAVerification string
  | LsNeedsExtraStep string
  | NeedsLogin

fun login_state_label :: "LoginState \<Rightarrow> string" where
  "login_state_label LoggedIn = ''logged_in''"
| "login_state_label NeedsDevice2FA = ''needs_device_2fa''"
| "login_state_label Needs2FAVerification = ''needs_2fa''"
| "login_state_label NeedsSMS2FA = ''needs_sms_2fa''"
| "login_state_label (NeedsSMS2FAVerification _) = ''needs_sms_2fa_verify''"
| "login_state_label (LsNeedsExtraStep _) = ''needs_extra_step''"
| "login_state_label NeedsLogin = ''needs_login''"

end
