(* ===== verification/OsConfigSpec.thy ===== *)
theory OsConfigSpec
  imports OsConfig
begin

text \<open>
  What the device identity promises: the form of a UDID, which codes are local, that pairing and
  decoding the stored code agree, and the life of the identity file.
\<close>

section \<open>UDIDs\<close>

lemma generate_udid_concat: "generate_udid bs = concat (map hex_byte bs)"
proof -
  have "fold (\<lambda>b s. s @ hex_byte b) bs acc = acc @ concat (map hex_byte bs)" for acc
    by (induction bs arbitrary: acc) auto
  then show ?thesis by (simp add: generate_udid_def)
qed

lemma byte_hex_digit: "n < 16 \<Longrightarrow> byte (hex_digit n) = (if n < 10 then 48 + n else 55 + n)"
  by (simp add: byte_def hex_digit_def)

lemma hex_digit_inj: "n < 16 \<Longrightarrow> m < 16 \<Longrightarrow> hex_digit n = hex_digit m \<Longrightarrow> n = m"
  by (drule arg_cong [where f = byte]) (auto simp: byte_hex_digit split: if_splits)

lemma unat_nibbles: "unat b div 16 < 16 \<and> unat b mod 16 < 16" for b :: "8 word"
  using unsigned_less [of b, where 'a = nat] by simp

lemma hex_byte_inj: "hex_byte b = hex_byte c \<Longrightarrow> b = c"
proof -
  assume "hex_byte b = hex_byte c"
  then have "unat b div 16 = unat c div 16" and "unat b mod 16 = unat c mod 16"
    using hex_digit_inj unat_nibbles by (auto simp: hex_byte_def)
  then have "unat b = unat c" by (metis div_mult_mod_eq)
  then show "b = c" by (simp add: word_unat_eq_iff)
qed

lemma concat_hex_inj: "concat (map hex_byte bs) = concat (map hex_byte cs) \<Longrightarrow> bs = cs"
proof (induction bs arbitrary: cs)
  case Nil
  then show ?case by (cases cs) (simp_all add: hex_byte_def)
next
  case (Cons b bs)
  then obtain c cs' where cs: "cs = c # cs'" by (cases cs) (auto simp: hex_byte_def)
  with Cons.prems have "hex_byte b = hex_byte c" and "concat (map hex_byte bs) = concat (map hex_byte cs')"
    by (simp_all add: hex_byte_def [of b] hex_byte_def [of c])
  with Cons.IH cs show ?case by (simp add: hex_byte_inj)
qed

lemma generate_udid_inj: "generate_udid bs = generate_udid cs \<longleftrightarrow> bs = cs"
  by (auto simp: generate_udid_concat dest: concat_hex_inj)

definition is_hex_upper :: "char \<Rightarrow> bool" where
  "is_hex_upper c \<longleftrightarrow> 48 \<le> byte c \<and> byte c \<le> 57 \<or> 65 \<le> byte c \<and> byte c \<le> 70"

lemma hex_upper_digit: "n < 16 \<Longrightarrow> is_hex_upper (hex_digit n)"
  by (auto simp: is_hex_upper_def byte_hex_digit)

lemma udid_chars: "list_all is_hex_upper (generate_udid bs)"
  using unat_nibbles
  by (auto simp: generate_udid_concat list_all_iff hex_byte_def intro!: hex_upper_digit)

lemma length_udid: "length (generate_udid bs) = 2 * length bs"
  by (induction bs) (auto simp: generate_udid_concat hex_byte_def)

text \<open>A generated UDID is two upper-case hexadecimal digits per random byte, so 64 characters for
  the 32 bytes drawn, and different bytes give different UDIDs.\<close>

theorem udid_format:
  "length (generate_udid bs) = 2 * length bs \<and> list_all is_hex_upper (generate_udid bs) \<and>
   (generate_udid bs = generate_udid cs \<longleftrightarrow> bs = cs)"
  by (intro conjI length_udid udid_chars generate_udid_inj)

section \<open>Which codes are local\<close>

lemma magic_split:
  "length raw < length LOCAL_CODE_MAGIC + 1 \<or> take (length LOCAL_CODE_MAGIC) raw \<noteq> LOCAL_CODE_MAGIC \<longleftrightarrow>
     \<not> (\<exists>z payload. raw = LOCAL_CODE_MAGIC @ z # payload)"
proof -
  have "\<exists>z payload. raw = LOCAL_CODE_MAGIC @ z # payload"
    if "\<not> length raw < length LOCAL_CODE_MAGIC + 1" and m: "take (length LOCAL_CODE_MAGIC) raw = LOCAL_CODE_MAGIC"
  proof -
    from that have "drop (length LOCAL_CODE_MAGIC) raw \<noteq> []" by simp
    then obtain z payload where "drop (length LOCAL_CODE_MAGIC) raw = z # payload"
      by (meson neq_Nil_conv)
    then have "raw = LOCAL_CODE_MAGIC @ z # payload" by (metis append_take_drop_id m)
    then show ?thesis by blast
  qed
  then show ?thesis by auto
qed

lemma parse_local_magic:
  "b64_decode env (trim code) = Some (LOCAL_CODE_MAGIC @ z # payload) \<Longrightarrow>
   parse_local_code env rnd code = map_sum id Some (parse_payload env rnd payload)"
  by (simp add: parse_local_code_def base64_decode_def LOCAL_CODE_MAGIC_def)

lemma parse_local_other:
  "(\<And>z payload. b64_decode env (trim code) \<noteq> Some (LOCAL_CODE_MAGIC @ z # payload)) \<Longrightarrow>
   parse_local_code env rnd code = Inr None"
  unfolding parse_local_code_def base64_decode_def magic_split
  by (cases "b64_decode env (trim code)") auto

lemma parse_local_cases:
  obtains z payload where "b64_decode env (trim code) = Some (LOCAL_CODE_MAGIC @ z # payload)"
      and "parse_local_code env rnd code = map_sum id Some (parse_payload env rnd payload)"
    | "\<And>z payload. b64_decode env (trim code) \<noteq> Some (LOCAL_CODE_MAGIC @ z # payload)"
      and "parse_local_code env rnd code = Inr None"
  using parse_local_magic parse_local_other by metis

text \<open>A code goes to the relay exactly when its base64 text does not decode to the magic bytes
  followed by at least one more byte; that byte is skipped whatever its value, and a code that is
  local is never sent to the relay, even when its payload is unreadable.\<close>

theorem local_code_classified:
  "(parse_local_code env rnd code = Inr None) =
     (\<nexists>z payload. b64_decode env (trim code) = Some (LOCAL_CODE_MAGIC @ z # payload)) \<and>
   (b64_decode env (trim code) = Some (LOCAL_CODE_MAGIC @ z # payload) \<longrightarrow>
      parse_local_code env rnd code = map_sum id Some (parse_payload env rnd payload) \<and>
      pair env rnd uuid host code tok =
        map_sum id (\<lambda>cfg. Local (trim code) (describe cfg)) (parse_payload env rnd payload))"
proof -
  have "(parse_local_code env rnd code = Inr None) =
     (\<nexists>z payload. b64_decode env (trim code) = Some (LOCAL_CODE_MAGIC @ z # payload))"
    by (rule parse_local_cases [of env code rnd])
      (auto simp: map_sum_def split: sum.splits)
  moreover have "parse_local_code env rnd code = map_sum id Some (parse_payload env rnd payload) \<Longrightarrow>
      pair env rnd uuid host code tok =
        map_sum id (\<lambda>cfg. Local (trim code) (describe cfg)) (parse_payload env rnd payload)"
    by (cases "parse_payload env rnd payload") (simp_all add: pair_def)
  ultimately show ?thesis using parse_local_magic by blast
qed

section \<open>Pairing and decoding agree\<close>

lemma parse_payload_rnd:
  "parse_payload env rnd payload = Inr cfg \<Longrightarrow>
     parse_payload env rnd' payload = Inr (cfg\<lparr>mc_udid := Some (generate_udid rnd')\<rparr>)"
  by (auto simp: parse_payload_def split: sum.splits option.splits if_splits)

lemma parse_local_rnd:
  "parse_local_code env rnd code = Inr (Some cfg) \<Longrightarrow>
     parse_local_code env rnd' code = Inr (Some (cfg\<lparr>mc_udid := Some (generate_udid rnd')\<rparr>))"
  by (rule parse_local_cases [of env code rnd])
    (auto simp: parse_local_magic map_sum_def dest: parse_payload_rnd [where rnd' = rnd'] split: sum.splits)

lemma parse_local_trim: "parse_local_code env rnd (trim code) = parse_local_code env rnd code"
  by (simp add: parse_local_code_def)

lemma pair_local:
  "pair env rnd uuid host code tok = Inr (Local c l) \<Longrightarrow>
     c = trim code \<and> (\<exists>cfg. parse_local_code env rnd code = Inr (Some cfg) \<and> l = describe cfg)"
  by (auto simp: pair_def split: sum.splits option.splits)

lemma describe_udid [simp]: "describe (cfg\<lparr>mc_udid := u\<rparr>) = describe cfg"
  by (simp add: describe_def)

text \<open>The activation code that pairing stores can be decoded again at every later start, to a device
  with the label shown at pairing and with the same hardware; only the UDID is a fresh one, made of
  the random bytes drawn at that start.\<close>

theorem paired_code_stays_readable:
  assumes "pair env rnd uuid host code tok = Inr (Local c l)"
  shows "\<exists>cfg. parse_local_code env rnd code = Inr (Some cfg) \<and> describe cfg = l \<and>
    as_os_config env rnd' (Local c l) = Inr (MacOS (cfg\<lparr>mc_udid := Some (generate_udid rnd')\<rparr>))"
proof -
  from pair_local [OF assms] obtain cfg where c: "c = trim code"
      and cfg: "parse_local_code env rnd code = Inr (Some cfg)" and "l = describe cfg" by blast
  moreover have "as_os_config env rnd' (Local c l) =
      Inr (MacOS (cfg\<lparr>mc_udid := Some (generate_udid rnd')\<rparr>))"
    using parse_local_rnd [OF cfg, of rnd'] by (simp add: as_os_config_def c parse_local_trim)
  ultimately show ?thesis by blast
qed

text \<open>The UDID that Apple sees is stable for a relay device but not for a local one: each decoding
  of the stored code with other random bytes yields another UDID.\<close>

theorem local_udid_not_stable:
  assumes "as_os_config env rnd (Local c l) = Inr (MacOS cfg)"
    and "as_os_config env rnd' (Local c l) = Inr (MacOS cfg')" and "rnd \<noteq> rnd'"
  shows "mc_udid cfg \<noteq> mc_udid cfg' \<and> mc_inner cfg = mc_inner cfg' \<and>
    as_os_config env rnd (Relay r) = as_os_config env rnd' (Relay r)"
proof -
  from assms(1) have p: "parse_local_code env rnd c = Inr (Some cfg)"
    by (auto simp: as_os_config_def split: sum.splits option.splits)
  from parse_local_rnd [OF this] assms(2) have "cfg' = cfg\<lparr>mc_udid := Some (generate_udid rnd')\<rparr>"
    by (simp add: as_os_config_def)
  moreover from parse_local_rnd [OF p, of rnd] p have "cfg = cfg\<lparr>mc_udid := Some (generate_udid rnd)\<rparr>"
    by simp
  then have "mc_udid cfg = Some (generate_udid rnd)" by (metis MacOSConfig.select_convs(7) MacOSConfig.surjective MacOSConfig.update_convs(7))
  ultimately show ?thesis using assms(3) by (simp add: generate_udid_inj as_os_config_def)
qed

section \<open>A concrete device\<close>

text \<open>An environment in which the code \<open>X\<close> is local, for the evaluations below.\<close>

definition sample_hw :: HwInfo where
  "sample_hw = \<lparr>hw_inner = Some \<lparr>ih_product_name = ''iMac'', ih_io_mac_address = [1, 2, 3, 4, 5, 6],
       ih_platform_serial_number = ''C02'', ih_platform_uuid = ''U'', ih_root_disk_uuid = ''R'',
       ih_board_id = ''B'', ih_os_build_num = ''22G'', ih_platform_serial_number_enc = [],
       ih_platform_uuid_enc = [], ih_root_disk_uuid_enc = [], ih_rom = [], ih_rom_enc = [],
       ih_mlb = '''', ih_mlb_enc = []\<rparr>,
     hw_version = ''13.6'', hw_protocol_version = 1660, hw_device_id = ''D'', hw_icloud_ua = '''',
     hw_aoskit_version = ''''\<rparr>"

definition sample_env :: device_env where
  "sample_env = \<lparr>b64_decode = (\<lambda>s. if s = ''X'' then Some [79, 65, 66, 83, 7, 1] else None),
     hw_decode = (\<lambda>p. if p = [1] then Inr sample_hw else Inl ''eof''),
     get_versions = (\<lambda>host code tok. Inr ''v'')\<rparr>"

lemma trim_X [simp]: "trim ''X'' = ''X''"
  by (simp add: trim_def trim_start.simps trim_end.simps ws_head_def ws_tail_def is_ws_def take_last_def byte_def)

lemma sample_b64: "b64_decode sample_env (trim ''X'') = Some (LOCAL_CODE_MAGIC @ 7 # [1])"
  by (simp add: sample_env_def LOCAL_CODE_MAGIC_def)

lemma sample_pair:
  "pair sample_env rnd uuid host ''X'' tok = Inr (Local ''X'' ''local iMac (13.6) build 22G'')"
  using parse_local_magic [OF sample_b64, of rnd]
  by (simp add: pair_def parse_payload_def sample_env_def sample_hw_def describe_def hardware_config_def)

lemma sample_as_os_config: "\<exists>cfg. as_os_config sample_env rnd (Local ''X'' l) = Inr (MacOS cfg)"
  using parse_local_magic [OF sample_b64, of rnd]
  by (simp add: as_os_config_def parse_payload_def sample_env_def sample_hw_def)

theorem local_code_classified_witness:
  "pair sample_env [] ''u'' ''h'' ''X'' None =
    map_sum id (\<lambda>cfg. Local (trim ''X'') (describe cfg)) (parse_payload sample_env [] [1])"
  using local_code_classified [of sample_env "[]" "''X''" 7 "[1]" "''u''" "''h''" None] sample_b64
  by simp

theorem paired_code_stays_readable_witness:
  "\<exists>cfg. parse_local_code sample_env [1] ''X'' = Inr (Some cfg) \<and>
    describe cfg = ''local iMac (13.6) build 22G'' \<and>
    as_os_config sample_env [2] (Local ''X'' ''local iMac (13.6) build 22G'') =
      Inr (MacOS (cfg\<lparr>mc_udid := Some (generate_udid [2])\<rparr>))"
  by (rule paired_code_stays_readable [of _ _ "''u''" "''h''" _ None]) (rule sample_pair)

theorem local_udid_not_stable_witness:
  "\<exists>cfg cfg'. as_os_config sample_env [1] (Local ''X'' '''') = Inr (MacOS cfg) \<and>
    as_os_config sample_env [2] (Local ''X'' '''') = Inr (MacOS cfg') \<and> mc_udid cfg \<noteq> mc_udid cfg'"
proof -
  obtain cfg cfg' where c: "as_os_config sample_env [1] (Local ''X'' '''') = Inr (MacOS cfg)"
      and c': "as_os_config sample_env [2] (Local ''X'' '''') = Inr (MacOS cfg')"
    using sample_as_os_config by blast
  from local_udid_not_stable [OF c c'] have "mc_udid cfg \<noteq> mc_udid cfg'" by simp
  with c c' show ?thesis by blast
qed

section \<open>The identity file\<close>

text \<open>What the file needs of serde: a configuration that can be printed can be parsed back.\<close>

definition json_roundtrip :: "'a json_codec \<Rightarrow> bool" where
  "json_roundtrip js \<longleftrightarrow> (\<forall>x s. to_string_pretty js x = Inr s \<longrightarrow> from_str js s = Inr x)"

lemma save_cases:
  "save js p c d = (case to_string_pretty js c of Inl e \<Rightarrow> (Inl e, d)
     | Inr s \<Rightarrow> (case fst (write_file p s d) of Inl _ \<Rightarrow> (Inl (''writing '' @ p), d)
                | Inr _ \<Rightarrow> (Inr (), snd (write_file p s d))))"
  by (auto simp: save_def sem_defs bnd_def with_context_def dest: fs.write_failed
      split: sum.splits prod.splits)

lemma load_after_save:
  assumes "json_roundtrip js" and "save js p c d = (Inr u, d')"
  shows "load js p d' = Inr (Some c)"
proof -
  from assms(2) obtain s where s: "to_string_pretty js c = Inr s" and w: "fst (write_file p s d) = Inr ()"
      and d': "d' = snd (write_file p s d)"
    by (auto simp: save_cases split: sum.splits)
  from fs.read_after_write [OF w] file_exists_write [OF w] s assms(1) show ?thesis
    by (simp add: load_def d' json_roundtrip_def)
qed

lemma clear_ok: "clear p d = (Inr u, d') \<Longrightarrow> \<not> file_exists p d'"
  by (auto simp: clear_def remove_file_def attempt_def file_exists_def split: if_splits option.splits sum.splits)

text \<open>The identity file is a faithful store: what a successful save wrote is what the next start
  loads, a save that is refused leaves the earlier file in place, and after clearing there is nothing to load.\<close>

theorem identity_file_roundtrip:
  assumes "json_roundtrip js"
  shows "(case save js p c d of
      (Inr _, d') \<Rightarrow> load js p d' = Inr (Some c) \<and>
        (case clear p d' of (Inr _, d'') \<Rightarrow> load js p d'' = Inr None | (Inl _, d'') \<Rightarrow> d'' = d')
    | (Inl _, d') \<Rightarrow> d' = d)"
proof (cases "save js p c d")
  case (Pair r d')
  show ?thesis
  proof (cases r)
    case (Inl e)
    with Pair show ?thesis by (auto simp: save_cases split: sum.splits)
  next
    case (Inr u)
    have "case clear p d' of (Inr _, d'') \<Rightarrow> load js p d'' = Inr None | (Inl _, d'') \<Rightarrow> d'' = d'"
    proof (cases "clear p d'")
      case (Pair r' d'')
      then show ?thesis
        by (cases r') (auto simp: load_def clear_def remove_file_def attempt_def file_exists_def
            split: if_splits option.splits)
    qed
    with load_after_save [OF assms] Pair Inr show ?thesis by simp
  qed
qed

theorem identity_file_roundtrip_witness:
  "\<exists>js d c. json_roundtrip js \<and> fst (save js ''os_config.json'' c d) = Inr () \<and>
    load js ''os_config.json'' (snd (save js ''os_config.json'' c d)) = Inr (Some c)"
proof -
  let ?c = "Local ''X'' ''l''"
  let ?js = "\<lparr>to_string_pretty = (\<lambda>c. if c = ?c then Inr ''s'' else Inl ''''), from_str = (\<lambda>_. Inr ?c)\<rparr>"
  let ?d = "\<lparr>files = (\<lambda>_. None), blocked = (\<lambda>_. None)\<rparr>"
  have j: "json_roundtrip ?js" by (simp add: json_roundtrip_def)
  have f: "fst (save ?js ''os_config.json'' ?c ?d) = Inr ()"
    by (simp add: save_cases write_file_def attempt_def)
  have "load ?js ''os_config.json'' (snd (save ?js ''os_config.json'' ?c ?d)) = Inr (Some ?c)"
    using identity_file_roundtrip [OF j, where p = "''os_config.json''" and c = ?c and d = ?d] f
    by (cases "save ?js ''os_config.json'' ?c ?d") simp
  with j f show ?thesis by blast
qed

end
