(* ===== verification/SessionSpec.thy ===== *)
theory SessionSpec
  imports Session OsConfigSpec
begin

text \<open>
  What the session promises: the identity survives restarts, the IDS user in memory, on disk and in the
  client are the same after registration, and each step that fails leaves what was there before.
\<close>

section \<open>Saved values\<close>

lemma save_json_cases:
  "save_json js p x d = (case to_string_pretty js x of Inl e \<Rightarrow> (Inl e, d) | Inr s \<Rightarrow> write_file p s d)"
  by (auto simp: save_json_def sem_defs bnd_def split: sum.splits)

lemma load_or_none_saved:
  assumes "json_roundtrip js" and "save_json js p x d = (Inr u, d')"
  shows "load_or_none js p d' = Some x"
proof -
  from assms(2) obtain s where s: "to_string_pretty js x = Inr s" and w: "write_file p s d = (Inr u, d')"
    by (auto simp: save_json_cases split: sum.splits)
  have "file_exists p d'" using file_exists_write [of p s d u] w by simp
  with fs.read_written [OF w] s assms(1) show ?thesis
    by (simp add: load_or_none_def load_json_def json_roundtrip_def)
qed

lemma save_json_failed: "save_json js p x d = (Inl e, d') \<Longrightarrow> d' = d"
  by (auto simp: save_json_cases dest: fs.write_failed split: sum.splits)

lemma file_exists_write_other [simp]:
  "p \<noteq> q \<Longrightarrow> file_exists q (snd (write_file p c d)) = file_exists q d"
  by (auto simp: write_file_def attempt_def file_exists_def split: option.splits)

lemma load_or_none_other:
  "p \<noteq> q \<Longrightarrow> load_or_none js q (snd (save_json js' p x d)) = load_or_none js q d"
  by (auto simp: load_or_none_def load_json_def save_json_cases fs.read_other split: sum.splits)

lemma load_or_none_otherD:
  "save_json js' p x d = (r, d') \<Longrightarrow> p \<noteq> q \<Longrightarrow> load_or_none js q d' = load_or_none js q d"
  using load_or_none_other [of p q js js' x d] by simp

lemma session_paths_neq [simp]:
  "aps_state_path d \<noteq> identity_path d" "identity_path d \<noteq> aps_state_path d"
  "ids_user_path d \<noteq> identity_path d" "identity_path d \<noteq> ids_user_path d"
  "account_path d \<noteq> identity_path d" "ids_user_path d \<noteq> account_path d"
  "ids_user_path d \<noteq> aps_state_path d" "account_path d \<noteq> ids_user_path d"
  "identity_path d \<noteq> account_path d"
  by (simp_all add: aps_state_path_def identity_path_def ids_user_path_def account_path_def)

section \<open>Creating a session\<close>

lemma create_dir_all_state: "create_dir_all p d = (r, d') \<Longrightarrow> d' = d"
  by (simp add: create_dir_all_def asks_def)

lemma load_identity_result:
  assumes "json_roundtrip (identity_json env)" and "load_identity env dir d = (Inr i, d')"
  shows "load_or_none (identity_json env) (identity_path dir) d' = Some i \<and>
    (\<forall>j. load_or_none (identity_json env) (identity_path dir) d = Some j \<longrightarrow> i = j \<and> d' = d)"
proof (cases "load_or_none (identity_json env) (identity_path dir) d")
  case None
  with assms(2) have "save_json (identity_json env) (identity_path dir) i d = (Inr (), d')"
    by (auto simp: load_identity_def sem_defs bnd_def split: sum.splits prod.splits)
  with load_or_none_saved [OF assms(1)] None show ?thesis by auto
next
  case (Some j)
  with assms(2) show ?thesis by (auto simp: load_identity_def)
qed

lemma create_session_Inr:
  assumes "create_session env dir cfg d = (Inr s, d')"
  obtains aps d1 where "save_json (aps_json env) (aps_state_path dir) aps d = (Inr (), d1)"
    and "load_identity env dir d1 = (Inr (as_identity s), d')" and "as_data_dir s = dir"
    and "as_config s = cfg" and "as_im_client s = None"
    and "as_ids_user s = load_or_none (user_json env) (ids_user_path dir) d'"
    and "as_aps s = aps"
  using assms
  by (auto simp: create_session_def sem_defs bnd_def create_dir_all_def split: sum.splits prod.splits option.splits)

lemma create_session_identity:
  assumes "json_roundtrip (identity_json env)" and "create_session env dir cfg d = (Inr s, d')"
  shows "load_or_none (identity_json env) (identity_path dir) d' = Some (as_identity s) \<and>
    (\<forall>j. load_or_none (identity_json env) (identity_path dir) d = Some j \<longrightarrow> as_identity s = j)"
proof -
  from assms(2) obtain aps d1 where s: "save_json (aps_json env) (aps_state_path dir) aps d = (Inr (), d1)"
      and l: "load_identity env dir d1 = (Inr (as_identity s), d')" by (rule create_session_Inr)
  from load_or_none_otherD [OF s, of "identity_path dir" "identity_json env"]
  have "load_or_none (identity_json env) (identity_path dir) d1 =
      load_or_none (identity_json env) (identity_path dir) d" by simp
  with load_identity_result [OF assms(1) l] show ?thesis by auto
qed

text \<open>What may be written to the data directory between two sessions.\<close>

datatype session_write = WriteUser string | WriteAccount string | WriteAps string

fun session_write_file :: "session_env \<Rightarrow> string \<Rightarrow> session_write \<Rightarrow> disk \<Rightarrow> disk" where
  "session_write_file env dir (WriteUser u) d = snd (save_json (user_json env) (ids_user_path dir) u d)"
| "session_write_file env dir (WriteAccount a) d = on_account_refreshed env dir a d"
| "session_write_file env dir (WriteAps a) d = snd (save_json (aps_json env) (aps_state_path dir) a d)"

lemma identity_kept_by_writes:
  "load_or_none (identity_json env) (identity_path dir) (fold (session_write_file env dir) ws d) =
     load_or_none (identity_json env) (identity_path dir) d"
proof (induction ws arbitrary: d)
  case (Cons w ws)
  then show ?case by (cases w) (simp_all add: load_or_none_other on_account_refreshed_def)
qed simp

text \<open>C37: The IDS identity of a device survives restarts: once a session has been created, every later
  session on the same data directory has the same identity, whatever was saved in between.\<close>

theorem identity_survives_restart:
  assumes "json_roundtrip (identity_json env)"
    and "create_session env dir cfg d = (Inr s, d1)"
    and "create_session env dir cfg' (fold (session_write_file env dir) ws d1) = (Inr s', d2)"
  shows "as_identity s' = as_identity s"
proof -
  from create_session_identity [OF assms(1,2)]
  have "load_or_none (identity_json env) (identity_path dir) d1 = Some (as_identity s)" by simp
  then have "load_or_none (identity_json env) (identity_path dir) (fold (session_write_file env dir) ws d1) =
      Some (as_identity s)" by (simp add: identity_kept_by_writes)
  with create_session_identity [OF assms(1,3)] show ?thesis by simp
qed

section \<open>Registration\<close>

lemma on_disk_cases: "on_disk m (s, d) = (fst (m d), (s, snd (m d)))"
  by (simp add: on_disk_def split: prod.splits)

lemma register_user_cases:
  "register_user env stored (s, d) =
     (case register_ids env (as_config s) (as_aps s) stored (as_identity s) of
        Inl e \<Rightarrow> (Inl (''ids register: '' @ e), (s, d))
      | Inr u \<Rightarrow>
        (case save_json (user_json env) (ids_user_path (as_data_dir s)) u d of
           (Inl e, d') \<Rightarrow> (Inl e, (s, d'))
         | (Inr _, d') \<Rightarrow> (Inr u, (s\<lparr>as_ids_user := Some u\<rparr>, d'))))"
  by (auto simp: register_user_def sem_defs bnd_def on_disk_cases set_ids_user_def map_err_def
      split: sum.splits prod.splits)

lemma prepare_im_client_cases:
  "prepare_im_client env (s, d) =
     (case as_ids_user s of
        None \<Rightarrow> (Inl (''no IDSUser yet '' @ em_dash @ '' finalize login first''), (s, d))
      | Some u0 \<Rightarrow>
        (case register_ids env (as_config s) (as_aps s) u0 (as_identity s) of
           Inl e \<Rightarrow> (Inl (''ids register: '' @ e), (s, d))
         | Inr u \<Rightarrow>
           (case save_json (user_json env) (ids_user_path (as_data_dir s)) u d of
              (Inl e, d') \<Rightarrow> (Inl e, (s, d'))
            | (Inr _, d') \<Rightarrow>
                let c = \<lparr>ic_users = [u], ic_identity = as_identity s\<rparr>
                in (Inr c, (s\<lparr>as_ids_user := Some u, as_im_client := Some c\<rparr>, d')))))"
  by (auto simp: prepare_im_client_def stored_user_def install_client_def bnd_def register_user_cases
      ok_def thn_def modify_def asks_def Let_def split: sum.splits prod.splits option.splits)

lemma finalize_cases:
  "finalize_login_and_register_ids env (s, d) =
     (case login_ids_user env of Inl e \<Rightarrow> (Inl e, (s, d))
      | Inr u \<Rightarrow> (case save_json (user_json env) (ids_user_path (as_data_dir s)) u d of
           (Inl e, d') \<Rightarrow> (Inl e, (s, d'))
         | (Inr _, d') \<Rightarrow> (Inr u, (s\<lparr>as_ids_user := Some u\<rparr>, d'))))"
  by (auto simp: finalize_login_and_register_ids_def sem_defs bnd_def on_disk_cases set_ids_user_def
      split: sum.splits prod.splits)

text \<open>After a successful registration the IDS user in the session, the one the client was built with
  and the one the next start loads from disk are the same; a registration that fails leaves the
  session and the disk exactly as they were.\<close>

theorem registration_consistent:
  assumes "json_roundtrip (user_json env)"
  shows "case prepare_im_client env (s, d) of
      (Inl _, (s', d')) \<Rightarrow> s' = s \<and> d' = d
    | (Inr c, (s', d')) \<Rightarrow> \<exists>u. as_ids_user s' = Some u \<and> ic_users c = [u] \<and>
        ic_identity c = as_identity s' \<and> as_im_client s' = Some c \<and>
        load_or_none (user_json env) (ids_user_path (as_data_dir s')) d' = Some u"
  using load_or_none_saved [OF assms] save_json_failed
  by (fastforce simp: prepare_im_client_cases Let_def split: option.splits sum.splits prod.splits)

section \<open>A concrete session\<close>

definition plain_json :: "string json_codec" where
  "plain_json = \<lparr>to_string_pretty = Inr, from_str = Inr\<rparr>"

definition sample_session_env :: session_env where
  "sample_session_env = \<lparr>aps_json = plain_json, identity_json = plain_json, account_json = plain_json,
     user_json = plain_json, aps_connect = (\<lambda>_ _. (''aps'', None)), new_identity = Inr ''id'',
     new_account = (\<lambda>_ _. Inr ()), update_postdata = Inr (), get_pet = Some ''pet'',
     login_delegates = Inr (Some ''ids''), authenticate_ids = (\<lambda>_. Inr ''user''),
     register_ids = (\<lambda>_ _ u _. Inr (u @ ''+'')), sha256 = id\<rparr>"

definition sample_os_config :: os_config where
  "sample_os_config = RelayOS (relay_config ''h'' ''c'' None ''v'' ''u'' [])"

definition empty_disk :: disk where
  "empty_disk = \<lparr>files = (\<lambda>_. None), blocked = (\<lambda>_. None)\<rparr>"

lemma plain_json_roundtrip: "json_roundtrip plain_json"
  by (simp add: json_roundtrip_def plain_json_def)

lemma sample_session_env_simps [simp]:
  "identity_json sample_session_env = plain_json" "user_json sample_session_env = plain_json"
  by (simp_all add: sample_session_env_def)

lemma write_unblocked: "blocked d p = None \<Longrightarrow>
    write_file p c d = (Inr (), d\<lparr>files := (files d)(p := Some c)\<rparr>)"
  by (simp add: write_file_def attempt_def)

lemma sample_create: "\<exists>s d'. create_session sample_session_env dir cfg (empty_disk\<lparr>files := fs\<rparr>) = (Inr s, d') \<and>
    (\<exists>fs'. d' = empty_disk\<lparr>files := fs'\<rparr>)"
proof -
  let ?d = "empty_disk\<lparr>files := fs(aps_state_path dir := Some ''aps'')\<rparr>"
  have "load_identity sample_session_env dir ?d \<in>
      {(Inr i, d') | i d'. \<exists>fs'. d' = empty_disk\<lparr>files := fs'\<rparr>}"
    by (auto simp: load_identity_def sem_defs bnd_def save_json_cases plain_json_def write_unblocked
        map_err_def sample_session_env_def empty_disk_def split: option.splits)
  then obtain i fs' where "load_identity sample_session_env dir ?d = (Inr i, empty_disk\<lparr>files := fs'\<rparr>)"
    by blast
  moreover have "save_json plain_json (aps_state_path dir) ''aps'' (empty_disk\<lparr>files := fs\<rparr>) = (Inr (), ?d)"
    by (simp add: save_json_cases plain_json_def write_unblocked empty_disk_def)
  ultimately show ?thesis
    by (auto simp: create_session_def sem_defs bnd_def create_dir_all_def map_err_def
        sample_session_env_def empty_disk_def)
qed

theorem identity_survives_restart_witness:
  "\<exists>s s' d1 d2. create_session sample_session_env ''data'' sample_os_config empty_disk = (Inr s, d1) \<and>
    create_session sample_session_env ''data'' sample_os_config d1 = (Inr s', d2) \<and> as_identity s' = as_identity s"
proof -
  have "empty_disk = empty_disk\<lparr>files := \<lambda>_. None\<rparr>" by (simp add: empty_disk_def)
  then obtain s fs1 where 1: "create_session sample_session_env ''data'' sample_os_config empty_disk = (Inr s, empty_disk\<lparr>files := fs1\<rparr>)"
    using sample_create [of "''data''" sample_os_config "\<lambda>_. None"] by auto
  obtain s' d2 where 2: "create_session sample_session_env ''data'' sample_os_config (empty_disk\<lparr>files := fs1\<rparr>) = (Inr s', d2)"
    using sample_create [of "''data''" sample_os_config fs1] by auto
  have "as_identity s' = as_identity s"
    using identity_survives_restart [OF _ 1, of sample_os_config "[]" s' d2] 2 by (simp add: plain_json_roundtrip)
  with 1 2 show ?thesis by blast
qed

theorem registration_consistent_witness:
  fixes s :: AuthSession
  defines "s \<equiv> \<lparr>as_data_dir = ''data'', as_config = sample_os_config,
    as_identity = ''id'', as_aps = ''aps'', as_ids_user = Some ''user'', as_im_client = None\<rparr>"
  shows "\<exists>c s' d'. prepare_im_client sample_session_env (s, empty_disk) = (Inr c, (s', d')) \<and>
    as_ids_user s' = Some ''user+'' \<and>
    load_or_none plain_json (ids_user_path ''data'') d' = Some ''user+''"
proof -
  have "\<exists>c s' d'. prepare_im_client sample_session_env (s, empty_disk) = (Inr c, (s', d')) \<and>
      as_ids_user s' = Some ''user+'' \<and> as_data_dir s' = ''data''"
    by (simp add: prepare_im_client_cases save_json_cases write_unblocked s_def Let_def
        sample_session_env_def plain_json_def empty_disk_def)
  moreover have "json_roundtrip (user_json sample_session_env)" by (simp add: plain_json_roundtrip)
  from registration_consistent [OF this, of s empty_disk] calculation show ?thesis by auto
qed

end
