(* ===== verification/Keychain.thy ===== *)
theory Keychain
  imports SessionSpec
begin

text \<open>
  \<open>rust/src/keychain.rs\<close>: the wrapping key file and the process-wide keystore. The keystore itself is a
  third-party crate: here it is the state it was loaded with and the key it was given. The global slot
  is a \<open>OnceLock\<close>, so only the first installation counts; a fresh process starts with an empty slot.
\<close>

section \<open>Installing the keystore\<close>

record SoftwareKeystore =
  sk_state :: string
  sk_encryptor :: string
  sk_save_to :: string

text \<open>The plist reader and writer for the keystore state, and its default value.\<close>

record keystore_env =
  state_plist :: "string json_codec"
  default_state :: string

definition keystore_state_path :: "string \<Rightarrow> string" where
  "keystore_state_path data_dir = join_path data_dir ''keystore_s.plist''"

definition keystore_key_path :: "string \<Rightarrow> string" where
  "keystore_key_path data_dir = join_path data_dir ''keystore.key''"

text \<open>\<open>fresh\<close> are the 32 random bytes, drawn when they are needed.\<close>

definition wrapping_key :: "string \<Rightarrow> string \<Rightarrow> (disk, string, string) sem" where
  "wrapping_key fresh path d =
     (case read_file path d of
        Inr bytes \<Rightarrow>
          if length bytes = 32 then (Inr bytes, d)
          else bnd (with_context (''writing '' @ path) (write_file path fresh)) (\<lambda>_. ok fresh) d
      | Inl _ \<Rightarrow> bnd (with_context (''writing '' @ path) (write_file path fresh)) (\<lambda>_. ok fresh) d)"

definition keystore_state :: "keystore_env \<Rightarrow> string \<Rightarrow> disk \<Rightarrow> string" where
  "keystore_state env path d =
     (case read_file path d of Inl _ \<Rightarrow> default_state env
      | Inr s \<Rightarrow> (case from_str (state_plist env) s of Inl _ \<Rightarrow> default_state env | Inr st \<Rightarrow> st))"

definition init_keystore :: "SoftwareKeystore \<Rightarrow> SoftwareKeystore option \<Rightarrow> SoftwareKeystore option" where
  "init_keystore k slot = (case slot of None \<Rightarrow> Some k | Some k' \<Rightarrow> Some k')"

definition keychain_init ::
    "keystore_env \<Rightarrow> string \<Rightarrow> string \<Rightarrow> (disk \<times> SoftwareKeystore option, string, unit) sem" where
  "keychain_init env fresh data_dir = (\<lambda>(d, slot).
     case wrapping_key fresh (keystore_key_path data_dir) d of
       (Inl e, d') \<Rightarrow> (Inl e, (d', slot))
     | (Inr key, d') \<Rightarrow> (Inr (), (d', init_keystore
         \<lparr>sk_state = keystore_state env (keystore_state_path data_dir) d', sk_encryptor = key,
          sk_save_to = keystore_state_path data_dir\<rparr> slot)))"

text \<open>The callback that persists a changed state; an error is only logged.\<close>

definition on_keystore_update :: "keystore_env \<Rightarrow> SoftwareKeystore \<Rightarrow> string \<Rightarrow> disk \<Rightarrow> disk" where
  "on_keystore_update env k st d = snd (save_json (state_plist env) (sk_save_to k) st d)"

section \<open>The key outlives the process\<close>

lemma wrapping_key_stored:
  assumes "length fresh = 32" and "wrapping_key fresh path d = (Inr key, d')"
  shows "length key = 32 \<and> read_file path d' = Inr key"
proof -
  have new: "length key = 32 \<and> read_file path d' = Inr key"
    if "bnd (with_context c (write_file path fresh)) (\<lambda>_. ok fresh) d = (Inr key, d')" for c
  proof -
    from that have "write_file path fresh d = (Inr (), d')" and "key = fresh"
      by (auto simp: bnd_def with_context_def ok_def split: sum.splits prod.splits)
    with fs.read_written assms(1) show ?thesis by blast
  qed
  from assms(2) show ?thesis
    by (auto simp: wrapping_key_def split: sum.splits if_splits dest: new)
qed

lemma wrapping_key_reuse:
  "length key = 32 \<Longrightarrow> read_file path d = Inr key \<Longrightarrow> wrapping_key fresh path d = (Inr key, d)"
  by (simp add: wrapping_key_def)

lemma keystore_paths_neq: "keystore_key_path dir \<noteq> keystore_state_path dir"
  by (simp add: keystore_key_path_def keystore_state_path_def)

lemma key_kept_by_update:
  "sk_save_to k = keystore_state_path dir \<Longrightarrow>
     read_file (keystore_key_path dir) (on_keystore_update env k st d) = read_file (keystore_key_path dir) d"
  using keystore_paths_neq [of dir]
  by (auto simp: on_keystore_update_def save_json_cases fs.read_other split: sum.splits)

text \<open>C38: The key that seals the keychain outlives the process: the first start installs a keystore with
  a 32-byte key, and a later start, after any number of state updates, installs one with the same key
  although it draws other random bytes; a second call in the same process changes nothing.\<close>

theorem wrapping_key_survives_restart:
  assumes "length fresh = 32"
    and "keychain_init env fresh dir (d, None) = (Inr (), (d1, Some k))"
    and "d2 = fold (on_keystore_update env k) sts d1"
  shows "length (sk_encryptor k) = 32 \<and>
    (\<exists>k'. keychain_init env fresh' dir (d2, None) = (Inr (), (d2, Some k')) \<and>
       sk_encryptor k' = sk_encryptor k) \<and>
    keychain_init env fresh' dir (d2, Some k) = (Inr (), (d2, Some k))"
proof -
  from assms(2) have w: "wrapping_key fresh (keystore_key_path dir) d = (Inr (sk_encryptor k), d1)"
      and p: "sk_save_to k = keystore_state_path dir"
    by (auto simp: keychain_init_def init_keystore_def split: prod.splits sum.splits)
  from wrapping_key_stored [OF assms(1) w]
  have len: "length (sk_encryptor k) = 32" and r: "read_file (keystore_key_path dir) d1 = Inr (sk_encryptor k)"
    by simp_all
  have "read_file (keystore_key_path dir) (fold (on_keystore_update env k) sts d') =
      read_file (keystore_key_path dir) d'" for d'
    by (induction sts arbitrary: d') (simp_all add: key_kept_by_update [OF p])
  then have "wrapping_key fresh' (keystore_key_path dir) d2 = (Inr (sk_encryptor k), d2)"
    using len r by (simp add: assms(3) wrapping_key_reuse)
  then show ?thesis by (simp add: keychain_init_def init_keystore_def len)
qed

theorem wrapping_key_survives_restart_witness:
  fixes env :: keystore_env
  defines "env \<equiv> \<lparr>state_plist = plain_json, default_state = ''''\<rparr>"
  shows "\<exists>d1 k. keychain_init env (replicate 32 CHR ''a'') ''data'' (empty_disk, None) = (Inr (), (d1, Some k)) \<and>
    (\<exists>k' d2. keychain_init env (replicate 32 CHR ''b'') ''data''
       (fold (on_keystore_update env k) [''s''] d1, None) = (Inr (), (d2, Some k')) \<and>
       sk_encryptor k' = sk_encryptor k)"
proof -
  have "keychain_init env (replicate 32 CHR ''a'') ''data'' (empty_disk, None) \<in>
      {(Inr (), (d1, Some k)) | d1 k. True}"
    by (simp add: keychain_init_def wrapping_key_def read_file_def empty_disk_def bnd_def with_context_def
        write_unblocked ok_def init_keystore_def)
  then obtain d1 k where i: "keychain_init env (replicate 32 CHR ''a'') ''data'' (empty_disk, None) =
      (Inr (), (d1, Some k))" by blast
  from wrapping_key_survives_restart [OF _ i refl, of "replicate 32 CHR ''b''" "[''s'']"] i
  show ?thesis by auto
qed

end
