(* ===== verification/Events.thy ===== *)
theory Events
  imports Prelude
begin

text \<open>
  \<open>rust/src/events.rs\<close> and the part of \<open>rust/src/ffi.rs\<close> that hands events to the UI: the event bus
  is one unbounded FIFO channel that every clone of the bus shares, drained by \<open>poll_events\<close>.
\<close>

section \<open>Events\<close>

datatype Event =
    Info string
  | Warn string
  | Error string
  | ChatCreated string
  | ChatUpdated string
  | MessageArrived string string
  | MessageSent string string
  | MessageFailed string string string
  | AuthStateChanged string
  | TypingStatusChanged string bool

text \<open>The channel is the list of the events it holds, oldest first.\<close>

type_synonym event_bus = "Event list"

definition new_bus :: event_bus where
  "new_bus = []"

definition send_event :: "Event \<Rightarrow> event_bus \<Rightarrow> event_bus" where
  "send_event ev q = q @ [ev]"

fun try_recv :: "event_bus \<Rightarrow> Event option \<times> event_bus" where
  "try_recv [] = (None, [])"
| "try_recv (ev # q) = (Some ev, q)"

lemma try_recv_length: "(Some ev, q') = try_recv q \<Longrightarrow> length q' < length q"
  by (cases q) auto

text \<open>The loop of \<open>drain\<close>, with the vector it fills; it ends because each round takes an event.\<close>

function drain_loop :: "Event list \<Rightarrow> event_bus \<Rightarrow> Event list \<times> event_bus" where
  "drain_loop out q = (case try_recv q of (Some ev, q') \<Rightarrow> drain_loop (out @ [ev]) q'
                                      | (None, q') \<Rightarrow> (out, q'))"
  by pat_completeness auto
termination
  by (relation "measure (\<lambda>(out, q). length q)") (auto dest: try_recv_length)

declare drain_loop.simps [simp del]

definition drain :: "event_bus \<Rightarrow> Event list \<times> event_bus" where
  "drain q = drain_loop [] q"

section \<open>What the UI receives\<close>

record EventDto =
  ed_kind :: string
  ed_text :: string
  ed_chat_guid :: string
  ed_message_guid :: string
  ed_flag :: bool

definition dto :: "string \<Rightarrow> string \<Rightarrow> string \<Rightarrow> string \<Rightarrow> bool \<Rightarrow> EventDto" where
  "dto kind text chat_guid message_guid flag = \<lparr>ed_kind = kind, ed_text = text,
     ed_chat_guid = chat_guid, ed_message_guid = message_guid, ed_flag = flag\<rparr>"

fun event_to_dto :: "Event \<Rightarrow> EventDto" where
  "event_to_dto (Info t) = dto ''info'' t '''' '''' False"
| "event_to_dto (Warn t) = dto ''warn'' t '''' '''' False"
| "event_to_dto (Error t) = dto ''error'' t '''' '''' False"
| "event_to_dto (ChatCreated chat_guid) = dto ''chat_created'' '''' chat_guid '''' False"
| "event_to_dto (ChatUpdated chat_guid) = dto ''chat_updated'' '''' chat_guid '''' False"
| "event_to_dto (MessageArrived chat_guid message_guid) =
     dto ''message_arrived'' '''' chat_guid message_guid False"
| "event_to_dto (MessageSent chat_guid message_guid) =
     dto ''message_sent'' '''' chat_guid message_guid False"
| "event_to_dto (MessageFailed chat_guid tentative_guid reason) =
     dto ''message_failed'' reason chat_guid tentative_guid False"
| "event_to_dto (AuthStateChanged state) = dto ''auth_state'' state '''' '''' False"
| "event_to_dto (TypingStatusChanged chat_guid is_typing) = dto ''typing'' '''' chat_guid '''' is_typing"

definition poll_bus :: "event_bus \<Rightarrow> EventDto list \<times> event_bus" where
  "poll_bus q = map_prod (map event_to_dto) id (drain q)"

section \<open>The queue interface\<close>

text \<open>
  A producer and a consumer that share a queue rely on two laws: a fresh queue drains to nothing, and
  draining after a send gives one more element at the end and leaves the queue fresh.
\<close>

locale fifo =
  fixes fresh :: 'q
    and push :: "'a \<Rightarrow> 'q \<Rightarrow> 'q"
    and flush :: "'q \<Rightarrow> 'a list \<times> 'q"
  assumes flush_fresh: "flush fresh = ([], fresh)"
    and flush_push: "flush (push x q) = (fst (flush q) @ [x], fresh)"
    and flush_rest: "snd (flush q) = fresh"
begin

text \<open>A run: \<open>Some x\<close> is a send, \<open>None\<close> a drain; the batches the drains returned, and the queue.\<close>

fun run :: "'a option list \<Rightarrow> 'a list list \<times> 'q \<Rightarrow> 'a list list \<times> 'q" where
  "run [] s = s"
| "run (Some x # ops) (bs, q) = run ops (bs, push x q)"
| "run (None # ops) (bs, q) = run ops (bs @ [fst (flush q)], snd (flush q))"

lemma run_delivers:
  "concat (fst (run ops s)) @ fst (flush (snd (run ops s))) =
     concat (fst s) @ fst (flush (snd s)) @ List.map_filter id ops"
  by (induction ops s rule: run.induct)
    (simp_all add: flush_fresh flush_push flush_rest map_filter_simps)

end

lemma drain_loop_eq: "drain_loop out q = (out @ q, [])"
  by (induction q arbitrary: out) (simp_all add: drain_loop.simps [of _ "[]"] drain_loop.simps [of _ "_ # _"])

interpretation bus: fifo new_bus send_event drain
  by unfold_locales (simp_all add: drain_def drain_loop_eq new_bus_def send_event_def)

text \<open>The same run, written out over the bus: \<open>Some ev\<close> for \<open>EventBus::send\<close>, \<open>None\<close> for a poll.\<close>

fun run_bus :: "Event option list \<Rightarrow> Event list list \<times> event_bus \<Rightarrow> Event list list \<times> event_bus" where
  "run_bus [] s = s"
| "run_bus (Some ev # ops) (bs, q) = run_bus ops (bs, send_event ev q)"
| "run_bus (None # ops) (bs, q) = (let (b, q') = drain q in run_bus ops (bs @ [b], q'))"

lemma run_bus_run: "run_bus ops s = bus.run ops s"
  by (induction ops s rule: run_bus.induct) (auto simp: split_beta)


lemma event_to_dto_inj: "event_to_dto e = event_to_dto e' \<Longrightarrow> e = e'"
  by (cases e; cases e') (simp_all add: dto_def)

text \<open>Nothing is lost in the translation for the UI: two events have the same transfer object only
  if they are the same event.\<close>

theorem event_to_dto_faithful: "event_to_dto e = event_to_dto e' \<longleftrightarrow> e = e'"
  by (auto dest: event_to_dto_inj)

end
