(* ===== verification/Messages.thy ===== *)
theory Messages
  imports Prelude
begin

text \<open>
  The message types of rustpush as \<open>rust/src/api/mirrors.rs\<close> mirrors them: attachments and parts of a message,
  extensions, link previews, reactions, edits, chats that were acted on, and the message as it is sent and
  received; the messages of FaceTime and of the status service. A \<open>u64\<close> or \<open>usize\<close> is a 64-bit word, an
  \<open>i64\<close> an integer, a float the bits of its representation, a \<open>HashSet\<close> a set.
\<close>

type_synonym f64 = "64 word"
type_synonym u64 = "64 word"

section \<open>Attachments and parts\<close>

record MMCSFile =
  mf_signature :: "8 word list"
  mf_object :: string
  mf_url :: string
  mf_key :: "8 word list"
  mf_size :: u64

datatype AttachmentType = InlineData "8 word list" | MMCS MMCSFile

record Attachment =
  ma_a_type :: AttachmentType
  ma_part :: u64
  ma_uti_type :: string
  ma_mime :: string
  ma_name :: string
  ma_iris :: bool

record TextFlags =
  tf_bold :: bool
  tf_italic :: bool
  tf_underline :: bool
  tf_strikethrough :: bool

datatype TextEffect = EffBig | EffSmall | EffShake | EffNod | EffExplode | EffRipple | EffBloom | EffJitter

datatype TextFormat = Flags TextFlags | Effect TextEffect

datatype MessagePart =
    TextPart string TextFormat
  | AttachmentPart Attachment
  | MentionPart string string
  | ObjectPart string

datatype PartExtension =
    Sticker (st_msg_width: f64) (st_rotation: f64) (st_sai: u64) (st_scale: f64) (st_update: "bool option")
      (st_sli: u64) (st_normalized_x: f64) (st_normalized_y: f64) (st_version: u64) (st_hash: string)
      (st_safi: u64) (st_effect_type: int) (st_sticker_id: string)

record IndexedMessagePart =
  ip_part :: MessagePart
  ip_idx :: "u64 option"
  ip_ext :: "PartExtension option"

type_synonym MessageParts = "IndexedMessagePart list"

datatype MessageType =
    IMessageType
  | SMSType (sm_is_phone: bool) (sm_using_number: string) (sm_from_handle: "string option")

section \<open>Extensions\<close>

datatype NSDictionaryClass = NSDictionary | NSMutableDictionary

datatype BalloonLayout =
    TemplateLayout (bl_image_subtitle: string) (bl_image_title: string) (bl_caption: string)
      (bl_secondary_subcaption: string) (bl_tertiary_subcaption: string) (bl_subcaption: string)
      (bl_class: NSDictionaryClass)

record Balloon =
  ba_url :: string
  ba_session :: "string option"
  ba_layout :: "BalloonLayout option"
  ba_ld_text :: "string option"
  ba_is_live :: bool
  ba_icon :: "8 word list option"

record ExtensionApp =
  ea_name :: string
  ea_app_id :: "u64 option"
  ea_bundle_id :: string
  ea_balloon :: "Balloon option"

section \<open>Link previews\<close>

record NSURL =
  nu_base :: string
  nu_relative :: string

record LPImageMetadata =
  lpi_size :: string
  lpi_url :: NSURL
  lpi_version :: "8 word"

record LPIconMetadata =
  lpc_url :: NSURL
  lpc_version :: "8 word"

record RichLinkImageAttachmentSubstitute =
  rl_mime_type :: string
  rl_substitute_index :: u64

datatype NSArrayClass = NSArray | NSMutableArray

record 'a NSArrayRecord =
  ns_objects :: "'a list"
  ns_class :: NSArrayClass

datatype LPSpecializationMetadata = LPPasswordsInviteMetadata (lps_group_name: string) (lps_url_parameters: string)

record LPLinkMetadata =
  lp_image_metadata :: "LPImageMetadata option"
  lp_version :: "8 word"
  lp_icon_metadata :: "LPIconMetadata option"
  lp_original_url :: "NSURL option"
  lp_url :: "NSURL option"
  lp_title :: "string option"
  lp_summary :: "string option"
  lp_image :: "RichLinkImageAttachmentSubstitute option"
  lp_icon :: "RichLinkImageAttachmentSubstitute option"
  lp_images :: "LPImageMetadata NSArrayRecord option"
  lp_icons :: "LPIconMetadata NSArrayRecord option"
  lp_is_incomplete :: "bool option"
  lp_uses_activity_pub :: "bool option"
  lp_is_encoded_for_local_use :: "bool option"
  lp_collaboration_type :: "32 word option"
  lp_specialization2 :: "LPSpecializationMetadata option"

record LinkMeta =
  lm_data :: LPLinkMetadata
  lm_attachments :: "8 word list list"

section \<open>Profiles\<close>

record SharedPoster =
  sp_low_res_wallpaper_tag :: "8 word list"
  sp_wallpaper_tag :: "8 word list"
  sp_message_tag :: "8 word list"

record ShareProfileMessage =
  spm_cloud_kit_decryption_record_key :: "8 word list"
  spm_cloud_kit_record_key :: string
  spm_poster :: "SharedPoster option"

record UpdateProfileMessage =
  upm_profile :: "ShareProfileMessage option"
  upm_share_contacts :: bool

record UpdateProfileSharingMessage =
  ups_shared_dismissed :: "string list"
  ups_shared_all :: "string list"
  ups_version :: u64

section \<open>The payloads of a message\<close>

record ScheduleMode =
  sc_ms :: u64
  sc_schedule :: bool

record NormalMessage =
  nm_parts :: MessageParts
  nm_effect :: "string option"
  nm_reply_guid :: "string option"
  nm_reply_part :: "string option"
  nm_service :: MessageType
  nm_subject :: "string option"
  nm_app :: "ExtensionApp option"
  nm_link_meta :: "LinkMeta option"
  nm_voice :: bool
  nm_scheduled :: "ScheduleMode option"
  nm_embedded_profile :: "ShareProfileMessage option"

record ChangeParticipantMessage =
  cp_new_participants :: "string list"
  cp_group_version :: u64

datatype Reaction =
    Heart
  | Like
  | Dislike
  | Laugh
  | Emphasize
  | Question
  | Emoji string
  | StickerReaction (re_spec: "ExtensionApp option") (re_body: MessageParts)

datatype ReactMessageType =
    ReactWith (rt_reaction: Reaction) (rt_enable: bool)
  | ReactExtension (rt_spec: ExtensionApp) (rt_body: MessageParts) (rt_is_meta: bool)

record ReactMessage =
  rm_to_uuid :: string
  rm_to_part :: "u64 option"
  rm_reaction :: ReactMessageType
  rm_to_text :: string
  rm_embedded_profile :: "ShareProfileMessage option"

record UnsendMessage =
  us_tuuid :: string
  us_edit_part :: u64

record EditMessage =
  ed_tuuid :: string
  ed_edit_part :: u64
  ed_new_parts :: MessageParts

record IconChangeMessage =
  ic_file :: "MMCSFile option"
  ic_group_version :: u64

record UpdateExtensionMessage =
  ue_for_uuid :: string
  ue_ext :: PartExtension

record ErrorMessage =
  em_for_uuid :: string
  em_status :: u64
  em_status_str :: string

record OperatedChat =
  oc_participants :: "string list"
  oc_group_id :: string
  oc_guid :: string
  oc_delete_incoming_messages :: "bool option"
  oc_was_reported_as_junk :: "bool option"

datatype DeleteTarget = TargetChat OperatedChat | TargetMessages "string list"

record MoveToRecycleBinMessage =
  mb_target :: DeleteTarget
  mb_recoverable_delete_date :: u64

record PermanentDeleteMessage =
  pd_target :: DeleteTarget
  pd_is_scheduled :: bool

datatype SetTranscriptBackgroundMessage =
    RemoveBackground (tb_aid: "32 word") (tb_bid: u64) (tb_chat_id: "string option") (tb_remove: bool)
  | SetBackground (tb_aid: "32 word") (tb_bid: u64) (tb_chat_id: "string option") (tb_object_id: string)
      (tb_payload_version: "32 word") (tb_background_id: string) (tb_url: string) (tb_signature: string)
      (tb_key: string) (tb_file_size: u64)

record TypingApp =
  ta_bundle_id :: string
  ta_icon :: "8 word list"

section \<open>A message and its envelope\<close>

text \<open>\<open>RenameMessage\<close> is a struct of one field, the new name.\<close>

datatype Message =
    Message NormalMessage
  | RenameMessage string
  | ChangeParticipants ChangeParticipantMessage
  | React ReactMessage
  | Delivered
  | ReadReceipt
  | Typing bool "TypingApp option"
  | Unsend UnsendMessage
  | Edit EditMessage
  | IconChange IconChangeMessage
  | EnableSmsActivation bool
  | MessageReadOnDevice
  | SmsConfirmSent bool
  | MarkUnread
  | PeerCacheInvalidate
  | UpdateExtension UpdateExtensionMessage
  | ErrorNotice ErrorMessage
  | MoveToRecycleBin MoveToRecycleBinMessage
  | RecoverChat OperatedChat
  | PermanentDelete PermanentDeleteMessage
  | Unschedule
  | UpdateProfile UpdateProfileMessage
  | UpdateProfileSharing UpdateProfileSharingMessage
  | ShareProfile ShareProfileMessage
  | NotifyAnyways
  | SetTranscriptBackground SetTranscriptBackgroundMessage

record ConversationData =
  cd_participants :: "string list"
  cd_cv_name :: "string option"
  cd_sender_guid :: "string option"
  cd_after_guid :: "string option"

datatype MessageTarget = TokenTarget "8 word list" | UuidTarget string

record CertifiedContext =
  cc_version :: "32 word"
  cc_receipt :: "8 word list"
  cc_sender :: string
  cc_target :: string
  cc_uuid :: "8 word list"
  cc_token :: "8 word list"

record MessageInst =
  mi_id :: string
  mi_sender :: "string option"
  mi_conversation :: "ConversationData option"
  mi_message :: Message
  mi_sent_timestamp :: u64
  mi_target :: "MessageTarget list option"
  mi_send_delivered :: bool
  mi_verification_failed :: bool
  mi_certified_context :: "CertifiedContext option"

section \<open>FaceTime, status and shared items\<close>

record FTMember =
  fm_nickname :: "string option"
  fm_handle :: string

record LetMeInRequest =
  li_shared_secret :: "8 word list"
  li_pseud :: string
  li_requestor :: string
  li_nickname :: "string option"
  li_token :: "8 word list"
  li_delegation_uuid :: "string option"
  li_usage :: "string option"

datatype FTMessage =
    FtLetMeInRequest LetMeInRequest
  | LinkChanged (ft_guid: string)
  | JoinEvent (ft_guid: string) (ft_participant: u64) (ft_handle: string) (ft_ring: bool)
  | AddMembers (ft_guid: string) (ft_members: "FTMember set") (ft_ring: bool)
  | RemoveMembers (ft_guid: string) (ft_members: "FTMember set")
  | LeaveEvent (ft_guid: string) (ft_participant: u64) (ft_handle: string)
  | FtRing (ft_guid: string)
  | FtDecline (ft_guid: string)
  | RespondedElsewhere (ft_guid: string)

datatype StatusKitMessage =
  StatusChanged (sk_user: string) (sk_mode: "string option") (sk_allowed: bool)

record BeaconAttributes =
  bat_name :: string
  bat_role_id :: int
  bat_emoji :: string
  bat_system_version :: string
  bat_serial_number :: string

end
