(* ===== verification/Integration.thy ===== *)
theory Integration
  imports SessionSpec Messages
begin

text \<open>
  \<open>rust/src/integration.rs\<close>: the sign-in states the UI shows, sign-in itself, and sending. The calls into
  rustpush are the fields of \<open>apple_env\<close>, on the message types of \<open>Messages\<close>.
\<close>

section \<open>Sign-in states\<close>

datatype AuthState =
    NeedsHardwarePairing
  | NeedsCredentials
  | AuthenticatingAccount
  | NeedsTwoFactor
  | NeedsSmsTwoFactor
  | NeedsDeviceTwoFactor
  | NeedsExtraStep string
  | Ready
  | Errored string

fun label :: "AuthState \<Rightarrow> string" where
  "label NeedsHardwarePairing = ''needs_pairing''"
| "label NeedsCredentials = ''needs_credentials''"
| "label AuthenticatingAccount = ''authenticating''"
| "label NeedsTwoFactor = ''needs_2fa''"
| "label NeedsSmsTwoFactor = ''needs_sms_2fa''"
| "label NeedsDeviceTwoFactor = ''needs_device_2fa''"
| "label (NeedsExtraStep s) = ''needs_extra:'' @ s"
| "label Ready = ''ready''"
| "label (Errored e) = ''error:'' @ e"

fun from_login_state :: "LoginState \<Rightarrow> AuthState" where
  "from_login_state LoggedIn = Ready"
| "from_login_state Needs2FAVerification = NeedsTwoFactor"
| "from_login_state NeedsSMS2FA = NeedsSmsTwoFactor"
| "from_login_state (NeedsSMS2FAVerification _) = NeedsSmsTwoFactor"
| "from_login_state NeedsDevice2FA = NeedsDeviceTwoFactor"
| "from_login_state (LsNeedsExtraStep s) = NeedsExtraStep s"
| "from_login_state NeedsLogin = NeedsCredentials"

section \<open>Rustpush\<close>

text \<open>
  The calls the functions below make. \<open>mmcs_prepare\<close> hashes the content of a file and \<open>mmcs_upload\<close> stores it
  (prepared, content, MIME type, UTI, name); \<open>default_format\<close> is the default of \<open>TextFormat\<close>, \<open>new_normal\<close>
  and \<open>new_inst\<close> are \<open>NormalMessage::new\<close> and \<open>MessageInst::new\<close>, which draws the id. \<open>im_send\<close> queues a
  message, which it may change on the way; when it returns a handle, the handle resolves to a join error or to
  the outcome of the delivery. \<open>fresh_uuid\<close> is the UUID drawn for a conversation.
\<close>

record apple_env =
  login_email_pass :: "string \<Rightarrow> string \<Rightarrow> string + LoginState"
  verify_2fa_code :: "string \<Rightarrow> string + LoginState"
  registered_handles :: "IMClient \<Rightarrow> string list"
  mmcs_prepare :: "string \<Rightarrow> string + string"
  mmcs_upload :: "string \<Rightarrow> string \<Rightarrow> string \<Rightarrow> string \<Rightarrow> string \<Rightarrow> string + Attachment"
  default_format :: TextFormat
  new_normal :: "string \<Rightarrow> MessageType \<Rightarrow> NormalMessage"
  new_inst :: "ConversationData \<Rightarrow> string \<Rightarrow> Message \<Rightarrow> MessageInst"
  im_send :: "IMClient \<Rightarrow> MessageInst \<Rightarrow> (string + (string + (string + unit)) option) \<times> MessageInst"
  fresh_uuid :: string

section \<open>Signing in\<close>

definition authenticate_apple_id ::
    "apple_env \<Rightarrow> session_env \<Rightarrow> string \<Rightarrow> string \<Rightarrow> string + LoginState" where
  "authenticate_apple_id env senv apple_id password =
     (if apple_id = [] \<or> password = [] then Inl ''apple_id and password are required''
      else map_err ''login_email_pass'' (login_email_pass env apple_id (hash_password senv password)))"

definition submit_2fa_code :: "apple_env \<Rightarrow> string \<Rightarrow> string + LoginState" where
  "submit_2fa_code env code =
     (if code = [] then Inl ''2fa code is required'' else map_err ''verify_2fa'' (verify_2fa_code env code))"

section \<open>Sending\<close>

definition im_client :: "AuthSession \<Rightarrow> string + IMClient" where
  "im_client s = (case as_im_client s of Some c \<Rightarrow> Inr c
     | None \<Rightarrow> Inl ''not signed in: complete pairing and Apple ID sign-in first'')"

definition sender_handle :: "apple_env \<Rightarrow> IMClient \<Rightarrow> string + string" where
  "sender_handle env c = (case registered_handles env c of h # _ \<Rightarrow> Inr h
     | [] \<Rightarrow> Inl ''no registered IDS handle'')"

definition uti_for :: "string \<Rightarrow> string" where
  "uti_for mime =
     (if mime = ''image/png'' then ''public.png''
      else if mime = ''image/jpeg'' then ''public.jpeg''
      else if mime = ''image/gif'' then ''com.compuserve.gif''
      else if mime = ''image/heic'' then ''public.heic''
      else if mime = ''image/webp'' then ''org.webmproject.webp''
      else if mime = ''video/mp4'' then ''public.mpeg-4''
      else if mime = ''video/quicktime'' then ''com.apple.quicktime-movie''
      else if mime = ''audio/mpeg'' then ''public.mp3''
      else if mime = ''audio/mp4'' then ''public.mpeg-4-audio''
      else if mime = ''application/pdf'' then ''com.adobe.pdf''
      else if mime = ''text/plain'' then ''public.plain-text''
      else ''public.data'')"

definition plain_part :: "MessagePart \<Rightarrow> IndexedMessagePart" where
  "plain_part p = \<lparr>ip_part = p, ip_idx = None, ip_ext = None\<rparr>"

definition attachment_part :: "apple_env \<Rightarrow> disk \<Rightarrow> string \<Rightarrow> string \<Rightarrow> string + IndexedMessagePart" where
  "attachment_part env d path mime =
     (let name = (case file_name path of Some n \<Rightarrow> n | None \<Rightarrow> ''attachment'')
      in case map_err (''opening '' @ path) (read_file path d) of Inl e \<Rightarrow> Inl e
         | Inr content \<Rightarrow>
      case map_err (''preparing upload for '' @ name) (mmcs_prepare env content) of Inl e \<Rightarrow> Inl e
         | Inr prepared \<Rightarrow>
      case map_err (''uploading '' @ name) (mmcs_upload env prepared content mime (uti_for mime) name) of
           Inl e \<Rightarrow> Inl e
         | Inr attachment \<Rightarrow> Inr (plain_part (AttachmentPart attachment)))"

text \<open>Awaiting the delivery: a handle that is absent counts as delivered.\<close>

fun await_delivery :: "(string + (string + unit)) option \<Rightarrow> string + unit" where
  "await_delivery None = Inr ()"
| "await_delivery (Some (Inl e)) = Inl (''delivery task: '' @ e)"
| "await_delivery (Some (Inr (Inl e))) = Inl (''delivery: '' @ e)"
| "await_delivery (Some (Inr (Inr u))) = Inr u"

definition build_message :: "apple_env \<Rightarrow> string list \<Rightarrow> string \<Rightarrow> IndexedMessagePart list \<Rightarrow> MessageInst" where
  "build_message env participants sender parts =
     (let normal = (new_normal env '''' IMessageType)\<lparr>nm_parts := parts\<rparr>;
          conversation = \<lparr>cd_participants = participants, cd_cv_name = None,
            cd_sender_guid = Some (fresh_uuid env), cd_after_guid = None\<rparr>
      in new_inst env conversation sender (Message normal))"

definition send_parts ::
    "apple_env \<Rightarrow> AuthSession \<Rightarrow> string list \<Rightarrow> IndexedMessagePart list \<Rightarrow> string + string" where
  "send_parts env s participants parts =
     (if participants = [] then Inl ''no participants for this conversation''
      else case im_client s of Inl e \<Rightarrow> Inl e | Inr client \<Rightarrow>
           case sender_handle env client of Inl e \<Rightarrow> Inl e | Inr sender \<Rightarrow>
           case im_send env client (build_message env participants sender parts) of (result, msg) \<Rightarrow>
           case map_err ''send'' result of Inl e \<Rightarrow> Inl e | Inr job \<Rightarrow>
           case await_delivery job of Inl e \<Rightarrow> Inl e | Inr _ \<Rightarrow> Inr (mi_id msg))"

text \<open>A text part, with the default format.\<close>

definition text_part :: "apple_env \<Rightarrow> string \<Rightarrow> IndexedMessagePart" where
  "text_part env text = plain_part (TextPart text (default_format env))"

definition send_imessage :: "apple_env \<Rightarrow> string list \<Rightarrow> string \<Rightarrow> AuthSession \<Rightarrow> string + string" where
  "send_imessage env participants text s = send_parts env s participants [text_part env text]"

text \<open>\<open>mime_types.get(i)\<close>, with the default of the code where the list is too short.\<close>

definition mime_at :: "string list \<Rightarrow> nat \<Rightarrow> string" where
  "mime_at mimes i = (if i < length mimes then mimes ! i else ''application/octet-stream'')"

fun upload_all :: "apple_env \<Rightarrow> disk \<Rightarrow> string list \<Rightarrow> nat \<Rightarrow> string list \<Rightarrow> string + IndexedMessagePart list" where
  "upload_all env d mimes i [] = Inr []"
| "upload_all env d mimes i (path # paths) =
     (case attachment_part env d path (mime_at mimes i) of Inl e \<Rightarrow> Inl e
      | Inr p \<Rightarrow> (case upload_all env d mimes (i + 1) paths of Inl e \<Rightarrow> Inl e | Inr ps \<Rightarrow> Inr (p # ps)))"

definition send_imessage_with_attachments ::
    "apple_env \<Rightarrow> disk \<Rightarrow> string list \<Rightarrow> string \<Rightarrow> string list \<Rightarrow> string list \<Rightarrow> AuthSession \<Rightarrow> string + string" where
  "send_imessage_with_attachments env d participants text paths mimes s =
     (case upload_all env d mimes 0 paths of Inl e \<Rightarrow> Inl e
      | Inr ps \<Rightarrow>
        let parts = (if text = [] then ps else ps @ [text_part env text])
        in if parts = [] then Inl ''nothing to send'' else send_parts env s participants parts)"

section \<open>What is not wired yet\<close>

text \<open>Each of these fails at once with the text of the code.\<close>

definition not_wired :: "string \<Rightarrow> string \<Rightarrow> string + 'a" where
  "not_wired fn path = Inl (fn @ '': not yet wired '' @ em_dash @ '' '' @ path @ '' path in api.rs'')"

definition send_tapback :: "string \<Rightarrow> string \<Rightarrow> string + unit" where
  "send_tapback message_guid reaction = not_wired ''send_tapback'' ''tapback''"

definition send_edit :: "string \<Rightarrow> string \<Rightarrow> string + unit" where
  "send_edit message_guid new_text = not_wired ''send_edit'' ''edit''"

definition send_unsend :: "string \<Rightarrow> string + unit" where
  "send_unsend message_guid = not_wired ''send_unsend'' ''unsend''"

definition send_typing :: "string \<Rightarrow> bool \<Rightarrow> string + unit" where
  "send_typing chat_guid typing = not_wired ''send_typing'' ''typing indicator''"

definition start_facetime :: "string \<Rightarrow> string + string" where
  "start_facetime address = not_wired ''start_facetime'' ''FaceTime''"

definition poll_findmy_friends :: "string + (string \<times> f64 \<times> f64) list" where
  "poll_findmy_friends = not_wired ''poll_findmy_friends'' ''FindMy''"

definition list_shared_albums :: "string + string list" where
  "list_shared_albums = not_wired ''list_shared_albums'' ''shared albums''"

section \<open>What sending promises\<close>

lemma upload_all_append:
  "upload_all env d mimes i (ps @ qs) =
     (case upload_all env d mimes i ps of Inl e \<Rightarrow> Inl e
      | Inr xs \<Rightarrow> (case upload_all env d mimes (i + length ps) qs of Inl e \<Rightarrow> Inl e | Inr ys \<Rightarrow> Inr (xs @ ys)))"
  by (induction ps arbitrary: i) (auto split: sum.splits)

lemma upload_all_Inr:
  "upload_all env d mimes i paths = Inr ps \<Longrightarrow>
     length ps = length paths \<and>
     (\<forall>k < length paths. attachment_part env d (paths ! k) (mime_at mimes (i + k)) = Inr (ps ! k))"
proof (induction paths arbitrary: i ps)
  case (Cons path paths)
  then obtain p qs where p: "attachment_part env d path (mime_at mimes i) = Inr p"
      and qs: "upload_all env d mimes (i + 1) paths = Inr qs" and ps: "ps = p # qs"
    by (auto split: sum.splits)
  from Cons.IH [OF qs] p show ?case by (auto simp: ps nth_Cons split: nat.splits)
qed simp

definition is_text :: "IndexedMessagePart \<Rightarrow> bool" where
  "is_text p = (case ip_part p of TextPart _ _ \<Rightarrow> True | _ \<Rightarrow> False)"

lemma attachment_part_not_text: "attachment_part env d path mime = Inr p \<Longrightarrow> \<not> is_text p"
  by (auto simp: attachment_part_def Let_def plain_part_def is_text_def split: sum.splits)

lemma send_parts_Inr:
  "send_parts env s participants parts = Inr i \<longleftrightarrow>
     participants \<noteq> [] \<and>
     (\<exists>client sender job msg. as_im_client s = Some client \<and> sender_handle env client = Inr sender \<and>
        im_send env client (build_message env participants sender parts) = (Inr job, msg) \<and>
        await_delivery job = Inr () \<and> i = mi_id msg)"
  by (auto simp: send_parts_def im_client_def map_err_def split: sum.splits option.splits prod.splits)

text \<open>The message that is handed over, seen through the constructors of rustpush: when these set what they are
  given and leave the rest empty, it carries the parts in their order and nothing else.\<close>

definition plain_constructors :: "apple_env \<Rightarrow> bool" where
  "plain_constructors env \<longleftrightarrow>
     (\<forall>c h m. mi_conversation (new_inst env c h m) = Some c \<and> mi_sender (new_inst env c h m) = Some h \<and>
        mi_message (new_inst env c h m) = m) \<and>
     (\<forall>t svc. nm_service (new_normal env t svc) = svc \<and> nm_effect (new_normal env t svc) = None \<and>
        nm_reply_guid (new_normal env t svc) = None \<and> nm_app (new_normal env t svc) = None)"

lemma build_message_plain:
  assumes "plain_constructors env"
  shows "\<exists>nm. mi_message (build_message env participants sender parts) = Message nm \<and> nm_parts nm = parts \<and>
      nm_service nm = IMessageType \<and> nm_effect nm = None \<and> nm_reply_guid nm = None \<and> nm_app nm = None"
    and "mi_sender (build_message env participants sender parts) = Some sender"
    and "map_option cd_participants (mi_conversation (build_message env participants sender parts)) = Some participants"
  using assms by (simp_all add: build_message_def plain_constructors_def Let_def)

text \<open>A message with files is sent as one message: when the send succeeds, every file has been
  uploaded with its own MIME type, in the order given, the parts handed to the client are these
  attachments followed by the text (when there is one), to exactly the given participants, from the
  first registered handle, the delivery did not fail, and the id returned is the one of the message
  as the client left it.\<close>

theorem attachments_lead_text_trails:
  assumes "send_imessage_with_attachments env d participants text paths mimes s = Inr i"
  shows "\<exists>client sender ps job msg.
    as_im_client s = Some client \<and> sender_handle env client = Inr sender \<and>
    length ps = length paths \<and>
    (\<forall>k < length paths. attachment_part env d (paths ! k) (mime_at mimes k) = Inr (ps ! k) \<and> \<not> is_text (ps ! k)) \<and>
    im_send env client (build_message env participants sender
      (ps @ (if text = [] then [] else [text_part env text]))) = (Inr job, msg) \<and>
    await_delivery job = Inr () \<and> participants \<noteq> [] \<and> (paths = [] \<longrightarrow> text \<noteq> []) \<and> i = mi_id msg"
proof -
  from assms obtain ps where ps: "upload_all env d mimes 0 paths = Inr ps"
    by (auto simp: send_imessage_with_attachments_def split: sum.splits)
  let ?parts = "ps @ (if text = [] then [] else [text_part env text])"
  have "?parts \<noteq> []" and "send_parts env s participants ?parts = Inr i"
    using assms ps
    by (auto simp: send_imessage_with_attachments_def Let_def split: if_splits)
  then obtain client sender job msg where "as_im_client s = Some client" "sender_handle env client = Inr sender"
    "im_send env client (build_message env participants sender ?parts) = (Inr job, msg)"
    "await_delivery job = Inr ()" "participants \<noteq> []" "i = mi_id msg"
    by (auto simp: send_parts_Inr)
  moreover have "length ps = length paths \<and>
      (\<forall>k < length paths. attachment_part env d (paths ! k) (mime_at mimes k) = Inr (ps ! k) \<and> \<not> is_text (ps ! k))"
    using upload_all_Inr [OF ps] attachment_part_not_text by simp blast
  moreover have "paths = [] \<longrightarrow> text \<noteq> []" using \<open>?parts \<noteq> []\<close> upload_all_Inr [OF ps] by auto
  ultimately show ?thesis by blast
qed

text \<open>A rustpush whose constructors set what they are given, which delivers everything at once.\<close>

definition plain_normal :: NormalMessage where
  "plain_normal = \<lparr>nm_parts = [], nm_effect = None, nm_reply_guid = None, nm_reply_part = None,
     nm_service = IMessageType, nm_subject = None, nm_app = None, nm_link_meta = None, nm_voice = False,
     nm_scheduled = None, nm_embedded_profile = None\<rparr>"

definition plain_inst :: "ConversationData \<Rightarrow> string \<Rightarrow> Message \<Rightarrow> MessageInst" where
  "plain_inst c h m = \<lparr>mi_id = ''id'', mi_sender = Some h, mi_conversation = Some c, mi_message = m,
     mi_sent_timestamp = 5000, mi_target = None, mi_send_delivered = False, mi_verification_failed = False,
     mi_certified_context = None\<rparr>"

definition sample_attachment :: "string \<Rightarrow> string \<Rightarrow> Attachment" where
  "sample_attachment mime name = \<lparr>ma_a_type = InlineData [], ma_part = 0, ma_uti_type = uti_for mime, ma_mime = mime,
     ma_name = name, ma_iris = False\<rparr>"

definition sample_apple :: apple_env where
  "sample_apple = \<lparr>login_email_pass = (\<lambda>_ _. Inr LoggedIn), verify_2fa_code = (\<lambda>_. Inr LoggedIn),
     registered_handles = (\<lambda>_. [''me'']), mmcs_prepare = Inr,
     mmcs_upload = (\<lambda>_ _ mime _ name. Inr (sample_attachment mime name)),
     default_format = Flags \<lparr>tf_bold = False, tf_italic = False, tf_underline = False, tf_strikethrough = False\<rparr>,
     new_normal = (\<lambda>_ svc. plain_normal\<lparr>nm_service := svc\<rparr>), new_inst = plain_inst,
     im_send = (\<lambda>_ m. (Inr None, m)), fresh_uuid = ''u''\<rparr>"

lemma sample_apple_plain: "plain_constructors sample_apple"
  by (simp add: plain_constructors_def sample_apple_def plain_normal_def plain_inst_def)

theorem attachments_lead_text_trails_witness:
  fixes d :: disk and s :: AuthSession
  defines "d \<equiv> \<lparr>files = [''p'' \<mapsto> ''x''], blocked = \<lambda>_. None\<rparr>"
    and "s \<equiv> \<lparr>as_data_dir = ''d'', as_config = sample_os_config, as_identity = ''i'', as_aps = ''a'',
       as_ids_user = Some ''u'', as_im_client = Some \<lparr>ic_users = [''u''], ic_identity = ''i''\<rparr>\<rparr>"
  shows "send_imessage_with_attachments sample_apple d [''you''] ''hi'' [''p''] [''m''] s = Inr ''id'' \<and>
    (\<exists>p. attachment_part sample_apple d ''p'' ''m'' = Inr p \<and> \<not> is_text p)"
proof -
  have "file_name ''p'' = Some ''p''"
    by (simp add: file_name_def strip_drive_def is_sep_def byte_def)
  then have "send_imessage_with_attachments sample_apple d [''you''] ''hi'' [''p''] [''m''] s = Inr ''id''"
    by (simp add: send_imessage_with_attachments_def attachment_part_def d_def s_def Let_def map_err_def sample_apple_def
        read_file_def mime_at_def send_parts_def im_client_def sender_handle_def build_message_def plain_part_def
        plain_inst_def)
  with attachments_lead_text_trails [OF this] show ?thesis by (auto simp: mime_at_def)
qed

text \<open>The label that is stored and sent to the UI determines the sign-in state.\<close>

theorem label_injective: "label a = label b \<longleftrightarrow> a = b"
  by (cases a; cases b) auto

end
