(* ===== verification/Storage.thy ===== *)
theory Storage
  imports Prelude "HOL-Library.Product_Lexorder"
begin

text \<open>
  \<open>rust/src/storage.rs\<close>: the SQLite database as one record of tables, each operation of \<open>Storage\<close>
  as a function on it. SQL is modelled as far as the statements of the file use it: uniqueness
  and foreign-key constraints (enforced, \<open>PRAGMA foreign_keys = ON\<close>), \<open>ON DELETE CASCADE\<close>, which also
  runs for the row that \<open>INSERT OR REPLACE\<close> removes, \<open>ON CONFLICT ... DO UPDATE\<close>, \<open>ORDER BY\<close>,
  \<open>LIMIT\<close>, joins, and the range checks of rusqlite when a column is read as \<open>i32\<close>. Integer columns
  are unbounded \<open>int\<close> (the only arithmetic on them is \<open>unread_count + 1\<close>). Where \<open>ORDER BY\<close> leaves
  ties open, the model takes the order in which SQLite scans. Failures of the disk are not modelled.
\<close>

section \<open>Rows handed to the callers\<close>

definition SERVICE_IMESSAGE :: string where "SERVICE_IMESSAGE = ''iMessage''"
definition SERVICE_RCS :: string where "SERVICE_RCS = ''RCS''"
definition SERVICE_SMS :: string where "SERVICE_SMS = ''SMS''"

record ChatRow =
  cr_guid :: string
  cr_title :: string
  cr_service :: string
  cr_is_group :: bool
  cr_is_archived :: bool
  cr_is_pinned :: bool
  cr_pin_order :: int
  cr_unread_count :: int
  cr_last_message_date :: int
  cr_last_message_preview :: string
  cr_participant_summary :: string

record MessageRow =
  mr_guid :: string
  mr_chat_guid :: string
  mr_handle_id :: "int option"
  mr_sender_address :: string
  mr_sender_display_name :: string
  mr_text :: string
  mr_subject :: string
  mr_is_from_me :: bool
  mr_date :: int
  mr_date_read :: int
  mr_date_edited :: int
  mr_is_unsent :: bool
  mr_has_attachments :: bool
  mr_thread_origin_guid :: string

record HandleRow =
  hr_id :: int
  hr_address :: string
  hr_service :: string
  hr_display_name :: string

record AttachmentRow =
  ar_guid :: string
  ar_message_guid :: string
  ar_filename :: string
  ar_mime_type :: string
  ar_size_bytes :: int
  ar_local_path :: string
  ar_transfer_state :: int

section \<open>The tables\<close>

text \<open>
  One record type per \<open>CREATE TABLE\<close>. \<open>ch_service\<close> is \<open>None\<close> in a database made before the column
  existed; \<open>has_service\<close> says whether \<open>pragma_table_info('chats')\<close> lists the column.
\<close>

record chat_rec =
  ch_guid :: string
  ch_title :: string
  ch_is_imessage :: int
  ch_service :: "string option"
  ch_is_group :: int
  ch_is_archived :: int
  ch_is_pinned :: int
  ch_pin_order :: int
  ch_unread_count :: int
  ch_last_message_date :: int
  ch_last_message_preview :: string
  ch_created_at :: int

record handle_rec =
  hd_id :: int
  hd_address :: string
  hd_service :: string
  hd_display_name :: string
  hd_created_at :: int

record message_rec =
  ms_guid :: string
  ms_chat_guid :: string
  ms_handle_id :: "int option"
  ms_text :: string
  ms_subject :: string
  ms_is_from_me :: int
  ms_date :: int
  ms_date_read :: int
  ms_date_edited :: int
  ms_is_unsent :: int
  ms_has_attachments :: int
  ms_thread_origin_guid :: string

record reaction_rec =
  rx_message_guid :: string
  rx_handle_id :: "int option"
  rx_is_from_me :: int
  rx_reaction_type :: string
  rx_timestamp :: int

record attachment_rec =
  at_guid :: string
  at_message_guid :: string
  at_filename :: string
  at_mime_type :: string
  at_size_bytes :: int
  at_local_path :: string
  at_transfer_state :: int

text \<open>\<open>handle_seq\<close> is the entry of \<open>sqlite_sequence\<close>: the last id drawn for the \<open>AUTOINCREMENT\<close> column.\<close>

record db =
  has_service :: bool
  chats :: "chat_rec list"
  handles :: "handle_rec list"
  handle_seq :: int
  chat_handles :: "(string \<times> int) list"
  messages :: "message_rec list"
  reactions :: "reaction_rec list"
  attachments :: "attachment_rec list"
  kv :: "(string \<times> string) list"

definition empty_db :: db where
  "empty_db = \<lparr>has_service = True, chats = [], handles = [], handle_seq = 0, chat_handles = [],
     messages = [], reactions = [], attachments = [], kv = []\<rparr>"

text \<open>The errors the modelled statements can raise.\<close>

datatype sql_error =
    ForeignKeyFailed
  | QueryReturnedNoRows
  | IntegralValueOutOfRange nat int
  | InvalidNull nat

type_synonym 'a sql = "(db, sql_error, 'a) sem"

abbreviation chat_exists :: "db \<Rightarrow> string \<Rightarrow> bool" where
  "chat_exists d g \<equiv> has_row ch_guid g (chats d)"

abbreviation handle_exists :: "db \<Rightarrow> int \<Rightarrow> bool" where
  "handle_exists d i \<equiv> has_row hd_id i (handles d)"

abbreviation message_exists :: "db \<Rightarrow> string \<Rightarrow> bool" where
  "message_exists d g \<equiv> has_row ms_guid g (messages d)"

definition in_i32 :: "int \<Rightarrow> bool" where
  "in_i32 i \<longleftrightarrow> - (2 ^ 31) \<le> i \<and> i < 2 ^ 31"

definition read_i32 :: "nat \<Rightarrow> int \<Rightarrow> sql_error + int" where
  "read_i32 col i = (if in_i32 i then Inr i else Inl (IntegralValueOutOfRange col i))"

text \<open>
  \<open>now_epoch\<close>: the seconds since the epoch as \<open>u64\<close>, cast to \<open>i64\<close>; \<open>None\<close> is a clock set before the
  epoch.
\<close>

definition now_epoch :: "64 word option \<Rightarrow> int" where
  "now_epoch clock = (case clock of None \<Rightarrow> 0 | Some secs \<Rightarrow> sint secs)"

section \<open>Opening and migrating\<close>

definition add_service_column :: "db \<Rightarrow> db" where
  "add_service_column d =
     (if has_service d then d
      else d\<lparr>has_service := True,
             chats := map (\<lambda>c. c\<lparr>ch_service := Some SERVICE_IMESSAGE\<rparr>) (chats d)\<rparr>)"

definition service_unknown :: "chat_rec \<Rightarrow> bool" where
  "service_unknown c = (case ch_service c of None \<Rightarrow> True
     | Some s \<Rightarrow> s = '''' \<or> s \<notin> set [SERVICE_IMESSAGE, SERVICE_RCS, SERVICE_SMS])"

definition repair_services :: "db \<Rightarrow> db" where
  "repair_services d = d\<lparr>chats := update_where service_unknown
     (\<lambda>c. c\<lparr>ch_service := Some (if ch_is_imessage c = 1 then SERVICE_IMESSAGE else SERVICE_SMS)\<rparr>)
     (chats d)\<rparr>"

definition migrate :: "db \<Rightarrow> db" where
  "migrate d = repair_services (add_service_column d)"

text \<open>\<open>CREATE TABLE IF NOT EXISTS\<close> leaves the tables of an existing file (\<open>Some\<close>) alone.\<close>

definition open_db :: "db option \<Rightarrow> db" where
  "open_db file = migrate (case file of None \<Rightarrow> empty_db | Some d \<Rightarrow> d)"

definition open_in_memory :: db where
  "open_in_memory = migrate empty_db"

section \<open>Key-value settings\<close>

definition kv_get :: "string \<Rightarrow> db \<Rightarrow> string option" where
  "kv_get k d = map_option snd (lookup_row fst k (kv d))"

definition kv_set :: "string \<Rightarrow> string \<Rightarrow> db \<Rightarrow> db" where
  "kv_set k v d = d\<lparr>kv := upsert_row fst (\<lambda>(k', _). (k', v)) (k, v) (kv d)\<rparr>"

section \<open>Handles\<close>

text \<open>The column pair of \<open>UNIQUE(address, service)\<close>.\<close>

definition hd_key :: "handle_rec \<Rightarrow> string \<times> string" where
  "hd_key h = (hd_address h, hd_service h)"

text \<open>The id is drawn before SQLite notices the conflict, so an upsert of a known handle leaves a gap in the ids.\<close>

definition insert_handle :: "string \<Rightarrow> string \<Rightarrow> string \<Rightarrow> int \<Rightarrow> db \<Rightarrow> db" where
  "insert_handle addr svc name now d =
     (if has_row hd_key (addr, svc) (handles d)
      then d\<lparr>handle_seq := handle_seq d + 1,
             handles := update_where (\<lambda>h. hd_key h = (addr, svc)) (\<lambda>h. h\<lparr>hd_display_name := name\<rparr>)
               (handles d)\<rparr>
      else d\<lparr>handle_seq := handle_seq d + 1,
             handles := handles d @ [\<lparr>hd_id = handle_seq d + 1, hd_address = addr, hd_service = svc,
               hd_display_name = name, hd_created_at = now\<rparr>]\<rparr>)"

definition upsert_handle :: "string \<Rightarrow> string \<Rightarrow> string \<Rightarrow> int \<Rightarrow> int sql" where
  "upsert_handle addr svc name now =
     thn (modify (insert_handle addr svc name now))
       (asks (\<lambda>d. case lookup_row hd_key (addr, svc) (handles d) of
                Some h \<Rightarrow> Inr (hd_id h) | None \<Rightarrow> Inl QueryReturnedNoRows))"

definition handle_row :: "handle_rec \<Rightarrow> HandleRow" where
  "handle_row h = \<lparr>hr_id = hd_id h, hr_address = hd_address h, hr_service = hd_service h,
     hr_display_name = hd_display_name h\<rparr>"

definition list_handles :: "db \<Rightarrow> HandleRow list" where
  "list_handles d = map handle_row (sort_key (\<lambda>h. (hd_display_name h, hd_address h)) (handles d))"

section \<open>Chats\<close>

definition new_chat :: "string \<Rightarrow> string \<Rightarrow> string \<Rightarrow> bool \<Rightarrow> int \<Rightarrow> chat_rec" where
  "new_chat g title svc grp now = \<lparr>ch_guid = g, ch_title = title,
     ch_is_imessage = of_bool (svc = SERVICE_IMESSAGE), ch_service = Some svc,
     ch_is_group = of_bool grp, ch_is_archived = 0, ch_is_pinned = 0, ch_pin_order = 0,
     ch_unread_count = 0, ch_last_message_date = 0, ch_last_message_preview = '''',
     ch_created_at = now\<rparr>"

definition upsert_chat :: "string \<Rightarrow> string \<Rightarrow> string \<Rightarrow> bool \<Rightarrow> int \<Rightarrow> db \<Rightarrow> db" where
  "upsert_chat g title svc grp now d = d\<lparr>chats := upsert_row ch_guid
     (\<lambda>c. c\<lparr>ch_title := title, ch_is_imessage := of_bool (svc = SERVICE_IMESSAGE),
            ch_service := Some svc, ch_is_group := of_bool grp\<rparr>)
     (new_chat g title svc grp now) (chats d)\<rparr>"

text \<open>
  \<open>INSERT OR IGNORE\<close> skips a pair that is there; a missing chat or handle is still an error, which
  drops the transaction and so undoes the \<open>DELETE\<close> and the earlier insertions.
\<close>

fun add_members :: "string \<Rightarrow> int list \<Rightarrow> db \<Rightarrow> sql_error + db" where
  "add_members g [] d = Inr d"
| "add_members g (h # hs) d =
     (if (g, h) \<in> set (chat_handles d) then add_members g hs d
      else if chat_exists d g \<and> handle_exists d h
      then add_members g hs (d\<lparr>chat_handles := chat_handles d @ [(g, h)]\<rparr>)
      else Inl ForeignKeyFailed)"

definition set_chat_participants :: "string \<Rightarrow> int list \<Rightarrow> unit sql" where
  "set_chat_participants g hs = attempt (\<lambda>d.
     add_members g hs (d\<lparr>chat_handles := filter (\<lambda>(c, _). c \<noteq> g) (chat_handles d)\<rparr>))"

definition update_chat :: "string \<Rightarrow> (chat_rec \<Rightarrow> chat_rec) \<Rightarrow> db \<Rightarrow> db" where
  "update_chat g f d = d\<lparr>chats := update_where (\<lambda>c. ch_guid c = g) f (chats d)\<rparr>"

definition set_chat_pin :: "string \<Rightarrow> bool \<Rightarrow> int \<Rightarrow> db \<Rightarrow> db" where
  "set_chat_pin g pinned ord =
     update_chat g (\<lambda>c. c\<lparr>ch_is_pinned := of_bool pinned, ch_pin_order := ord\<rparr>)"

definition set_chat_archived :: "string \<Rightarrow> bool \<Rightarrow> db \<Rightarrow> db" where
  "set_chat_archived g arch = update_chat g (\<lambda>c. c\<lparr>ch_is_archived := of_bool arch\<rparr>)"

definition chat_order :: "chat_rec \<Rightarrow> int \<times> int \<times> int" where
  "chat_order c = (- ch_is_pinned c, ch_pin_order c, - ch_last_message_date c)"

definition read_chat :: "chat_rec \<Rightarrow> sql_error + ChatRow" where
  "read_chat c =
     (case ch_service c of None \<Rightarrow> Inl (InvalidNull 2)
      | Some svc \<Rightarrow> case read_i32 6 (ch_pin_order c) of Inl e \<Rightarrow> Inl e
      | Inr po \<Rightarrow> case read_i32 7 (ch_unread_count c) of Inl e \<Rightarrow> Inl e
      | Inr uc \<Rightarrow> Inr \<lparr>cr_guid = ch_guid c, cr_title = ch_title c, cr_service = svc,
          cr_is_group = (ch_is_group c \<noteq> 0), cr_is_archived = (ch_is_archived c \<noteq> 0),
          cr_is_pinned = (ch_is_pinned c \<noteq> 0), cr_pin_order = po, cr_unread_count = uc,
          cr_last_message_date = ch_last_message_date c,
          cr_last_message_preview = ch_last_message_preview c, cr_participant_summary = ''''\<rparr>)"

definition list_chats :: "bool \<Rightarrow> db \<Rightarrow> sql_error + ChatRow list" where
  "list_chats include_archived d = collect (map read_chat (sort_key chat_order
     (if include_archived then chats d else filter (\<lambda>c. ch_is_archived c = 0) (chats d))))"

text \<open>The join of \<open>chat_handles\<close> and \<open>handles\<close>, in the order of the primary-key index.\<close>

definition chat_members :: "string \<Rightarrow> db \<Rightarrow> handle_rec list" where
  "chat_members g d = List.map_filter (\<lambda>(_, h). lookup_row hd_id h (handles d))
     (sort_key snd (filter (\<lambda>(c, _). c = g) (chat_handles d)))"

definition participant_addresses :: "string \<Rightarrow> db \<Rightarrow> string list" where
  "participant_addresses g d = map hd_address (sort_key hd_address (chat_members g d))"

text \<open>\<open>COALESCE(NULLIF(h.display_name,''), h.address)\<close>.\<close>

definition handle_name :: "handle_rec \<Rightarrow> string" where
  "handle_name h = (if hd_display_name h = '''' then hd_address h else hd_display_name h)"

definition participants_summary :: "string \<Rightarrow> db \<Rightarrow> string" where
  "participants_summary g d =
     join_strs '', '' (map handle_name (take 6 (sort_key hd_display_name (chat_members g d))))"

section \<open>Messages\<close>

text \<open>
  \<open>INSERT OR REPLACE\<close>: the row with the same guid is deleted first, and its deletion cascades to its
  reactions and attachments, as the foreign keys of those tables ask.
\<close>

definition delete_message :: "string \<Rightarrow> db \<Rightarrow> db" where
  "delete_message g d = d\<lparr>messages := filter (\<lambda>m. ms_guid m \<noteq> g) (messages d),
     reactions := filter (\<lambda>r. rx_message_guid r \<noteq> g) (reactions d),
     attachments := filter (\<lambda>a. at_message_guid a \<noteq> g) (attachments d)\<rparr>"

definition message_of_row :: "MessageRow \<Rightarrow> message_rec" where
  "message_of_row m = \<lparr>ms_guid = mr_guid m, ms_chat_guid = mr_chat_guid m,
     ms_handle_id = mr_handle_id m, ms_text = mr_text m, ms_subject = mr_subject m,
     ms_is_from_me = of_bool (mr_is_from_me m), ms_date = mr_date m,
     ms_date_read = mr_date_read m, ms_date_edited = mr_date_edited m,
     ms_is_unsent = of_bool (mr_is_unsent m), ms_has_attachments = of_bool (mr_has_attachments m),
     ms_thread_origin_guid = mr_thread_origin_guid m\<rparr>"

definition replace_message :: "message_rec \<Rightarrow> db \<Rightarrow> sql_error + db" where
  "replace_message m d =
     (if chat_exists d (ms_chat_guid m) \<and>
         (case ms_handle_id m of None \<Rightarrow> True | Some h \<Rightarrow> handle_exists d h)
      then let d' = delete_message (ms_guid m) d in Inr (d'\<lparr>messages := messages d' @ [m]\<rparr>)
      else Inl ForeignKeyFailed)"

definition insert_message :: "MessageRow \<Rightarrow> unit sql" where
  "insert_message m =
     thn (attempt (replace_message (message_of_row m)))
    (thn (modify (update_chat (mr_chat_guid m)
       (\<lambda>c. c\<lparr>ch_last_message_date := max (ch_last_message_date c) (mr_date m),
              ch_last_message_preview := mr_text m\<rparr>)))
     (if \<not> mr_is_from_me m
      then modify (update_chat (mr_chat_guid m) (\<lambda>c. c\<lparr>ch_unread_count := ch_unread_count c + 1\<rparr>))
      else ok ()))"

definition mark_chat_read :: "string \<Rightarrow> int \<Rightarrow> db \<Rightarrow> db" where
  "mark_chat_read g now d = update_chat g (\<lambda>c. c\<lparr>ch_unread_count := 0\<rparr>)
     (d\<lparr>messages := update_where
          (\<lambda>m. ms_chat_guid m = g \<and> ms_is_from_me m = 0 \<and> ms_date_read m = 0)
          (\<lambda>m. m\<lparr>ms_date_read := now\<rparr>) (messages d)\<rparr>)"

definition update_message :: "string \<Rightarrow> (message_rec \<Rightarrow> message_rec) \<Rightarrow> db \<Rightarrow> db" where
  "update_message g f d = d\<lparr>messages := update_where (\<lambda>m. ms_guid m = g) f (messages d)\<rparr>"

definition edit_message :: "string \<Rightarrow> string \<Rightarrow> int \<Rightarrow> db \<Rightarrow> db" where
  "edit_message g txt now = update_message g (\<lambda>m. m\<lparr>ms_text := txt, ms_date_edited := now\<rparr>)"

definition unsend_message :: "string \<Rightarrow> db \<Rightarrow> db" where
  "unsend_message g = update_message g (\<lambda>m. m\<lparr>ms_is_unsent := 1, ms_text := ''''\<rparr>)"

text \<open>
  A \<open>NULL\<close> handle is distinct from every other in the primary key, so only a reaction with a handle
  can replace an earlier one.
\<close>

definition same_reaction :: "reaction_rec \<Rightarrow> reaction_rec \<Rightarrow> bool" where
  "same_reaction r x \<longleftrightarrow> rx_handle_id r \<noteq> None \<and> rx_message_guid x = rx_message_guid r \<and>
     rx_handle_id x = rx_handle_id r \<and> rx_reaction_type x = rx_reaction_type r"

definition new_reaction :: "string \<Rightarrow> int option \<Rightarrow> bool \<Rightarrow> string \<Rightarrow> int \<Rightarrow> reaction_rec" where
  "new_reaction g h from_me reaction now = \<lparr>rx_message_guid = g, rx_handle_id = h,
     rx_is_from_me = of_bool from_me, rx_reaction_type = reaction, rx_timestamp = now\<rparr>"

definition replace_reaction :: "reaction_rec \<Rightarrow> db \<Rightarrow> sql_error + db" where
  "replace_reaction r d =
     (if message_exists d (rx_message_guid r)
      then Inr (d\<lparr>reactions := filter (\<lambda>x. \<not> same_reaction r x) (reactions d) @ [r]\<rparr>)
      else Inl ForeignKeyFailed)"

definition add_reaction :: "string \<Rightarrow> int option \<Rightarrow> bool \<Rightarrow> string \<Rightarrow> int \<Rightarrow> unit sql" where
  "add_reaction g h from_me reaction now =
     attempt (replace_reaction (new_reaction g h from_me reaction now))"

text \<open>\<open>LIMIT n\<close>: a negative limit is no limit.\<close>

definition sql_limit :: "int \<Rightarrow> 'a list \<Rightarrow> 'a list" where
  "sql_limit n xs = (if n < 0 then xs else take (nat n) xs)"

definition message_view :: "db \<Rightarrow> message_rec \<Rightarrow> MessageRow" where
  "message_view d m =
     (let h = Option.bind (ms_handle_id m) (\<lambda>i. lookup_row hd_id i (handles d))
      in \<lparr>mr_guid = ms_guid m, mr_chat_guid = ms_chat_guid m, mr_handle_id = ms_handle_id m,
          mr_sender_address = (case h of None \<Rightarrow> '''' | Some h \<Rightarrow> hd_address h),
          mr_sender_display_name = (case h of None \<Rightarrow> '''' | Some h \<Rightarrow> handle_name h),
          mr_text = ms_text m, mr_subject = ms_subject m, mr_is_from_me = (ms_is_from_me m \<noteq> 0),
          mr_date = ms_date m, mr_date_read = ms_date_read m, mr_date_edited = ms_date_edited m,
          mr_is_unsent = (ms_is_unsent m \<noteq> 0), mr_has_attachments = (ms_has_attachments m \<noteq> 0),
          mr_thread_origin_guid = ms_thread_origin_guid m\<rparr>)"

definition messages_for_chat :: "string \<Rightarrow> int \<Rightarrow> db \<Rightarrow> MessageRow list" where
  "messages_for_chat g lim d = map (message_view d) (sort_key ms_date
     (sql_limit lim (sort_key (\<lambda>m. - ms_date m)
       (filter (\<lambda>m. ms_chat_guid m = g) (messages d)))))"

section \<open>Attachments\<close>

definition replace_attachment :: "attachment_rec \<Rightarrow> db \<Rightarrow> sql_error + db" where
  "replace_attachment a d =
     (if message_exists d (at_message_guid a)
      then Inr (d\<lparr>attachments := replace_row at_guid a (attachments d)\<rparr>)
      else Inl ForeignKeyFailed)"

definition insert_attachment ::
    "string \<Rightarrow> string \<Rightarrow> string \<Rightarrow> string \<Rightarrow> int \<Rightarrow> string \<Rightarrow> unit sql" where
  "insert_attachment g mg filename mime nbytes path =
     thn (attempt (replace_attachment \<lparr>at_guid = g, at_message_guid = mg, at_filename = filename,
            at_mime_type = mime, at_size_bytes = nbytes, at_local_path = path, at_transfer_state = 0\<rparr>))
         (modify (update_message mg (\<lambda>m. m\<lparr>ms_has_attachments := 1\<rparr>)))"

definition read_attachment :: "attachment_rec \<Rightarrow> sql_error + AttachmentRow" where
  "read_attachment a = (case read_i32 6 (at_transfer_state a) of Inl e \<Rightarrow> Inl e
     | Inr ts \<Rightarrow> Inr \<lparr>ar_guid = at_guid a, ar_message_guid = at_message_guid a,
         ar_filename = at_filename a, ar_mime_type = at_mime_type a,
         ar_size_bytes = at_size_bytes a, ar_local_path = at_local_path a,
         ar_transfer_state = ts\<rparr>)"

definition attachments_for_message :: "string \<Rightarrow> db \<Rightarrow> sql_error + AttachmentRow list" where
  "attachments_for_message g d =
     collect (map read_attachment (filter (\<lambda>a. at_message_guid a = g) (attachments d)))"

end
