(* ===== verification/StorageInv.thy ===== *)
theory StorageInv
  imports Storage
begin

text \<open>
  The integrity of the database: every uniqueness constraint and every foreign key of the schema
  holds, and every operation of \<open>Storage\<close> keeps them, whether it succeeds or fails.
\<close>

section \<open>The constraints of the schema\<close>

definition wf_chats :: "db \<Rightarrow> bool" where
  "wf_chats d \<longleftrightarrow> distinct (map ch_guid (chats d))"

definition wf_handles :: "db \<Rightarrow> bool" where
  "wf_handles d \<longleftrightarrow> distinct (map hd_id (handles d)) \<and> distinct (map hd_key (handles d)) \<and>
     (\<forall>h \<in> set (handles d). hd_id h \<le> handle_seq d)"

definition wf_members :: "db \<Rightarrow> bool" where
  "wf_members d \<longleftrightarrow> distinct (chat_handles d) \<and>
     (\<forall>(c, h) \<in> set (chat_handles d). chat_exists d c \<and> handle_exists d h)"

definition wf_messages :: "db \<Rightarrow> bool" where
  "wf_messages d \<longleftrightarrow> distinct (map ms_guid (messages d)) \<and>
     (\<forall>m \<in> set (messages d). chat_exists d (ms_chat_guid m) \<and>
        (\<forall>h. ms_handle_id m = Some h \<longrightarrow> handle_exists d h))"

definition reaction_key :: "reaction_rec \<Rightarrow> string \<times> int option \<times> string" where
  "reaction_key r = (rx_message_guid r, rx_handle_id r, rx_reaction_type r)"

definition has_handle :: "reaction_rec \<Rightarrow> bool" where
  "has_handle r \<longleftrightarrow> rx_handle_id r \<noteq> None"

definition wf_reactions :: "db \<Rightarrow> bool" where
  "wf_reactions d \<longleftrightarrow> distinct (map reaction_key (filter has_handle (reactions d))) \<and>
     (\<forall>r \<in> set (reactions d). message_exists d (rx_message_guid r))"

definition wf_attachments :: "db \<Rightarrow> bool" where
  "wf_attachments d \<longleftrightarrow> distinct (map at_guid (attachments d)) \<and>
     (\<forall>a \<in> set (attachments d). message_exists d (at_message_guid a))"

definition wf_kv :: "db \<Rightarrow> bool" where
  "wf_kv d \<longleftrightarrow> distinct (map fst (kv d))"

definition wf_db :: "db \<Rightarrow> bool" where
  "wf_db d \<longleftrightarrow> wf_chats d \<and> wf_handles d \<and> wf_members d \<and> wf_messages d \<and>
     wf_reactions d \<and> wf_attachments d \<and> wf_kv d"

lemmas wf_table_defs = wf_chats_def wf_handles_def wf_members_def wf_messages_def
  wf_reactions_def wf_attachments_def wf_kv_def

text \<open>
  A table can be changed alone when the keys the other tables refer to stay: one rule per table.
\<close>

lemma wf_db_chats:
  assumes "wf_db d" and "distinct (map ch_guid cs)"
    and "\<And>g. has_row ch_guid g (chats d) \<Longrightarrow> has_row ch_guid g cs"
  shows "wf_db (d\<lparr>chats := cs\<rparr>)"
  using assms by (fastforce simp: wf_db_def wf_table_defs)

lemma wf_db_messages:
  assumes "wf_db d" and "map ms_guid ms = map ms_guid (messages d)"
    and "\<And>m. m \<in> set ms \<Longrightarrow> \<exists>m' \<in> set (messages d). ms_chat_guid m = ms_chat_guid m' \<and>
           ms_handle_id m = ms_handle_id m'"
  shows "wf_db (d\<lparr>messages := ms\<rparr>)"
proof -
  have "has_row ms_guid g ms = message_exists d g" for g
    using assms(2) by (simp add: has_row_def del: set_map)
  with assms show ?thesis by (fastforce simp: wf_db_def wf_table_defs)
qed

lemma wf_db_kv: "wf_db d \<Longrightarrow> distinct (map fst t) \<Longrightarrow> wf_db (d\<lparr>kv := t\<rparr>)"
  by (simp add: wf_db_def wf_table_defs)

lemma wf_db_handles:
  assumes "wf_db d" and "wf_handles (d\<lparr>handles := hs, handle_seq := n\<rparr>)"
    and "\<And>i. handle_exists d i \<Longrightarrow> has_row hd_id i hs"
  shows "wf_db (d\<lparr>handle_seq := n, handles := hs\<rparr>)"
  using assms by (fastforce simp: wf_db_def wf_table_defs)

section \<open>Every operation keeps them\<close>

lemma wf_empty_db: "wf_db empty_db"
  by (simp add: wf_db_def wf_table_defs empty_db_def)

lemma wf_migrate: "wf_db d \<Longrightarrow> wf_db (migrate d)"
proof -
  assume wf: "wf_db d"
  have "wf_db (d\<lparr>chats := map (\<lambda>c. c\<lparr>ch_service := Some SERVICE_IMESSAGE\<rparr>) (chats d)\<rparr>)"
    by (rule wf_db_chats [OF wf]) (use wf in \<open>auto simp: wf_db_def wf_chats_def has_row_def comp_def\<close>)
  then have col: "wf_db (add_service_column d)"
    using wf by (simp add: add_service_column_def wf_db_def wf_table_defs)
  show ?thesis unfolding migrate_def repair_services_def
    by (rule wf_db_chats [OF col])
      (use col in \<open>auto simp: map_update_where wf_db_def wf_chats_def has_row_update_where\<close>)
qed

lemma wf_open_db: "(\<And>d. file = Some d \<Longrightarrow> wf_db d) \<Longrightarrow> wf_db (open_db file)"
  by (auto simp: open_db_def wf_empty_db intro!: wf_migrate split: option.splits)

lemma wf_kv_set: "wf_db d \<Longrightarrow> wf_db (kv_set k v d)"
  unfolding kv_set_def
  by (rule wf_db_kv) (auto intro!: distinct_upsert_row simp: wf_db_def wf_kv_def)

lemma wf_insert_handle:
  assumes wf: "wf_db d"
  shows "wf_db (insert_handle addr svc name now d)"
proof (cases "has_row hd_key (addr, svc) (handles d)")
  case True
  let ?hs = "update_where (\<lambda>h. hd_key h = (addr, svc)) (\<lambda>h. h\<lparr>hd_display_name := name\<rparr>) (handles d)"
  have "wf_handles (d\<lparr>handles := ?hs, handle_seq := handle_seq d + 1\<rparr>)"
    using wf by (fastforce simp: wf_db_def wf_handles_def map_update_where hd_key_def set_update_where)
  from wf_db_handles [OF wf this] have "wf_db (d\<lparr>handle_seq := handle_seq d + 1, handles := ?hs\<rparr>)"
    by (simp add: has_row_update_where)
  with True show ?thesis by (simp add: insert_handle_def)
next
  case False
  let ?h = "\<lparr>hd_id = handle_seq d + 1, hd_address = addr, hd_service = svc, hd_display_name = name,
    hd_created_at = now\<rparr>"
  have "wf_handles (d\<lparr>handles := handles d @ [?h], handle_seq := handle_seq d + 1\<rparr>)"
    using wf False by (force simp: wf_db_def wf_handles_def has_row_def hd_key_def)
  from wf_db_handles [OF wf this] False show ?thesis
    by (simp add: insert_handle_def)
qed

lemma keeps_upsert_handle [keeps]: "preserves wf_db (upsert_handle addr svc name now)"
  unfolding upsert_handle_def
  by (intro keeps preserves_modify wf_insert_handle)

lemma wf_upsert_chat: "wf_db d \<Longrightarrow> wf_db (upsert_chat g title svc grp now d)"
  unfolding upsert_chat_def
  by (rule wf_db_chats)
    (auto simp: wf_db_def wf_chats_def has_row_upsert_row intro!: distinct_upsert_row)

lemma wf_update_chat:
  "wf_db d \<Longrightarrow> (\<And>c. ch_guid (f c) = ch_guid c) \<Longrightarrow> wf_db (update_chat g f d)"
  unfolding update_chat_def
  by (rule wf_db_chats) (auto simp: wf_db_def wf_chats_def map_update_where has_row_update_where)

lemma wf_set_chat_pin: "wf_db d \<Longrightarrow> wf_db (set_chat_pin g p n d)"
  by (simp add: set_chat_pin_def wf_update_chat)

lemma wf_set_chat_archived: "wf_db d \<Longrightarrow> wf_db (set_chat_archived g a d)"
  by (simp add: set_chat_archived_def wf_update_chat)

lemma wf_add_members: "wf_db d \<Longrightarrow> add_members g hs d = Inr d' \<Longrightarrow> wf_db d'"
  by (induction g hs d rule: add_members.induct)
    (auto simp: wf_db_def wf_table_defs split: if_splits)

lemma keeps_set_chat_participants [keeps]: "preserves wf_db (set_chat_participants g hs)"
  unfolding set_chat_participants_def
proof (rule preserves_attempt)
  fix s t
  assume "wf_db s"
    and t: "add_members g hs (s\<lparr>chat_handles := filter (\<lambda>(c, _). c \<noteq> g) (chat_handles s)\<rparr>) = Inr t"
  then have "wf_db (s\<lparr>chat_handles := filter (\<lambda>(c, _). c \<noteq> g) (chat_handles s)\<rparr>)"
    by (auto simp: wf_db_def wf_table_defs)
  then show "wf_db t" using t by (rule wf_add_members)
qed

lemma wf_delete_message: "wf_db d \<Longrightarrow> wf_db (delete_message g d)"
  by (auto simp: wf_db_def wf_table_defs delete_message_def distinct_map_filter
      intro!: distinct_map_filter_weaken)

lemma wf_replace_message: "wf_db d \<Longrightarrow> replace_message m d = Inr d' \<Longrightarrow> wf_db d'"
proof -
  assume wf: "wf_db d" and r: "replace_message m d = Inr d'"
  let ?d = "delete_message (ms_guid m) d"
  have "\<not> message_exists ?d (ms_guid m)" by (simp add: delete_message_def has_row_iff)
  moreover have "wf_db ?d" using wf by (rule wf_delete_message)
  moreover have "chat_exists ?d (ms_chat_guid m)"
      and "\<And>h. ms_handle_id m = Some h \<Longrightarrow> handle_exists ?d h" and "d' = ?d\<lparr>messages := messages ?d @ [m]\<rparr>"
    using r by (auto simp: replace_message_def Let_def delete_message_def split: if_splits option.splits)
  ultimately show "wf_db d'" by (auto simp: wf_db_def wf_table_defs has_row_def)
qed

lemma keeps_insert_message [keeps]: "preserves wf_db (insert_message m)"
  unfolding insert_message_def
  by (intro keeps preserves_attempt preserves_modify)
    (simp_all add: wf_replace_message wf_update_chat)

lemma wf_update_message:
  "wf_db d \<Longrightarrow> (\<And>m. ms_guid (f m) = ms_guid m \<and> ms_chat_guid (f m) = ms_chat_guid m \<and>
     ms_handle_id (f m) = ms_handle_id m) \<Longrightarrow> wf_db (update_message g f d)"
  unfolding update_message_def
  by (rule wf_db_messages) (force simp: map_update_where set_update_where)+

lemma wf_mark_chat_read: "wf_db d \<Longrightarrow> wf_db (mark_chat_read g now d)"
  unfolding mark_chat_read_def
  by (intro wf_update_chat wf_db_messages) (force simp: map_update_where set_update_where)+

lemma wf_edit_message: "wf_db d \<Longrightarrow> wf_db (edit_message g t now d)"
  by (simp add: edit_message_def wf_update_message)

lemma wf_unsend_message: "wf_db d \<Longrightarrow> wf_db (unsend_message g d)"
  by (simp add: unsend_message_def wf_update_message)

lemma wf_replace_reaction:
  assumes wf: "wf_db d" and r: "replace_reaction r d = Inr d'"
  shows "wf_db d'"
proof -
  have g: "message_exists d (rx_message_guid r)"
      and d': "d' = d\<lparr>reactions := filter (\<lambda>x. \<not> same_reaction r x) (reactions d) @ [r]\<rparr>"
    using r by (auto simp: replace_reaction_def split: if_splits)
  have "distinct (map reaction_key (filter has_handle (reactions d')))"
    using wf by (auto simp: d' wf_db_def wf_reactions_def same_reaction_def reaction_key_def
        has_handle_def [of r] intro!: distinct_map_filter_weaken)
  then show ?thesis using wf g by (auto simp: d' wf_db_def wf_table_defs)
qed

lemma keeps_add_reaction [keeps]: "preserves wf_db (add_reaction g h me r now)"
  unfolding add_reaction_def by (rule preserves_attempt) (rule wf_replace_reaction)

lemma wf_replace_attachment: "wf_db d \<Longrightarrow> replace_attachment a d = Inr d' \<Longrightarrow> wf_db d'"
  by (auto simp: wf_db_def wf_table_defs replace_attachment_def replace_row_def distinct_map_filter
      split: if_splits)

lemma keeps_insert_attachment [keeps]: "preserves wf_db (insert_attachment g mg fn mime n path)"
  unfolding insert_attachment_def
  by (intro keeps preserves_attempt preserves_modify)
    (simp_all add: wf_replace_attachment wf_update_message)

end
