(* ===== verification/StorageSpec.thy ===== *)
theory StorageSpec
  imports StorageInv
begin

text \<open>
  What the operations of \<open>Storage\<close> promise their callers: the settings interface, upserts and the
  ids they return, the participant transaction, the newest-messages query, read markers and the
  unread counter, and the migration. The integrity of the database over any run of operations is
  at the end.
\<close>

section \<open>The settings interface\<close>

text \<open>
  \<open>AppState\<close> uses \<open>kv_get\<close> and \<open>kv_set\<close> as a map from names to values. The client's lemma is that a
  value survives writes to other names.
\<close>

locale settings =
  fixes get :: "'k \<Rightarrow> 's \<Rightarrow> 'v option"
    and put :: "'k \<Rightarrow> 'v \<Rightarrow> 's \<Rightarrow> 's"
  assumes get_put_same [simp]: "get k (put k v s) = Some v"
    and get_put_other [simp]: "k \<noteq> k' \<Longrightarrow> get k (put k' v s) = get k s"
begin

definition put_all :: "('k \<times> 'v) list \<Rightarrow> 's \<Rightarrow> 's" where
  "put_all ws s = fold (\<lambda>(k, v). put k v) ws s"

lemma get_put_all: "get k (put_all ws s) = (case map_of (rev ws) k of Some v \<Rightarrow> Some v | None \<Rightarrow> get k s)"
proof (induction ws rule: rev_induct)
  case Nil
  then show ?case by (simp add: put_all_def)
next
  case (snoc w ws)
  obtain k' v where w: "w = (k', v)" by (cases w)
  have "put_all (ws @ [w]) s = put k' v (put_all ws s)" by (simp add: put_all_def w)
  with snoc w show ?case by (cases "k = k'") auto
qed

lemma get_after_others: "k \<notin> fst ` set ws \<Longrightarrow> get k (put_all ws (put k v s)) = Some v"
  by (simp add: get_put_all map_of_eq_None_iff [THEN iffD2] split: option.splits)

end

interpretation kvs: settings kv_get kv_set
proof unfold_locales
  fix k v d
  show "kv_get k (kv_set k v d) = Some v"
    by (simp add: kv_get_def kv_set_def lookup_row_upsert_row split_beta split: option.splits)
next
  fix k k' :: string and v d
  assume "k \<noteq> k'"
  then show "kv_get k (kv_set k' v d) = kv_get k d"
    by (simp add: kv_get_def kv_set_def lookup_row_upsert_row split_beta)
qed

lemma kv_set_frame [simp]:
  "chats (kv_set k v d) = chats d" "handles (kv_set k v d) = handles d"
  "messages (kv_set k v d) = messages d" "chat_handles (kv_set k v d) = chat_handles d"
  "attachments (kv_set k v d) = attachments d" "reactions (kv_set k v d) = reactions d"
  by (simp_all add: kv_set_def)

section \<open>Upserts\<close>

lemma lookup_hd_key_insert:
  "lookup_row hd_key k (handles (insert_handle a s n now d)) =
     (if k = (a, s)
      then Some (case lookup_row hd_key k (handles d) of
             None \<Rightarrow> \<lparr>hd_id = handle_seq d + 1, hd_address = a, hd_service = s, hd_display_name = n,
                      hd_created_at = now\<rparr>
           | Some h \<Rightarrow> h\<lparr>hd_display_name := n\<rparr>)
      else lookup_row hd_key k (handles d))"
proof (cases "has_row hd_key (a, s) (handles d)")
  case True
  then have "lookup_row hd_key (a, s) (handles d) \<noteq> None" by (simp add: lookup_row_None)
  moreover have "lookup_row hd_key k (handles (insert_handle a s n now d)) =
      map_option (\<lambda>h. if hd_key h = (a, s) then h\<lparr>hd_display_name := n\<rparr> else h)
        (lookup_row hd_key k (handles d))"
    using True by (simp add: insert_handle_def lookup_row_update_where hd_key_def)
  ultimately show ?thesis
    by (cases "lookup_row hd_key k (handles d)") (auto dest: lookup_row_SomeD)
next
  case False
  then have "lookup_row hd_key (a, s) (handles d) = None" by (simp add: lookup_row_None)
  with False show ?thesis
    by (cases "lookup_row hd_key k (handles d)")
      (auto simp: insert_handle_def lookup_row_append hd_key_def)
qed

lemma upsert_handle_result:
  "\<exists>h. lookup_row hd_key (a, s) (handles (insert_handle a s n now d)) = Some h \<and>
       upsert_handle a s n now d = (Inr (hd_id h), insert_handle a s n now d) \<and>
       hd_display_name h = n"
  by (auto simp: upsert_handle_def sem_defs bnd_def lookup_hd_key_insert split: option.splits)

text \<open>The id of a handle does not change when it is upserted again, whatever happens in between.\<close>

definition handle_id_of :: "string \<times> string \<Rightarrow> db \<Rightarrow> int option" where
  "handle_id_of k d = map_option hd_id (lookup_row hd_key k (handles d))"

lemma handle_id_of_insert:
  "handle_id_of k (insert_handle a s n now d) =
     (if k = (a, s) then Some (case handle_id_of k d of None \<Rightarrow> handle_seq d + 1 | Some i \<Rightarrow> i)
      else handle_id_of k d)"
  by (auto simp: handle_id_of_def lookup_hd_key_insert split: option.splits)

lemma upsert_handle_id:
  "upsert_handle a s n now d = (Inr (the (handle_id_of (a, s) (insert_handle a s n now d))),
     insert_handle a s n now d)"
  using upsert_handle_result [of a s n now d] by (auto simp: handle_id_of_def)

lemma handle_id_of_inj:
  assumes "wf_db d" and "handle_id_of k d = Some i" and "handle_id_of k' d = Some i"
  shows "k = k'"
proof -
  from assms(2,3) obtain h h' where "h \<in> set (handles d)" "hd_key h = k" "hd_id h = i"
      "h' \<in> set (handles d)" "hd_key h' = k'" "hd_id h' = i"
    by (auto simp: handle_id_of_def dest!: lookup_row_SomeD)
  moreover have "inj_on hd_id (set (handles d))"
    using assms(1) by (simp add: wf_db_def wf_handles_def distinct_map)
  ultimately show ?thesis by (auto dest: inj_onD)
qed

lemma handle_exists_insert:
  "wf_db d \<Longrightarrow> handle_exists (insert_handle a s n now d) i \<longleftrightarrow>
     handle_exists d i \<or> handle_id_of (a, s) (insert_handle a s n now d) = Some i"
proof (cases "has_row hd_key (a, s) (handles d)")
  case True
  then have e: "handle_exists (insert_handle a s n now d) i = handle_exists d i" for i
    by (simp add: insert_handle_def has_row_update_where)
  have "handle_exists (insert_handle a s n now d) i"
    if "handle_id_of (a, s) (insert_handle a s n now d) = Some i"
    using that by (auto simp: handle_id_of_def has_row_iff dest!: lookup_row_SomeD)
  with e show ?thesis by auto
next
  case False
  then have "handle_id_of (a, s) d = None" by (simp add: handle_id_of_def lookup_row_None)
  then have "handle_id_of (a, s) (insert_handle a s n now d) = Some (handle_seq d + 1)"
    by (simp add: handle_id_of_insert)
  moreover have "handle_exists (insert_handle a s n now d) i \<longleftrightarrow>
      handle_exists d i \<or> handle_seq d + 1 = i"
    using False by (simp add: insert_handle_def)
  ultimately show ?thesis by auto
qed

section \<open>The participant transaction\<close>

lemma add_members_Inr_iff:
  "(\<exists>d'. add_members g hs d = Inr d') \<longleftrightarrow>
     (\<forall>h \<in> set hs. (g, h) \<in> set (chat_handles d) \<or> chat_exists d g \<and> handle_exists d h)"
  by (induction g hs d rule: add_members.induct) auto

lemma add_members_result:
  "add_members g hs d = Inr d' \<Longrightarrow>
     d' = d\<lparr>chat_handles := chat_handles d'\<rparr> \<and>
     set (chat_handles d') = set (chat_handles d) \<union> Pair g ` set hs"
  by (induction g hs d rule: add_members.induct) (auto split: if_splits)

section \<open>The newest messages\<close>

lemma sort_take_rev_sorted:
  assumes "sorted (rev xs)"
  shows "sort (take n xs) = take_last n (rev xs)"
proof -
  have "sorted (rev (take n xs))" using assms by (simp add: rev_take)
  then have "sort (take n xs) = rev (take n xs)"
    by (intro properties_for_sort) auto
  then show ?thesis by (simp add: rev_take take_last_def)
qed

lemma map_sort_key: "map f (sort_key f xs) = sort (map f xs)"
  by (rule sym, rule properties_for_sort) (simp_all add: sorted_sort_key)

lemma sorted_neg_rev: "sorted (map (\<lambda>x. - f x) zs) \<Longrightarrow> sorted (rev (map f zs))"
  for f :: "'a \<Rightarrow> int"
  by (induction zs) (auto simp: sorted_append)

lemma map_sort_key_desc: "map f (sort_key (\<lambda>x. - f x) xs) = rev (sort (map f xs))"
  for f :: "'a \<Rightarrow> int"
proof -
  let ?ys = "map f (sort_key (\<lambda>x. - f x) xs)"
  have "sorted (map (\<lambda>x. - f x) (sort_key (\<lambda>x. - f x) xs))" by (rule sorted_sort_key)
  then have "sorted (rev ?ys)" by (rule sorted_neg_rev)
  then have "sort (map f xs) = rev ?ys" by (intro properties_for_sort) simp_all
  then show ?thesis by simp
qed

definition chat_messages :: "string \<Rightarrow> db \<Rightarrow> message_rec list" where
  "chat_messages g d = filter (\<lambda>m. ms_chat_guid m = g) (messages d)"

lemma dates_messages_for_chat:
  assumes "0 \<le> n"
  shows "map mr_date (messages_for_chat g n d) =
    take_last (nat n) (sort (map ms_date (chat_messages g d)))"
proof -
  let ?xs = "chat_messages g d"
  have "map mr_date (messages_for_chat g n d) =
      sort (take (nat n) (map ms_date (sort_key (\<lambda>m. - ms_date m) ?xs)))"
    using assms by (simp add: messages_for_chat_def sql_limit_def comp_def message_view_def Let_def
        map_sort_key take_map chat_messages_def)
  also have "\<dots> = take_last (nat n) (sort (map ms_date ?xs))"
    by (simp add: map_sort_key_desc sort_take_rev_sorted)
  finally show ?thesis .
qed

lemma rows_messages_for_chat:
  "mset (messages_for_chat g n d) \<subseteq># mset (map (message_view d) (chat_messages g d))"
proof -
  have "mset (sql_limit n (sort_key (\<lambda>m. - ms_date m) (chat_messages g d))) \<subseteq># mset (chat_messages g d)"
    by (metis append_take_drop_id mset_append mset_sort mset_subset_eq_add_left sql_limit_def
        subset_mset.order_refl)
  then show ?thesis
    by (simp add: messages_for_chat_def chat_messages_def image_mset_subseteq_mono)
qed

text \<open>C16: Asking for the n newest messages of a chat gives exactly that: the dates of the result are
  the n largest dates of the chat's messages (all of them when there are fewer), in ascending order,
  and every row of the result is the view of a message of the chat, none given twice.\<close>

theorem messages_for_chat_newest:
  "map mr_date (messages_for_chat g (int n) d) = take_last n (sort (map ms_date (chat_messages g d))) \<and>
   mset (messages_for_chat g (int n) d) \<subseteq># mset (map (message_view d) (chat_messages g d))"
  using dates_messages_for_chat [of "int n" g d] rows_messages_for_chat [of g "int n" d] by simp

section \<open>Writing a message\<close>

definition bump_chat :: "MessageRow \<Rightarrow> chat_rec \<Rightarrow> chat_rec" where
  "bump_chat m c =
     (let c' = c\<lparr>ch_last_message_date := max (ch_last_message_date c) (mr_date m),
                 ch_last_message_preview := mr_text m\<rparr>
      in if mr_is_from_me m then c' else c'\<lparr>ch_unread_count := ch_unread_count c + 1\<rparr>)"

text \<open>The references a message row makes: its chat, and its sender when there is one.\<close>

definition refs_ok :: "db \<Rightarrow> MessageRow \<Rightarrow> bool" where
  "refs_ok d m \<longleftrightarrow> chat_exists d (mr_chat_guid m) \<and> (\<forall>h. mr_handle_id m = Some h \<longrightarrow> handle_exists d h)"

definition put_message :: "MessageRow \<Rightarrow> db \<Rightarrow> db" where
  "put_message m d = (delete_message (mr_guid m) d)\<lparr>
     messages := replace_row ms_guid (message_of_row m) (messages d),
     chats := update_where (\<lambda>c. ch_guid c = mr_chat_guid m) (bump_chat m) (chats d)\<rparr>"

lemma update_where_update_where:
  "(\<And>r. p r \<Longrightarrow> p (f r)) \<Longrightarrow> update_where p g (update_where p f t) = update_where p (g \<circ> f) t"
  by (simp add: update_where_def)

lemma insert_message_eq:
  "insert_message m d = (if refs_ok d m then (Inr (), put_message m d) else (Inl ForeignKeyFailed, d))"
proof (cases "refs_ok d m")
  case True
  let ?d = "(delete_message (mr_guid m) d)\<lparr>messages := replace_row ms_guid (message_of_row m) (messages d)\<rparr>"
  have "replace_message (message_of_row m) d = Inr ?d"
    using True by (auto simp: replace_message_def refs_ok_def message_of_row_def Let_def
        delete_message_def replace_row_def split: option.splits)
  then show ?thesis
    using True by (simp add: insert_message_def sem_defs bnd_def update_chat_def put_message_def
        update_where_update_where bump_chat_def [abs_def] Let_def comp_def delete_message_def)
next
  case False
  then have "replace_message (message_of_row m) d = Inl ForeignKeyFailed"
    by (auto simp: replace_message_def refs_ok_def message_of_row_def split: option.splits)
  then show ?thesis using False by (simp add: insert_message_def sem_defs bnd_def)
qed

lemma put_message_frame [simp]:
  "handles (put_message m d) = handles d" "chat_handles (put_message m d) = chat_handles d"
  "kv (put_message m d) = kv d" "has_service (put_message m d) = has_service d"
  "handle_seq (put_message m d) = handle_seq d"
  by (simp_all add: put_message_def delete_message_def)

lemma lookup_message_put:
  "lookup_row ms_guid k (messages (put_message m d)) =
     (if k = mr_guid m then Some (message_of_row m) else lookup_row ms_guid k (messages d))"
  by (auto simp: put_message_def lookup_row_replace_row message_of_row_def)

lemma bump_chat_guid [simp]: "ch_guid (bump_chat m c) = ch_guid c"
  by (simp add: bump_chat_def Let_def)

lemma lookup_chat_put:
  "lookup_row ch_guid k (chats (put_message m d)) =
     map_option (\<lambda>c. if ch_guid c = mr_chat_guid m then bump_chat m c else c)
       (lookup_row ch_guid k (chats d))"
  by (simp add: put_message_def lookup_row_update_where)

lemma refs_ok_put: "refs_ok d m \<Longrightarrow> refs_ok (put_message m' d) m"
  by (auto simp: refs_ok_def put_message_def delete_message_def has_row_update_where)

text \<open>Storing a message is all or nothing. It fails exactly when the chat or a given sender does not
  exist, and then changes nothing. Otherwise the message is found under its guid with the values given
  and every other message is as before; its own chat takes the text as preview, the later of the two
  dates and counts one more unread message when it is incoming, every other chat is as before; and
  handles, members and settings are untouched.\<close>

theorem insert_message_spec:
  "case insert_message m d of
     (Inl e, d') \<Rightarrow> \<not> refs_ok d m \<and> e = ForeignKeyFailed \<and> d' = d
   | (Inr _, d') \<Rightarrow> refs_ok d m \<and>
       (\<forall>k. lookup_row ms_guid k (messages d') =
          (if k = mr_guid m then Some (message_of_row m) else lookup_row ms_guid k (messages d))) \<and>
       (\<forall>k. lookup_row ch_guid k (chats d') =
          (if k = mr_chat_guid m then map_option (bump_chat m) (lookup_row ch_guid k (chats d))
           else lookup_row ch_guid k (chats d))) \<and>
       handles d' = handles d \<and> chat_handles d' = chat_handles d \<and> kv d' = kv d"
proof -
  have "map_option (\<lambda>c. if ch_guid c = g then f c else c) (lookup_row ch_guid k (chats d)) =
      (if k = g then map_option f (lookup_row ch_guid k (chats d)) else lookup_row ch_guid k (chats d))"
    for f g k
    by (cases "lookup_row ch_guid k (chats d)") (auto dest: lookup_row_SomeD)
  then show ?thesis by (simp add: insert_message_eq lookup_message_put lookup_chat_put)
qed

text \<open>C23: A second delivery of the same incoming message does not add a message but resets the stored one:
  the row is written again from the delivery, so local edits and read marks are gone, its attachments and reactions
  are deleted, and the unread counter of the chat counts it a second time.\<close>

theorem redelivery_resets_message:
  assumes "wf_db d" and "refs_ok d m" and "\<not> mr_is_from_me m" and "message_exists d (mr_guid m)"
  shows "\<exists>d'. insert_message m d = (Inr (), d') \<and>
    length (messages d') = length (messages d) \<and>
    lookup_row ms_guid (mr_guid m) (messages d') = Some (message_of_row m) \<and>
    attachments_for_message (mr_guid m) d' = Inr [] \<and>
    (\<forall>r \<in> set (reactions d'). rx_message_guid r \<noteq> mr_guid m) \<and>
    map_option ch_unread_count (lookup_row ch_guid (mr_chat_guid m) (chats d')) =
      map_option (\<lambda>c. ch_unread_count c + 1) (lookup_row ch_guid (mr_chat_guid m) (chats d))"
proof -
  let ?d = "put_message m d"
  have "length (filter (\<lambda>x. ms_guid x \<noteq> mr_guid m) (messages d)) + 1 = length (messages d)"
    using assms(1,4) by (intro length_filter_other_key) (simp_all add: wf_db_def wf_messages_def)
  then have "length (messages ?d) = length (messages d)"
    by (simp add: put_message_def replace_row_def message_of_row_def)
  moreover have "attachments_for_message (mr_guid m) ?d = Inr []"
    by (simp add: attachments_for_message_def put_message_def delete_message_def)
  moreover have "\<forall>r \<in> set (reactions ?d). rx_message_guid r \<noteq> mr_guid m"
    by (simp add: put_message_def delete_message_def)
  moreover have "map_option ch_unread_count (lookup_row ch_guid (mr_chat_guid m) (chats ?d)) =
      map_option (\<lambda>c. ch_unread_count c + 1) (lookup_row ch_guid (mr_chat_guid m) (chats d))"
    using assms(3) by (cases "lookup_row ch_guid (mr_chat_guid m) (chats d)")
      (auto simp: lookup_chat_put bump_chat_def Let_def dest: lookup_row_SomeD)
  ultimately show ?thesis using assms(2) by (simp add: insert_message_eq lookup_message_put)
qed

theorem redelivery_resets_message_witness:
  fixes m :: MessageRow
  defines "m \<equiv> \<lparr>mr_guid = ''m1'', mr_chat_guid = ''c'', mr_handle_id = None, mr_sender_address = '''',
     mr_sender_display_name = '''', mr_text = ''hi'', mr_subject = '''', mr_is_from_me = False, mr_date = 5,
     mr_date_read = 0, mr_date_edited = 0, mr_is_unsent = False, mr_has_attachments = False,
     mr_thread_origin_guid = ''''\<rparr>"
  defines "d \<equiv> unsend_message ''m1'' (put_message m (upsert_chat ''c'' '''' SERVICE_SMS False 1 empty_db))"
  shows "\<exists>d'. insert_message m d = (Inr (), d') \<and>
    length (messages d') = length (messages d) \<and>
    lookup_row ms_guid (mr_guid m) (messages d') = Some (message_of_row m) \<and>
    attachments_for_message (mr_guid m) d' = Inr [] \<and>
    (\<forall>r \<in> set (reactions d'). rx_message_guid r \<noteq> mr_guid m) \<and>
    map_option ch_unread_count (lookup_row ch_guid (mr_chat_guid m) (chats d')) =
      map_option (\<lambda>c. ch_unread_count c + 1) (lookup_row ch_guid (mr_chat_guid m) (chats d))"
proof (rule redelivery_resets_message)
  let ?c = "upsert_chat ''c'' '''' SERVICE_SMS False 1 empty_db"
  have "refs_ok ?c m" by (simp add: refs_ok_def m_def upsert_chat_def upsert_row_def empty_db_def new_chat_def)
  then have "insert_message m ?c = (Inr (), put_message m ?c)" by (simp add: insert_message_eq)
  moreover have "wf_db ?c" by (intro wf_upsert_chat wf_empty_db)
  ultimately have "wf_db (put_message m ?c)" using preservesD [OF keeps_insert_message, of ?c m] by simp
  then show "wf_db d" unfolding d_def by (rule wf_unsend_message)
  show "refs_ok d m" using \<open>refs_ok ?c m\<close>
    by (simp add: d_def refs_ok_def m_def unsend_message_def update_message_def put_message_def
        delete_message_def has_row_update_where)
  show "\<not> mr_is_from_me m" by (simp add: m_def)
  show "message_exists d (mr_guid m)"
    by (simp add: d_def m_def unsend_message_def update_message_def has_row_update_where put_message_def
        message_of_row_def)
qed

section \<open>The participants of a chat\<close>

lemma set_chat_participants_Inr:
  "set_chat_participants g hs d = (Inr u, d') \<Longrightarrow>
     d' = d\<lparr>chat_handles := chat_handles d'\<rparr> \<and>
     set (chat_handles d') = {(c, h) \<in> set (chat_handles d). c \<noteq> g} \<union> Pair g ` set hs"
  by (auto simp: set_chat_participants_def attempt_def dest!: add_members_result split: sum.splits)

lemma set_chat_participants_frame: "\<exists>t. snd (set_chat_participants g hs d) = d\<lparr>chat_handles := t\<rparr>"
proof (cases "add_members g hs (d\<lparr>chat_handles := filter (\<lambda>(c, _). c \<noteq> g) (chat_handles d)\<rparr>)")
  case (Inl e)
  then have "snd (set_chat_participants g hs d) = d\<lparr>chat_handles := chat_handles d\<rparr>"
    by (simp add: set_chat_participants_def attempt_def)
  then show ?thesis ..
next
  case (Inr d')
  from add_members_result [OF this] have "d' = d\<lparr>chat_handles := chat_handles d'\<rparr>" by simp
  moreover have "snd (set_chat_participants g hs d) = d'"
    using Inr by (simp add: set_chat_participants_def attempt_def)
  ultimately show ?thesis by metis
qed

lemma set_chat_participants_other [simp]:
  "chats (snd (set_chat_participants g hs d)) = chats d"
  "handles (snd (set_chat_participants g hs d)) = handles d"
  "messages (snd (set_chat_participants g hs d)) = messages d"
  "kv (snd (set_chat_participants g hs d)) = kv d"
  using set_chat_participants_frame [of g hs d] by auto

lemma set_chat_participants_succeeds:
  "(\<exists>d'. set_chat_participants g hs d = (Inr (), d')) \<longleftrightarrow>
     hs = [] \<or> chat_exists d g \<and> list_all (handle_exists d) hs"
proof -
  let ?d = "d\<lparr>chat_handles := filter (\<lambda>(c, _). c \<noteq> g) (chat_handles d)\<rparr>"
  have "(\<exists>d'. set_chat_participants g hs d = (Inr (), d')) \<longleftrightarrow> (\<exists>d'. add_members g hs ?d = Inr d')"
    by (auto simp: set_chat_participants_def attempt_def split: sum.splits)
  then show ?thesis by (cases hs) (auto simp: add_members_Inr_iff list_all_iff)
qed

text \<open>Replacing the participants of a chat is one transaction. It succeeds exactly when there is
  nothing to insert or the chat and every handle exist; then the chat has exactly the given handles,
  other chats keep theirs and nothing else changes. When it fails, the old participants are still there.\<close>

theorem set_chat_participants_spec:
  "case set_chat_participants g hs d of
     (Inl e, d') \<Rightarrow> d' = d \<and> hs \<noteq> [] \<and> (chat_exists d g \<longrightarrow> (\<exists>h \<in> set hs. \<not> handle_exists d h))
   | (Inr _, d') \<Rightarrow> (hs = [] \<or> chat_exists d g \<and> list_all (handle_exists d) hs) \<and>
       d' = d\<lparr>chat_handles := chat_handles d'\<rparr> \<and>
       (\<forall>c h. (c, h) \<in> set (chat_handles d') \<longleftrightarrow>
          (if c = g then h \<in> set hs else (c, h) \<in> set (chat_handles d)))"
proof (cases "set_chat_participants g hs d")
  case (Pair r d')
  show ?thesis
  proof (cases r)
    case (Inl e)
    then have "d' = d"
      using Pair by (auto simp: set_chat_participants_def attempt_def split: sum.splits)
    moreover have "\<not> (hs = [] \<or> chat_exists d g \<and> list_all (handle_exists d) hs)"
      using set_chat_participants_succeeds [of g hs d] Pair Inl by auto
    ultimately show ?thesis by (auto simp: Pair Inl list_all_iff)
  next
    case (Inr u)
    with Pair have "set_chat_participants g hs d = (Inr (), d')" by simp
    with set_chat_participants_succeeds have "hs = [] \<or> chat_exists d g \<and> list_all (handle_exists d) hs"
      by blast
    with set_chat_participants_Inr [OF Pair [unfolded Inr]] show ?thesis
      by (auto simp: Pair Inr)
  qed
qed

theorem set_chat_participants_spec_witness:
  "fst (set_chat_participants ''c'' [1] empty_db) = Inl ForeignKeyFailed \<and>
   (case set_chat_participants ''c'' [1] empty_db of
     (Inl e, d') \<Rightarrow> d' = empty_db \<and> [1] \<noteq> ([] :: int list) \<and>
       (chat_exists empty_db ''c'' \<longrightarrow> (\<exists>h \<in> set [1]. \<not> handle_exists empty_db h))
   | (Inr _, d') \<Rightarrow> ([1] = ([] :: int list) \<or> chat_exists empty_db ''c'' \<and> list_all (handle_exists empty_db) [1]) \<and>
       d' = empty_db\<lparr>chat_handles := chat_handles d'\<rparr> \<and>
       (\<forall>c h. (c, h) \<in> set (chat_handles d') \<longleftrightarrow>
          (if c = ''c'' then h \<in> set [1] else (c, h) \<in> set (chat_handles empty_db))))"
  by (rule conjI [OF _ set_chat_participants_spec])
    (simp add: set_chat_participants_def attempt_def empty_db_def)

lemma map_filter_lookup:
  "(\<And>x. x \<in> set xs \<Longrightarrow> has_row key (f x) t) \<Longrightarrow>
   set (List.map_filter (\<lambda>x. lookup_row key (f x) t) xs) = (\<lambda>x. the (lookup_row key (f x) t)) ` set xs"
proof (induction xs)
  case (Cons x xs)
  then obtain r where "lookup_row key (f x) t = Some r"
    by (metis list.set_intros(1) lookup_row_None option.exhaust)
  with Cons show ?case by (simp add: map_filter_simps)
qed (simp add: map_filter_simps)

lemma chat_members_set:
  assumes "wf_db d"
  shows "set (chat_members g d) = {h \<in> set (handles d). (g, hd_id h) \<in> set (chat_handles d)}"
proof -
  let ?ps = "sort_key snd (filter (\<lambda>(c, _). c = g) (chat_handles d))"
  have ex: "\<And>x. x \<in> set ?ps \<Longrightarrow> has_row hd_id (snd x) (handles d)"
    using assms by (auto simp: wf_db_def wf_members_def)
  have "set (chat_members g d) = (\<lambda>x. the (lookup_row hd_id (snd x) (handles d))) ` set ?ps"
  proof -
    have "(\<lambda>(_, h). lookup_row hd_id h (handles d)) = (\<lambda>x :: string \<times> int. lookup_row hd_id (snd x) (handles d))"
      by auto
    then show ?thesis unfolding chat_members_def using map_filter_lookup [of ?ps hd_id snd, OF ex] by simp
  qed
  also have "\<dots> = {h \<in> set (handles d). (g, hd_id h) \<in> set (chat_handles d)}"
  proof -
    have D: "distinct (map hd_id (handles d))" using assms by (simp add: wf_db_def wf_handles_def)
    have "the (lookup_row hd_id i (handles d)) = h" if "h \<in> set (handles d)" "hd_id h = i" for h i
      using that lookup_row_Some [OF D, of i h] by simp
    moreover have "\<exists>h \<in> set (handles d). hd_id h = i" if "(g, i) \<in> set (chat_handles d)" for i
      using that assms by (force simp: wf_db_def wf_members_def has_row_iff)
    ultimately show ?thesis by (fastforce simp: image_iff)
  qed
  finally show ?thesis .
qed

text \<open>After the participants of a chat have been set, the addresses a message to the chat is sent
  to are exactly the addresses of those handles, in alphabetical order.\<close>

theorem participant_addresses_after_set:
  assumes "wf_db d" and "set_chat_participants g hs d = (Inr (), d')"
  shows "sorted (participant_addresses g d') \<and>
    set (participant_addresses g d') = {hd_address h | h. h \<in> set (handles d) \<and> hd_id h \<in> set hs}"
proof -
  have "wf_db d'"
    using preservesD [OF keeps_set_chat_participants [of g hs] assms(1)] assms(2) by simp
  moreover have "set (chat_handles d') = {(c, h) \<in> set (chat_handles d). c \<noteq> g} \<union> Pair g ` set hs"
    using set_chat_participants_Inr [OF assms(2)] by simp
  moreover have "handles d' = handles d"
    using set_chat_participants_other(2) [of g hs d] assms(2) by simp
  ultimately have "set (chat_members g d') = {h \<in> set (handles d). hd_id h \<in> set hs}"
    by (auto simp: chat_members_set)
  moreover have "sorted (map hd_address (sort_key hd_address (chat_members g d')))"
    by (rule sorted_sort_key)
  ultimately show ?thesis by (auto simp: participant_addresses_def)
qed

theorem participant_addresses_after_set_witness:
  fixes d :: db
  defines "d \<equiv> insert_handle ''b'' ''SMS'' '''' 0 (insert_handle ''a'' ''SMS'' '''' 0
     (upsert_chat ''c'' '''' ''SMS'' False 0 empty_db))"
  shows "sorted (participant_addresses ''c'' (snd (set_chat_participants ''c'' [2, 1, 2] d))) \<and>
    set (participant_addresses ''c'' (snd (set_chat_participants ''c'' [2, 1, 2] d))) =
      {hd_address h | h. h \<in> set (handles d) \<and> hd_id h \<in> set [2, 1, 2]}"
proof (rule participant_addresses_after_set)
  show "wf_db d" unfolding d_def by (intro wf_insert_handle wf_upsert_chat wf_empty_db)
  show "set_chat_participants ''c'' [2, 1, 2] d = (Inr (), snd (set_chat_participants ''c'' [2, 1, 2] d))"
    by (simp add: d_def set_chat_participants_def attempt_def insert_handle_def empty_db_def
        upsert_chat_def upsert_row_def new_chat_def hd_key_def)
qed

section \<open>Migration\<close>

lemma repair_services_idem: "repair_services (repair_services d) = repair_services d"
  by (simp add: repair_services_def update_where_def comp_def service_unknown_def
      SERVICE_IMESSAGE_def SERVICE_SMS_def SERVICE_RCS_def)

lemma service_known_after_repair:
  "c \<in> set (chats (repair_services d)) \<Longrightarrow> \<not> service_unknown c"
  by (auto simp: repair_services_def set_update_where service_unknown_def
      SERVICE_IMESSAGE_def SERVICE_SMS_def SERVICE_RCS_def split: if_splits)

text \<open>Opening a database, new or old, gives every chat one of the three known services; opening it
  again changes nothing.\<close>

theorem open_repairs_services:
  "list_all (\<lambda>c. \<not> service_unknown c) (chats (open_db file)) \<and>
   open_db (Some (open_db file)) = open_db file"
proof -
  have "has_service (repair_services (add_service_column d))" for d
    by (simp add: repair_services_def add_service_column_def)
  then have "migrate (migrate d) = migrate d" for d
    by (simp add: migrate_def add_service_column_def [of "repair_services (add_service_column d)"]
        repair_services_idem)
  moreover have "list_all (\<lambda>c. \<not> service_unknown c) (chats (migrate d))" for d
    by (simp add: list_all_iff migrate_def service_known_after_repair)
  ultimately show ?thesis by (simp add: open_db_def)
qed

text \<open>The backfill does nothing for a database made before the service column existed: adding the
  column has already filled it with iMessage, so every chat of such a file is an iMessage chat
  afterwards, also those whose old flag says SMS.\<close>

theorem legacy_chats_become_imessage:
  assumes "\<not> has_service d"
  shows "map ch_service (chats (open_db (Some d))) = replicate (length (chats d)) (Some SERVICE_IMESSAGE) \<and>
    map ch_is_imessage (chats (open_db (Some d))) = map ch_is_imessage (chats d)"
proof -
  have "map f (chats (open_db (Some d))) = map (f \<circ> (\<lambda>c. c\<lparr>ch_service := Some SERVICE_IMESSAGE\<rparr>)) (chats d)"
    for f :: "chat_rec \<Rightarrow> 'a"
    using assms by (simp add: open_db_def migrate_def add_service_column_def repair_services_def
        update_where_def service_unknown_def SERVICE_IMESSAGE_def)
  from this [of ch_service] this [of ch_is_imessage] show ?thesis
    by (simp add: comp_def map_replicate_const)
qed

theorem legacy_chats_become_imessage_witness:
  fixes d :: db
  defines "d \<equiv> empty_db\<lparr>has_service := False,
     chats := [(new_chat ''c'' '''' SERVICE_SMS False 0)\<lparr>ch_service := None\<rparr>]\<rparr>"
  shows "map ch_is_imessage (chats d) = [0] \<and>
    map ch_service (chats (open_db (Some d))) = replicate (length (chats d)) (Some SERVICE_IMESSAGE) \<and>
    map ch_is_imessage (chats (open_db (Some d))) = map ch_is_imessage (chats d)"
  by (rule conjI [OF _ legacy_chats_become_imessage])
    (simp_all add: d_def new_chat_def SERVICE_SMS_def SERVICE_IMESSAGE_def)

section \<open>Reactions\<close>

definition reactions_like :: "string \<Rightarrow> int option \<Rightarrow> string \<Rightarrow> db \<Rightarrow> reaction_rec list" where
  "reactions_like g h r d = filter (\<lambda>x. reaction_key x = (g, h, r)) (reactions d)"

text \<open>A reaction from a known handle is stored once, however often it arrives. A reaction without a
  handle, which is how the user's own tapbacks are stored, adds one more row each time.\<close>

theorem add_reaction_count:
  assumes "message_exists d g"
  shows "length (reactions_like g h r (snd (add_reaction g h me r now d))) =
    (case h of Some _ \<Rightarrow> 1 | None \<Rightarrow> length (reactions_like g h r d) + 1)"
proof -
  let ?x = "new_reaction g h me r now"
  have s: "snd (add_reaction g h me r now d) =
      d\<lparr>reactions := filter (\<lambda>x. \<not> same_reaction ?x x) (reactions d) @ [?x]\<rparr>"
    using assms by (simp add: add_reaction_def attempt_def replace_reaction_def new_reaction_def)
  have "(\<lambda>x. reaction_key x = (g, h, r) \<and> \<not> same_reaction ?x x) =
      (\<lambda>x. h = None \<and> reaction_key x = (g, h, r))"
    by (auto simp: fun_eq_iff same_reaction_def reaction_key_def new_reaction_def)
  then have "filter (\<lambda>x. reaction_key x = (g, h, r)) (filter (\<lambda>x. \<not> same_reaction ?x x) (reactions d)) =
      (if h = None then reactions_like g h r d else [])"
    by (simp add: reactions_like_def conj_commute)
  moreover have "reaction_key ?x = (g, h, r)" by (simp add: reaction_key_def new_reaction_def)
  ultimately show ?thesis by (auto simp: s reactions_like_def [of _ _ _ "d\<lparr>reactions := _\<rparr>"] split: option.splits)
qed

theorem add_reaction_count_witness:
  fixes d :: db
  defines "d \<equiv> empty_db\<lparr>messages := [message_of_row \<lparr>mr_guid = ''m'', mr_chat_guid = ''c'',
     mr_handle_id = None, mr_sender_address = '''', mr_sender_display_name = '''', mr_text = '''',
     mr_subject = '''', mr_is_from_me = True, mr_date = 0, mr_date_read = 0, mr_date_edited = 0,
     mr_is_unsent = False, mr_has_attachments = False, mr_thread_origin_guid = ''''\<rparr>],
     reactions := [new_reaction ''m'' None True ''love'' 1]\<rparr>"
  shows "length (reactions_like ''m'' None ''love'' (snd (add_reaction ''m'' None True ''love'' 2 d))) = 2"
proof -
  have "message_exists d ''m''" by (simp add: d_def message_of_row_def)
  from add_reaction_count [OF this, of None "''love''" True 2] show ?thesis
    by (simp add: d_def reactions_like_def reaction_key_def new_reaction_def)
qed

end
