(* ===== verification/StorageRun.thy ===== *)
theory StorageRun
  imports StorageSpec
begin

text \<open>
  Sequences of storage operations, as the rest of the program issues them: integrity over any run,
  failed operations without an effect, and the chat list, which can be read back on any run.
\<close>

section \<open>Runs\<close>

datatype storage_op =
    KvSet string string
  | UpsertHandle string string string
  | UpsertChat string string string bool
  | SetParticipants string "int list"
  | SetPin string bool int
  | SetArchived string bool
  | InsertMessage MessageRow
  | MarkRead string
  | EditMessage string string
  | UnsendMessage string
  | AddReaction string "int option" bool string
  | InsertAttachment string string string string int string

text \<open>\<open>now\<close> is what \<open>now_epoch\<close> returns when the operation runs.\<close>

fun exec_op :: "int \<Rightarrow> storage_op \<Rightarrow> unit sql" where
  "exec_op now (KvSet k v) = modify (kv_set k v)"
| "exec_op now (UpsertHandle a s n) = bnd (upsert_handle a s n now) (\<lambda>_. ok ())"
| "exec_op now (UpsertChat g t s grp) = modify (upsert_chat g t s grp now)"
| "exec_op now (SetParticipants g hs) = set_chat_participants g hs"
| "exec_op now (SetPin g p n) = modify (set_chat_pin g p n)"
| "exec_op now (SetArchived g a) = modify (set_chat_archived g a)"
| "exec_op now (InsertMessage m) = insert_message m"
| "exec_op now (MarkRead g) = modify (mark_chat_read g now)"
| "exec_op now (EditMessage g t) = modify (edit_message g t now)"
| "exec_op now (UnsendMessage g) = modify (unsend_message g)"
| "exec_op now (AddReaction g h me r) = add_reaction g h me r now"
| "exec_op now (InsertAttachment g mg fn mime n p) = insert_attachment g mg fn mime n p"

definition run_storage :: "(int \<times> storage_op) list \<Rightarrow> db \<Rightarrow> db" where
  "run_storage ops d = fold (\<lambda>(now, op) d. snd (exec_op now op d)) ops d"

lemma run_storage_Nil [simp]: "run_storage [] d = d"
  by (simp add: run_storage_def)

lemma run_storage_snoc [simp]:
  "run_storage (ops @ [(now, op)]) d = snd (exec_op now op (run_storage ops d))"
  by (simp add: run_storage_def)

lemma run_storage_keeps:
  assumes "\<And>now op. preserves P (exec_op now op)" and "P d"
  shows "P (run_storage ops d)"
proof (induction ops rule: rev_induct)
  case (snoc x ops)
  then show ?case by (cases x) (simp add: preservesD [OF assms(1)])
qed (simp add: assms(2))

lemma keeps_exec_op [keeps]: "preserves wf_db (exec_op now op)"
  by (cases op)
    (auto intro!: keeps preserves_modify wf_kv_set wf_upsert_chat wf_set_chat_pin wf_set_chat_archived
      wf_mark_chat_read wf_edit_message wf_unsend_message)

lemma wf_db_run: "wf_db d \<Longrightarrow> wf_db (run_storage ops d)"
  by (rule run_storage_keeps) (rule keeps_exec_op)

text \<open>C1: On a fresh database every run of storage operations, in any order and with any arguments,
  whether the single operations succeed or fail, leaves a database in which every uniqueness
  constraint and every foreign key of the schema holds.\<close>

theorem storage_integrity: "wf_db (run_storage ops (open_db None))"
  by (intro wf_db_run wf_open_db) simp

section \<open>A failed operation has no effect\<close>

lemma attempt_failed: "attempt f d = (Inl e, d') \<Longrightarrow> d' = d"
  by (simp add: attempt_def split: sum.splits)

lemma insert_attachment_failed: "insert_attachment g mg fn mime n p d = (Inl e, d') \<Longrightarrow> d' = d"
  by (auto simp: insert_attachment_def sem_defs bnd_def split: sum.splits prod.splits)


section \<open>The chat list\<close>

text \<open>
  What the columns of \<open>chats\<close> hold after a run: a known service column, flags that are 0 or 1, pin
  orders in the range of \<open>i32\<close> and an unread counter that moved at most once per operation.
\<close>

definition chat_cols :: "nat \<Rightarrow> chat_rec \<Rightarrow> bool" where
  "chat_cols n c \<longleftrightarrow> ch_service c \<noteq> None \<and> ch_is_pinned c \<in> {0, 1} \<and> in_i32 (ch_pin_order c) \<and>
     0 \<le> ch_unread_count c \<and> ch_unread_count c \<le> int n"

definition cols_ok :: "nat \<Rightarrow> db \<Rightarrow> bool" where
  "cols_ok n d \<longleftrightarrow> (\<forall>c \<in> set (chats d). chat_cols n c)"

fun i32_pins :: "storage_op \<Rightarrow> bool" where
  "i32_pins (SetPin _ _ n) = in_i32 n"
| "i32_pins _ = True"

lemma chat_cols_mono: "chat_cols n c \<Longrightarrow> n \<le> m \<Longrightarrow> chat_cols m c"
  by (auto simp: chat_cols_def)

lemma cols_ok_same: "cols_ok n d \<Longrightarrow> chats d' = chats d \<Longrightarrow> cols_ok (Suc n) d'"
  by (auto simp: cols_ok_def intro: chat_cols_mono)

lemma cols_ok_update_chat:
  "cols_ok n d \<Longrightarrow> (\<And>c. chat_cols n c \<Longrightarrow> chat_cols (Suc n) (f c)) \<Longrightarrow> cols_ok (Suc n) (update_chat g f d)"
  by (auto simp: cols_ok_def update_chat_def set_update_where intro: chat_cols_mono)

lemma cols_ok_upsert_chat: "cols_ok n d \<Longrightarrow> cols_ok (Suc n) (upsert_chat g t s grp now d)"
  by (auto simp: cols_ok_def upsert_chat_def upsert_row_def set_update_where chat_cols_def new_chat_def
      in_i32_def split: if_splits)

lemma cols_ok_put_message:
  assumes "cols_ok n d"
  shows "cols_ok (Suc n) (put_message m d)"
proof -
  have "chat_cols (Suc n) (bump_chat m c)" if "chat_cols n c" for c
    using that by (auto simp: bump_chat_def chat_cols_def Let_def)
  then show ?thesis
    using assms by (auto simp: cols_ok_def put_message_def set_update_where intro: chat_cols_mono)
qed

lemma chats_insert_handle [simp]: "chats (insert_handle a s n now d) = chats d"
  by (simp add: insert_handle_def)

lemma cols_ok_exec:
  assumes "cols_ok n d" and "i32_pins op"
  shows "cols_ok (Suc n) (snd (exec_op now op d))"
proof (cases op)
  case (KvSet k v)
  then show ?thesis by (simp add: modify_def cols_ok_same [OF assms(1)])
next
  case (UpsertHandle a s n')
  then show ?thesis by (simp add: bnd_def upsert_handle_id ok_def cols_ok_same [OF assms(1)])
next
  case (UpsertChat g t s grp)
  then show ?thesis by (simp add: modify_def cols_ok_upsert_chat [OF assms(1)])
next
  case (SetParticipants g hs)
  then show ?thesis by (simp add: cols_ok_same [OF assms(1)])
next
  case (SetPin g p k)
  then show ?thesis using assms(2)
    by (auto simp: modify_def set_chat_pin_def chat_cols_def intro!: cols_ok_update_chat [OF assms(1)])
next
  case (SetArchived g a)
  then show ?thesis
    by (auto simp: modify_def set_chat_archived_def chat_cols_def intro!: cols_ok_update_chat [OF assms(1)])
next
  case (InsertMessage m)
  then show ?thesis
    by (simp add: insert_message_eq cols_ok_put_message cols_ok_same [OF assms(1)] assms(1))
next
  case (MarkRead g)
  have "cols_ok n (d\<lparr>messages := ms\<rparr>)" for ms using assms(1) by (simp add: cols_ok_def)
  from cols_ok_update_chat [OF this] show ?thesis
    by (auto simp: MarkRead modify_def mark_chat_read_def chat_cols_def)
next
  case (AddReaction g h me r)
  then show ?thesis
    by (auto simp: add_reaction_def attempt_def replace_reaction_def cols_ok_same [OF assms(1)])
next
  case (InsertAttachment g mg fn mime n' p)
  then show ?thesis
    by (auto simp: insert_attachment_def sem_defs bnd_def replace_attachment_def update_message_def
        cols_ok_same [OF assms(1)])
qed (simp_all add: modify_def edit_message_def unsend_message_def update_message_def
      cols_ok_same [OF assms(1)])

lemma cols_ok_run:
  assumes "\<forall>(now, op) \<in> set ops. i32_pins op" and "cols_ok 0 d"
  shows "cols_ok (length ops) (run_storage ops d)"
  using assms(1)
proof (induction ops rule: rev_induct)
  case (snoc x ops)
  then show ?case by (cases x) (simp add: cols_ok_exec)
qed (simp add: assms(2))

definition chat_row :: "chat_rec \<Rightarrow> ChatRow" where
  "chat_row c = \<lparr>cr_guid = ch_guid c, cr_title = ch_title c, cr_service = the (ch_service c),
     cr_is_group = (ch_is_group c \<noteq> 0), cr_is_archived = (ch_is_archived c \<noteq> 0),
     cr_is_pinned = (ch_is_pinned c \<noteq> 0), cr_pin_order = ch_pin_order c,
     cr_unread_count = ch_unread_count c, cr_last_message_date = ch_last_message_date c,
     cr_last_message_preview = ch_last_message_preview c, cr_participant_summary = ''''\<rparr>"

lemma read_chat_ok: "chat_cols n c \<Longrightarrow> n < 2 ^ 31 \<Longrightarrow> read_chat c = Inr (chat_row c)"
  by (auto simp: chat_cols_def read_chat_def read_i32_def in_i32_def chat_row_def)

lemma list_chats_ok:
  assumes "cols_ok n d" and "n < 2 ^ 31"
  shows "list_chats ia d = Inr (map chat_row (sort_key chat_order
    (filter (\<lambda>c. ia \<or> ch_is_archived c = 0) (chats d))))"
  unfolding list_chats_def
  by (subst collect_map_eq [where g = chat_row])
    (use assms in \<open>auto simp: cols_ok_def intro!: read_chat_ok split: if_splits\<close>)

text \<open>What the UI relies on: pinned chats first, by their pin order, then the newest.\<close>

definition row_order :: "ChatRow \<Rightarrow> int \<times> int \<times> int" where
  "row_order r = (- of_bool (cr_is_pinned r), cr_pin_order r, - cr_last_message_date r)"

lemma row_order_chat_row: "chat_cols n c \<Longrightarrow> row_order (chat_row c) = chat_order c"
  by (auto simp: chat_cols_def row_order_def chat_row_def chat_order_def)

lemma sorted_chat_rows:
  assumes "cols_ok n d"
  shows "sorted (map row_order (map chat_row (sort_key chat_order (filter p (chats d)))))"
proof -
  have "map row_order (map chat_row (sort_key chat_order (filter p (chats d)))) =
      map chat_order (sort_key chat_order (filter p (chats d)))"
    using assms by (auto simp: cols_ok_def row_order_chat_row)
  then show ?thesis by (simp only: sorted_sort_key)
qed

text \<open>As long as fewer than 2 to the 31 operations have run since a fresh database was opened and
  every pin order was an i32, the chat list can be read: it has exactly one row for each chat (for
  each chat that is not archived, when archived ones are left out), pinned chats first in pin order,
  then by the date of the last message, newest first.\<close>

theorem list_chats_after_run:
  assumes "\<forall>(now, op) \<in> set ops. i32_pins op" and "length ops < 2 ^ 31"
  shows "\<exists>rows. list_chats ia (run_storage ops (open_db None)) = Inr rows \<and> sorted (map row_order rows) \<and>
    distinct (map cr_guid rows) \<and>
    set (map cr_guid rows) =
      {ch_guid c | c. c \<in> set (chats (run_storage ops (open_db None))) \<and> (ia \<or> ch_is_archived c = 0)}"
proof -
  let ?d = "run_storage ops (open_db None)"
  let ?cs = "filter (\<lambda>c. ia \<or> ch_is_archived c = 0) (chats ?d)"
  have "cols_ok 0 (open_db None)"
    by (simp add: open_db_def empty_db_def migrate_def add_service_column_def repair_services_def cols_ok_def)
  with assms(1) have cols: "cols_ok (length ops) ?d" by (rule cols_ok_run)
  have "wf_db ?d" by (intro wf_db_run wf_open_db) simp
  then have "distinct (map ch_guid ?cs)" by (simp add: wf_db_def wf_chats_def distinct_map_filter)
  then have "distinct (map ch_guid (sort_key chat_order ?cs))"
    by (simp add: distinct_map)
  then have "distinct (map cr_guid (map chat_row (sort_key chat_order ?cs)))"
    by (simp add: comp_def chat_row_def)
  moreover have "set (map cr_guid (map chat_row (sort_key chat_order ?cs))) =
      {ch_guid c | c. c \<in> set (chats ?d) \<and> (ia \<or> ch_is_archived c = 0)}"
    by (auto simp: chat_row_def)
  ultimately show ?thesis
    using list_chats_ok [OF cols assms(2)] sorted_chat_rows [OF cols] by blast
qed

theorem list_chats_after_run_witness:
  "\<exists>rows. list_chats False (run_storage [(7, UpsertChat ''a'' ''t'' SERVICE_SMS False),
       (8, SetPin ''a'' True 3)] (open_db None)) = Inr rows \<and> sorted (map row_order rows) \<and>
    distinct (map cr_guid rows) \<and>
    set (map cr_guid rows) = {ch_guid c | c. c \<in> set (chats (run_storage
       [(7, UpsertChat ''a'' ''t'' SERVICE_SMS False), (8, SetPin ''a'' True 3)] (open_db None))) \<and>
       (False \<or> ch_is_archived c = 0)}"
  by (rule list_chats_after_run) (simp_all add: in_i32_def)

section \<open>Handle ids\<close>

lemma handle_id_of_same: "handles d' = handles d \<Longrightarrow> handle_id_of k d' = handle_id_of k d"
  by (simp add: handle_id_of_def)

lemma handles_exec_op:
  "(\<And>a s n. op \<noteq> UpsertHandle a s n) \<Longrightarrow> handles (snd (exec_op now op d)) = handles d"
  by (cases op)
    (auto simp: sem_defs bnd_def upsert_chat_def set_chat_pin_def set_chat_archived_def update_chat_def
      insert_message_eq mark_chat_read_def edit_message_def unsend_message_def update_message_def
      add_reaction_def replace_reaction_def insert_attachment_def replace_attachment_def)

lemma handle_id_of_exec: "handle_id_of k d = Some i \<Longrightarrow> handle_id_of k (snd (exec_op now op d)) = Some i"
proof (cases "\<exists>a s n. op = UpsertHandle a s n")
  case True
  moreover assume "handle_id_of k d = Some i"
  ultimately show ?thesis by (auto simp: bnd_def upsert_handle_id ok_def handle_id_of_insert)
next
  case False
  moreover assume "handle_id_of k d = Some i"
  ultimately show ?thesis using handles_exec_op [of op now d] handle_id_of_same by metis
qed

lemma handle_id_of_run: "handle_id_of k d = Some i \<Longrightarrow> handle_id_of k (run_storage ops d) = Some i"
proof (induction ops rule: rev_induct)
  case (snoc x ops)
  then show ?case by (cases x) (simp add: handle_id_of_exec)
qed simp

text \<open>The id that an upsert returns for an address on a service names that handle for good: after
  any further operations an upsert of the same pair returns the same id, and an upsert of another pair
  returns another one.\<close>

theorem handle_ids_stable:
  assumes "wf_db d" and "upsert_handle a s n now d = (Inr i, d1)"
  shows "(fst (upsert_handle a' s' n' now' (run_storage ops d1)) = Inr i) \<longleftrightarrow> (a', s') = (a, s)"
proof -
  let ?d2 = "run_storage ops d1" and ?e = "insert_handle a' s' n' now' (run_storage ops d1)"
  have "handle_id_of (a, s) d1 = Some i"
    using upsert_handle_result [of a s n now d] assms(2) by (auto simp: handle_id_of_def)
  then have i: "handle_id_of (a, s) ?d2 = Some i" by (rule handle_id_of_run)
  then have e: "handle_id_of (a, s) ?e = Some i" by (auto simp: handle_id_of_insert)
  obtain j where j: "handle_id_of (a', s') ?e = Some j" by (auto simp: handle_id_of_insert)
  have "wf_db d1" using preservesD [OF keeps_upsert_handle assms(1)] assms(2) by (metis snd_conv)
  then have "wf_db ?e" by (intro wf_insert_handle wf_db_run)
  with e j have "j = i \<longleftrightarrow> (a', s') = (a, s)" by (metis handle_id_of_inj option.inject)
  with j show ?thesis by (simp only: upsert_handle_id fst_conv sum.inject option.sel)
qed

theorem handle_ids_stable_witness:
  "(fst (upsert_handle ''b'' ''SMS'' '''' 9 (run_storage [(3, UpsertHandle ''a'' ''SMS'' ''Ann'')]
      (insert_handle ''b'' ''SMS'' ''Bob'' 1 empty_db))) = Inr 1) \<longleftrightarrow> (''b'', ''SMS'') = (''b'', ''SMS'')"
  by (rule handle_ids_stable [where d = empty_db and n = "''Bob''" and now = 1])
    (simp_all add: wf_empty_db upsert_handle_id handle_id_of_insert, simp add: handle_id_of_def empty_db_def)

section \<open>Unread messages\<close>

definition unread_messages :: "string \<Rightarrow> db \<Rightarrow> message_rec list" where
  "unread_messages g d =
     filter (\<lambda>m. ms_chat_guid m = g \<and> ms_is_from_me m = 0 \<and> ms_date_read m = 0) (messages d)"

text \<open>The badge of a chat counts at least its unread messages.\<close>

definition badges_ok :: "db \<Rightarrow> bool" where
  "badges_ok d \<longleftrightarrow> (\<forall>c \<in> set (chats d). int (length (unread_messages (ch_guid c) d)) \<le> ch_unread_count c)"

text \<open>An operation on messages that leaves the other tables alone and adds no unread message.\<close>

lemma badges_ok_mono:
  assumes "badges_ok d" and "chats d' = chats d"
    and "\<And>g. length (unread_messages g d') \<le> length (unread_messages g d)"
  shows "badges_ok d'"
  using assms unfolding badges_ok_def by (metis dual_order.trans of_nat_mono)

lemma badges_ok_update_chat:
  assumes "badges_ok d" and "\<And>c. ch_guid (f c) = ch_guid c \<and> ch_unread_count c \<le> ch_unread_count (f c)"
  shows "badges_ok (update_chat g f d)"
  using assms unfolding badges_ok_def unread_messages_def update_chat_def
  by (fastforce simp: set_update_where intro: order_trans)

lemma unread_put_message:
  "length (unread_messages g (put_message m d)) \<le>
     length (unread_messages g d) + (if \<not> mr_is_from_me m \<and> mr_chat_guid m = g then 1 else 0)"
proof -
  have "length (filter P (filter Q xs)) \<le> length (filter P xs)" for P Q and xs :: "message_rec list"
    by (induction xs) auto
  then show ?thesis
    by (auto simp: unread_messages_def put_message_def replace_row_def message_of_row_def
        simp del: filter_filter intro: le_SucI)
qed

lemma badges_ok_put_message:
  assumes "badges_ok d"
  shows "badges_ok (put_message m d)"
  unfolding badges_ok_def
proof (rule ballI)
  fix c assume "c \<in> set (chats (put_message m d))"
  then obtain c0 where c0: "c0 \<in> set (chats d)"
      and c: "c = (if ch_guid c0 = mr_chat_guid m then bump_chat m c0 else c0)"
    by (auto simp: put_message_def set_update_where)
  from assms c0 have "int (length (unread_messages (ch_guid c0) d)) \<le> ch_unread_count c0"
    by (simp add: badges_ok_def)
  with unread_put_message [of "ch_guid c0" m d]
  show "int (length (unread_messages (ch_guid c) (put_message m d))) \<le> ch_unread_count c"
    by (auto simp: c bump_chat_def Let_def split: if_splits)
qed

lemma badges_ok_upsert_chat:
  assumes "badges_ok d" and "wf_db d"
  shows "badges_ok (upsert_chat g t s grp now d)"
proof (cases "chat_exists d g")
  case True
  then show ?thesis using assms(1)
    by (auto simp: badges_ok_def unread_messages_def upsert_chat_def upsert_row_def new_chat_def set_update_where)
next
  case False
  with assms(2) have "unread_messages g d = []"
    by (auto simp: unread_messages_def wf_db_def wf_messages_def filter_empty_conv)
  with False show ?thesis using assms(1)
    by (auto simp: badges_ok_def unread_messages_def upsert_chat_def upsert_row_def new_chat_def)
qed

lemma badges_ok_mark_chat_read:
  assumes "badges_ok d" and "now \<noteq> 0"
  shows "badges_ok (mark_chat_read g now d)"
proof -
  have "filter (\<lambda>m. ms_chat_guid m = k \<and> ms_is_from_me m = 0 \<and> ms_date_read m = 0)
      (update_where (\<lambda>m. ms_chat_guid m = g \<and> ms_is_from_me m = 0 \<and> ms_date_read m = 0)
        (\<lambda>m. m\<lparr>ms_date_read := now\<rparr>) xs) =
      (if k = g then [] else filter (\<lambda>m. ms_chat_guid m = k \<and> ms_is_from_me m = 0 \<and> ms_date_read m = 0) xs)"
    for k and xs :: "message_rec list"
    using assms(2) by (induction xs) auto
  then have u: "unread_messages k (mark_chat_read g now d) = (if k = g then [] else unread_messages k d)" for k
    by (simp add: unread_messages_def mark_chat_read_def update_chat_def)
  show ?thesis unfolding badges_ok_def
  proof (rule ballI)
    fix c assume "c \<in> set (chats (mark_chat_read g now d))"
    then obtain c0 where c0: "c0 \<in> set (chats d)"
        and c: "c = (if ch_guid c0 = g then c0\<lparr>ch_unread_count := 0\<rparr> else c0)"
      by (auto simp: mark_chat_read_def update_chat_def set_update_where)
    from assms(1) c0 have "int (length (unread_messages (ch_guid c0) d)) \<le> ch_unread_count c0"
      by (simp add: badges_ok_def)
    then show "int (length (unread_messages (ch_guid c) (mark_chat_read g now d))) \<le> ch_unread_count c"
      by (simp add: c u)
  qed
qed

lemma badges_ok_update_message:
  assumes "badges_ok d"
    and "\<And>m. ms_chat_guid (f m) = ms_chat_guid m \<and> ms_is_from_me (f m) = ms_is_from_me m \<and>
           ms_date_read (f m) = ms_date_read m"
  shows "badges_ok (update_message g f d)"
proof (rule badges_ok_mono [OF assms(1)])
  have "length (filter P (update_where Q f xs)) = length (filter P xs)"
    if "\<And>m. P (f m) = P m" for P Q xs
    using that by (induction xs) (auto simp: update_where_def)
  then show "length (unread_messages k (update_message g f d)) \<le> length (unread_messages k d)" for k
    using assms(2) by (simp add: unread_messages_def update_message_def)
qed (simp add: update_message_def)

fun clock_ok :: "int \<times> storage_op \<Rightarrow> bool" where
  "clock_ok (now, MarkRead _) = (now \<noteq> 0)"
| "clock_ok _ = True"

lemma badges_ok_same:
  "badges_ok d \<Longrightarrow> chats d' = chats d \<Longrightarrow> messages d' = messages d \<Longrightarrow> badges_ok d'"
  by (simp add: badges_ok_def unread_messages_def)

lemma badges_ok_exec:
  assumes b: "badges_ok d" and wf: "wf_db d" and clk: "clock_ok (now, op)"
  shows "badges_ok (snd (exec_op now op d))"
proof (cases op)
  case (UpsertChat g t s grp)
  then show ?thesis by (simp add: modify_def badges_ok_upsert_chat [OF b wf])
next
  case (SetParticipants g hs)
  then show ?thesis by (simp add: badges_ok_same [OF b])
next
  case (InsertMessage m)
  then show ?thesis by (simp add: insert_message_eq badges_ok_put_message b)
next
  case (MarkRead g)
  then show ?thesis using clk by (simp add: modify_def badges_ok_mark_chat_read b)
next
  case (UpsertHandle a s n)
  then show ?thesis
    by (simp add: bnd_def upsert_handle_id ok_def badges_ok_same [OF b] insert_handle_def)
next
  case (InsertAttachment g mg fn mime n p)
  have "badges_ok (d\<lparr>attachments := t\<rparr>)" for t by (rule badges_ok_same [OF b]) simp_all
  then show ?thesis using b
    by (simp add: InsertAttachment insert_attachment_def sem_defs bnd_def replace_attachment_def
        badges_ok_update_message)
next
  case (AddReaction g h me r)
  then show ?thesis
    by (simp add: add_reaction_def attempt_def replace_reaction_def badges_ok_same [OF b] b)
qed (simp_all add: modify_def set_chat_pin_def set_chat_archived_def edit_message_def unsend_message_def
    badges_ok_same [OF b] badges_ok_update_chat [OF b] badges_ok_update_message [OF b])

lemma badges_ok_run:
  assumes "list_all clock_ok ops" and "badges_ok d" and "wf_db d"
  shows "badges_ok (run_storage ops d)"
  using assms(1)
proof (induction ops rule: rev_induct)
  case (snoc x ops)
  then show ?case by (cases x) (simp add: badges_ok_exec wf_db_run assms(3))
qed (simp add: assms(2))

text \<open>C22: The unread badge of a chat never shows less than the number of its stored incoming messages
  that have no read date, after any run of operations in which the clock was not at the epoch when a
  chat was marked read.\<close>

theorem badge_covers_unread:
  assumes "list_all clock_ok ops" and "lookup_row ch_guid g (chats (run_storage ops (open_db None))) = Some c"
  shows "int (length (unread_messages g (run_storage ops (open_db None)))) \<le> ch_unread_count c"
proof -
  have "badges_ok (open_db None)"
    by (simp add: open_db_def empty_db_def migrate_def add_service_column_def repair_services_def badges_ok_def)
  with assms(1) have "badges_ok (run_storage ops (open_db None))"
    by (intro badges_ok_run wf_open_db) simp_all
  with lookup_row_SomeD [OF assms(2)] show ?thesis by (auto simp: badges_ok_def)
qed

theorem badge_covers_unread_witness:
  fixes m :: MessageRow
  defines "m \<equiv> \<lparr>mr_guid = ''m1'', mr_chat_guid = ''c'', mr_handle_id = None, mr_sender_address = '''',
     mr_sender_display_name = '''', mr_text = ''hi'', mr_subject = '''', mr_is_from_me = False, mr_date = 5,
     mr_date_read = 0, mr_date_edited = 0, mr_is_unsent = False, mr_has_attachments = False,
     mr_thread_origin_guid = ''''\<rparr>"
  defines "ops \<equiv> [(1, UpsertChat ''c'' '''' ''SMS'' False), (2, MarkRead ''c''), (3, InsertMessage m)]"
  shows "int (length (unread_messages ''c'' (run_storage ops (open_db None)))) \<le>
    ch_unread_count (the (lookup_row ch_guid ''c'' (chats (run_storage ops (open_db None)))))"
proof (rule badge_covers_unread)
  show "list_all clock_ok ops" by (simp add: ops_def)
  have "chat_exists (run_storage ops (open_db None)) ''c''"
    by (simp add: ops_def run_storage_def modify_def open_db_def migrate_def add_service_column_def
        repair_services_def empty_db_def upsert_chat_def upsert_row_def new_chat_def mark_chat_read_def
        update_chat_def insert_message_eq put_message_def delete_message_def has_row_update_where)
  then show "lookup_row ch_guid ''c'' (chats (run_storage ops (open_db None))) =
      Some (the (lookup_row ch_guid ''c'' (chats (run_storage ops (open_db None)))))"
    by (metis lookup_row_None option.exhaust_sel)
qed

end
