(* ===== verification/Receive.thy ===== *)
theory Receive
  imports Events Integration StorageRun
begin

text \<open>
  \<open>rust/src/receive.rs\<close>: from a decoded inbound message to rows in the database and events. The message
  types are those of \<open>Messages\<close>.
  \<open>lower\<close> is \<open>str::to_lowercase\<close> (Unicode), \<open>raw_text\<close>, \<open>has_attachments\<close> and \<open>is_sms\<close> are methods of rustpush.
\<close>

section \<open>What the loop asks of rustpush\<close>

record inbound_env =
  lower :: "string \<Rightarrow> string"
  is_sms :: "Message \<Rightarrow> bool"
  raw_text :: "IndexedMessagePart list \<Rightarrow> string"
  has_attachments :: "IndexedMessagePart list \<Rightarrow> bool"
  sql_text :: "sql_error \<Rightarrow> string"

section \<open>Chat guids\<close>

definition chat_guid_for :: "(string \<Rightarrow> string) \<Rightarrow> string list \<Rightarrow> bool \<Rightarrow> string" where
  "chat_guid_for low participants is_imessage =
     (let sorted = remdups_adj (sort (map low participants));
          prefix = (if is_imessage then ''imessage'' else ''sms'')
      in prefix @ '';'' @ join_strs '','' sorted)"

definition epoch_seconds :: "64 word \<Rightarrow> int" where
  "epoch_seconds sent_timestamp_ms = sint (sent_timestamp_ms div 1000)"

section \<open>Storing a message\<close>

text \<open>Errors of the storage reach the caller as their text.\<close>

definition sql_err :: "inbound_env \<Rightarrow> 'a sql \<Rightarrow> (db, string, 'a) sem" where
  "sql_err env m d = (case m d of (Inl e, d') \<Rightarrow> (Inl (sql_text env e), d') | (Inr x, d') \<Rightarrow> (Inr x, d'))"

definition or_empty :: "string option \<Rightarrow> string" where
  "or_empty x = (case x of None \<Rightarrow> '''' | Some s \<Rightarrow> s)"

definition incoming_row ::
    "inbound_env \<Rightarrow> MessageInst \<Rightarrow> IndexedMessagePart list \<Rightarrow> string \<Rightarrow> int option \<Rightarrow> MessageRow" where
  "incoming_row env inst parts chat_guid handle_id = \<lparr>mr_guid = mi_id inst, mr_chat_guid = chat_guid,
     mr_handle_id = handle_id, mr_sender_address = or_empty (mi_sender inst),
     mr_sender_display_name = '''', mr_text = raw_text env parts, mr_subject = '''',
     mr_is_from_me = False, mr_date = epoch_seconds (mi_sent_timestamp inst), mr_date_read = 0,
     mr_date_edited = 0, mr_is_unsent = False, mr_has_attachments = has_attachments env parts,
     mr_thread_origin_guid = ''''\<rparr>"

text \<open>\<open>now\<close> is the clock during the call; the lock on the storage is held until the row is in.\<close>

definition store_rows ::
    "inbound_env \<Rightarrow> int \<Rightarrow> MessageInst \<Rightarrow> IndexedMessagePart list \<Rightarrow> ConversationData \<Rightarrow> unit sql" where
  "store_rows env now inst parts conversation =
     (let is_imessage = (\<not> is_sms env (mi_message inst));
          chat_guid = chat_guid_for (lower env) (cd_participants conversation) is_imessage;
          sender = or_empty (mi_sender inst);
          title = or_empty (cd_cv_name conversation);
          service = (if is_imessage then SERVICE_IMESSAGE else SERVICE_SMS)
      in thn (modify (upsert_chat chat_guid title service (length (cd_participants conversation) > 2) now))
        (bnd (for_each (\<lambda>address. upsert_handle address service '''' now) (cd_participants conversation))
          (\<lambda>handle_ids. thn (set_chat_participants chat_guid handle_ids)
          (bnd (if sender = [] then ok None
                else bnd (upsert_handle sender service '''' now) (\<lambda>i. ok (Some i)))
            (\<lambda>handle_id. insert_message (incoming_row env inst parts chat_guid handle_id))))))"

definition store_message ::
    "inbound_env \<Rightarrow> int \<Rightarrow> MessageInst \<Rightarrow> IndexedMessagePart list \<Rightarrow> (db \<times> event_bus, string, unit) sem" where
  "store_message env now inst parts = (\<lambda>(d, q).
     case mi_conversation inst of
       None \<Rightarrow> (Inl ''message with no conversation'', (d, q))
     | Some conversation \<Rightarrow>
         (case sql_err env (store_rows env now inst parts conversation) d of
            (Inl e, d') \<Rightarrow> (Inl e, (d', q))
          | (Inr _, d') \<Rightarrow> (Inr (), (d', send_event (MessageArrived
              (chat_guid_for (lower env) (cd_participants conversation) (\<not> is_sms env (mi_message inst)))
              (mi_id inst)) q))))"

section \<open>The receive loop\<close>

text \<open>
  What \<open>stream.recv().await\<close> and \<open>client.handle(frame).await\<close> can give: a frame with the outcome of
  decoding it, a note that \<open>n\<close> frames were dropped, or the end of the stream.
\<close>

datatype recv_result =
    Frame "string + MessageInst option"
  | Lagged nat
  | Closed

definition handle_inst :: "inbound_env \<Rightarrow> int \<Rightarrow> MessageInst \<Rightarrow> db \<times> event_bus \<Rightarrow> db \<times> event_bus" where
  "handle_inst env now inst = (\<lambda>(d, q).
     case mi_message inst of
       Message normal \<Rightarrow>
         (case store_message env now inst (nm_parts normal) (d, q) of
            (Inl e, (d', q')) \<Rightarrow> (d', send_event (Error (''storing message: '' @ e)) q')
          | (Inr _, (d', q')) \<Rightarrow> (d', q'))
     | Typing is_typing _ \<Rightarrow>
         (case mi_conversation inst of None \<Rightarrow> (d, q)
          | Some conv \<Rightarrow> (d, send_event (TypingStatusChanged
              (chat_guid_for (lower env) (cd_participants conv) (\<not> is_sms env (mi_message inst)))
              is_typing) q))
     | _ \<Rightarrow> (d, q))"

text \<open>One round of the loop; the first component says whether it goes on.\<close>

definition receive_round ::
    "inbound_env \<Rightarrow> int \<Rightarrow> recv_result \<Rightarrow> db \<times> event_bus \<Rightarrow> bool \<times> db \<times> event_bus" where
  "receive_round env now r = (\<lambda>(d, q).
     case r of
       Lagged n \<Rightarrow> (True, d, send_event (Warn (''receive loop fell behind, dropped '' @ show_nat n)) q)
     | Closed \<Rightarrow> (False, d, send_event (Warn ''receive loop stopped'') q)
     | Frame (Inl e) \<Rightarrow> (True, d, send_event (Warn (''decoding inbound message: '' @ e)) q)
     | Frame (Inr None) \<Rightarrow> (True, d, q)
     | Frame (Inr (Some inst)) \<Rightarrow> (True, handle_inst env now inst (d, q)))"

text \<open>The whole of \<open>run\<close> over the results it reads; it stops at the first \<open>Closed\<close>.\<close>

fun receive_loop :: "inbound_env \<Rightarrow> (int \<times> recv_result) list \<Rightarrow> db \<times> event_bus \<Rightarrow> db \<times> event_bus" where
  "receive_loop env [] s = s"
| "receive_loop env ((now, r) # rs) s =
     (case receive_round env now r s of (True, s') \<Rightarrow> receive_loop env rs s' | (False, s') \<Rightarrow> s')"

definition receive_start :: "AuthSession \<Rightarrow> event_bus \<Rightarrow> bool \<times> event_bus" where
  "receive_start s q =
     (case as_im_client s of
        None \<Rightarrow> (False, send_event (Warn ''receive loop started with no IMClient'') q)
      | Some _ \<Rightarrow> (True, send_event (Info ''listening for messages'') q))"

definition receive_run ::
    "inbound_env \<Rightarrow> AuthSession \<Rightarrow> (int \<times> recv_result) list \<Rightarrow> db \<times> event_bus \<Rightarrow> db \<times> event_bus" where
  "receive_run env s rs = (\<lambda>(d, q).
     case receive_start s q of (False, q') \<Rightarrow> (d, q') | (True, q') \<Rightarrow> receive_loop env rs (d, q'))"

end
