(* ===== verification/ReceiveSpec.thy ===== *)
theory ReceiveSpec
  imports Receive
begin

text \<open>
  What the inbound half promises: the same participants always mean the same chat, a message with a
  conversation is always stored and announced, and the loop survives everything but the end of the
  stream.
\<close>

section \<open>Chat guids\<close>

lemma distinct_remdups_adj_sorted: "sorted xs \<Longrightarrow> distinct (remdups_adj xs)" for xs :: "'a :: linorder list"
  by (induction xs rule: remdups_adj.induct) auto

lemma distinct_remdups_adj_sort: "distinct (remdups_adj (sort xs))" for xs :: "'a :: linorder list"
  by (simp add: distinct_remdups_adj_sorted)

lemma remdups_adj_sort_eq: "remdups_adj (sort xs) = sorted_list_of_set (set xs)" for xs :: "'a :: linorder list"
  by (rule sorted_distinct_set_unique) (simp_all add: sorted_remdups_adj distinct_remdups_adj_sort)

lemma chat_guid_for_set:
  "chat_guid_for low ps im =
     (if im then ''imessage'' else ''sms'') @ '';'' @ join_strs '','' (sorted_list_of_set (low ` set ps))"
  by (simp add: chat_guid_for_def Let_def remdups_adj_sort_eq)

text \<open>\<open>join\<close> with a comma can be undone when no part has a comma and no part is empty.\<close>

lemma takeWhile_comma: "CHR '','' \<notin> set x \<Longrightarrow> takeWhile (\<lambda>c. c \<noteq> CHR '','') (x @ CHR '','' # r) = x"
  by (induction x) auto

lemma join_strs_inj:
  "CHR '','' \<notin> \<Union> (set ` set xs) \<Longrightarrow> CHR '','' \<notin> \<Union> (set ` set ys) \<Longrightarrow> [] \<notin> set xs \<Longrightarrow> [] \<notin> set ys \<Longrightarrow>
   join_strs '','' xs = join_strs '','' ys \<Longrightarrow> xs = ys"
proof (induction xs arbitrary: ys)
  case Nil
  then show ?case by (cases ys rule: list.exhaust; cases "tl ys") auto
next
  case (Cons x xs)
  have one: "CHR '','' \<notin> set (join_strs '','' [z])" if "CHR '','' \<notin> set z" for z using that by simp
  from Cons.prems obtain y ys' where ys: "ys = y # ys'"
    by (cases ys; cases xs) auto
  show ?case
  proof (cases "xs = [] \<or> ys' = []")
    case True
    then show ?thesis
    proof (cases "xs = []")
      case True
      then show ?thesis using Cons.prems ys by (cases ys') auto
    next
      case False
      with \<open>xs = [] \<or> ys' = []\<close> show ?thesis using Cons.prems ys by (cases xs) auto
    qed
  next
    case False
    then obtain x' xs' y' ys'' where xs: "xs = x' # xs'" and ys': "ys' = y' # ys''"
      by (meson neq_Nil_conv)
    have e: "x @ CHR '','' # join_strs '','' xs = y @ CHR '','' # join_strs '','' ys'"
      using Cons.prems(5) by (simp add: ys xs ys')
    moreover have "x = y"
      using takeWhile_comma [of x] takeWhile_comma [of y] e Cons.prems(1,2) by (metis UN_I list.set_intros(1) ys)
    ultimately have "join_strs '','' xs = join_strs '','' ys'" by simp
    with Cons.IH [of ys'] Cons.prems \<open>x = y\<close> show ?thesis by (simp add: ys)
  qed
qed

definition plain_address :: "string \<Rightarrow> bool" where
  "plain_address a \<longleftrightarrow> a \<noteq> [] \<and> CHR '','' \<notin> set a"

lemma chat_guid_for_inj:
  assumes p: "\<forall>a \<in> low ` (set ps \<union> set qs). plain_address a"
    and e: "chat_guid_for low ps im = chat_guid_for low qs im'"
  shows "im = im' \<and> low ` set ps = low ` set qs"
proof -
  have "im = im'" using e by (cases im; cases im') (simp_all add: chat_guid_for_set)
  then have j: "join_strs '','' (sorted_list_of_set (low ` set ps)) = join_strs '','' (sorted_list_of_set (low ` set qs))"
    using e by (simp add: chat_guid_for_set)
  have "sorted_list_of_set (low ` set ps) = sorted_list_of_set (low ` set qs)"
    by (rule join_strs_inj [OF _ _ _ _ j]) (use p in \<open>fastforce simp: plain_address_def\<close>)+
  then have "low ` set ps = low ` set qs"
    by (metis List.finite_set finite_imageI set_sorted_list_of_set)
  with \<open>im = im'\<close> show ?thesis by simp
qed

text \<open>C36: The guid of a chat identifies the conversation: for addresses without commas, two inbound
  messages land in the same chat exactly when they have the same set of participants, whatever the
  order, repetitions and case of the addresses, and the same service.\<close>

theorem chat_guid_identifies_conversation:
  assumes "\<forall>a \<in> low ` (set ps \<union> set qs). plain_address a"
  shows "chat_guid_for low ps im = chat_guid_for low qs im' \<longleftrightarrow> im = im' \<and> low ` set ps = low ` set qs"
proof
  assume "chat_guid_for low ps im = chat_guid_for low qs im'"
  with assms show "im = im' \<and> low ` set ps = low ` set qs" by (rule chat_guid_for_inj)
next
  assume "im = im' \<and> low ` set ps = low ` set qs"
  then show "chat_guid_for low ps im = chat_guid_for low qs im'" by (simp add: chat_guid_for_set)
qed

lemma lower_AB:
  "to_ascii_lowercase ''A'' = ''a''" "to_ascii_lowercase ''B'' = ''b''"
  "to_ascii_lowercase ''a'' = ''a''" "to_ascii_lowercase ''b'' = ''b''"
  by code_simp+

theorem chat_guid_identifies_conversation_witness:
  "chat_guid_for to_ascii_lowercase [''B'', ''a'', ''b''] True = chat_guid_for to_ascii_lowercase [''A'', ''b''] True"
proof -
  have "\<forall>a \<in> to_ascii_lowercase ` (set [''B'', ''a'', ''b''] \<union> set [''A'', ''b'']). plain_address a"
    by (simp add: lower_AB plain_address_def)
  from chat_guid_identifies_conversation [OF this, of True True] show ?thesis
    by (auto simp: lower_AB)
qed

text \<open>A comma inside an address makes two different conversations collide.\<close>

lemma chat_guid_comma_collision:
  "chat_guid_for id [''a,b''] True = chat_guid_for id [''a'', ''b''] True"
  by (simp add: chat_guid_for_def Let_def)

section \<open>Timestamps\<close>

lemma sint_seconds: "sint (w div 1000) = int (unat w div 1000)" for w :: "64 word"
proof -
  have "unat w < 2 ^ 64" using unsigned_less [of w, where 'a = nat] by simp
  then have "unat w div 1000 < 2 ^ 63" by (rule less_mult_imp_div_less [OF order.strict_trans2]) simp
  note small = this
  have u: "unat (w div 1000) = unat w div 1000" by (simp add: unat_div)
  from small have "int (unat w div 1000) < int (2 ^ 63)" by (simp only: of_nat_less_iff)
  then have "uint (w div 1000) < 2 ^ 63" by (simp only: uint_nat u of_nat_power of_nat_numeral)
  then have "signed_take_bit (64 - 1) (uint (w div 1000)) = uint (w div 1000)"
    by (intro signed_take_bit_int_eq_self order_trans [OF _ unsigned_greater_eq]) simp_all
  moreover have "sint (w div 1000) = signed_take_bit (64 - 1) (uint (w div 1000))"
    by (simp only: sint_uint len_bit0 len_num1 mult_1_right numeral_One) simp
  ultimately show ?thesis by (simp only: uint_nat u)
qed
text \<open>The conversion of a timestamp in milliseconds never overflows: the seconds stored are the
  quotient by 1000, not negative, for every 64-bit value.\<close>

theorem epoch_seconds_exact: "epoch_seconds w = int (unat w div 1000) \<and> 0 \<le> epoch_seconds w"
  by (simp add: epoch_seconds_def sint_seconds)

section \<open>Storing a message\<close>

lemma upsert_each_handle:
  assumes "wf_db d"
  shows "\<exists>hs d'. for_each (\<lambda>a. upsert_handle a svc '''' now) ps d = (Inr hs, d') \<and> wf_db d' \<and>
    chats d' = chats d \<and> messages d' = messages d \<and>
    map Some hs = map (\<lambda>a. handle_id_of (a, svc) d') ps \<and>
    (\<forall>k i. handle_id_of k d = Some i \<longrightarrow> handle_id_of k d' = Some i)"
  using assms
proof (induction ps arbitrary: d)
  case Nil
  then show ?case by (simp add: ok_def)
next
  case (Cons p ps)
  let ?d1 = "insert_handle p svc '''' now d"
  obtain i where i: "handle_id_of (p, svc) ?d1 = Some i" by (auto simp: handle_id_of_insert)
  have keep: "handle_id_of k d = Some j \<Longrightarrow> handle_id_of k ?d1 = Some j" for k j
    by (auto simp: handle_id_of_insert)
  from Cons.IH [OF wf_insert_handle [OF Cons.prems]] obtain hs d' where
    "for_each (\<lambda>a. upsert_handle a svc '''' now) ps ?d1 = (Inr hs, d')" "wf_db d'"
    "chats d' = chats ?d1" "messages d' = messages ?d1"
    "map Some hs = map (\<lambda>a. handle_id_of (a, svc) d') ps"
    "\<forall>k i. handle_id_of k ?d1 = Some i \<longrightarrow> handle_id_of k d' = Some i" by blast
  moreover have "messages ?d1 = messages d" by (simp add: insert_handle_def)
  moreover have "upsert_handle p svc '''' now d = (Inr i, ?d1)" using i by (simp add: upsert_handle_id)
  ultimately show ?case using i keep by (simp add: bnd_def ok_def)
qed

lemma handle_exists_of_id: "handle_id_of k d = Some i \<Longrightarrow> handle_exists d i"
  by (auto simp: handle_id_of_def has_row_iff dest!: lookup_row_SomeD)

lemma handle_of_id:
  assumes "wf_db d" and "h \<in> set (handles d)"
  shows "handle_id_of k d = Some (hd_id h) \<longleftrightarrow> hd_key h = k"
proof -
  have "distinct (map hd_key (handles d))" using assms(1) by (simp add: wf_db_def wf_handles_def)
  then have "handle_id_of (hd_key h) d = Some (hd_id h)"
    using assms(2) by (auto simp: handle_id_of_def lookup_row_Some [THEN iffD2])
  with handle_id_of_inj [OF assms(1)] show ?thesis by metis
qed

lemma chat_exists_upsert_chat [simp]: "chat_exists (upsert_chat g t s grp now d) g"
  by (simp add: upsert_chat_def has_row_upsert_row new_chat_def)

lemma list_all_handle_exists:
  "map Some hs = map (\<lambda>a. handle_id_of (a, svc) d) ps \<Longrightarrow> list_all (handle_exists d) hs"
proof (induction hs arbitrary: ps)
  case (Cons h hs)
  then obtain p ps' where "ps = p # ps'" "handle_id_of (p, svc) d = Some h"
      "map Some hs = map (\<lambda>a. handle_id_of (a, svc) d) ps'" by (cases ps) auto
  with Cons.IH show ?case by (simp add: handle_exists_of_id)
qed simp

text \<open>What the storage holds after \<open>store_rows\<close>, which cannot fail on a database that is in order.\<close>

lemma store_rows_ok:
  fixes env :: inbound_env and inst :: MessageInst and conv :: ConversationData
  assumes wf: "wf_db d"
  defines "im \<equiv> \<not> is_sms env (mi_message inst)"
  defines "g \<equiv> chat_guid_for (lower env) (cd_participants conv) im"
    and "svc \<equiv> (if im then SERVICE_IMESSAGE else SERVICE_SMS)"
  shows "\<exists>hs d3 h. store_rows env now inst parts conv d =
      (Inr (), put_message (incoming_row env inst parts g h) d3) \<and>
    wf_db d3 \<and> refs_ok d3 (incoming_row env inst parts g h) \<and>
    messages d3 = messages d \<and>
    chats d3 = chats (upsert_chat g (or_empty (cd_cv_name conv)) svc (length (cd_participants conv) > 2) now d) \<and>
    map Some hs = map (\<lambda>a. handle_id_of (a, svc) d3) (cd_participants conv) \<and>
    (\<forall>i. (g, i) \<in> set (chat_handles d3) \<longleftrightarrow> i \<in> set hs) \<and>
    h = (if or_empty (mi_sender inst) = [] then None else handle_id_of (or_empty (mi_sender inst), svc) d3) \<and>
    (h = None \<longleftrightarrow> or_empty (mi_sender inst) = [])"
proof -
  let ?ps = "cd_participants conv" and ?sender = "or_empty (mi_sender inst)"
  let ?d0 = "upsert_chat g (or_empty (cd_cv_name conv)) svc (length ?ps > 2) now d"
  from upsert_each_handle [OF wf_upsert_chat [OF wf]] obtain hs d1 where
    each: "for_each (\<lambda>a. upsert_handle a svc '''' now) ?ps ?d0 = (Inr hs, d1)"
    and wf1: "wf_db d1" and c1: "chats d1 = chats ?d0" and m1: "messages d1 = messages ?d0"
    and ids1: "map Some hs = map (\<lambda>a. handle_id_of (a, svc) d1) ?ps" by blast
  have "chat_exists d1 g" by (simp add: c1)
  with list_all_handle_exists [OF ids1] obtain d2 where
    s2: "set_chat_participants g hs d1 = (Inr (), d2)"
    using set_chat_participants_succeeds by blast
  note frame = set_chat_participants_other [of g hs d1, unfolded s2 snd_conv]
  have wf2: "wf_db d2" using preservesD [OF keeps_set_chat_participants wf1, of g hs] s2 by simp
  have mem2: "(g, i) \<in> set (chat_handles d2) \<longleftrightarrow> i \<in> set hs" for i
    using set_chat_participants_Inr [OF s2] by auto
  let ?d3 = "if ?sender = [] then d2 else insert_handle ?sender svc '''' now d2"
  let ?h = "if ?sender = [] then None else handle_id_of (?sender, svc) ?d3"
  have h: "(if ?sender = [] then ok None else bnd (upsert_handle ?sender svc '''' now) (\<lambda>i. ok (Some i))) d2 =
      (Inr ?h, ?d3)"
    by (auto simp: ok_def bnd_def upsert_handle_id handle_id_of_insert)
  have wf3: "wf_db ?d3" using wf2 by (simp add: wf_insert_handle)
  have keep: "chats ?d3 = chats d2" "messages ?d3 = messages d2" "chat_handles ?d3 = chat_handles d2"
    by (simp_all add: insert_handle_def)
  have "handle_id_of (a, svc) ?d3 = handle_id_of (a, svc) d1" if "a \<in> set ?ps" for a
  proof -
    from that ids1 have "handle_id_of (a, svc) d1 \<in> Some ` set hs"
      by (metis (no_types, lifting) imageI image_set)
    then show ?thesis
      by (auto simp: handle_id_of_insert handle_id_of_same [OF frame(2)])
  qed
  then have ids3: "map Some hs = map (\<lambda>a. handle_id_of (a, svc) ?d3) ?ps" using ids1 by simp
  have "handle_exists ?d3 i" if "?h = Some i" for i
    using that by (auto intro: handle_exists_of_id split: if_splits)
  then have refs: "refs_ok ?d3 (incoming_row env inst parts g ?h)"
    using keep(1) by (simp add: refs_ok_def incoming_row_def frame(1) c1)
  have "store_rows env now inst parts conv d =
      insert_message (incoming_row env inst parts g ?h) ?d3"
    using each s2 h unfolding store_rows_def Let_def im_def [symmetric] g_def [symmetric] svc_def [symmetric]
    by (simp add: thn_def modify_def bnd_def [of "modify _"] bnd_def)
  then have "store_rows env now inst parts conv d = (Inr (), put_message (incoming_row env inst parts g ?h) ?d3)"
    using refs by (simp add: insert_message_eq)
  moreover have "messages ?d3 = messages d" using keep(2) by (simp add: frame(3) m1 upsert_chat_def)
  moreover have "chats ?d3 = chats ?d0" using keep(1) by (simp add: frame(1) c1)
  moreover have "?h = None \<longleftrightarrow> ?sender = []" by (simp add: handle_id_of_insert)
  ultimately show ?thesis using wf3 refs ids3 mem2 keep(3)
    by (intro exI [of _ hs] exI [of _ ?d3] exI [of _ ?h]) simp
qed

lemma chat_members_ids:
  assumes "wf_db d" and ids: "map Some hs = map (\<lambda>a. handle_id_of (a, svc) d) ps"
    and mem: "\<forall>i. (g, i) \<in> set (chat_handles d) \<longleftrightarrow> i \<in> set hs"
  shows "set (participant_addresses g d) = set ps"
proof -
  have ids': "Some ` set hs = (\<lambda>a. handle_id_of (a, svc) d) ` set ps"
    using arg_cong [OF ids, of set] by simp
  have key: "handle_id_of (a, svc) d = Some (hd_id h) \<longleftrightarrow> hd_key h = (a, svc)"
    if "h \<in> set (handles d)" for a h
    using handle_of_id [OF assms(1) that] .
  have "hd_address h \<in> set ps" if h: "h \<in> set (handles d)" and "hd_id h \<in> set hs" for h
  proof -
    from that ids' have "Some (hd_id h) \<in> (\<lambda>a. handle_id_of (a, svc) d) ` set ps" by blast
    then obtain a where "a \<in> set ps" "handle_id_of (a, svc) d = Some (hd_id h)" by auto
    with key [OF h] show ?thesis by (simp add: hd_key_def)
  qed
  moreover have "\<exists>h \<in> set (handles d). hd_id h \<in> set hs \<and> hd_address h = a" if "a \<in> set ps" for a
  proof -
    from that ids' obtain i where i: "handle_id_of (a, svc) d = Some i" "i \<in> set hs" by (metis image_iff)
    then obtain h where "h \<in> set (handles d)" "hd_key h = (a, svc)" "hd_id h = i"
      by (auto simp: handle_id_of_def dest!: lookup_row_SomeD)
    with i(2) show ?thesis by (auto simp: hd_key_def)
  qed
  ultimately show ?thesis
    using chat_members_set [OF assms(1), of g] mem
    by (auto simp: participant_addresses_def image_iff)
qed

lemma chat_after_put:
  assumes "chats d3 = chats (upsert_chat g t svc grp now d)" and "mr_chat_guid r = g" and "\<not> mr_is_from_me r"
  shows "\<exists>c. lookup_row ch_guid g (chats (put_message r d3)) = Some c \<and> ch_service c = Some svc \<and>
    ch_title c = t \<and>
    ch_unread_count c = (case lookup_row ch_guid g (chats d) of None \<Rightarrow> 0 | Some c0 \<Rightarrow> ch_unread_count c0) + 1"
proof (cases "lookup_row ch_guid g (chats d)")
  case None
  with assms show ?thesis
    by (simp add: lookup_chat_put upsert_chat_def lookup_row_upsert_row new_chat_def bump_chat_def Let_def)
next
  case (Some c)
  with assms show ?thesis
    by (auto simp: lookup_chat_put upsert_chat_def lookup_row_upsert_row new_chat_def bump_chat_def Let_def
        dest: lookup_row_SomeD)
qed

text \<open>An inbound message with a conversation is always stored and announced: on a database that is
  in order the call succeeds, keeps the integrity, sends one arrival event, stores the text and the
  date under the id of the message with its sender, and leaves a chat of the right service and title
  whose participants are exactly those of the conversation, with one more unread message.\<close>

theorem store_message_spec:
  fixes env :: inbound_env and inst :: MessageInst and conv :: ConversationData
  assumes "wf_db d" and "mi_conversation inst = Some conv"
  defines "im \<equiv> \<not> is_sms env (mi_message inst)"
  defines "g \<equiv> chat_guid_for (lower env) (cd_participants conv) im"
  shows "\<exists>d' m c. store_message env now inst parts (d, q) = (Inr (), (d', q @ [MessageArrived g (mi_id inst)])) \<and>
    wf_db d' \<and> lookup_row ms_guid (mi_id inst) (messages d') = Some m \<and>
    ms_text m = raw_text env parts \<and> ms_date m = epoch_seconds (mi_sent_timestamp inst) \<and>
    ms_chat_guid m = g \<and> ms_date_read m = 0 \<and> ms_is_from_me m = 0 \<and> mr_sender_address (message_view d' m) = or_empty (mi_sender inst) \<and>
    lookup_row ch_guid g (chats d') = Some c \<and>
    ch_service c = Some (if im then SERVICE_IMESSAGE else SERVICE_SMS) \<and>
    ch_title c = or_empty (cd_cv_name conv) \<and>
    ch_unread_count c = (case lookup_row ch_guid g (chats d) of None \<Rightarrow> 0 | Some c0 \<Rightarrow> ch_unread_count c0) + 1 \<and>
    set (participant_addresses g d') = set (cd_participants conv)"
proof -
  let ?svc = "if im then SERVICE_IMESSAGE else SERVICE_SMS" and ?sender = "or_empty (mi_sender inst)"
  from store_rows_ok [OF assms(1), of env now inst parts conv, folded im_def, folded g_def]
  obtain hs d3 h where run: "store_rows env now inst parts conv d =
      (Inr (), put_message (incoming_row env inst parts g h) d3)"
    and wf3: "wf_db d3" and refs: "refs_ok d3 (incoming_row env inst parts g h)"
    and ch: "chats d3 = chats (upsert_chat g (or_empty (cd_cv_name conv)) ?svc (length (cd_participants conv) > 2) now d)"
    and ids: "map Some hs = map (\<lambda>a. handle_id_of (a, ?svc) d3) (cd_participants conv)"
    and mem: "\<forall>i. (g, i) \<in> set (chat_handles d3) \<longleftrightarrow> i \<in> set hs"
    and h: "h = (if ?sender = [] then None else handle_id_of (?sender, ?svc) d3)" "h = None \<longleftrightarrow> ?sender = []"
    by (elim exE conjE) (rule that)
  let ?row = "incoming_row env inst parts g h" and ?d = "put_message (incoming_row env inst parts g h) d3"
  have "insert_message ?row d3 = (Inr (), ?d)" using refs by (simp add: insert_message_eq)
  then have wf: "wf_db ?d" using preservesD [OF keeps_insert_message wf3, of ?row] by simp
  have msg: "lookup_row ms_guid (mi_id inst) (messages ?d) = Some (message_of_row ?row)"
    by (simp add: lookup_message_put incoming_row_def)
  have view: "mr_sender_address (message_view ?d (message_of_row ?row)) = ?sender"
  proof (cases h)
    case None
    then have "?sender = []" using h(2) by simp
    then show ?thesis by (simp add: None message_view_def message_of_row_def incoming_row_def)
  next
    case (Some i)
    then have "handle_id_of (?sender, ?svc) d3 = Some i" using h(1) by (simp split: if_splits)
    then obtain r where r: "r \<in> set (handles d3)" "hd_key r = (?sender, ?svc)" "hd_id r = i"
      by (auto simp: handle_id_of_def dest!: lookup_row_SomeD)
    then have "lookup_row hd_id i (handles d3) = Some r"
      using wf3 by (simp add: lookup_row_Some wf_db_def wf_handles_def)
    then show ?thesis using r(2)
      by (simp add: Some message_view_def message_of_row_def incoming_row_def hd_key_def)
  qed
  have "set (participant_addresses g d3) = set (cd_participants conv)"
    using wf3 ids mem by (rule chat_members_ids)
  moreover have "participant_addresses g ?d = participant_addresses g d3"
    by (simp add: participant_addresses_def chat_members_def)
  moreover obtain c where c: "lookup_row ch_guid g (chats ?d) = Some c"
      and "ch_service c = Some ?svc" and "ch_title c = or_empty (cd_cv_name conv)"
      and "ch_unread_count c =
        (case lookup_row ch_guid g (chats d) of None \<Rightarrow> 0 | Some c0 \<Rightarrow> ch_unread_count c0) + 1"
    using chat_after_put [OF ch, of ?row] by (auto simp: incoming_row_def)
  moreover have "store_message env now inst parts (d, q) = (Inr (), (?d, q @ [MessageArrived g (mi_id inst)]))"
    using run by (simp add: store_message_def assms(2) sql_err_def send_event_def g_def im_def)
  moreover have "ms_text (message_of_row ?row) = raw_text env parts"
      "ms_date (message_of_row ?row) = epoch_seconds (mi_sent_timestamp inst)"
      "ms_chat_guid (message_of_row ?row) = g" "ms_date_read (message_of_row ?row) = 0"
      "ms_is_from_me (message_of_row ?row) = 0"
    by (simp_all add: message_of_row_def incoming_row_def)
  ultimately show ?thesis using wf msg view
    by (intro exI [of _ ?d] exI [of _ "message_of_row ?row"] exI [of _ c]) simp
qed

text \<open>A concrete message.\<close>

definition sample_inbound :: inbound_env where
  "sample_inbound = \<lparr>lower = to_ascii_lowercase, is_sms = (\<lambda>_. False), raw_text = (\<lambda>_. ''hello''),
     has_attachments = (\<lambda>_. False), sql_text = (\<lambda>_. ''sql'')\<rparr>"

definition sample_conv :: ConversationData where
  "sample_conv = \<lparr>cd_participants = [''a'', ''b''], cd_cv_name = None, cd_sender_guid = None,
     cd_after_guid = None\<rparr>"

definition sample_inst :: MessageInst where
  "sample_inst = (plain_inst sample_conv ''a'' (Message plain_normal))\<lparr>mi_id := ''m1''\<rparr>"

lemma sample_inst_simps [simp]:
  "mi_id sample_inst = ''m1''" "mi_sender sample_inst = Some ''a''"
  "mi_conversation sample_inst = Some sample_conv" "mi_message sample_inst = Message plain_normal"
  by (simp_all add: sample_inst_def plain_inst_def)

theorem store_message_spec_witness:
  "\<exists>d' m. store_message sample_inbound 7 sample_inst [] (empty_db, []) =
      (Inr (), (d', [MessageArrived (chat_guid_for to_ascii_lowercase [''a'', ''b''] True) ''m1''])) \<and>
    lookup_row ms_guid ''m1'' (messages d') = Some m \<and> ms_text m = ''hello'' \<and>
    mr_sender_address (message_view d' m) = ''a''"
proof -
  from store_message_spec [OF wf_empty_db sample_inst_simps(3), of sample_inbound 7 "[]" "[]"] show ?thesis
    by (auto simp: sample_inbound_def sample_conv_def or_empty_def)
qed

section \<open>The loop\<close>

definition storing_failed :: string where
  "storing_failed = ''storing message: message with no conversation''"

definition only_known_errors :: "Event list \<Rightarrow> bool" where
  "only_known_errors evs \<longleftrightarrow> (\<forall>t. Error t \<in> set evs \<longrightarrow> t = storing_failed)"

definition extends :: "db \<times> event_bus \<Rightarrow> db \<times> event_bus \<Rightarrow> bool" where
  "extends s s' \<longleftrightarrow> (\<exists>new. snd s' = snd s @ new \<and> only_known_errors new)"

lemma extendsI: "snd s' = snd s @ new \<Longrightarrow> only_known_errors new \<Longrightarrow> extends s s'"
  by (auto simp: extends_def)

lemma extends_refl [simp]: "extends s s"
  by (simp add: extends_def only_known_errors_def)

lemma extends_trans: "extends s s' \<Longrightarrow> extends s' s'' \<Longrightarrow> extends s s''"
  by (auto simp: extends_def only_known_errors_def)

lemma stored_message:
  assumes "wf_db d" and "mi_conversation inst = Some conv"
  shows "\<exists>d'. store_message env now inst parts (d, q) =
      (Inr (), (d', q @ [MessageArrived (chat_guid_for (lower env) (cd_participants conv)
        (\<not> is_sms env (mi_message inst))) (mi_id inst)])) \<and> wf_db d'"
proof -
  from store_rows_ok [OF assms(1), of env now inst parts conv] obtain d3 r where
    run: "store_rows env now inst parts conv d = (Inr (), put_message r d3)"
    and wf3: "wf_db d3" and "refs_ok d3 r" by blast
  then have "insert_message r d3 = (Inr (), put_message r d3)" by (simp add: insert_message_eq)
  then have "wf_db (put_message r d3)" using preservesD [OF keeps_insert_message wf3, of r] by simp
  then show ?thesis using run by (simp add: store_message_def assms(2) sql_err_def send_event_def)
qed

lemma handle_inst_safe:
  assumes "wf_db d"
  shows "wf_db (fst (handle_inst env now inst (d, q))) \<and> extends (d, q) (handle_inst env now inst (d, q))"
proof (cases "mi_message inst")
  case (Message normal)
  show ?thesis
  proof (cases "mi_conversation inst")
    case None
    then show ?thesis using assms
      by (auto simp: handle_inst_def Message store_message_def send_event_def storing_failed_def
          only_known_errors_def intro: extendsI)
  next
    case (Some conv)
    from stored_message [OF assms Some, of env now "nm_parts normal" q] obtain d' where
      "wf_db d'" "store_message env now inst (nm_parts normal) (d, q) =
        (Inr (), (d', q @ [MessageArrived (chat_guid_for (lower env) (cd_participants conv)
          (\<not> is_sms env (mi_message inst))) (mi_id inst)]))" by blast
    then show ?thesis
      by (auto simp: handle_inst_def Message only_known_errors_def intro: extendsI)
  qed
qed (use assms in \<open>auto simp: handle_inst_def send_event_def only_known_errors_def
      intro: extendsI split: option.splits\<close>)

lemma receive_round_safe:
  assumes "wf_db (fst s)"
  shows "wf_db (fst (snd (receive_round env now r s))) \<and> extends s (snd (receive_round env now r s)) \<and>
    (fst (receive_round env now r s) \<longleftrightarrow> r \<noteq> Closed)"
proof (cases s)
  case (Pair d q)
  then show ?thesis using assms handle_inst_safe [of d env now _ q]
    by (auto simp: receive_round_def send_event_def only_known_errors_def intro!: extendsI
        split: recv_result.splits sum.splits option.splits)
qed

lemma receive_loop_safe:
  "wf_db (fst s) \<Longrightarrow> wf_db (fst (receive_loop env rs s)) \<and> extends s (receive_loop env rs s)"
proof (induction rs arbitrary: s)
  case (Cons x rs)
  obtain now r where x: "x = (now, r)" by (cases x)
  obtain b s' where b: "receive_round env now r s = (b, s')" by (cases "receive_round env now r s")
  from receive_round_safe [OF Cons.prems, of env now r] b
  have "wf_db (fst s')" and "extends s s'" by simp_all
  with Cons.IH [of s'] show ?case by (cases b) (auto simp: x b intro: extends_trans)
qed simp

lemma receive_loop_append:
  "list_all (\<lambda>(now, r). r \<noteq> Closed) rs \<Longrightarrow> wf_db (fst s) \<Longrightarrow>
     receive_loop env (rs @ rs') s = receive_loop env rs' (receive_loop env rs s)"
proof (induction rs arbitrary: s)
  case (Cons x rs)
  obtain now r where x: "x = (now, r)" by (cases x)
  with Cons.prems receive_round_safe [of s env now r] obtain s' where
    "receive_round env now r s = (True, s')" "wf_db (fst s')" by (cases "receive_round env now r s") auto
  with Cons show ?case by (simp add: x)
qed simp

text \<open>Whatever arrives, decodable or not, in any number and order, the receive loop keeps the
  integrity of the database and only adds events; the only error it can report is a message without
  a conversation.\<close>

theorem receive_loop_integrity:
  assumes "wf_db d"
  shows "wf_db (fst (receive_loop env rs (d, q))) \<and>
    (\<exists>new. snd (receive_loop env rs (d, q)) = q @ new \<and> only_known_errors new)"
  using receive_loop_safe [of "(d, q)" env rs] assms by (simp add: extends_def)

theorem receive_loop_integrity_witness:
  "wf_db (fst (receive_loop sample_inbound [(7, Frame (Inr (Some sample_inst))), (8, Lagged 3), (9, Closed)]
     (empty_db, [])))"
  using receive_loop_integrity [OF wf_empty_db] by blast

text \<open>C40: The loop ends exactly when the stream closes: everything received before is handled, one
  warning is sent, and nothing that comes later is read.\<close>

theorem receive_loop_stops_at_close:
  assumes "list_all (\<lambda>(now, r). r \<noteq> Closed) rs" and "wf_db d"
  shows "receive_loop env (rs @ (now, Closed) # rs') (d, q) =
    (let (d', q') = receive_loop env rs (d, q) in (d', q' @ [Warn ''receive loop stopped'']))"
  using receive_loop_append [OF assms(1), of "(d, q)" env "(now, Closed) # rs'"] assms(2)
  by (cases "receive_loop env rs (d, q)") (simp add: receive_round_def send_event_def)

theorem receive_loop_stops_at_close_witness:
  "receive_loop sample_inbound ([(1, Lagged 2)] @ (2, Closed) # [(3, Lagged 4)]) (empty_db, []) =
     (empty_db, [Warn (''receive loop fell behind, dropped '' @ show_nat 2), Warn ''receive loop stopped''])"
  by (subst receive_loop_stops_at_close) (simp_all add: wf_empty_db receive_round_def send_event_def)

end
