(* ===== verification/App.thy ===== *)
theory App
  imports Keychain ReceiveSpec
begin

text \<open>
  \<open>rust/src/app.rs\<close>: the state of the core and what is restored at a start. Everything the Rust struct
  shares behind \<open>Arc<Mutex<..>>\<close> is a field of one record; the async tasks that were spawned and have
  not finished are the list \<open>tasks\<close>. The session slot is written once and never cleared, so a clone a
  task took of it is the session in the slot, and a task only records whether there was one.
  \<open>kv_set\<close> cannot fail in the model, so the warning of \<open>set_auth\<close> about it is left out.
\<close>

section \<open>The state\<close>

text \<open>
  A task between two of its \<open>await\<close> points: the sends of the UI with what they captured, the three
  stubs, a sign-in request, the login result to apply, the three stretches of making the client, the label to
  persist, and the receive loop.
\<close>

datatype task =
    SendTask bool string "string list" string string
  | SendFileTask bool string "string list" string string string string
  | TapbackTask string string
  | EditTask string string
  | UnsendTask string
  | LoginTask string string
  | TwoFactorTask string
  | ApplyLoginTask LoginState
  | PrepareClientTask
  | RegisterTask string
  | InstallClientTask string
  | PersistAuthTask AuthState
  | ReceiveStartTask
  | ReceiveLoopTask

record AppState =
  ap_data_dir :: string
  storage :: db
  events :: event_bus
  auth :: AuthState
  os_cfg :: "DeviceConfig option"
  relay :: string
  session :: "AuthSession option"
  dsk :: disk
  tasks :: "task list"

record app_env =
  ae_device :: device_env
  ae_session :: session_env
  ae_apple :: apple_env
  ae_keystore :: keystore_env
  ae_inbound :: inbound_env
  ae_config_json :: "DeviceConfig json_codec"
  ae_clock :: "64 word option"
  ae_udid_bytes :: "8 word list"
  ae_key_bytes :: string
  ae_uuids :: "nat \<Rightarrow> string"

type_synonym 'a app = "(AppState, string, 'a) sem"

definition emit :: "Event \<Rightarrow> AppState \<Rightarrow> AppState" where
  "emit ev app = app\<lparr>events := send_event ev (events app)\<rparr>"

definition spawn :: "task \<Rightarrow> AppState \<Rightarrow> AppState" where
  "spawn t app = app\<lparr>tasks := tasks app @ [t]\<rparr>"

section \<open>Opening\<close>

text \<open>The sign-in state restored from the stored label of a paired device.\<close>

definition restore_auth :: "string option \<Rightarrow> AuthState" where
  "restore_auth l = (case l of None \<Rightarrow> NeedsCredentials | Some s \<Rightarrow>
     if s = ''ready'' then Ready
     else if s = ''authenticating'' then AuthenticatingAccount
     else if s = ''needs_2fa'' then NeedsTwoFactor
     else if s = ''needs_sms_2fa'' then NeedsSmsTwoFactor
     else if s = ''needs_device_2fa'' then NeedsDeviceTwoFactor
     else if starts_with ''needs_extra:'' s then NeedsExtraStep (trim_start_matches ''needs_extra:'' s)
     else if starts_with ''error:'' s then Errored (trim_start_matches ''error:'' s)
     else NeedsCredentials)"

definition load_os_config :: "app_env \<Rightarrow> string \<Rightarrow> disk \<Rightarrow> DeviceConfig option" where
  "load_os_config env data_dir d =
     (case load (ae_config_json env) (config_path data_dir) d of Inr v \<Rightarrow> v | Inl _ \<Rightarrow> None)"

text \<open>
  \<open>AppState::open\<close>: on the disk, the keystore slot of the process and the database file (\<open>None\<close> when
  there is none yet).
\<close>

definition initial_app :: "app_env \<Rightarrow> string \<Rightarrow> db \<Rightarrow> disk \<Rightarrow> AppState" where
  "initial_app env data_dir st d =
     (let cfg = load_os_config env data_dir d
      in \<lparr>ap_data_dir = data_dir, storage = st, events = new_bus,
          auth = (if cfg \<noteq> None then restore_auth (kv_get ''auth.state'' st) else NeedsHardwarePairing),
          os_cfg = cfg,
          relay = (case kv_get ''relay.host'' st of Some h \<Rightarrow> h | None \<Rightarrow> DEFAULT_RELAY_HOST),
          session = None, dsk = d, tasks = []\<rparr>)"

definition open_app ::
    "app_env \<Rightarrow> string \<Rightarrow> db option \<Rightarrow> (disk \<times> SoftwareKeystore option, string, AppState) sem" where
  "open_app env data_dir file = (\<lambda>(d, slot).
     case with_context (''creating data dir at '' @ data_dir) (create_dir_all data_dir) d of
       (Inl e, d') \<Rightarrow> (Inl e, (d', slot))
     | (Inr _, d') \<Rightarrow>
        (case keychain_init (ae_keystore env) (ae_key_bytes env) data_dir (d', slot) of
           (Inl e, s) \<Rightarrow> (Inl e, s)
         | (Inr _, (d'', slot')) \<Rightarrow> (Inr (initial_app env data_dir (open_db file) d''), (d'', slot'))))"

section \<open>Operations\<close>

definition set_auth :: "AuthState \<Rightarrow> AppState \<Rightarrow> AppState" where
  "set_auth state app = emit (AuthStateChanged (label state))
     (app\<lparr>auth := state, storage := kv_set ''auth.state'' (label state) (storage app)\<rparr>)"

definition auth_label :: "AppState \<Rightarrow> string" where
  "auth_label app = label (auth app)"

definition app_set_relay_host :: "string \<Rightarrow> AppState \<Rightarrow> AppState" where
  "app_set_relay_host host app =
     app\<lparr>relay := host, storage := kv_set ''relay.host'' host (storage app)\<rparr>"

definition on_app_disk :: "(disk, string, 'a) sem \<Rightarrow> 'a app" where
  "on_app_disk m = (\<lambda>app. case m (dsk app) of (r, d) \<Rightarrow> (r, app\<lparr>dsk := d\<rparr>))"

definition persist_os_config :: "app_env \<Rightarrow> DeviceConfig \<Rightarrow> unit app" where
  "persist_os_config env cfg = (\<lambda>app.
     thn (on_app_disk (save (ae_config_json env) (config_path (ap_data_dir app)) cfg))
         (modify (\<lambda>app. app\<lparr>os_cfg := Some cfg\<rparr>)) app)"

definition clear_os_config :: "unit app" where
  "clear_os_config = (\<lambda>app.
     thn (on_app_disk (clear (config_path (ap_data_dir app))))
         (modify (\<lambda>app. app\<lparr>os_cfg := None\<rparr>)) app)"

definition app_has_os_config :: "AppState \<Rightarrow> bool" where
  "app_has_os_config app \<longleftrightarrow> os_cfg app \<noteq> None"

section \<open>What a restart restores\<close>

text \<open>The state a label comes back as, for a device that is still paired.\<close>

fun after_restart :: "AuthState \<Rightarrow> AuthState" where
  "after_restart NeedsHardwarePairing = NeedsCredentials"
| "after_restart (NeedsExtraStep s) = NeedsExtraStep (trim_start_matches ''needs_extra:'' s)"
| "after_restart (Errored e) = Errored (trim_start_matches ''error:'' e)"
| "after_restart st = st"

lemma restore_auth_label: "restore_auth (Some (label st)) = after_restart st"
  using trim_start_matches_append [of "''needs_extra:''"] trim_start_matches_append [of "''error:''"]
  by (cases st) (simp_all add: restore_auth_def starts_with_def)

text \<open>Writes to the settings other than the sign-in state.\<close>

lemma auth_label_kept:
  "''auth.state'' \<notin> fst ` set ws \<Longrightarrow>
     kv_get ''auth.state'' (kvs.put_all ws (kv_set ''auth.state'' l d)) = Some l"
  by (rule kvs.get_after_others)

lemma open_db_kv [simp]: "kv (open_db (Some d)) = kv d"
  by (simp add: open_db_def migrate_def add_service_column_def repair_services_def)

lemma kv_get_open_db [simp]: "kv_get k (open_db (Some d)) = kv_get k d"
  by (simp add: kv_get_def)

lemma kvs_put_all: "kvs.put_all = (\<lambda>ws s. fold (\<lambda>(k, v). kv_set k v) ws s)"
  by (simp add: fun_eq_iff kvs.put_all_def)

text \<open>The sign-in state survives a restart: when the device is still paired and only other settings
  were written since, the next start restores the state that was set last, except that a state that
  needs pairing comes back as one that needs credentials, and that of an extra step or an error any
  repetition of the label prefix at the start of its text is lost.\<close>

theorem auth_survives_restart:
  assumes "''auth.state'' \<notin> fst ` set ws"
    and "st' = fold (\<lambda>(k, v). kv_set k v) ws (storage (set_auth st app))"
    and "load_os_config env dir d \<noteq> None"
  shows "auth (initial_app env dir (open_db (Some st')) d) = after_restart st \<and>
    (after_restart st = st \<longleftrightarrow> st \<noteq> NeedsHardwarePairing \<and>
       (\<forall>s. st = NeedsExtraStep s \<longrightarrow> \<not> starts_with ''needs_extra:'' s) \<and>
       (\<forall>e. st = Errored e \<longrightarrow> \<not> starts_with ''error:'' e))"
proof -
  have "kv_get ''auth.state'' st' = Some (label st)"
    using auth_label_kept [OF assms(1), of "label st" "storage app"]
    by (simp add: assms(2) kvs_put_all set_auth_def emit_def)
  then have "auth (initial_app env dir (open_db (Some st')) d) = after_restart st"
    using assms(3) by (simp add: initial_app_def Let_def restore_auth_label)
  moreover have "after_restart st = st \<longleftrightarrow> st \<noteq> NeedsHardwarePairing \<and>
       (\<forall>s. st = NeedsExtraStep s \<longrightarrow> \<not> starts_with ''needs_extra:'' s) \<and>
       (\<forall>e. st = Errored e \<longrightarrow> \<not> starts_with ''error:'' e)"
    by (cases st) (simp_all add: trim_start_matches_id_iff)
  ultimately show ?thesis by simp
qed

end
