(* ===== verification/Ffi.thy ===== *)
theory Ffi
  imports App
begin

text \<open>
  \<open>rust/src/ffi.rs\<close>: the functions the Qt user interface calls, each a computation on \<open>AppState\<close>, and the
  async tasks they spawn, cut at the points where they wait for the network. A call runs to its end
  before another starts (the UI thread); the tasks run in between in any order (see \<open>System\<close>).
\<close>

section \<open>What the UI receives\<close>

record ChatSummary =
  cs_guid :: string
  cs_title :: string
  cs_subtitle :: string
  cs_participant_summary :: string
  cs_service :: string
  cs_is_group :: bool
  cs_is_pinned :: bool
  cs_is_archived :: bool
  cs_pin_order :: int
  cs_unread_count :: int
  cs_last_message_date :: int

record MessageView =
  mv_guid :: string
  mv_chat_guid :: string
  mv_sender_address :: string
  mv_sender_display_name :: string
  mv_text :: string
  mv_subject :: string
  mv_is_from_me :: bool
  mv_date :: int
  mv_date_read :: int
  mv_date_edited :: int
  mv_is_unsent :: bool
  mv_has_attachments :: bool
  mv_thread_origin_guid :: string

record HandleInfo =
  hi_id :: int
  hi_address :: string
  hi_service :: string
  hi_display_name :: string

record AttachmentInfo =
  ai_guid :: string
  ai_message_guid :: string
  ai_filename :: string
  ai_mime_type :: string
  ai_size_bytes :: int
  ai_local_path :: string
  ai_transfer_state :: int

section \<open>Simple queries\<close>

definition core_greeting :: "string \<Rightarrow> string" where
  "core_greeting name = ''cavitation core says hi, '' @ name"

definition data_dir :: "AppState \<Rightarrow> string" where
  "data_dir app = ap_data_dir app"

definition auth_state :: "AppState \<Rightarrow> string" where
  "auth_state app = auth_label app"

definition relay_host :: "AppState \<Rightarrow> string" where
  "relay_host app = relay app"

definition set_relay_host :: "string \<Rightarrow> unit app" where
  "set_relay_host host =
     (let trimmed = trim host
      in if trimmed = [] then fail ''relay host cannot be empty''
         else modify (app_set_relay_host trimmed))"

definition has_os_config :: "AppState \<Rightarrow> bool" where
  "has_os_config app = app_has_os_config app"

definition os_config_summary :: "AppState \<Rightarrow> string" where
  "os_config_summary app = (case os_cfg app of None \<Rightarrow> ''none'' | Some cfg \<Rightarrow> summary cfg)"

section \<open>Lists\<close>

definition chat_summary :: "db \<Rightarrow> ChatRow \<Rightarrow> ChatSummary" where
  "chat_summary d row =
     (let participants = participants_summary (cr_guid row) d
      in \<lparr>cs_guid = cr_guid row,
          cs_title = (if cr_title row = [] then participants else cr_title row),
          cs_subtitle = cr_last_message_preview row, cs_participant_summary = participants,
          cs_service = cr_service row, cs_is_group = cr_is_group row, cs_is_pinned = cr_is_pinned row,
          cs_is_archived = cr_is_archived row, cs_pin_order = cr_pin_order row,
          cs_unread_count = cr_unread_count row, cs_last_message_date = cr_last_message_date row\<rparr>)"

definition ui_list_chats :: "app_env \<Rightarrow> bool \<Rightarrow> AppState \<Rightarrow> ChatSummary list \<times> AppState" where
  "ui_list_chats env include_archived app =
     (case list_chats include_archived (storage app) of
        Inr rows \<Rightarrow> (map (chat_summary (storage app)) rows, app)
      | Inl e \<Rightarrow> ([], emit (Error (''list_chats: '' @ sql_text (ae_inbound env) e)) app))"

definition message_row_to_view :: "MessageRow \<Rightarrow> MessageView" where
  "message_row_to_view m = \<lparr>mv_guid = mr_guid m, mv_chat_guid = mr_chat_guid m,
     mv_sender_address = mr_sender_address m, mv_sender_display_name = mr_sender_display_name m,
     mv_text = mr_text m, mv_subject = mr_subject m, mv_is_from_me = mr_is_from_me m,
     mv_date = mr_date m, mv_date_read = mr_date_read m, mv_date_edited = mr_date_edited m,
     mv_is_unsent = mr_is_unsent m, mv_has_attachments = mr_has_attachments m,
     mv_thread_origin_guid = mr_thread_origin_guid m\<rparr>"

definition list_messages :: "string \<Rightarrow> int \<Rightarrow> AppState \<Rightarrow> MessageView list" where
  "list_messages chat_guid limit app =
     map message_row_to_view (messages_for_chat chat_guid (max limit 1) (storage app))"

definition attachment_info :: "AttachmentRow \<Rightarrow> AttachmentInfo" where
  "attachment_info a = \<lparr>ai_guid = ar_guid a, ai_message_guid = ar_message_guid a,
     ai_filename = ar_filename a, ai_mime_type = ar_mime_type a, ai_size_bytes = ar_size_bytes a,
     ai_local_path = ar_local_path a, ai_transfer_state = ar_transfer_state a\<rparr>"

definition list_attachments :: "app_env \<Rightarrow> string \<Rightarrow> AppState \<Rightarrow> AttachmentInfo list \<times> AppState" where
  "list_attachments env message_guid app =
     (case attachments_for_message message_guid (storage app) of
        Inr rows \<Rightarrow> (map attachment_info rows, app)
      | Inl e \<Rightarrow> ([], emit (Error (''list_attachments: '' @ sql_text (ae_inbound env) e)) app))"

definition ui_list_handles :: "AppState \<Rightarrow> HandleInfo list" where
  "ui_list_handles app = map (\<lambda>h. \<lparr>hi_id = hr_id h, hi_address = hr_address h,
     hi_service = hr_service h, hi_display_name = hr_display_name h\<rparr>) (list_handles (storage app))"

section \<open>MIME types\<close>

text \<open>\<open>rsplit_once('.')\<close>, the part after the last dot or the empty text.\<close>

definition extension :: "string \<Rightarrow> string" where
  "extension s = (if CHR ''.'' \<in> set s then rev (takeWhile (\<lambda>c. c \<noteq> CHR ''.'') (rev s)) else '''')"

definition mime_from_ext :: "string \<Rightarrow> string" where
  "mime_from_ext name =
     (let e = extension (to_ascii_lowercase name)
      in if e = ''png'' then ''image/png''
         else if e = ''jpg'' \<or> e = ''jpeg'' then ''image/jpeg''
         else if e = ''gif'' then ''image/gif''
         else if e = ''webp'' then ''image/webp''
         else if e = ''heic'' then ''image/heic''
         else if e = ''mp4'' \<or> e = ''m4v'' then ''video/mp4''
         else if e = ''mov'' then ''video/quicktime''
         else if e = ''webm'' then ''video/webm''
         else if e = ''mp3'' then ''audio/mpeg''
         else if e = ''m4a'' then ''audio/mp4''
         else if e = ''wav'' then ''audio/wav''
         else if e = ''pdf'' then ''application/pdf''
         else if e = ''txt'' then ''text/plain''
         else ''application/octet-stream'')"

section \<open>Sending from the UI\<close>

definition on_storage :: "app_env \<Rightarrow> 'a sql \<Rightarrow> 'a app" where
  "on_storage env m = (\<lambda>app. case sql_err (ae_inbound env) m (storage app) of
     (r, d) \<Rightarrow> (r, app\<lparr>storage := d\<rparr>))"

definition local_row :: "app_env \<Rightarrow> string \<Rightarrow> string \<Rightarrow> string \<Rightarrow> bool \<Rightarrow> MessageRow" where
  "local_row env guid chat_guid text att = \<lparr>mr_guid = guid, mr_chat_guid = chat_guid,
     mr_handle_id = None, mr_sender_address = '''', mr_sender_display_name = '''', mr_text = text,
     mr_subject = '''', mr_is_from_me = True, mr_date = now_epoch (ae_clock env), mr_date_read = 0,
     mr_date_edited = 0, mr_is_unsent = False, mr_has_attachments = att, mr_thread_origin_guid = ''''\<rparr>"

definition send_message_local :: "app_env \<Rightarrow> string \<Rightarrow> string \<Rightarrow> string app" where
  "send_message_local env chat_guid text =
     (let guid = ''temp-'' @ ae_uuids env 0
      in thn (on_storage env (insert_message (local_row env guid chat_guid text False)))
        (thn (modify (emit (MessageSent chat_guid guid)))
        (thn (modify (\<lambda>app. spawn (SendTask (session app \<noteq> None) chat_guid
                (participant_addresses chat_guid (storage app)) text guid) app))
             (ok guid))))"

text \<open>The size is a \<open>u64\<close> cast to \<open>i64\<close>; files longer than \<open>i64::MAX\<close> do not exist.\<close>

definition attach_file_local :: "app_env \<Rightarrow> string \<Rightarrow> string \<Rightarrow> string \<Rightarrow> string app" where
  "attach_file_local env chat_guid text source_path = (\<lambda>app.
     if \<not> file_exists source_path (dsk app) then (Inl (''file not found: '' @ source_path), app)
     else case read_file source_path (dsk app) of Inl e \<Rightarrow> (Inl e, app) | Inr content \<Rightarrow>
          case file_name source_path of None \<Rightarrow> (Inl ''unreadable filename'', app) | Some filename \<Rightarrow>
     (let mime = mime_from_ext filename;
          att_guid = ''attach-'' @ ae_uuids env 0;
          dest_dir = join_path (join_path (ap_data_dir app) ''attachments'') att_guid;
          dest = join_path dest_dir filename;
          msg_guid = ''temp-'' @ ae_uuids env 1
      in thn (on_app_disk (create_dir_all dest_dir))
        (thn (on_app_disk (write_file dest content))
        (thn (on_storage env (insert_message (local_row env msg_guid chat_guid text True)))
        (thn (on_storage env (insert_attachment att_guid msg_guid filename mime (int (length content)) dest))
        (thn (modify (emit (MessageSent chat_guid msg_guid)))
        (thn (modify (\<lambda>app. spawn (SendFileTask (session app \<noteq> None) chat_guid
                (participant_addresses chat_guid (storage app)) text dest mime msg_guid) app))
             (ok msg_guid)))))) app))"

section \<open>Changing chats and messages\<close>

definition mark_read :: "app_env \<Rightarrow> string \<Rightarrow> AppState \<Rightarrow> AppState" where
  "mark_read env chat_guid app = emit (ChatUpdated chat_guid)
     (app\<lparr>storage := mark_chat_read chat_guid (now_epoch (ae_clock env)) (storage app)\<rparr>)"

definition pin_chat :: "string \<Rightarrow> bool \<Rightarrow> int \<Rightarrow> AppState \<Rightarrow> AppState" where
  "pin_chat chat_guid pinned ord app = emit (ChatUpdated chat_guid)
     (app\<lparr>storage := set_chat_pin chat_guid pinned ord (storage app)\<rparr>)"

definition archive_chat :: "string \<Rightarrow> bool \<Rightarrow> AppState \<Rightarrow> AppState" where
  "archive_chat chat_guid archived app = emit (ChatUpdated chat_guid)
     (app\<lparr>storage := set_chat_archived chat_guid archived (storage app)\<rparr>)"

definition tapback_local :: "app_env \<Rightarrow> string \<Rightarrow> string \<Rightarrow> unit app" where
  "tapback_local env message_guid reaction =
     thn (on_storage env (add_reaction message_guid None True reaction (now_epoch (ae_clock env))))
         (modify (spawn (TapbackTask message_guid reaction)))"

definition edit_message_local :: "app_env \<Rightarrow> string \<Rightarrow> string \<Rightarrow> AppState \<Rightarrow> AppState" where
  "edit_message_local env message_guid new_text app = spawn (EditTask message_guid new_text)
     (app\<lparr>storage := edit_message message_guid new_text (now_epoch (ae_clock env)) (storage app)\<rparr>)"

definition unsend_message_local :: "string \<Rightarrow> AppState \<Rightarrow> AppState" where
  "unsend_message_local message_guid app = spawn (UnsendTask message_guid)
     (app\<lparr>storage := unsend_message message_guid (storage app)\<rparr>)"

section \<open>Signing in\<close>

definition ensure_session :: "app_env \<Rightarrow> AuthSession app" where
  "ensure_session env = (\<lambda>app.
     case session app of Some s \<Rightarrow> (Inr s, app) | None \<Rightarrow>
     case os_cfg app of
       None \<Rightarrow> (Inl (''no device identity yet '' @ em_dash @ '' complete pairing first''), app)
     | Some cfg \<Rightarrow>
     case as_os_config (ae_device env) (ae_udid_bytes env) cfg of Inl e \<Rightarrow> (Inl e, app) | Inr config \<Rightarrow>
     case create_session (ae_session env) (ap_data_dir app) config (dsk app) of
       (Inl e, d) \<Rightarrow> (Inl e, app\<lparr>dsk := d\<rparr>)
     | (Inr s, d) \<Rightarrow> (Inr s, app\<lparr>dsk := d, session := Some s\<rparr>))"

definition in_app_session :: "'a in_session \<Rightarrow> 'a app" where
  "in_app_session m = (\<lambda>app.
     case session app of None \<Rightarrow> (Inl '''', app)
     | Some s \<Rightarrow> (case m (s, dsk app) of (r, (s', d)) \<Rightarrow> (r, app\<lparr>session := Some s', dsk := d\<rparr>)))"

text \<open>
  \<open>apply_login_state\<close> in the stretches between its waits for the network: the login is finalised, the client is
  prepared in three stretches, and on success of both the receive loop is spawned. Each stretch ends by spawning
  the next; the label is persisted by the task that called it.
\<close>

definition apply_login_state :: "app_env \<Rightarrow> LoginState \<Rightarrow> AppState \<Rightarrow> AppState" where
  "apply_login_state env state app =
     (case state of
        LoggedIn \<Rightarrow>
          (case in_app_session (finalize_login_and_register_ids (ae_session env)) app of
             (Inl e, app1) \<Rightarrow> spawn (PersistAuthTask (Errored (''ids registration: '' @ e))) app1
           | (Inr _, app1) \<Rightarrow> spawn PrepareClientTask app1)
      | other \<Rightarrow> spawn (PersistAuthTask (from_login_state other)) app)"

definition prepare_client :: "'a in_session \<Rightarrow> ('a \<Rightarrow> AppState \<Rightarrow> AppState) \<Rightarrow> AppState \<Rightarrow> AppState" where
  "prepare_client stretch continue app =
     (case in_app_session stretch app of
        (Inl e, app') \<Rightarrow> spawn (PersistAuthTask (Errored (''imclient: '' @ e))) app'
      | (Inr x, app') \<Rightarrow> continue x app')"

definition client_ready :: "IMClient \<Rightarrow> AppState \<Rightarrow> AppState" where
  "client_ready _ app = spawn (PersistAuthTask Ready) (spawn ReceiveStartTask app)"

text \<open>\<open>persist_auth_label\<close>: the same writes as \<open>set_auth\<close>, with a storage error ignored.\<close>

definition persist_auth_label :: "AuthState \<Rightarrow> AppState \<Rightarrow> AppState" where
  "persist_auth_label new_state app = emit (AuthStateChanged (label new_state))
     (app\<lparr>auth := new_state, storage := kv_set ''auth.state'' (label new_state) (storage app)\<rparr>)"

definition start_apple_id_auth :: "app_env \<Rightarrow> string \<Rightarrow> string \<Rightarrow> unit app" where
  "start_apple_id_auth env apple_id password =
     (if apple_id = [] \<or> password = [] then fail ''apple_id and password are required''
      else thn (ensure_session env)
          (thn (modify (set_auth AuthenticatingAccount))
               (modify (spawn (LoginTask apple_id password)))))"

definition submit_two_factor_code :: "string \<Rightarrow> unit app" where
  "submit_two_factor_code code = (\<lambda>app.
     if session app = None
     then (Inl (''no active auth session '' @ em_dash @ '' start sign-in first''), app)
     else (Inr (), spawn (TwoFactorTask code) app))"

section \<open>Pairing\<close>

definition paired_text :: "DeviceConfig \<Rightarrow> string" where
  "paired_text config = (if is_local config
     then ''paired from the code itself, no relay involved; enter Apple ID next''
     else ''paired through the relay; enter Apple ID next'')"

definition complete_pairing :: "app_env \<Rightarrow> string \<Rightarrow> string \<Rightarrow> unit app" where
  "complete_pairing env code beeper_token =
     (if trim code = [] then fail ''pairing code is required''
      else bnd (asks (\<lambda>app. pair (ae_device env) (ae_udid_bytes env) (ae_uuids env 0) (relay app) (trim code)
               (if trim beeper_token = [] then None else Some (trim beeper_token))))
        (\<lambda>config. thn (persist_os_config env config)
                  (thn (modify (set_auth NeedsCredentials))
                       (modify (emit (Info (paired_text config)))))))"

definition clear_pairing :: "unit app" where
  "clear_pairing =
     thn clear_os_config
    (thn (modify (set_auth NeedsHardwarePairing))
         (modify (emit (Info ''cleared relay pairing''))))"

definition start_facetime_call :: "string \<Rightarrow> string app" where
  "start_facetime_call address = asks (\<lambda>_. start_facetime address)"

definition poll_events :: "AppState \<Rightarrow> EventDto list \<times> AppState" where
  "poll_events app = (case poll_bus (events app) of (es, q) \<Rightarrow> (es, app\<lparr>events := q\<rparr>))"

section \<open>The spawned tasks\<close>

definition report_failure :: "string \<Rightarrow> string \<Rightarrow> string + 'a \<Rightarrow> AppState \<Rightarrow> AppState" where
  "report_failure chat_guid tentative r app =
     (case r of Inl e \<Rightarrow> emit (MessageFailed chat_guid tentative e) app | Inr _ \<Rightarrow> app)"

definition report_stub :: "string \<Rightarrow> string + unit \<Rightarrow> AppState \<Rightarrow> AppState" where
  "report_stub what r app = (case r of Inl e \<Rightarrow> emit (Warn (what @ '' stub: '' @ e)) app | Inr _ \<Rightarrow> app)"

definition login_result :: "string + LoginState \<Rightarrow> AppState \<Rightarrow> AppState" where
  "login_result r app = (case r of Inr ls \<Rightarrow> spawn (ApplyLoginTask ls) app
     | Inl e \<Rightarrow> spawn (PersistAuthTask (Errored e)) app)"

text \<open>
  One stretch of a task. The tasks of a sign-in and the receive loop exist only when there is a
  session; without one they would do nothing here.
\<close>

fun run_task :: "app_env \<Rightarrow> task \<Rightarrow> AppState \<Rightarrow> AppState" where
  "run_task env (SendTask signed_in chat_guid participants text tentative) app =
     (case (if signed_in then session app else None) of
        None \<Rightarrow> emit (MessageFailed chat_guid tentative ''not signed in'') app
      | Some s \<Rightarrow> report_failure chat_guid tentative
          (send_imessage (ae_apple env) participants text s) app)"
| "run_task env (SendFileTask signed_in chat_guid participants text path mime tentative) app =
     (case (if signed_in then session app else None) of
        None \<Rightarrow> emit (MessageFailed chat_guid tentative ''not signed in'') app
      | Some s \<Rightarrow> report_failure chat_guid tentative
          (send_imessage_with_attachments (ae_apple env) (dsk app) participants text [path] [mime] s) app)"
| "run_task env (TapbackTask msg rx) app = report_stub ''tapback'' (send_tapback msg rx) app"
| "run_task env (EditTask msg txt) app = report_stub ''edit'' (send_edit msg txt) app"
| "run_task env (UnsendTask msg) app = report_stub ''unsend'' (send_unsend msg) app"
| "run_task env (LoginTask apple_id password) app =
     login_result (authenticate_apple_id (ae_apple env) (ae_session env) apple_id password) app"
| "run_task env (TwoFactorTask code) app = login_result (submit_2fa_code (ae_apple env) code) app"
| "run_task env (ApplyLoginTask ls) app = apply_login_state env ls app"
| "run_task env PrepareClientTask app = prepare_client stored_user (\<lambda>u. spawn (RegisterTask u)) app"
| "run_task env (RegisterTask u) app =
     prepare_client (register_user (ae_session env) u) (\<lambda>u'. spawn (InstallClientTask u')) app"
| "run_task env (InstallClientTask u) app = prepare_client (install_client u) client_ready app"
| "run_task env (PersistAuthTask st) app = persist_auth_label st app"
| "run_task env ReceiveStartTask app =
     (case session app of None \<Rightarrow> app
      | Some s \<Rightarrow> (case receive_start s (events app) of
          (False, q) \<Rightarrow> app\<lparr>events := q\<rparr>
        | (True, q) \<Rightarrow> spawn ReceiveLoopTask (app\<lparr>events := q\<rparr>)))"
| "run_task env ReceiveLoopTask app = app"

text \<open>A round of a receive loop, with what the stream gave it; the loop stays unless it was closed.\<close>

definition receive_task_round :: "app_env \<Rightarrow> recv_result \<Rightarrow> AppState \<Rightarrow> AppState" where
  "receive_task_round env r app =
     (case receive_round (ae_inbound env) (now_epoch (ae_clock env)) r (storage app, events app) of
        (going, (d, q)) \<Rightarrow>
          (let app' = app\<lparr>storage := d, events := q\<rparr>
           in if going then spawn ReceiveLoopTask app' else app'))"

end
