(* ===== verification/FfiSpec.thy ===== *)
theory FfiSpec
  imports Ffi
begin

text \<open>
  What the functions of \<open>ffi.rs\<close> promise the UI: sending, failing and retrying visibly, pairing,
  the settings that survive a restart, and MIME types.
\<close>

section \<open>Sending\<close>

lemma on_storage_insert:
  "on_storage env (insert_message r) app =
     (if refs_ok (storage app) r then (Inr (), app\<lparr>storage := put_message r (storage app)\<rparr>)
      else (Inl (sql_text (ae_inbound env) ForeignKeyFailed), app))"
  by (simp add: on_storage_def sql_err_def insert_message_eq)

lemma participant_addresses_put [simp]:
  "participant_addresses g (put_message m d) = participant_addresses g d"
  by (simp add: participant_addresses_def chat_members_def)

lemma refs_ok_local: "refs_ok d (local_row env g c t a) \<longleftrightarrow> chat_exists d c"
  by (simp add: refs_ok_def local_row_def)

text \<open>Sending a text from the UI is all or nothing. In an existing chat the message is stored as the
  user's own under the temporary guid that is returned, the chat shows it as its preview without
  counting it as unread, one event announces it, and one task carries the recipients and the text.
  In a missing chat the call fails and the state of the core is unchanged.\<close>

theorem send_message_local_spec:
  "case send_message_local env chat_guid text app of
     (Inr guid, app') \<Rightarrow>
       guid = ''temp-'' @ ae_uuids env 0 \<and>
       storage app' = put_message (local_row env guid chat_guid text False) (storage app) \<and>
       events app' = events app @ [MessageSent chat_guid guid] \<and>
       tasks app' = tasks app @ [SendTask (session app \<noteq> None) chat_guid
         (participant_addresses chat_guid (storage app)) text guid] \<and>
       map_option ch_unread_count (lookup_row ch_guid chat_guid (chats (storage app'))) =
         map_option ch_unread_count (lookup_row ch_guid chat_guid (chats (storage app))) \<and>
       session app' = session app \<and> auth app' = auth app
   | (Inl e, app') \<Rightarrow> \<not> chat_exists (storage app) chat_guid \<and>
       e = sql_text (ae_inbound env) ForeignKeyFailed \<and> app' = app"
proof (cases "chat_exists (storage app) chat_guid")
  case True
  let ?row = "local_row env (''temp-'' @ ae_uuids env 0) chat_guid text False"
  have "send_message_local env chat_guid text app = (Inr (''temp-'' @ ae_uuids env 0),
      spawn (SendTask (session app \<noteq> None) chat_guid (participant_addresses chat_guid (storage app)) text
        (''temp-'' @ ae_uuids env 0)) (emit (MessageSent chat_guid (''temp-'' @ ae_uuids env 0))
        (app\<lparr>storage := put_message ?row (storage app)\<rparr>)))"
    using True by (simp add: send_message_local_def Let_def thn_def bnd_def modify_def ok_def emit_def
        on_storage_insert refs_ok_local)
  moreover have "map_option ch_unread_count (lookup_row ch_guid chat_guid (chats (put_message ?row (storage app)))) =
      map_option ch_unread_count (lookup_row ch_guid chat_guid (chats (storage app)))"
    by (cases "lookup_row ch_guid chat_guid (chats (storage app))")
      (auto simp: lookup_chat_put local_row_def bump_chat_def Let_def)
  ultimately show ?thesis by (simp add: spawn_def emit_def send_event_def)
next
  case False
  then show ?thesis
    by (simp add: send_message_local_def Let_def thn_def bnd_def on_storage_insert refs_ok_local)
qed

text \<open>A send never fails silently: when its task has run, either the message has been handed to the
  client and delivered, and nothing is announced, or exactly one failure event for its chat and its
  temporary guid has been added; nothing else changes.\<close>

theorem send_task_outcome:
  "run_task env (SendTask signed_in chat_guid ps text guid) app = app \<and> signed_in \<and>
     (\<exists>s i. session app = Some s \<and> send_imessage (ae_apple env) ps text s = Inr i) \<or>
   (\<exists>reason. run_task env (SendTask signed_in chat_guid ps text guid) app =
     app\<lparr>events := events app @ [MessageFailed chat_guid guid reason]\<rparr>)"
proof (cases "if signed_in then session app else None")
  case None
  then have "run_task env (SendTask signed_in chat_guid ps text guid) app =
      app\<lparr>events := events app @ [MessageFailed chat_guid guid ''not signed in'']\<rparr>"
    by (simp add: emit_def send_event_def)
  then show ?thesis by blast
next
  case (Some s)
  then have "signed_in" "session app = Some s" by (simp_all split: if_splits)
  then have r: "run_task env (SendTask signed_in chat_guid ps text guid) app =
      report_failure chat_guid guid (send_imessage (ae_apple env) ps text s) app" by simp
  show ?thesis
  proof (cases "send_imessage (ae_apple env) ps text s")
    case (Inl e)
    then have "run_task env (SendTask signed_in chat_guid ps text guid) app =
        app\<lparr>events := events app @ [MessageFailed chat_guid guid e]\<rparr>"
      using r by (simp add: report_failure_def emit_def send_event_def)
    then show ?thesis by blast
  next
    case (Inr i)
    with r \<open>signed_in\<close> \<open>session app = Some s\<close> show ?thesis by (simp add: report_failure_def)
  qed
qed

text \<open>C34: After a restart in the state ready the UI is told that it is signed in, but there is no session
  and nothing that would create one: a message sent then is announced as sent and its task reports
  that it failed because the user is not signed in.\<close>

theorem ready_after_restart_cannot_send:
  assumes "kv_get ''auth.state'' st = Some (label Ready)" and "load_os_config env dir d \<noteq> None"
    and "app = initial_app env dir st d" and "chat_exists st chat_guid"
  shows "auth_state app = ''ready'' \<and> session app = None \<and> tasks app = [] \<and>
    (\<exists>guid app'. send_message_local env chat_guid body app = (Inr guid, app') \<and>
       events app' = [MessageSent chat_guid guid] \<and>
       events (run_task env' (last (tasks app')) app') =
         [MessageSent chat_guid guid, MessageFailed chat_guid guid ''not signed in''])"
proof -
  have app: "auth app = Ready" "session app = None" "tasks app = []" "events app = []" "storage app = st"
    using assms(1-3) restore_auth_label [of Ready]
    by (simp_all add: initial_app_def Let_def new_bus_def)
  let ?guid = "''temp-'' @ ae_uuids env 0"
  let ?row = "local_row env ?guid chat_guid body False"
  have "send_message_local env chat_guid body app = (Inr ?guid,
      spawn (SendTask False chat_guid (participant_addresses chat_guid st) body ?guid)
        (emit (MessageSent chat_guid ?guid) (app\<lparr>storage := put_message ?row st\<rparr>)))"
    using assms(4) by (simp add: send_message_local_def Let_def thn_def bnd_def modify_def ok_def emit_def
        app on_storage_insert refs_ok_local)
  then show ?thesis
    by (simp add: auth_state_def auth_label_def app spawn_def emit_def send_event_def)
qed

section \<open>Pairing\<close>

lemma persist_os_config_cases:
  "persist_os_config env cfg app =
     (case save (ae_config_json env) (config_path (ap_data_dir app)) cfg (dsk app) of
        (Inl e, d) \<Rightarrow> (Inl e, app\<lparr>dsk := d\<rparr>)
      | (Inr _, d) \<Rightarrow> (Inr (), app\<lparr>dsk := d, os_cfg := Some cfg\<rparr>))"
  by (auto simp: persist_os_config_def sem_defs bnd_def on_app_disk_def split: prod.splits sum.splits)

lemma clear_os_config_cases:
  "clear_os_config app =
     (case clear (config_path (ap_data_dir app)) (dsk app) of
        (Inl e, d) \<Rightarrow> (Inl e, app\<lparr>dsk := d\<rparr>)
      | (Inr _, d) \<Rightarrow> (Inr (), app\<lparr>dsk := d, os_cfg := None\<rparr>))"
  by (auto simp: clear_os_config_def sem_defs bnd_def on_app_disk_def split: prod.splits sum.splits)

lemma complete_pairing_Inr:
  assumes "complete_pairing env code tok app = (Inr u, app')"
  obtains cfg d where "pair (ae_device env) (ae_udid_bytes env) (ae_uuids env 0) (relay app) (trim code)
      (if trim tok = [] then None else Some (trim tok)) = Inr cfg"
    and "save (ae_config_json env) (config_path (ap_data_dir app)) cfg (dsk app) = (Inr (), d)"
    and "app' = emit (Info (paired_text cfg)) (set_auth NeedsCredentials (app\<lparr>dsk := d, os_cfg := Some cfg\<rparr>))"
  using assms
  by (auto simp: complete_pairing_def sem_defs bnd_def persist_os_config_cases split: if_splits sum.splits prod.splits)

lemma clear_pairing_Inr:
  assumes "clear_pairing app = (Inr u, app')"
  obtains d where "clear (config_path (ap_data_dir app)) (dsk app) = (Inr (), d)"
    and "app' = emit (Info ''cleared relay pairing'')
      (set_auth NeedsHardwarePairing (app\<lparr>dsk := d, os_cfg := None\<rparr>))"
  using assms
  by (auto simp: clear_pairing_def sem_defs bnd_def clear_os_config_cases split: sum.splits prod.splits)

text \<open>A completed pairing survives a restart: the next start on the same data directory finds the
  same device, and asks for the credentials.\<close>

theorem pairing_survives_restart:
  assumes "json_roundtrip (ae_config_json env)"
    and "complete_pairing env code tok app = (Inr u, app')"
    and "app2 = initial_app env (ap_data_dir app') (open_db (Some (storage app'))) (dsk app')"
  shows "os_cfg app2 = os_cfg app' \<and> os_cfg app2 \<noteq> None \<and> auth app2 = NeedsCredentials \<and>
    auth app' = NeedsCredentials"
proof -
  from assms(2) obtain cfg d where s: "save (ae_config_json env) (config_path (ap_data_dir app)) cfg (dsk app) = (Inr (), d)"
      and app': "app' = emit (Info (paired_text cfg)) (set_auth NeedsCredentials (app\<lparr>dsk := d, os_cfg := Some cfg\<rparr>))"
    by (rule complete_pairing_Inr)
  have "load_os_config env (ap_data_dir app') (dsk app') = Some cfg"
    using load_after_save [OF assms(1) s] by (simp add: app' load_os_config_def emit_def set_auth_def)
  moreover have "kv_get ''auth.state'' (storage app') = Some (label NeedsCredentials)"
    by (simp add: app' emit_def set_auth_def del: label.simps)
  ultimately show ?thesis
    using restore_auth_label [of NeedsCredentials]
    by (simp add: assms(3) initial_app_def Let_def app' emit_def set_auth_def del: label.simps)
qed

text \<open>Clearing the pairing and pairing with another code does not replace the session: the next
  sign-in still uses the session of the device paired first.\<close>

theorem session_outlives_pairing:
  assumes "session app = Some s" and "clear_pairing app = (Inr u, app1)"
    and "complete_pairing env code tok app1 = (Inr v, app2)"
  shows "ensure_session env app2 = (Inr s, app2) \<and>
    (\<exists>cfg. os_cfg app2 = Some cfg \<and> pair (ae_device env) (ae_udid_bytes env) (ae_uuids env 0) (relay app)
       (trim code) (if trim tok = [] then None else Some (trim tok)) = Inr cfg)"
proof -
  from assms(2) obtain d where "app1 = emit (Info ''cleared relay pairing'')
      (set_auth NeedsHardwarePairing (app\<lparr>dsk := d, os_cfg := None\<rparr>))" by (rule clear_pairing_Inr)
  then have 1: "session app1 = Some s" "relay app1 = relay app"
    using assms(1) by (simp_all add: emit_def set_auth_def)
  from assms(3) obtain cfg d2 where
    "pair (ae_device env) (ae_udid_bytes env) (ae_uuids env 0) (relay app1) (trim code)
      (if trim tok = [] then None else Some (trim tok)) = Inr cfg"
    "app2 = emit (Info (paired_text cfg)) (set_auth NeedsCredentials (app1\<lparr>dsk := d2, os_cfg := Some cfg\<rparr>))"
    by (rule complete_pairing_Inr)
  with 1 show ?thesis by (simp add: ensure_session_def emit_def set_auth_def)
qed

section \<open>A concrete core\<close>

definition sample_cfg :: DeviceConfig where
  "sample_cfg = Local ''X'' ''local iMac (13.6) build 22G''"

definition sample_config_json :: "DeviceConfig json_codec" where
  "sample_config_json = \<lparr>to_string_pretty = (\<lambda>c. if c = sample_cfg then Inr ''json'' else Inl ''''),
     from_str = (\<lambda>s. Inr sample_cfg)\<rparr>"

definition sample_app_env :: app_env where
  "sample_app_env = \<lparr>ae_device = sample_env, ae_session = sample_session_env, ae_apple = sample_apple,
     ae_keystore = \<lparr>state_plist = plain_json, default_state = ''''\<rparr>, ae_inbound = sample_inbound,
     ae_config_json = sample_config_json, ae_clock = Some 9, ae_udid_bytes = [1],
     ae_key_bytes = replicate 32 CHR ''k'', ae_uuids = (\<lambda>_. ''1'')\<rparr>"

lemma sample_config_roundtrip: "json_roundtrip (ae_config_json sample_app_env)"
  by (simp add: json_roundtrip_def sample_app_env_def sample_config_json_def)

definition paired_disk :: disk where
  "paired_disk = empty_disk\<lparr>files := [config_path ''data'' \<mapsto> ''json'']\<rparr>"

lemma load_paired_disk: "load_os_config sample_app_env ''data'' paired_disk = Some sample_cfg"
  by (simp add: load_os_config_def load_def file_exists_def read_file_def paired_disk_def empty_disk_def
      sample_app_env_def sample_config_json_def)

definition chat_db :: db where
  "chat_db = upsert_chat ''c'' '''' SERVICE_IMESSAGE False 1 (kv_set ''auth.state'' (label Ready) empty_db)"

lemma chat_db_simps: "chat_exists chat_db ''c''" "kv_get ''auth.state'' chat_db = Some (label Ready)"
proof -
  show "chat_exists chat_db ''c''" by (simp add: chat_db_def)
  have "kv chat_db = kv (kv_set ''auth.state'' (label Ready) empty_db)" by (simp add: chat_db_def upsert_chat_def)
  then show "kv_get ''auth.state'' chat_db = Some (label Ready)"
    using kvs.get_put_same by (simp add: kv_get_def del: label.simps)
qed

theorem ready_after_restart_cannot_send_witness:
  "auth_state (initial_app sample_app_env ''data'' chat_db paired_disk) = ''ready'' \<and>
   session (initial_app sample_app_env ''data'' chat_db paired_disk) = None \<and>
   (\<exists>guid app'. send_message_local sample_app_env ''c'' ''hi''
      (initial_app sample_app_env ''data'' chat_db paired_disk) = (Inr guid, app') \<and>
    events (run_task sample_app_env (last (tasks app')) app') =
      [MessageSent ''c'' guid, MessageFailed ''c'' guid ''not signed in''])"
  using ready_after_restart_cannot_send [OF chat_db_simps(2) _ refl chat_db_simps(1),
      where env = sample_app_env and dir = "''data''" and d = paired_disk and env' = sample_app_env
        and body = "''hi''"]
  by (auto simp: load_paired_disk)

definition fresh_app :: AppState where
  "fresh_app = initial_app sample_app_env ''data'' (open_db None) empty_disk"

lemma sample_complete_pairing:
  assumes "dsk app = empty_disk\<lparr>files := fs\<rparr>"
  shows "\<exists>app'. complete_pairing sample_app_env ''X'' '''' app = (Inr (), app')"
proof -
  have "pair (ae_device sample_app_env) (ae_udid_bytes sample_app_env) (ae_uuids sample_app_env 0) (relay app)
      (trim ''X'') None = Inr sample_cfg"
    using sample_pair [of "[1]" "''1''" "relay app" None] by (simp add: sample_app_env_def sample_cfg_def)
  moreover have "trim [] = []" by (simp add: trim_def trim_start.simps trim_end.simps)
  moreover have "\<exists>d. save (ae_config_json sample_app_env) (config_path (ap_data_dir app)) sample_cfg (dsk app) = (Inr (), d)"
    by (simp add: assms save_cases sample_app_env_def sample_config_json_def write_unblocked empty_disk_def)
  ultimately show ?thesis
    by (auto simp: complete_pairing_def sem_defs bnd_def persist_os_config_cases)
qed

theorem auth_survives_restart_witness:
  "auth (initial_app sample_app_env ''data'' (open_db (Some
     (kv_set ''relay.host'' ''h'' (storage (set_auth (Errored ''x'') fresh_app))))) paired_disk) = Errored ''x''"
proof -
  let ?ws = "[(''relay.host'', ''h'')]"
  have k: "''auth.state'' \<notin> fst ` set ?ws" by simp
  have f: "kv_set ''relay.host'' ''h'' (storage (set_auth (Errored ''x'') fresh_app)) =
      fold (\<lambda>(k, v). kv_set k v) ?ws (storage (set_auth (Errored ''x'') fresh_app))" by simp
  have c: "load_os_config sample_app_env ''data'' paired_disk \<noteq> None" by (simp add: load_paired_disk)
  show ?thesis using auth_survives_restart [OF k f c] by (simp add: starts_with_def)
qed

theorem pairing_survives_restart_witness:
  "\<exists>app'. complete_pairing sample_app_env ''X'' '''' fresh_app = (Inr (), app') \<and>
    os_cfg (initial_app sample_app_env (ap_data_dir app') (open_db (Some (storage app'))) (dsk app')) = os_cfg app'"
proof -
  have "dsk fresh_app = empty_disk\<lparr>files := files empty_disk\<rparr>"
    by (simp add: fresh_app_def initial_app_def Let_def)
  from sample_complete_pairing [OF this] obtain app' where
    c: "complete_pairing sample_app_env ''X'' '''' fresh_app = (Inr (), app')" by blast
  from pairing_survives_restart [OF sample_config_roundtrip c refl] c show ?thesis by blast
qed

theorem session_outlives_pairing_witness:
  fixes s :: AuthSession
  defines "s \<equiv> \<lparr>as_data_dir = ''data'', as_config = sample_os_config, as_identity = ''i'', as_aps = ''a'',
     as_ids_user = None, as_im_client = None\<rparr>"
  shows "\<exists>app1 app2. clear_pairing (fresh_app\<lparr>session := Some s\<rparr>) = (Inr (), app1) \<and>
    complete_pairing sample_app_env ''X'' '''' app1 = (Inr (), app2) \<and>
    ensure_session sample_app_env app2 = (Inr s, app2) \<and> os_cfg app2 \<noteq> None"
proof -
  let ?app = "fresh_app\<lparr>session := Some s\<rparr>"
  have d: "dsk ?app = empty_disk" "ap_data_dir ?app = ''data''"
    by (simp_all add: fresh_app_def initial_app_def Let_def)
  have "clear (config_path ''data'') empty_disk = (Inr (), empty_disk)"
    by (simp add: clear_def file_exists_def empty_disk_def)
  then obtain app1 where 1: "clear_pairing ?app = (Inr (), app1)" and "dsk app1 = empty_disk"
    using d by (auto simp: clear_pairing_def sem_defs bnd_def clear_os_config_cases emit_def set_auth_def)
  then have "dsk app1 = empty_disk\<lparr>files := files empty_disk\<rparr>" by simp
  from sample_complete_pairing [OF this] obtain app2 where
    2: "complete_pairing sample_app_env ''X'' '''' app1 = (Inr (), app2)" by blast
  have "session ?app = Some s" by simp
  from session_outlives_pairing [OF this 1 2] 1 2 show ?thesis by auto
qed

section \<open>Attachments and MIME types\<close>

definition known_mime :: "string list" where
  "known_mime = [''image/png'', ''image/jpeg'', ''image/gif'', ''image/webp'', ''image/heic'', ''video/mp4'',
     ''video/quicktime'', ''audio/mpeg'', ''audio/mp4'', ''application/pdf'', ''text/plain'']"

text \<open>The type tables of the two modules fit together: whatever the file name, the MIME type chosen
  from its extension is either one that has a Uniform Type Identifier of its own, or one of the three
  that fall back to the generic one; the case of the name does not matter.\<close>

theorem mime_table_has_uti:
  "(mime_from_ext name \<in> set known_mime) = (uti_for (mime_from_ext name) \<noteq> ''public.data'') \<and>
   mime_from_ext name \<in> set (known_mime @ [''video/webm'', ''audio/wav'', ''application/octet-stream'']) \<and>
   mime_from_ext (to_ascii_lowercase name) = mime_from_ext name"
proof -
  have "ascii_lower_char (ascii_lower_char c) = ascii_lower_char c" for c
    by (simp add: ascii_lower_char_def byte_def)
  then have "to_ascii_lowercase (to_ascii_lowercase name) = to_ascii_lowercase name"
    by (simp add: to_ascii_lowercase_def)
  then have "mime_from_ext (to_ascii_lowercase name) = mime_from_ext name"
    by (simp add: mime_from_ext_def)
  moreover have "mime_from_ext name \<in> set (known_mime @ [''video/webm'', ''audio/wav'', ''application/octet-stream''])"
    by (simp add: mime_from_ext_def Let_def known_mime_def)
  moreover have "\<forall>m \<in> set (known_mime @ [''video/webm'', ''audio/wav'', ''application/octet-stream'']).
      (m \<in> set known_mime) = (uti_for m \<noteq> ''public.data'')"
    by (simp add: known_mime_def uti_for_def)
  ultimately show ?thesis by blast
qed

end
