(* ===== verification/System.thy ===== *)
theory System
  imports FfiSpec
begin

text \<open>
  The running core as a step relation on \<open>AppState\<close>: calls of the UI thread (each runs to its end), one
  stretch of any pending task, one round of a receive loop with whatever the stream gives it, and the
  callbacks of rustpush. The environment of each step is arbitrary, so every outcome of the network,
  the disk, the clock and the random numbers is covered.
\<close>

section \<open>Steps\<close>

datatype ui_call =
    UiSetRelayHost string
  | UiListChats bool
  | UiListAttachments string
  | UiSend string string
  | UiAttach string string string
  | UiMarkRead string
  | UiPin string bool int
  | UiArchive string bool
  | UiTapback string string
  | UiEdit string string
  | UiUnsend string
  | UiStartAuth string string
  | UiSubmitCode string
  | UiPair string string
  | UiClearPairing
  | UiPoll

fun exec_call :: "app_env \<Rightarrow> ui_call \<Rightarrow> AppState \<Rightarrow> AppState" where
  "exec_call env (UiSetRelayHost host) app = snd (set_relay_host host app)"
| "exec_call env (UiListChats archived) app = snd (ui_list_chats env archived app)"
| "exec_call env (UiListAttachments guid) app = snd (list_attachments env guid app)"
| "exec_call env (UiSend chat txt) app = snd (send_message_local env chat txt app)"
| "exec_call env (UiAttach chat txt path) app = snd (attach_file_local env chat txt path app)"
| "exec_call env (UiMarkRead chat) app = mark_read env chat app"
| "exec_call env (UiPin chat pinned n) app = pin_chat chat pinned n app"
| "exec_call env (UiArchive chat archived) app = archive_chat chat archived app"
| "exec_call env (UiTapback guid reaction) app = snd (tapback_local env guid reaction app)"
| "exec_call env (UiEdit guid txt) app = edit_message_local env guid txt app"
| "exec_call env (UiUnsend guid) app = unsend_message_local guid app"
| "exec_call env (UiStartAuth apple_id password) app = snd (start_apple_id_auth env apple_id password app)"
| "exec_call env (UiSubmitCode code) app = snd (submit_two_factor_code code app)"
| "exec_call env (UiPair code token) app = snd (complete_pairing env code token app)"
| "exec_call env UiClearPairing app = snd (clear_pairing app)"
| "exec_call env UiPoll app = snd (poll_events app)"

definition drop_task :: "nat \<Rightarrow> AppState \<Rightarrow> AppState" where
  "drop_task i app = app\<lparr>tasks := take i (tasks app) @ drop (Suc i) (tasks app)\<rparr>"

inductive sys_step :: "AppState \<Rightarrow> AppState \<Rightarrow> bool" where
  ui: "sys_step app (exec_call env c app)"
| task: "i < length (tasks app) \<Longrightarrow> tasks app ! i \<noteq> ReceiveLoopTask \<Longrightarrow>
    sys_step app (run_task env (tasks app ! i) (drop_task i app))"
| frame: "i < length (tasks app) \<Longrightarrow> tasks app ! i = ReceiveLoopTask \<Longrightarrow>
    sys_step app (receive_task_round env r (drop_task i app))"
| users_updated: "session app = Some s \<Longrightarrow> on_users_updated (ae_session (env :: app_env)) us (s, dsk app) = (s', d) \<Longrightarrow>
    sys_step app (app\<lparr>session := Some s', dsk := d\<rparr>)"
| account_refreshed: "session app = Some s \<Longrightarrow>
    sys_step app (app\<lparr>dsk := on_account_refreshed (ae_session (env :: app_env)) (as_data_dir s) data (dsk app)\<rparr>)"
| keystore_saved: "sys_step app (app\<lparr>dsk := on_keystore_update kenv k st (dsk app)\<rparr>)"



text \<open>A start on a database that is in order; \<open>r\<close> says whether it restores the state ready.\<close>

definition started :: "bool \<Rightarrow> AppState \<Rightarrow> bool" where
  "started r app \<longleftrightarrow> (\<exists>env dir file d. (\<forall>st. file = Some st \<longrightarrow> wf_db st) \<and>
     app = initial_app env dir (open_db file) d \<and> (auth app = Ready \<longrightarrow> r))"

section \<open>The invariant\<close>

definition has_client :: "AppState \<Rightarrow> bool" where
  "has_client app \<longleftrightarrow> (\<exists>s. session app = Some s \<and> as_im_client s \<noteq> None)"

definition session_ok :: "AppState \<Rightarrow> bool" where
  "session_ok app \<longleftrightarrow> (\<forall>s. session app = Some s \<longrightarrow> as_im_client s \<noteq> None \<longrightarrow> as_ids_user s \<noteq> None)"

fun task_ok :: "AppState \<Rightarrow> task \<Rightarrow> bool" where
  "task_ok app (SendTask signed_in _ _ _ _) \<longleftrightarrow> signed_in \<longrightarrow> session app \<noteq> None"
| "task_ok app (SendFileTask signed_in _ _ _ _ _ _) \<longleftrightarrow> signed_in \<longrightarrow> session app \<noteq> None"
| "task_ok app (LoginTask _ _) \<longleftrightarrow> session app \<noteq> None"
| "task_ok app (TwoFactorTask _) \<longleftrightarrow> session app \<noteq> None"
| "task_ok app (ApplyLoginTask _) \<longleftrightarrow> session app \<noteq> None"
| "task_ok app PrepareClientTask \<longleftrightarrow> session app \<noteq> None"
| "task_ok app (RegisterTask _) \<longleftrightarrow> session app \<noteq> None"
| "task_ok app (InstallClientTask _) \<longleftrightarrow> (\<exists>s. session app = Some s \<and> as_ids_user s \<noteq> None)"
| "task_ok app (PersistAuthTask st) \<longleftrightarrow> st = Ready \<longrightarrow> has_client app"
| "task_ok app ReceiveStartTask \<longleftrightarrow> has_client app"
| "task_ok app ReceiveLoopTask \<longleftrightarrow> has_client app"
| "task_ok app _ \<longleftrightarrow> True"

text \<open>What a step may do to the session: it stays, or gains a user or a client; and it is never replaced.\<close>

definition session_le :: "AuthSession \<Rightarrow> AuthSession \<Rightarrow> bool" where
  "session_le s s' \<longleftrightarrow> as_data_dir s' = as_data_dir s \<and> as_config s' = as_config s \<and> as_identity s' = as_identity s \<and>
     (as_im_client s \<noteq> None \<longrightarrow> as_im_client s' \<noteq> None) \<and> (as_ids_user s \<noteq> None \<longrightarrow> as_ids_user s' \<noteq> None)"

definition session_grows :: "AppState \<Rightarrow> AppState \<Rightarrow> bool" where
  "session_grows app app' \<longleftrightarrow> (\<forall>s. session app = Some s \<longrightarrow> (\<exists>s'. session app' = Some s' \<and> session_le s s'))"

lemma session_le_refl [simp]: "session_le s s"
  by (simp add: session_le_def)

lemma session_le_trans: "session_le s t \<Longrightarrow> session_le t u \<Longrightarrow> session_le s u"
  by (simp add: session_le_def)

text \<open>The invariant, relative to a state \<open>a0\<close> the run has passed through.\<close>

definition sys_inv :: "bool \<Rightarrow> AppState \<Rightarrow> AppState \<Rightarrow> bool" where
  "sys_inv r a0 app \<longleftrightarrow> wf_db (storage app) \<and> session_ok app \<and> list_all (task_ok app) (tasks app) \<and>
     (auth app = Ready \<longrightarrow> r \<or> has_client app) \<and> session_grows a0 app"

lemma session_grows_refl: "session app' = session app \<Longrightarrow> session_grows app app'"
  by (simp add: session_grows_def)

lemma session_grows_trans: "session_grows a b \<Longrightarrow> session_grows b c \<Longrightarrow> session_grows a c"
  unfolding session_grows_def by (meson session_le_trans)

lemma has_client_grows: "session_grows app app' \<Longrightarrow> has_client app \<Longrightarrow> has_client app'"
  by (fastforce simp: session_grows_def has_client_def session_le_def)

lemma task_ok_grows: "session_grows app app' \<Longrightarrow> task_ok app t \<Longrightarrow> task_ok app' t"
  using has_client_grows [of app app']
  by (cases t) (fastforce simp: session_grows_def session_le_def)+

lemma sys_inv_frame:
  assumes "sys_inv r a0 app" and "session_grows app app'" and "wf_db (storage app')" and "session_ok app'"
    and "set (tasks app') \<subseteq> set (tasks app) \<union> {t. task_ok app' t}"
    and "auth app' = auth app \<or> auth app' \<noteq> Ready \<or> has_client app'"
  shows "sys_inv r a0 app'"
proof -
  have "list_all (task_ok app') (tasks app')"
    using assms(1,5) task_ok_grows [OF assms(2)] by (auto simp: sys_inv_def list_all_iff)
  then show ?thesis
    using assms has_client_grows [OF assms(2)] session_grows_trans [OF _ assms(2), of a0]
    by (auto simp: sys_inv_def)
qed

lemma session_ok_same: "session app' = session app \<Longrightarrow> session_ok app \<Longrightarrow> session_ok app'"
  by (simp add: session_ok_def)

text \<open>The usual case: the session is untouched.\<close>

lemma sys_inv_same:
  assumes "sys_inv r a0 app" and "session app' = session app" and "wf_db (storage app')"
    and "set (tasks app') \<subseteq> set (tasks app) \<union> {t. task_ok app' t}"
    and "auth app' = auth app \<or> auth app' \<noteq> Ready \<or> has_client app'"
  shows "sys_inv r a0 app'"
  using assms by (intro sys_inv_frame [OF assms(1)] session_grows_refl session_ok_same [of app' app])
    (simp_all add: sys_inv_def)

lemma sys_inv_emit: "sys_inv r a0 app \<Longrightarrow> sys_inv r a0 (emit ev app)"
  by (rule sys_inv_same) (auto simp: emit_def sys_inv_def)

lemma sys_inv_spawn:
  assumes "sys_inv r a0 app" and "task_ok app t"
  shows "sys_inv r a0 (spawn t app)"
proof (rule sys_inv_same [OF assms(1)])
  have "task_ok (spawn t app) t"
    by (rule task_ok_grows [OF _ assms(2)]) (simp add: spawn_def session_grows_refl)
  then show "set (tasks (spawn t app)) \<subseteq> set (tasks app) \<union> {t'. task_ok (spawn t app) t'}"
    by (auto simp: spawn_def)
qed (use assms in \<open>simp_all add: spawn_def sys_inv_def\<close>)

lemma sys_inv_storage: "sys_inv r a0 app \<Longrightarrow> wf_db d \<Longrightarrow> sys_inv r a0 (app\<lparr>storage := d\<rparr>)"
  by (erule sys_inv_same) auto

lemma sys_inv_wf: "sys_inv r a0 app \<Longrightarrow> wf_db (storage app)"
  by (simp add: sys_inv_def)

lemma sys_inv_dsk: "sys_inv r a0 app \<Longrightarrow> sys_inv r a0 (app\<lparr>dsk := d\<rparr>)"
  by (frule sys_inv_wf, erule sys_inv_same) auto

lemma sys_inv_os_cfg: "sys_inv r a0 app \<Longrightarrow> sys_inv r a0 (app\<lparr>os_cfg := c\<rparr>)"
  by (frule sys_inv_wf, erule sys_inv_same) auto

lemma sys_inv_events: "sys_inv r a0 app \<Longrightarrow> sys_inv r a0 (app\<lparr>events := q\<rparr>)"
  by (frule sys_inv_wf, erule sys_inv_same) auto

lemma sys_inv_relay: "sys_inv r a0 app \<Longrightarrow> sys_inv r a0 (app_set_relay_host h app)"
  by (frule sys_inv_wf, erule sys_inv_same) (auto simp: app_set_relay_host_def wf_kv_set)

lemma sys_inv_auth:
  assumes "sys_inv r a0 app" and "st \<noteq> Ready \<or> has_client app"
  shows "sys_inv r a0 (persist_auth_label st app)"
proof (rule sys_inv_same [OF assms(1)])
  have "has_client (persist_auth_label st app) = has_client app"
    by (simp add: has_client_def persist_auth_label_def emit_def)
  then show "auth (persist_auth_label st app) = auth app \<or> auth (persist_auth_label st app) \<noteq> Ready \<or>
      has_client (persist_auth_label st app)"
    using assms(2) by (auto simp: persist_auth_label_def emit_def)
qed (use assms(1) in \<open>simp_all add: persist_auth_label_def emit_def sys_inv_def wf_kv_set\<close>)

lemma set_auth_persist: "set_auth st app = persist_auth_label st app"
  by (simp add: set_auth_def persist_auth_label_def)

section \<open>Calls of the UI\<close>

lemma preserves_diag: "(\<And>a. preserves P (F a)) \<Longrightarrow> preserves P (\<lambda>s. F s s)"
  by (auto simp: preserves_def)

lemma keeps_on_storage: "preserves wf_db m \<Longrightarrow> preserves (sys_inv r a0) (on_storage env m)"
proof (rule preservesI)
  fix app
  assume m: "preserves wf_db m" and app: "sys_inv r a0 app"
  have "snd (on_storage env m app) = app\<lparr>storage := snd (m (storage app))\<rparr>"
    by (simp add: on_storage_def sql_err_def split: prod.splits sum.splits)
  then show "sys_inv r a0 (snd (on_storage env m app))"
    using preservesD [OF m sys_inv_wf [OF app]] by (simp add: sys_inv_storage [OF app])
qed

lemma keeps_on_app_disk [keeps]: "preserves (sys_inv r a0) (on_app_disk m)"
  by (auto simp: preserves_def on_app_disk_def intro: sys_inv_dsk split: prod.splits)

lemma keeps_emit [keeps]: "preserves (sys_inv r a0) (modify (emit ev))"
  by (rule preserves_modify) (rule sys_inv_emit)

lemma keeps_set_auth: "st \<noteq> Ready \<Longrightarrow> preserves (sys_inv r a0) (modify (set_auth st))"
  by (rule preserves_modify) (simp add: set_auth_persist sys_inv_auth)

lemma keeps_send_message_local: "preserves (sys_inv r a0) (send_message_local env chat_guid txt)"
  unfolding send_message_local_def Let_def
  by (intro keeps keeps_on_storage preserves_modify sys_inv_spawn) simp_all

lemma keeps_attach_chain:
  "preserves (sys_inv r a0) (thn (on_app_disk (create_dir_all dd))
        (thn (on_app_disk (write_file dest content))
        (thn (on_storage env (insert_message row))
        (thn (on_storage env (insert_attachment ag mg fn mime n dest))
        (thn (modify (emit ev))
        (thn (modify (\<lambda>app. spawn (SendFileTask (session app \<noteq> None) chat_guid
                (participant_addresses chat_guid (storage app)) txt dest mime mg) app))
             (ok mg)))))))"
  by (intro keeps keeps_on_storage preserves_modify sys_inv_spawn) simp_all

lemma keeps_attach_file_local: "preserves (sys_inv r a0) (attach_file_local env chat_guid txt path)"
  unfolding attach_file_local_def Let_def
  by (rule preservesI)
    (auto simp del: not_None_eq split: sum.splits option.splits intro!: preservesD [OF keeps_attach_chain])

lemma keeps_tapback_local: "preserves (sys_inv r a0) (tapback_local env guid reaction)"
  unfolding tapback_local_def
  by (intro keeps keeps_on_storage preserves_modify sys_inv_spawn) simp_all

lemma keeps_persist_os_config [keeps]: "preserves (sys_inv r a0) (persist_os_config env cfg)"
  unfolding persist_os_config_def
  by (rule preserves_diag) (intro keeps preserves_modify sys_inv_os_cfg)

lemma keeps_clear_os_config [keeps]: "preserves (sys_inv r a0) clear_os_config"
  unfolding clear_os_config_def
  by (rule preserves_diag) (intro keeps preserves_modify sys_inv_os_cfg)

lemma keeps_complete_pairing: "preserves (sys_inv r a0) (complete_pairing env code token)"
  unfolding complete_pairing_def by (intro keeps keeps_set_auth) simp

lemma keeps_clear_pairing: "preserves (sys_inv r a0) clear_pairing"
  unfolding clear_pairing_def by (intro keeps keeps_set_auth) simp

lemma keeps_set_relay_host: "preserves (sys_inv r a0) (set_relay_host host)"
  unfolding set_relay_host_def Let_def
  by (intro keeps preserves_modify sys_inv_relay)

section \<open>Signing in\<close>

text \<open>A change of the session together with the disk.\<close>

lemma sys_inv_session:
  assumes "sys_inv r a0 app" and "session_grows app (app\<lparr>session := Some s, dsk := d\<rparr>)"
    and "as_im_client s \<noteq> None \<longrightarrow> as_ids_user s \<noteq> None"
  shows "sys_inv r a0 (app\<lparr>session := Some s, dsk := d\<rparr>)"
  by (rule sys_inv_frame [OF assms(1,2)]) (use assms in \<open>auto simp: session_ok_def sys_inv_def\<close>)

lemma sys_inv_session_ok: "sys_inv r a0 app \<Longrightarrow> session app = Some s \<Longrightarrow> as_im_client s \<noteq> None \<longrightarrow> as_ids_user s \<noteq> None"
  by (simp add: sys_inv_def session_ok_def)

lemma ensure_session_cases:
  "ensure_session env app = (r, app') \<Longrightarrow>
     (r = Inr s \<longrightarrow> session app' = Some s) \<and>
     (app' = app \<or> (\<exists>d. app' = app\<lparr>dsk := d\<rparr>) \<or>
      (\<exists>s d. session app = None \<and> as_im_client s = None \<and> app' = app\<lparr>dsk := d, session := Some s\<rparr>))"
  by (auto simp: ensure_session_def elim!: create_session_Inr
      split: option.splits sum.splits prod.splits)

lemma session_dsk: "app\<lparr>dsk := d, session := s\<rparr> = app\<lparr>session := s, dsk := d\<rparr>"
  by simp

lemma keeps_ensure_session [keeps]: "preserves (sys_inv r a0) (ensure_session env)"
proof (rule preservesI)
  fix app assume i: "sys_inv r a0 app"
  obtain x app' where e: "ensure_session env app = (x, app')" by fastforce
  have "sys_inv r a0 app'"
    using ensure_session_cases [OF e, THEN conjunct2] i
  proof (elim conjE disjE exE)
    fix s d
    assume n: "session app = None" and "as_im_client s = None" and a: "app' = app\<lparr>dsk := d, session := Some s\<rparr>"
    then show "sys_inv r a0 app'"
      unfolding a session_dsk by (intro sys_inv_session [OF i]) (simp_all add: session_grows_def n)
  qed (auto intro: sys_inv_dsk)
  then show "sys_inv r a0 (snd (ensure_session env app))" by (simp add: e)
qed

lemma ensure_session_present: "ensure_session env app = (Inr s, app') \<Longrightarrow> session app' \<noteq> None"
  using ensure_session_cases [of env app "Inr s" app' s] by simp

lemma keeps_start_apple_id_auth: "preserves (sys_inv r a0) (start_apple_id_auth env apple_id password)"
proof (rule preservesI)
  fix app assume i: "sys_inv r a0 app"
  obtain x app' where e: "ensure_session env app = (x, app')" by fastforce
  have i': "sys_inv r a0 app'" using preservesD [OF keeps_ensure_session i, of env] e by simp
  have "sys_inv r a0 (spawn (LoginTask apple_id password) (set_auth AuthenticatingAccount app'))"
    if "session app' \<noteq> None"
    using that by (intro sys_inv_spawn) (simp_all add: set_auth_persist sys_inv_auth [OF i'],
        simp add: persist_auth_label_def emit_def)
  then show "sys_inv r a0 (snd (start_apple_id_auth env apple_id password app))"
    using i i' e ensure_session_present [of env app _ app']
    by (auto simp: start_apple_id_auth_def fail_def thn_def bnd_def modify_def split: sum.splits)
qed

lemma keeps_submit_two_factor_code: "preserves (sys_inv r a0) (submit_two_factor_code code)"
  by (auto simp: submit_two_factor_code_def intro!: preservesI sys_inv_spawn)

text \<open>The stretches of a sign-in on the session of the core.\<close>

lemma finalize_le:
  "finalize_login_and_register_ids senv (s, d) = (x, (s', d')) \<Longrightarrow> session_le s s' \<and> as_im_client s' = as_im_client s"
  by (auto simp: finalize_cases session_le_def Let_def split: option.splits sum.splits prod.splits)

lemma stored_user_le: "stored_user (s, d) = (x, (s', d')) \<Longrightarrow> session_le s s' \<and> as_im_client s' = as_im_client s"
  by (simp add: stored_user_def asks_def)

lemma register_user_le:
  "register_user senv u (s, d) = (x, (s', d')) \<Longrightarrow> session_le s s' \<and> as_im_client s' = as_im_client s \<and>
     ((\<exists>u'. x = Inr u') \<longrightarrow> as_ids_user s' \<noteq> None)"
  by (auto simp: register_user_cases session_le_def Let_def split: sum.splits prod.splits)

lemma install_client_le:
  "install_client u (s, d) = (x, (s', d')) \<Longrightarrow> session_le s s' \<and> as_ids_user s' = as_ids_user s \<and> as_im_client s' \<noteq> None"
  by (auto simp: install_client_def session_le_def sem_defs bnd_def)

lemma keeps_in_app_session:
  assumes "sys_inv r a0 app" and "session app = Some s" and "m (s, dsk app) = (x, (s', d))" and "session_le s s'"
    and "as_im_client s' = as_im_client s \<or> as_ids_user s' \<noteq> None"
  shows "in_app_session m app = (x, app\<lparr>session := Some s', dsk := d\<rparr>) \<and> sys_inv r a0 (app\<lparr>session := Some s', dsk := d\<rparr>)"
proof -
  have "session_grows app (app\<lparr>session := Some s', dsk := d\<rparr>)" using assms(2,4) by (simp add: session_grows_def)
  moreover have "as_im_client s' \<noteq> None \<longrightarrow> as_ids_user s' \<noteq> None"
    using sys_inv_session_ok [OF assms(1,2)] assms(4,5) by (auto simp: session_le_def)
  ultimately show ?thesis using sys_inv_session [OF assms(1)] assms(2,3) by (simp add: in_app_session_def)
qed

lemma keeps_apply_login_state:
  assumes "sys_inv r a0 app" and "session app = Some s"
  shows "sys_inv r a0 (apply_login_state env ls app)"
proof (cases "ls = LoggedIn")
  case True
  obtain x s' d where f: "finalize_login_and_register_ids (ae_session env) (s, dsk app) = (x, (s', d))" by (metis prod.collapse)
  from keeps_in_app_session [where m = "finalize_login_and_register_ids (ae_session env)", OF assms f] finalize_le [OF f]
  show ?thesis by (auto simp: apply_login_state_def True intro!: sys_inv_spawn split: sum.splits)
next
  case False
  then have "from_login_state ls \<noteq> Ready" by (cases ls) simp_all
  with False assms show ?thesis by (auto simp: apply_login_state_def intro!: sys_inv_spawn split: LoginState.splits)
qed

lemma prepare_client_le:
  assumes "sys_inv r a0 app" and "session app = Some s" and "m (s, dsk app) = (x, (s', d))" and "session_le s s'"
    and "as_im_client s' = as_im_client s \<or> as_ids_user s' \<noteq> None"
    and "\<And>v. x = Inr v \<Longrightarrow> sys_inv r a0 (app\<lparr>session := Some s', dsk := d\<rparr>) \<Longrightarrow> sys_inv r a0 (k v (app\<lparr>session := Some s', dsk := d\<rparr>))"
  shows "sys_inv r a0 (prepare_client m k app)"
  using keeps_in_app_session [where m = m, OF assms(1-5)] assms(6)
  by (auto simp: prepare_client_def intro!: sys_inv_spawn split: sum.splits)

section \<open>Tasks\<close>

lemma has_client_persist [simp]: "has_client (persist_auth_label st app) = has_client app"
  by (simp add: has_client_def persist_auth_label_def emit_def)

lemma keeps_report_failure: "sys_inv r a0 app \<Longrightarrow> sys_inv r a0 (report_failure g t x app)"
  by (simp add: report_failure_def sys_inv_emit split: sum.splits)

lemma keeps_report_stub: "sys_inv r a0 app \<Longrightarrow> sys_inv r a0 (report_stub what x app)"
  by (simp add: report_stub_def sys_inv_emit split: sum.splits)

lemma keeps_login_result:
  "sys_inv r a0 app \<Longrightarrow> session app \<noteq> None \<Longrightarrow> sys_inv r a0 (login_result x app)"
  by (auto simp: login_result_def intro!: sys_inv_spawn split: sum.splits)

lemma keeps_client_tasks:
  assumes i: "sys_inv r a0 app" and s: "session app = Some s"
  shows "sys_inv r a0 (run_task env PrepareClientTask app)" and "sys_inv r a0 (run_task env (RegisterTask u) app)"
    and "as_ids_user s \<noteq> None \<Longrightarrow> sys_inv r a0 (run_task env (InstallClientTask u) app)"
proof -
  obtain x s' d where m: "stored_user (s, dsk app) = (x, (s', d))" by (metis prod.collapse)
  show "sys_inv r a0 (run_task env PrepareClientTask app)"
    unfolding run_task.simps
    by (rule prepare_client_le [where m = stored_user, OF i s m]) (use stored_user_le [OF m] in \<open>auto intro: sys_inv_spawn\<close>)
next
  obtain x s' d where m: "register_user (ae_session env) u (s, dsk app) = (x, (s', d))" by (metis prod.collapse)
  show "sys_inv r a0 (run_task env (RegisterTask u) app)"
    unfolding run_task.simps
    by (rule prepare_client_le [where m = "register_user (ae_session env) u", OF i s m])
      (use register_user_le [OF m] in \<open>auto intro: sys_inv_spawn\<close>)
next
  assume u: "as_ids_user s \<noteq> None"
  obtain x s' d where m: "install_client u (s, dsk app) = (x, (s', d))" by (metis prod.collapse)
  from install_client_le [OF m] have c: "has_client (app\<lparr>session := Some s', dsk := d\<rparr>)"
    by (simp add: has_client_def)
  then have "has_client (spawn ReceiveStartTask (app\<lparr>session := Some s', dsk := d\<rparr>))"
    by (simp add: has_client_def spawn_def)
  with c show "sys_inv r a0 (run_task env (InstallClientTask u) app)"
    unfolding run_task.simps
    by (intro prepare_client_le [where m = "install_client u", OF i s m])
      (use install_client_le [OF m] u in \<open>auto simp: client_ready_def intro!: sys_inv_spawn\<close>)
qed

lemma keeps_receive_start:
  assumes "sys_inv r a0 app" and "has_client app"
  shows "sys_inv r a0 (run_task env ReceiveStartTask app)"
  using assms
  by (auto simp: has_client_def receive_start_def sys_inv_events intro!: sys_inv_spawn)

lemma keeps_run_task:
  assumes "sys_inv r a0 app" and "task_ok app t"
  shows "sys_inv r a0 (run_task env t app)"
proof (cases t)
  case (ApplyLoginTask ls)
  with keeps_apply_login_state [OF assms(1)] assms(2) show ?thesis by auto
next
  case PrepareClientTask
  with keeps_client_tasks(1) [OF assms(1)] assms(2) show ?thesis by (metis task_ok.simps(6) not_None_eq)
next
  case (RegisterTask u)
  with keeps_client_tasks(2) [OF assms(1)] assms(2) show ?thesis by (metis task_ok.simps(7) not_None_eq)
next
  case (InstallClientTask u)
  with keeps_client_tasks(3) [OF assms(1)] assms(2) show ?thesis by auto
next
  case ReceiveStartTask
  with keeps_receive_start [OF assms(1)] assms(2) show ?thesis by simp
next
  case (PersistAuthTask st)
  with assms show ?thesis by (auto intro!: sys_inv_auth)
qed (use assms in \<open>auto intro!: keeps_report_failure keeps_report_stub keeps_login_result sys_inv_emit
        split: option.splits\<close>)

lemma keeps_receive_task_round:
  assumes i: "sys_inv r a0 app" and c: "has_client app"
  shows "sys_inv r a0 (receive_task_round env x app)"
proof -
  let ?s = "(storage app, events app)"
  obtain going d q where e: "receive_round (ae_inbound env) (now_epoch (ae_clock env)) x ?s = (going, d, q)"
    by (cases "receive_round (ae_inbound env) (now_epoch (ae_clock env)) x ?s") auto
  have "wf_db d"
    using receive_round_safe [of ?s "ae_inbound env" "now_epoch (ae_clock env)" x] sys_inv_wf [OF i]
    by (simp add: e)
  then have "sys_inv r a0 (app\<lparr>storage := d, events := q\<rparr>)"
    by (intro sys_inv_events sys_inv_storage [OF i])
  then show ?thesis
    using c by (auto simp: receive_task_round_def e Let_def has_client_def intro!: sys_inv_spawn)
qed

lemma keeps_drop_task:
  assumes "sys_inv r a0 app" and "i < length (tasks app)"
  shows "sys_inv r a0 (drop_task i app) \<and> task_ok (drop_task i app) (tasks app ! i)"
proof
  have "set (tasks (drop_task i app)) \<subseteq> set (tasks app)"
    using set_take_subset [of i "tasks app"] set_drop_subset [of "Suc i" "tasks app"]
    by (auto simp: drop_task_def)
  then show "sys_inv r a0 (drop_task i app)"
    using assms(1) by (intro sys_inv_same [OF assms(1)]) (auto simp: drop_task_def sys_inv_def)
  have "task_ok app (tasks app ! i)" using assms by (simp add: sys_inv_def list_all_length)
  then show "task_ok (drop_task i app) (tasks app ! i)"
    by (rule task_ok_grows [rotated]) (simp add: session_grows_refl drop_task_def)
qed

section \<open>Every step keeps the invariant\<close>

lemmas keeps_ui_calls =
  keeps_set_relay_host [THEN preservesD] keeps_send_message_local [THEN preservesD]
  keeps_attach_file_local [THEN preservesD] keeps_tapback_local [THEN preservesD]
  keeps_start_apple_id_auth [THEN preservesD] keeps_submit_two_factor_code [THEN preservesD]
  keeps_complete_pairing [THEN preservesD] keeps_clear_pairing [THEN preservesD]

lemma keeps_exec_call:
  assumes "sys_inv r a0 app"
  shows "sys_inv r a0 (exec_call env c app)"
proof -
  have wf: "wf_db (storage app)" using assms by (rule sys_inv_wf)
  show ?thesis
  proof (cases c)
    case (UiListChats a)
    with assms show ?thesis by (simp add: ui_list_chats_def sys_inv_emit split: sum.splits)
  next
    case (UiListAttachments g)
    with assms show ?thesis by (simp add: list_attachments_def sys_inv_emit split: sum.splits)
  next
    case UiPoll
    with assms show ?thesis by (simp add: poll_events_def sys_inv_events split: prod.splits)
  qed (use assms wf in \<open>auto simp: mark_read_def pin_chat_def archive_chat_def edit_message_local_def
        unsend_message_local_def wf_mark_chat_read wf_set_chat_pin wf_set_chat_archived wf_edit_message
        wf_unsend_message intro!: sys_inv_emit sys_inv_spawn sys_inv_storage keeps_ui_calls\<close>)
qed

lemma keeps_users_updated:
  assumes i: "sys_inv r a0 app" and s: "session app = Some s"
    and u: "on_users_updated senv us (s, dsk app) = (s', d)"
  shows "sys_inv r a0 (app\<lparr>session := Some s', dsk := d\<rparr>)"
proof -
  have f: "as_data_dir s' = as_data_dir s" "as_config s' = as_config s" "as_identity s' = as_identity s"
    "as_im_client s' = as_im_client s" "as_ids_user s \<noteq> None \<longrightarrow> as_ids_user s' \<noteq> None"
    using u by (auto simp: on_users_updated_def split: list.splits)
  have "session_grows app (app\<lparr>session := Some s', dsk := d\<rparr>)"
    using f s by (simp add: session_grows_def session_le_def)
  then show ?thesis
    using sys_inv_session [OF i] sys_inv_session_ok [OF i s] f by simp
qed

lemma keeps_sys_step:
  assumes "sys_inv r a0 app" and "sys_step app app'"
  shows "sys_inv r a0 app'"
  using assms(2)
proof (cases rule: sys_step.cases)
  case (ui env c)
  with assms(1) show ?thesis by (simp add: keeps_exec_call)
next
  case (task i env)
  with keeps_drop_task [OF assms(1)] show ?thesis by (simp add: keeps_run_task)
next
  case (frame i env x)
  with keeps_drop_task [OF assms(1), of i] show ?thesis by (simp add: keeps_receive_task_round)
next
  case (users_updated s env us s' d)
  with assms(1) show ?thesis by (simp add: keeps_users_updated)
qed (use assms(1) in \<open>simp_all add: sys_inv_dsk\<close>)

lemma started_inv: "started r app \<Longrightarrow> sys_inv r app app"
  by (auto simp: started_def initial_app_def Let_def sys_inv_def session_ok_def session_grows_refl
      intro!: wf_open_db)

interpretation run: inductive_invariant "started r" sys_step "\<lambda>app. \<exists>a0. sys_inv r a0 app"
  by unfold_locales (blast intro: started_inv keeps_sys_step)+

interpretation from_here: inductive_invariant "\<lambda>app. app = a0 \<and> sys_inv r a0 a0" sys_step "sys_inv r a0"
  by unfold_locales (auto intro: keeps_sys_step)

section \<open>What holds in every run\<close>


text \<open>C10: The core reports that it is ready only with a live client of iMessage, in every run that did
  not start by restoring the stored label \<open>ready\<close>.\<close>

theorem ready_has_client: "reachable (started False) sys_step app \<Longrightarrow> auth app = Ready \<Longrightarrow> has_client app"
  using run.reachable_inv [of False app] by (auto simp: sys_inv_def)

text \<open>C35: The session is never replaced or closed while the core runs: once there is one it keeps its
  directory, device and identity, and once it has a client it keeps one, whatever happens, a new
  pairing and a removal of the pairing included.\<close>

theorem session_never_replaced: "reachable (started r) sys_step app \<Longrightarrow> sys_step\<^sup>*\<^sup>* app app' \<Longrightarrow>
    session app = Some s \<Longrightarrow> \<exists>s'. session app' = Some s' \<and> as_data_dir s' = as_data_dir s \<and>
      as_config s' = as_config s \<and> as_identity s' = as_identity s \<and>
      (as_im_client s \<noteq> None \<longrightarrow> as_im_client s' \<noteq> None)"
proof -
  assume "reachable (started r) sys_step app" and run: "sys_step\<^sup>*\<^sup>* app app'" and s: "session app = Some s"
  then have "sys_inv r app app"
    using run.reachable_inv [of r app] by (auto simp: sys_inv_def session_grows_refl)
  then have "sys_inv r app app'" using from_here.steps_inv [OF run] by simp
  then show ?thesis using s by (auto simp: sys_inv_def session_grows_def session_le_def)
qed

end
