(* ===== verification/SystemRuns.thy ===== *)
theory SystemRuns
  imports System
begin

text \<open>
  A concrete sign-in, from the start of a paired device to a running receive loop, as steps of the
  core; it shows that the properties of \<open>System\<close> speak about runs that happen.
\<close>

definition paired_app :: AppState where
  "paired_app = initial_app sample_app_env ''data'' (open_db None) paired_disk"

lemma sample_app_env_simps [simp]:
  "ae_session sample_app_env = sample_session_env" "ae_apple sample_app_env = sample_apple"
  by (simp_all add: sample_app_env_def)

lemma open_new: "kv_get k (open_db None) = None" "wf_db (open_db None)"
  by (simp_all add: open_db_def migrate_def add_service_column_def repair_services_def kv_get_def
      empty_db_def wf_open_db wf_db_def wf_table_defs)

lemma paired_app_simps:
  "session paired_app = None" "os_cfg paired_app = Some sample_cfg" "auth paired_app = NeedsCredentials"
  "tasks paired_app = []" "dsk paired_app = paired_disk" "ap_data_dir paired_app = ''data''"
  by (simp_all add: paired_app_def initial_app_def Let_def load_paired_disk restore_auth_def open_new)

lemma started_paired: "started r paired_app"
  unfolding started_def
  by (rule exI [of _ sample_app_env], rule exI [of _ "''data''"], rule exI [of _ None])
    (auto simp: paired_app_simps(3) paired_app_def [symmetric] intro: paired_app_def)

lemma save_sample: "save_json plain_json p x (empty_disk\<lparr>files := fs\<rparr>) = (Inr (), empty_disk\<lparr>files := fs(p := Some x)\<rparr>)"
  by (simp add: save_json_cases plain_json_def write_unblocked empty_disk_def)

text \<open>The steps of the sign-in.\<close>

lemma sign_in_session:
  "\<exists>app s fs. sys_step paired_app app \<and> session app = Some s \<and> as_im_client s = None \<and>
     dsk app = empty_disk\<lparr>files := fs\<rparr> \<and> tasks app = [LoginTask ''a'' ''p'']"
proof -
  obtain cfg where c: "as_os_config (ae_device sample_app_env) (ae_udid_bytes sample_app_env) sample_cfg = Inr (MacOS cfg)"
    using sample_as_os_config [of "[1]"] by (auto simp: sample_app_env_def sample_cfg_def)
  obtain s fs where s: "create_session sample_session_env ''data'' (MacOS cfg) paired_disk = (Inr s, empty_disk\<lparr>files := fs\<rparr>)"
    using sample_create [of "''data''" "MacOS cfg"] unfolding paired_disk_def by blast
  have "as_im_client s = None" using s by (rule create_session_Inr)
  moreover have "ensure_session sample_app_env paired_app = (Inr s, paired_app\<lparr>dsk := empty_disk\<lparr>files := fs\<rparr>, session := Some s\<rparr>)"
    by (simp add: ensure_session_def paired_app_simps c s)
  moreover let ?app = "exec_call sample_app_env (UiStartAuth ''a'' ''p'') paired_app"
  have "sys_step paired_app ?app" by (rule ui)
  ultimately show ?thesis
    by (intro exI [of _ ?app])
      (auto simp add: start_apple_id_auth_def sem_defs bnd_def set_auth_def spawn_def emit_def paired_app_simps)
qed

lemma reachable_paired: "reachable (started False) sys_step paired_app"
  using started_paired by (rule reach_init)

lemma head_step:
  assumes "tasks app = t # ts" and "t \<noteq> ReceiveLoopTask"
  shows "sys_step app (run_task env t (app\<lparr>tasks := ts\<rparr>))"
  using task [of 0 app env] assms by (simp add: drop_task_def)

lemma last_step:
  assumes "tasks app = ts @ [t]" and "t \<noteq> ReceiveLoopTask"
  shows "sys_step app (run_task env t (app\<lparr>tasks := ts\<rparr>))"
  using task [of "length ts" app env] assms by (simp add: drop_task_def)

lemma reachable_steps: "step\<^sup>*\<^sup>* s t \<Longrightarrow> reachable init step s \<Longrightarrow> reachable init step t"
  by (induction rule: rtranclp_induct) (auto intro: reach_step)

lemma sign_in_login:
  assumes "tasks app = LoginTask ''a'' ''p'' # ts"
  shows "sys_step app (app\<lparr>tasks := ts @ [ApplyLoginTask LoggedIn]\<rparr>)"
  using head_step [OF assms, of sample_app_env]
  by (simp add: authenticate_apple_id_def sample_apple_def map_err_def login_result_def spawn_def)

text \<open>A second sign-in, while there is a session.\<close>

lemma sign_in_again:
  assumes "session app = Some s"
  shows "\<exists>app'. sys_step app app' \<and> session app' = Some s \<and> dsk app' = dsk app \<and>
     tasks app' = tasks app @ [LoginTask ''a'' ''p'']"
  using ui [of app sample_app_env "UiStartAuth ''a'' ''p''"] assms
  by (intro exI [of _ "exec_call sample_app_env (UiStartAuth ''a'' ''p'') app"])
    (simp add: start_apple_id_auth_def ensure_session_def sem_defs bnd_def set_auth_def spawn_def emit_def)

text \<open>The four stretches after the login, of which each spawns the next.\<close>

lemma sample_registration:
  "login_ids_user sample_session_env = Inr ''user''"
  "register_ids sample_session_env c a u i = Inr (u @ ''+'')"
  "user_json sample_session_env = plain_json"
  by (simp_all add: login_ids_user_def sample_session_env_def map_err_def)

lemma sign_in_finalize:
  assumes "tasks app = ts @ [ApplyLoginTask LoggedIn]" and "session app = Some s" and "dsk app = empty_disk\<lparr>files := fs\<rparr>"
  shows "\<exists>app' s' fs'. sys_step app app' \<and> session app' = Some s' \<and> as_ids_user s' = Some ''user'' \<and>
    dsk app' = empty_disk\<lparr>files := fs'\<rparr> \<and> tasks app' = ts @ [PrepareClientTask]"
  using last_step [OF assms(1), of sample_app_env] assms(2,3)
  by (intro exI [of _ "run_task sample_app_env (ApplyLoginTask LoggedIn) (app\<lparr>tasks := ts\<rparr>)"]) (auto simp: apply_login_state_def in_app_session_def finalize_cases sample_registration save_sample spawn_def)

lemma sign_in_prepare:
  assumes "tasks app = ts @ [PrepareClientTask]" and "session app = Some s" and "as_ids_user s = Some u"
  shows "\<exists>app'. sys_step app app' \<and> session app' = Some s \<and> dsk app' = dsk app \<and> tasks app' = ts @ [RegisterTask u]"
  using last_step [OF assms(1), of sample_app_env] assms(2,3)
  by (intro exI [of _ "run_task sample_app_env PrepareClientTask (app\<lparr>tasks := ts\<rparr>)"]) (auto simp: prepare_client_def in_app_session_def stored_user_def asks_def spawn_def)

lemma sign_in_register:
  assumes "tasks app = ts @ [RegisterTask u]" and "session app = Some s" and "dsk app = empty_disk\<lparr>files := fs\<rparr>"
  shows "\<exists>app' s' fs' u'. sys_step app app' \<and> session app' = Some s' \<and>
    dsk app' = empty_disk\<lparr>files := fs'\<rparr> \<and> tasks app' = ts @ [InstallClientTask u']"
  using last_step [OF assms(1), of sample_app_env] assms(2,3)
  by (intro exI [of _ "run_task sample_app_env (RegisterTask u) (app\<lparr>tasks := ts\<rparr>)"]) (auto simp: prepare_client_def in_app_session_def register_user_cases sample_registration save_sample spawn_def)

lemma sign_in_install:
  assumes "tasks app = ts @ [InstallClientTask u]" and "session app = Some s" and "dsk app = empty_disk\<lparr>files := fs\<rparr>"
  shows "\<exists>app' s'. sys_step app app' \<and> session app' = Some s' \<and> as_im_client s' \<noteq> None \<and>
    dsk app' = empty_disk\<lparr>files := fs\<rparr> \<and> tasks app' = ts @ [ReceiveStartTask, PersistAuthTask Ready]"
  using last_step [OF assms(1), of sample_app_env] assms(2,3)
  by (intro exI [of _ "run_task sample_app_env (InstallClientTask u) (app\<lparr>tasks := ts\<rparr>)"])
    (auto simp: prepare_client_def in_app_session_def install_client_def sem_defs bnd_def client_ready_def spawn_def)

lemma sign_in_apply:
  assumes "tasks app = ts @ [ApplyLoginTask LoggedIn]" and "session app = Some s" and "dsk app = empty_disk\<lparr>files := fs\<rparr>"
  shows "\<exists>app' s' fs'. sys_step\<^sup>*\<^sup>* app app' \<and> session app' = Some s' \<and> as_im_client s' \<noteq> None \<and>
    dsk app' = empty_disk\<lparr>files := fs'\<rparr> \<and> tasks app' = ts @ [ReceiveStartTask, PersistAuthTask Ready]"
proof -
  obtain app1 s1 fs1 where 1: "sys_step app app1" "session app1 = Some s1" "as_ids_user s1 = Some ''user''"
    "dsk app1 = empty_disk\<lparr>files := fs1\<rparr>" "tasks app1 = ts @ [PrepareClientTask]"
    using sign_in_finalize [OF assms] by blast
  obtain app2 where 2: "sys_step app1 app2" "session app2 = Some s1" "dsk app2 = empty_disk\<lparr>files := fs1\<rparr>"
    "tasks app2 = ts @ [RegisterTask ''user'']"
    using sign_in_prepare [OF 1(5,2,3)] 1(4) by auto
  obtain app3 s3 fs3 u where 3: "sys_step app2 app3" "session app3 = Some s3" "dsk app3 = empty_disk\<lparr>files := fs3\<rparr>"
    "tasks app3 = ts @ [InstallClientTask u]"
    using sign_in_register [OF 2(4,2,3)] by blast
  obtain app4 s4 where 4: "sys_step app3 app4" "session app4 = Some s4" "as_im_client s4 \<noteq> None"
    "dsk app4 = empty_disk\<lparr>files := fs3\<rparr>" "tasks app4 = ts @ [ReceiveStartTask, PersistAuthTask Ready]"
    using sign_in_install [OF 3(4,2,3)] by blast
  have "sys_step\<^sup>*\<^sup>* app app4"
    by (rule converse_rtranclp_into_rtranclp [where r = sys_step, OF 1(1)], rule converse_rtranclp_into_rtranclp [where r = sys_step, OF 2(1)],
        rule converse_rtranclp_into_rtranclp [where r = sys_step, OF 3(1)], rule converse_rtranclp_into_rtranclp [where r = sys_step, OF 4(1)]) simp
  with 4 show ?thesis by blast
qed

lemma sign_in_listen:
  assumes "tasks app = ReceiveStartTask # ts" and "session app = Some s" and "as_im_client s \<noteq> None"
  shows "\<exists>app'. sys_step app app' \<and> session app' = Some s \<and> auth app' = auth app \<and> tasks app' = ts @ [ReceiveLoopTask]"
proof -
  have "sys_step app (run_task sample_app_env ReceiveStartTask (app\<lparr>tasks := ts\<rparr>))" using assms(1) by (rule head_step) simp
  then show ?thesis using assms by (intro exI) (auto simp: receive_start_def spawn_def)
qed

lemma sign_in_ready:
  assumes "tasks app = PersistAuthTask Ready # ts"
  shows "\<exists>app'. sys_step app app' \<and> session app' = session app \<and> auth app' = Ready \<and> tasks app' = ts"
proof -
  have "sys_step app (run_task sample_app_env (PersistAuthTask Ready) (app\<lparr>tasks := ts\<rparr>))" using assms by (rule head_step) simp
  then show ?thesis by (intro exI) (auto simp: persist_auth_label_def emit_def)
qed

text \<open>The whole sign-in.\<close>

lemma sign_in_run:
  "\<exists>app app1 s. reachable (started False) sys_step app1 \<and> session app1 = Some s \<and> sys_step\<^sup>*\<^sup>* app1 app \<and>
     auth app = Ready \<and> tasks app = [ReceiveLoopTask] \<and> reachable (started False) sys_step app"
proof -
  obtain app1 s1 fs1 where 1: "sys_step paired_app app1" "session app1 = Some s1"
    "dsk app1 = empty_disk\<lparr>files := fs1\<rparr>" "tasks app1 = [LoginTask ''a'' ''p'']"
    using sign_in_session by blast
  let ?app2 = "app1\<lparr>tasks := [] @ [ApplyLoginTask LoggedIn]\<rparr>"
  have 2: "sys_step app1 ?app2" using 1(4) by (rule sign_in_login)
  obtain app3 s3 where 3: "sys_step\<^sup>*\<^sup>* ?app2 app3" "session app3 = Some s3" "as_im_client s3 \<noteq> None"
    "tasks app3 = [ReceiveStartTask, PersistAuthTask Ready]"
    using sign_in_apply [of ?app2 "[]" s1 fs1] 1 by auto
  obtain app4 where 4: "sys_step app3 app4" "tasks app4 = [PersistAuthTask Ready, ReceiveLoopTask]"
    using sign_in_listen [OF 3(4,2,3)] by auto
  obtain app5 where 5: "sys_step app4 app5" "auth app5 = Ready" "tasks app5 = [ReceiveLoopTask]"
    using sign_in_ready [OF 4(2)] by auto
  have r1: "reachable (started False) sys_step app1"
    using reachable_paired 1(1) by (rule reach_step)
  have "sys_step\<^sup>*\<^sup>* app1 app3" by (rule converse_rtranclp_into_rtranclp [where r = sys_step, OF 2 3(1)])
  then have run: "sys_step\<^sup>*\<^sup>* app1 app5" using 4(1) 5(1) by (meson rtranclp.rtrancl_into_rtrancl)
  moreover have "reachable (started False) sys_step app5" by (rule reachable_steps [OF run r1])
  ultimately show ?thesis using r1 1(2) 5(2,3) by blast
qed

text \<open>Two sign-ins in one process, each of them a few calls of the UI: two receive loops.\<close>

lemma two_sign_ins_run: "\<exists>app. reachable (started False) sys_step app \<and> tasks app = [ReceiveLoopTask, ReceiveLoopTask]"
proof -
  obtain app1 s1 fs1 where 1: "sys_step paired_app app1" "session app1 = Some s1"
    "dsk app1 = empty_disk\<lparr>files := fs1\<rparr>" "tasks app1 = [LoginTask ''a'' ''p'']"
    using sign_in_session by blast
  obtain app2 where 2: "sys_step app1 app2" "session app2 = Some s1" "dsk app2 = empty_disk\<lparr>files := fs1\<rparr>"
    "tasks app2 = [LoginTask ''a'' ''p'', LoginTask ''a'' ''p'']"
    using sign_in_again [OF 1(2)] 1(3,4) by auto
  let ?app3 = "app2\<lparr>tasks := [LoginTask ''a'' ''p''] @ [ApplyLoginTask LoggedIn]\<rparr>"
  have 3: "sys_step app2 ?app3" using 2(4) by (rule sign_in_login)
  obtain app4 s4 fs4 where 4: "sys_step\<^sup>*\<^sup>* ?app3 app4" "session app4 = Some s4" "dsk app4 = empty_disk\<lparr>files := fs4\<rparr>"
    "tasks app4 = LoginTask ''a'' ''p'' # [ReceiveStartTask, PersistAuthTask Ready]"
    using sign_in_apply [of ?app3 "[LoginTask ''a'' ''p'']" s1 fs1] 2 by auto
  let ?app5 = "app4\<lparr>tasks := [ReceiveStartTask, PersistAuthTask Ready] @ [ApplyLoginTask LoggedIn]\<rparr>"
  have 5: "sys_step app4 ?app5" using 4(4) by (rule sign_in_login)
  obtain app6 s6 where 6: "sys_step\<^sup>*\<^sup>* ?app5 app6" "session app6 = Some s6" "as_im_client s6 \<noteq> None"
    "tasks app6 = [ReceiveStartTask, PersistAuthTask Ready, ReceiveStartTask, PersistAuthTask Ready]"
    using sign_in_apply [of ?app5 "[ReceiveStartTask, PersistAuthTask Ready]" s4 fs4] 4(2,3) by auto
  obtain app7 where 7: "sys_step app6 app7" "session app7 = Some s6"
    "tasks app7 = [PersistAuthTask Ready, ReceiveStartTask, PersistAuthTask Ready, ReceiveLoopTask]"
    using sign_in_listen [OF 6(4,2,3)] by auto
  obtain app8 where 8: "sys_step app7 app8" "session app8 = Some s6"
    "tasks app8 = [ReceiveStartTask, PersistAuthTask Ready, ReceiveLoopTask]"
    using sign_in_ready [OF 7(3)] 7(2) by auto
  obtain app9 where 9: "sys_step app8 app9" "tasks app9 = [PersistAuthTask Ready, ReceiveLoopTask, ReceiveLoopTask]"
    using sign_in_listen [OF 8(3,2) 6(3)] by auto
  obtain app where 10: "sys_step app9 app" "tasks app = [ReceiveLoopTask, ReceiveLoopTask]"
    using sign_in_ready [OF 9(2)] by auto
  have r1: "reachable (started False) sys_step app1" using reachable_paired 1(1) by (rule reach_step)
  have r2: "reachable (started False) sys_step app2" using r1 2(1) by (rule reach_step)
  have r3: "reachable (started False) sys_step ?app3" using r2 3 by (rule reach_step)
  have r4: "reachable (started False) sys_step app4" using 4(1) r3 by (rule reachable_steps)
  have r5: "reachable (started False) sys_step ?app5" using r4 5 by (rule reach_step)
  have r6: "reachable (started False) sys_step app6" using 6(1) r5 by (rule reachable_steps)
  have r7: "reachable (started False) sys_step app7" using r6 7(1) by (rule reach_step)
  have r8: "reachable (started False) sys_step app8" using r7 8(1) by (rule reach_step)
  have r9: "reachable (started False) sys_step app9" using r8 9(1) by (rule reach_step)
  from r9 10(1) have "reachable (started False) sys_step app" by (rule reach_step)
  with 10(2) show ?thesis by blast
qed


theorem ready_has_client_witness:
  "\<exists>app. reachable (started False) sys_step app \<and> auth app = Ready \<and> has_client app"
proof -
  obtain app where r: "reachable (started False) sys_step app" "auth app = Ready"
    using sign_in_run by blast
  with ready_has_client [OF r] show ?thesis by blast
qed

theorem session_never_replaced_witness:
  "\<exists>(app1 :: AppState) (app :: AppState) s. session app1 = Some s \<and> auth app = Ready \<and>
     (\<exists>s'. session app = Some s' \<and> as_config s' = as_config s)"
proof -
  obtain app app1 s where r: "reachable (started False) sys_step app1" "sys_step\<^sup>*\<^sup>* app1 app"
    "session app1 = Some s" and "auth app = Ready"
    using sign_in_run by blast
  obtain s' where "session app = Some s'" "as_config s' = as_config s"
    using session_never_replaced [OF r] by blast
  then show ?thesis using r(3) \<open>auth app = Ready\<close> by (intro exI [of _ app1] exI [of _ app] exI [of _ s]) simp
qed

end
