(* ===== verification/Mailbox.thy ===== *)
theory Mailbox
  imports StorageRun "HOL-Library.Multiset"
begin

text \<open>
  What the storage of \<open>rust/src/storage.rs\<close> promises, without its tables: a mailbox of maps and sets, on which
  every operation is one update or a refusal. The tables with their unique keys, conflict clauses, cascades
  and transactions refine it, operation by operation, and the queries are functions of it up to the order of
  equal keys.
\<close>

section \<open>The mailbox\<close>

record mailbox =
  mb_settings :: "string \<rightharpoonup> string"
  mb_chats :: "string \<rightharpoonup> chat_rec"
  mb_handles :: "string \<times> string \<rightharpoonup> handle_rec"
  mb_last_id :: int
  mb_members :: "string \<Rightarrow> int set"
  mb_messages :: "string \<rightharpoonup> message_rec"
  mb_reactions :: "reaction_rec multiset"
  mb_attachments :: "string \<rightharpoonup> attachment_rec"

definition empty_mailbox :: mailbox where
  "empty_mailbox = \<lparr>mb_settings = Map.empty, mb_chats = Map.empty, mb_handles = Map.empty, mb_last_id = 0,
     mb_members = (\<lambda>_. {}), mb_messages = Map.empty, mb_reactions = {#}, mb_attachments = Map.empty\<rparr>"

text \<open>The ids in use.\<close>

definition mb_ids :: "mailbox \<Rightarrow> int set" where
  "mb_ids m = hd_id ` ran (mb_handles m)"

definition change_at :: "'k \<Rightarrow> ('v \<Rightarrow> 'v) \<Rightarrow> ('k \<rightharpoonup> 'v) \<Rightarrow> ('k \<rightharpoonup> 'v)" where
  "change_at k f m = m(k := map_option f (m k))"

definition put_handle :: "string \<Rightarrow> string \<Rightarrow> string \<Rightarrow> int \<Rightarrow> mailbox \<Rightarrow> mailbox" where
  "put_handle a s name now m = (case mb_handles m (a, s) of
       Some h \<Rightarrow> m\<lparr>mb_last_id := mb_last_id m + 1, mb_handles := (mb_handles m)((a, s) \<mapsto> h\<lparr>hd_display_name := name\<rparr>)\<rparr>
     | None \<Rightarrow> m\<lparr>mb_last_id := mb_last_id m + 1, mb_handles := (mb_handles m)((a, s) \<mapsto>
         \<lparr>hd_id = mb_last_id m + 1, hd_address = a, hd_service = s, hd_display_name = name, hd_created_at = now\<rparr>)\<rparr>)"

definition put_chat :: "string \<Rightarrow> string \<Rightarrow> string \<Rightarrow> bool \<Rightarrow> int \<Rightarrow> mailbox \<Rightarrow> mailbox" where
  "put_chat g title svc grp now m = m\<lparr>mb_chats := (mb_chats m)(g \<mapsto>
     (case mb_chats m g of None \<Rightarrow> new_chat g title svc grp now
      | Some c \<Rightarrow> c\<lparr>ch_title := title, ch_is_imessage := of_bool (svc = SERVICE_IMESSAGE),
           ch_service := Some svc, ch_is_group := of_bool grp\<rparr>))\<rparr>"

text \<open>A message needs its chat and its sender; it takes the place of an earlier one with the same guid, whose
  reactions and attachments go, and it moves its chat up.\<close>

definition deliverable :: "MessageRow \<Rightarrow> mailbox \<Rightarrow> bool" where
  "deliverable r m \<longleftrightarrow> mb_chats m (mr_chat_guid r) \<noteq> None \<and>
     (\<forall>h. mr_handle_id r = Some h \<longrightarrow> h \<in> mb_ids m)"

definition note_message :: "MessageRow \<Rightarrow> chat_rec \<Rightarrow> chat_rec" where
  "note_message r c = c\<lparr>ch_last_message_date := max (ch_last_message_date c) (mr_date r),
     ch_last_message_preview := mr_text r,
     ch_unread_count := ch_unread_count c + of_bool (\<not> mr_is_from_me r)\<rparr>"

definition deliver :: "MessageRow \<Rightarrow> mailbox \<Rightarrow> mailbox" where
  "deliver r m = m\<lparr>mb_messages := (mb_messages m)(mr_guid r \<mapsto> message_of_row r),
     mb_reactions := filter_mset (\<lambda>x. rx_message_guid x \<noteq> mr_guid r) (mb_reactions m),
     mb_attachments := (\<lambda>g. Option.bind (mb_attachments m g) (\<lambda>a. if at_message_guid a = mr_guid r then None else Some a)),
     mb_chats := change_at (mr_chat_guid r) (note_message r) (mb_chats m)\<rparr>"

definition read_all :: "string \<Rightarrow> int \<Rightarrow> mailbox \<Rightarrow> mailbox" where
  "read_all g now m = m\<lparr>mb_messages := map_option (\<lambda>x.
       if ms_chat_guid x = g \<and> ms_is_from_me x = 0 \<and> ms_date_read x = 0 then x\<lparr>ms_date_read := now\<rparr> else x) \<circ> mb_messages m,
     mb_chats := change_at g (\<lambda>c. c\<lparr>ch_unread_count := 0\<rparr>) (mb_chats m)\<rparr>"

definition refused :: "mailbox \<Rightarrow> (sql_error + unit) \<times> mailbox" where
  "refused m = (Inl ForeignKeyFailed, m)"

fun mail_op :: "int \<Rightarrow> storage_op \<Rightarrow> mailbox \<Rightarrow> (sql_error + unit) \<times> mailbox" where
  "mail_op now (KvSet k v) m = (Inr (), m\<lparr>mb_settings := (mb_settings m)(k \<mapsto> v)\<rparr>)"
| "mail_op now (UpsertHandle a s name) m = (Inr (), put_handle a s name now m)"
| "mail_op now (UpsertChat g t s grp) m = (Inr (), put_chat g t s grp now m)"
| "mail_op now (SetParticipants g hs) m =
     (if hs = [] \<or> mb_chats m g \<noteq> None \<and> set hs \<subseteq> mb_ids m
      then (Inr (), m\<lparr>mb_members := (mb_members m)(g := set hs)\<rparr>) else refused m)"
| "mail_op now (SetPin g p n) m = (Inr (), m\<lparr>mb_chats :=
     change_at g (\<lambda>c. c\<lparr>ch_is_pinned := of_bool p, ch_pin_order := n\<rparr>) (mb_chats m)\<rparr>)"
| "mail_op now (SetArchived g a) m =
     (Inr (), m\<lparr>mb_chats := change_at g (\<lambda>c. c\<lparr>ch_is_archived := of_bool a\<rparr>) (mb_chats m)\<rparr>)"
| "mail_op now (InsertMessage r) m = (if deliverable r m then (Inr (), deliver r m) else refused m)"
| "mail_op now (MarkRead g) m = (Inr (), read_all g now m)"
| "mail_op now (EditMessage g t) m = (Inr (), m\<lparr>mb_messages :=
     change_at g (\<lambda>x. x\<lparr>ms_text := t, ms_date_edited := now\<rparr>) (mb_messages m)\<rparr>)"
| "mail_op now (UnsendMessage g) m = (Inr (), m\<lparr>mb_messages :=
     change_at g (\<lambda>x. x\<lparr>ms_is_unsent := 1, ms_text := ''''\<rparr>) (mb_messages m)\<rparr>)"
| "mail_op now (AddReaction g h me r) m =
     (if mb_messages m g = None then refused m
      else (Inr (), m\<lparr>mb_reactions := add_mset (new_reaction g h me r now)
             (filter_mset (\<lambda>x. \<not> same_reaction (new_reaction g h me r now) x) (mb_reactions m))\<rparr>))"
| "mail_op now (InsertAttachment g mg fn mime n p) m =
     (if mb_messages m mg = None then refused m
      else (Inr (), m\<lparr>mb_attachments := (mb_attachments m)(g \<mapsto> \<lparr>at_guid = g, at_message_guid = mg, at_filename = fn,
               at_mime_type = mime, at_size_bytes = n, at_local_path = p, at_transfer_state = 0\<rparr>),
             mb_messages := change_at mg (\<lambda>x. x\<lparr>ms_has_attachments := 1\<rparr>) (mb_messages m)\<rparr>))"

section \<open>The mailbox of a database\<close>

definition mailbox_of :: "db \<Rightarrow> mailbox" where
  "mailbox_of d = \<lparr>mb_settings = (\<lambda>k. kv_get k d), mb_chats = (\<lambda>g. lookup_row ch_guid g (chats d)),
     mb_handles = (\<lambda>k. lookup_row hd_key k (handles d)), mb_last_id = handle_seq d,
     mb_members = (\<lambda>g. {h. (g, h) \<in> set (chat_handles d)}),
     mb_messages = (\<lambda>g. lookup_row ms_guid g (messages d)), mb_reactions = mset (reactions d),
     mb_attachments = (\<lambda>g. lookup_row at_guid g (attachments d))\<rparr>"

lemma mailbox_of_empty: "mailbox_of (open_db None) = empty_mailbox"
  by (simp add: mailbox_of_def empty_mailbox_def open_db_def migrate_def repair_services_def add_service_column_def
      empty_db_def kv_get_def lookup_row_def)

section \<open>Each operation commutes\<close>

lemma mb_simps [simp]:
  "mb_settings (mailbox_of d) = (\<lambda>k. kv_get k d)" "mb_chats (mailbox_of d) = (\<lambda>g. lookup_row ch_guid g (chats d))"
  "mb_handles (mailbox_of d) = (\<lambda>k. lookup_row hd_key k (handles d))" "mb_last_id (mailbox_of d) = handle_seq d"
  "mb_members (mailbox_of d) = (\<lambda>g. {h. (g, h) \<in> set (chat_handles d)})"
  "mb_messages (mailbox_of d) = (\<lambda>g. lookup_row ms_guid g (messages d))" "mb_reactions (mailbox_of d) = mset (reactions d)"
  "mb_attachments (mailbox_of d) = (\<lambda>g. lookup_row at_guid g (attachments d))"
  by (simp_all add: mailbox_of_def)

lemma mailbox_eqI:
  assumes "\<And>k. mb_settings m k = mb_settings n k" and "\<And>g. mb_chats m g = mb_chats n g"
    and "\<And>k. mb_handles m k = mb_handles n k" and "mb_last_id m = mb_last_id n" and "\<And>g. mb_members m g = mb_members n g"
    and "\<And>g. mb_messages m g = mb_messages n g" and "mb_reactions m = mb_reactions n"
    and "\<And>g. mb_attachments m g = mb_attachments n g"
  shows "m = (n :: mailbox)"
  using assms by (intro mailbox.equality) (auto simp: fun_eq_iff)

text \<open>An update in place of the row with a given key.\<close>

lemma lookup_change:
  assumes "\<And>r. key (f r) = key r"
  shows "lookup_row key k (update_where (\<lambda>r. key r = k') f t) = change_at k' f (\<lambda>k. lookup_row key k t) k"
proof -
  have "lookup_row key k (update_where (\<lambda>r. key r = k') f t) =
      map_option (\<lambda>r. if key r = k' then f r else r) (lookup_row key k t)"
    using assms by (intro lookup_row_update_where)
  also have "\<dots> = change_at k' f (\<lambda>k. lookup_row key k t) k"
    by (cases "lookup_row key k t") (auto simp: change_at_def dest: lookup_row_SomeD)
  finally show ?thesis .
qed

lemma lookup_filter_value:
  assumes "distinct (map key t)"
  shows "lookup_row key k (filter p t) = Option.bind (lookup_row key k t) (\<lambda>r. if p r then Some r else None)"
  using assms by (induction t) (auto simp: bind_eq_None_conv lookup_row_None has_row_def)

lemma handle_exists_mb: "wf_db d \<Longrightarrow> handle_exists d i \<longleftrightarrow> i \<in> mb_ids (mailbox_of d)"
proof -
  assume "wf_db d"
  then have dist: "distinct (map hd_key (handles d))" by (simp add: wf_db_def wf_handles_def)
  have "ran (\<lambda>k. lookup_row hd_key k (handles d)) = set (handles d)"
    by (auto simp: ran_def lookup_row_Some [OF dist])
  then show ?thesis by (simp add: mb_ids_def has_row_def)
qed

lemma mail_kv_set: "mailbox_of (kv_set k v d) = (mailbox_of d)\<lparr>mb_settings := (mb_settings (mailbox_of d))(k \<mapsto> v)\<rparr>"
  by (rule mailbox_eqI) (auto simp: kv_get_def kv_set_def lookup_row_upsert_row split_beta split: option.splits)

lemma mail_insert_handle: "mailbox_of (insert_handle a s name now d) = put_handle a s name now (mailbox_of d)"
proof (rule mailbox_eqI)
  show "mb_handles (mailbox_of (insert_handle a s name now d)) k = mb_handles (put_handle a s name now (mailbox_of d)) k" for k
    by (auto simp: lookup_hd_key_insert put_handle_def split: option.splits)
  show "mb_last_id (mailbox_of (insert_handle a s name now d)) = mb_last_id (put_handle a s name now (mailbox_of d))"
    by (simp add: put_handle_def insert_handle_def split: option.splits)
qed (auto simp: put_handle_def insert_handle_def kv_get_def split: option.splits)

lemma mail_upsert_chat: "mailbox_of (upsert_chat g t s grp now d) = put_chat g t s grp now (mailbox_of d)"
  by (rule mailbox_eqI)
    (auto simp: upsert_chat_def put_chat_def kv_get_def lookup_row_upsert_row new_chat_def split: option.splits)

lemma mail_update_chat:
  "(\<And>c. ch_guid (f c) = ch_guid c) \<Longrightarrow>
     mailbox_of (update_chat g f d) = (mailbox_of d)\<lparr>mb_chats := change_at g f (mb_chats (mailbox_of d))\<rparr>"
  by (rule mailbox_eqI) (simp_all add: update_chat_def kv_get_def lookup_change)

lemma mail_update_message:
  "(\<And>c. ms_guid (f c) = ms_guid c) \<Longrightarrow>
     mailbox_of (update_message g f d) = (mailbox_of d)\<lparr>mb_messages := change_at g f (mb_messages (mailbox_of d))\<rparr>"
  by (rule mailbox_eqI) (simp_all add: update_message_def kv_get_def lookup_change)

lemma mail_put_message: "wf_db d \<Longrightarrow> mailbox_of (put_message r d) = deliver r (mailbox_of d)"
proof (rule mailbox_eqI)
  assume wf: "wf_db d"
  have "bump_chat r = note_message r" by (auto simp: bump_chat_def note_message_def Let_def fun_eq_iff)
  then show "mb_chats (mailbox_of (put_message r d)) g = mb_chats (deliver r (mailbox_of d)) g" for g
    by (simp add: put_message_def deliver_def lookup_change note_message_def)
  show "mb_messages (mailbox_of (put_message r d)) g = mb_messages (deliver r (mailbox_of d)) g" for g
    by (simp add: lookup_message_put deliver_def)
  show "mb_attachments (mailbox_of (put_message r d)) g = mb_attachments (deliver r (mailbox_of d)) g" for g
    using wf by (auto simp: put_message_def delete_message_def deliver_def lookup_filter_value wf_db_def wf_attachments_def
        cong: bind_option_cong intro!: bind_option_cong)
qed (simp_all add: put_message_def delete_message_def deliver_def kv_get_def)

lemma mail_mark_read: "mailbox_of (mark_chat_read g now d) = read_all g now (mailbox_of d)"
proof -
  let ?d = "d\<lparr>messages := update_where (\<lambda>m. ms_chat_guid m = g \<and> ms_is_from_me m = 0 \<and> ms_date_read m = 0)
      (\<lambda>m. m\<lparr>ms_date_read := now\<rparr>) (messages d)\<rparr>"
  have "mailbox_of ?d = (mailbox_of d)\<lparr>mb_messages := map_option (\<lambda>x.
       if ms_chat_guid x = g \<and> ms_is_from_me x = 0 \<and> ms_date_read x = 0 then x\<lparr>ms_date_read := now\<rparr> else x) \<circ> mb_messages (mailbox_of d)\<rparr>"
    by (rule mailbox_eqI) (simp_all add: kv_get_def lookup_row_update_where)
  then show ?thesis by (simp add: mark_chat_read_def mail_update_chat read_all_def)
qed

lemma add_members_Inl: "add_members g hs d = Inl e \<Longrightarrow> e = ForeignKeyFailed"
  by (induction g hs d rule: add_members.induct) (auto split: if_splits)

lemma mail_set_participants:
  assumes "wf_db d"
  shows "map_prod id mailbox_of (set_chat_participants g hs d) = mail_op now (SetParticipants g hs) (mailbox_of d)"
proof -
  have ids: "list_all (handle_exists d) hs \<longleftrightarrow> set hs \<subseteq> mb_ids (mailbox_of d)"
    using handle_exists_mb [OF assms] by (auto simp: list_all_iff)
  have chat: "chat_exists d g \<longleftrightarrow> mb_chats (mailbox_of d) g \<noteq> None" by (simp add: lookup_row_None)
  show ?thesis
  proof (cases "\<exists>d'. set_chat_participants g hs d = (Inr (), d')")
    case True
    then obtain d' where d': "set_chat_participants g hs d = (Inr (), d')" by blast
    from set_chat_participants_Inr [OF this] have e: "d' = d\<lparr>chat_handles := chat_handles d'\<rparr>"
      and c: "set (chat_handles d') = {(c, h) \<in> set (chat_handles d). c \<noteq> g} \<union> Pair g ` set hs" by blast+
    have "mailbox_of d' = (mailbox_of d)\<lparr>mb_members := (mb_members (mailbox_of d))(g := set hs)\<rparr>"
    proof (rule mailbox_eqI)
      show "mb_members (mailbox_of d') x = mb_members ((mailbox_of d)\<lparr>mb_members := (mb_members (mailbox_of d))(g := set hs)\<rparr>) x" for x
        by (auto simp: c)
    qed (subst e, simp add: kv_get_def)+
    with True d' show ?thesis unfolding set_chat_participants_succeeds ids chat by simp
  next
    case False
    then obtain e where "set_chat_participants g hs d = (Inl e, d)"
      by (cases "set_chat_participants g hs d")
        (auto simp: set_chat_participants_def attempt_def split: sum.splits)
    moreover from this have "e = ForeignKeyFailed"
      by (auto simp: set_chat_participants_def attempt_def dest: add_members_Inl split: sum.splits)
    ultimately show ?thesis using False unfolding set_chat_participants_succeeds ids chat by (simp add: refused_def)
  qed
qed

lemma mail_add_reaction:
  "map_prod id mailbox_of (add_reaction g h me r now d) = mail_op now (AddReaction g h me r) (mailbox_of d)"
  by (auto simp: add_reaction_def attempt_def replace_reaction_def new_reaction_def refused_def kv_get_def lookup_row_None
      intro!: mailbox_eqI)

lemma mail_insert_attachment:
  "map_prod id mailbox_of (insert_attachment g mg fn mime n p d) =
     mail_op now (InsertAttachment g mg fn mime n p) (mailbox_of d)"
proof (cases "message_exists d mg")
  case True
  let ?a = "\<lparr>at_guid = g, at_message_guid = mg, at_filename = fn, at_mime_type = mime, at_size_bytes = n,
      at_local_path = p, at_transfer_state = 0\<rparr>"
  have "mailbox_of (d\<lparr>attachments := replace_row at_guid ?a (attachments d)\<rparr>) =
      (mailbox_of d)\<lparr>mb_attachments := (mb_attachments (mailbox_of d))(g \<mapsto> ?a)\<rparr>"
    by (rule mailbox_eqI) (simp_all add: kv_get_def lookup_row_replace_row)
  moreover have "insert_attachment g mg fn mime n p d = (Inr (), update_message mg (\<lambda>m. m\<lparr>ms_has_attachments := 1\<rparr>)
      (d\<lparr>attachments := replace_row at_guid ?a (attachments d)\<rparr>))"
    using True by (simp add: insert_attachment_def sem_defs bnd_def replace_attachment_def)
  ultimately show ?thesis using True by (simp add: mail_update_message lookup_row_None)
next
  case False
  then show ?thesis
    by (simp add: insert_attachment_def sem_defs bnd_def replace_attachment_def refused_def lookup_row_None)
qed

lemma mail_insert_message:
  assumes "wf_db d"
  shows "map_prod id mailbox_of (insert_message r d) = mail_op now (InsertMessage r) (mailbox_of d)"
proof -
  have "refs_ok d r \<longleftrightarrow> deliverable r (mailbox_of d)"
    by (simp add: refs_ok_def deliverable_def lookup_row_None handle_exists_mb [OF assms])
  then show ?thesis by (simp add: insert_message_eq mail_put_message assms refused_def)
qed

section \<open>Refinement\<close>

text \<open>A machine that takes one operation after the other, and a simulation between two such machines: the
  step of the concrete one, seen through \<open>abs\<close>, is the step of the abstract one, answers included.\<close>

primrec run_ops :: "('o \<Rightarrow> 's \<Rightarrow> 'r \<times> 's) \<Rightarrow> 'o list \<Rightarrow> 's \<Rightarrow> 'r list \<times> 's" where
  "run_ops step [] s = ([], s)"
| "run_ops step (x # xs) s = (case step x s of (r, t) \<Rightarrow> case run_ops step xs t of (rs, u) \<Rightarrow> (r # rs, u))"

locale simulation =
  fixes inv :: "'c \<Rightarrow> bool" and abs :: "'c \<Rightarrow> 'a"
    and cstep :: "'o \<Rightarrow> 'c \<Rightarrow> 'r \<times> 'c" and astep :: "'o \<Rightarrow> 'a \<Rightarrow> 'r \<times> 'a"
  assumes inv_step: "inv s \<Longrightarrow> inv (snd (cstep x s))"
    and step_sim: "inv s \<Longrightarrow> map_prod id abs (cstep x s) = astep x (abs s)"
begin

lemma run_inv: "inv s \<Longrightarrow> inv (snd (run_ops cstep xs s))"
  using inv_step by (induction xs arbitrary: s) (auto simp: split_beta)

lemma run_sim: "inv s \<Longrightarrow> map_prod id abs (run_ops cstep xs s) = run_ops astep xs (abs s)"
proof (induction xs arbitrary: s)
  case (Cons x xs)
  obtain r t where c: "cstep x s = (r, t)" by fastforce
  obtain rs u where cs: "run_ops cstep xs t = (rs, u)" by fastforce
  have "inv t" using inv_step [OF Cons.prems, of x] c by simp
  from Cons.IH [OF this] cs have "run_ops astep xs (abs t) = (rs, abs u)" by simp
  moreover have "astep x (abs s) = (r, abs t)" using step_sim [OF Cons.prems, of x] c by simp
  ultimately show ?case using c cs by simp
qed simp

text \<open>What the client sees of the concrete machine, its answers, does not depend on which of the states
  with the same abstraction it started in.\<close>

lemma answers_abs:
  assumes "inv s" and "inv t" and "abs s = abs t"
  shows "fst (run_ops cstep xs s) = fst (run_ops cstep xs t)"
  using run_sim [OF assms(1), of xs] run_sim [OF assms(2), of xs] assms(3)
  by (metis fst_map_prod id_apply)

end

text \<open>One operation of the storage.\<close>

lemma exec_op_mail:
  assumes "wf_db d"
  shows "map_prod id mailbox_of (exec_op now op d) = mail_op now op (mailbox_of d)"
proof (cases op)
  case (UpsertHandle a s n)
  then show ?thesis by (simp add: upsert_handle_id bnd_def ok_def mail_insert_handle)
qed (simp_all add: modify_def mail_kv_set mail_upsert_chat mail_set_participants [OF assms] set_chat_pin_def
  set_chat_archived_def mail_update_chat mail_insert_message [OF assms] mail_mark_read edit_message_def unsend_message_def
  mail_update_message mail_add_reaction mail_insert_attachment del: mail_op.simps(4,7,11,12))

interpretation mail: simulation wf_db mailbox_of "\<lambda>(now, op). exec_op now op" "\<lambda>(now, op). mail_op now op"
proof
  show "wf_db d \<Longrightarrow> wf_db (snd ((\<lambda>(now, op). exec_op now op) x d))" for d x
    by (cases x) (simp add: preservesD [OF keeps_exec_op])
  show "wf_db d \<Longrightarrow> map_prod id mailbox_of ((\<lambda>(now, op). exec_op now op) x d) =
      (\<lambda>(now, op). mail_op now op) x (mailbox_of d)" for d x
    by (cases x) (simp add: exec_op_mail)
qed

lemma run_ops_storage: "snd (run_ops (\<lambda>(now, op). exec_op now op) ops d) = run_storage ops d"
  by (induction ops arbitrary: d) (auto simp: run_storage_def split_beta)

text \<open>C2: The database refines the mailbox: on a fresh database, any sequence of operations is answered, success
  or refusal, exactly as the mailbox answers it from empty, and leads to a database of the abstract result; so
  the unique keys, conflict clauses, cascades and transactions of the SQL amount to single updates of maps and sets.\<close>

theorem storage_refines_mailbox:
  "map_prod id mailbox_of (run_ops (\<lambda>(now, op). exec_op now op) ops (open_db None)) =
     run_ops (\<lambda>(now, op). mail_op now op) ops empty_mailbox"
proof -
  have "wf_db (open_db None)" by (rule wf_open_db) simp
  from mail.run_sim [OF this, of ops] show ?thesis by (simp only: mailbox_of_empty)
qed

section \<open>What the queries see\<close>

lemma rows_by_key: "distinct (map key t) \<Longrightarrow> set t = ran (\<lambda>k. lookup_row key k t)"
  by (auto simp: ran_def lookup_row_Some)

lemma rows_eq:
  assumes "distinct (map key t)" and "distinct (map key u)"
    and "(\<lambda>k. lookup_row key k t) = (\<lambda>k. lookup_row key k u)"
  shows "mset t = mset u"
proof -
  have "set t = set u" using rows_by_key [OF assms(1)] rows_by_key [OF assms(2)] assms(3) by simp
  with assms(1,2) show ?thesis by (simp add: set_eq_iff_mset_eq_distinct [symmetric] distinct_map)
qed

text \<open>Two databases in order that hold the same mailbox.\<close>

definition same_mail :: "db \<Rightarrow> db \<Rightarrow> bool" where
  "same_mail d d' \<longleftrightarrow> wf_db d \<and> wf_db d' \<and> mailbox_of d = mailbox_of d'"

lemma same_mail_tables:
  assumes "same_mail d d'"
  shows "mset (chats d) = mset (chats d')" and "mset (handles d) = mset (handles d')"
    and "set (chat_handles d) = set (chat_handles d')" and "mset (messages d) = mset (messages d')"
    and "mset (attachments d) = mset (attachments d')"
proof -
  have wf: "wf_db d" "wf_db d'" and m: "mailbox_of d = mailbox_of d'" using assms by (simp_all add: same_mail_def)
  note e = arg_cong [OF m, of mb_chats] arg_cong [OF m, of mb_handles] arg_cong [OF m, of mb_members]
    arg_cong [OF m, of mb_messages] arg_cong [OF m, of mb_attachments]
  show "mset (chats d) = mset (chats d')"
    by (rule rows_eq [of ch_guid]) (use e wf in \<open>simp_all add: wf_db_def wf_chats_def\<close>)
  show "mset (handles d) = mset (handles d')"
    by (rule rows_eq [of hd_key]) (use e wf in \<open>simp_all add: wf_db_def wf_handles_def\<close>)
  show "set (chat_handles d) = set (chat_handles d')" using e(3) by (auto simp: fun_eq_iff)
  show "mset (messages d) = mset (messages d')"
    by (rule rows_eq [of ms_guid]) (use e wf in \<open>simp_all add: wf_db_def wf_messages_def\<close>)
  show "mset (attachments d) = mset (attachments d')"
    by (rule rows_eq [of at_guid]) (use e wf in \<open>simp_all add: wf_db_def wf_attachments_def\<close>)
qed

text \<open>The rows of a query as a multiset, or that it failed.\<close>

definition rows_of :: "'e + 'r list \<Rightarrow> 'r multiset option" where
  "rows_of q = (case q of Inl _ \<Rightarrow> None | Inr rows \<Rightarrow> Some (mset rows))"

lemma rows_of_collect:
  "rows_of (collect xs) = (if \<exists>x \<in># mset xs. isl x then None else Some (image_mset projr (mset xs)))"
  unfolding rows_of_def by (induction xs rule: collect.induct) (auto split: sum.splits if_splits)

lemma distinct_looked_up:
  "distinct (map f xs) \<Longrightarrow> distinct (map key (List.map_filter (\<lambda>x. lookup_row key (f x) t) xs))"
proof (induction xs)
  case (Cons x xs)
  have "key ` set (List.map_filter (\<lambda>x. lookup_row key (f x) t) xs) \<subseteq> f ` set xs"
  proof
    fix k assume "k \<in> key ` set (List.map_filter (\<lambda>x. lookup_row key (f x) t) xs)"
    then obtain x r where "x \<in> set xs" "lookup_row key (f x) t = Some r" "k = key r"
      by (auto simp: List.map_filter_def)
    with lookup_row_SomeD [OF this(2)] show "k \<in> f ` set xs" by simp
  qed
  moreover have "r \<in> set t \<and> key r = f x" if "lookup_row key (f x) t = Some r" for r
    using that by (rule lookup_row_SomeD)
  ultimately have "key r \<notin> key ` set (List.map_filter (\<lambda>x. lookup_row key (f x) t) xs)"
    if "lookup_row key (f x) t = Some r" for r
    using that Cons.prems by fastforce
  with Cons show ?case by (simp add: map_filter_simps split: option.split)
qed (simp add: map_filter_simps)

lemma distinct_chat_members: "wf_db d \<Longrightarrow> distinct (chat_members g d)"
proof -
  assume "wf_db d"
  then have "distinct (filter (\<lambda>(c, _). c = g) (chat_handles d))"
    by (simp add: wf_db_def wf_members_def)
  then have "distinct (map snd (sort_key snd (filter (\<lambda>(c, _). c = g) (chat_handles d))))"
    by (auto simp: distinct_map inj_on_def)
  from distinct_looked_up [OF this, of hd_id "handles d"] show ?thesis
    by (simp add: chat_members_def distinct_map case_prod_beta')
qed

lemma chat_members_mail:
  assumes "same_mail d d'"
  shows "mset (chat_members g d) = mset (chat_members g d')"
proof -
  have "set (chat_members g d) = set (chat_members g d')"
    using assms same_mail_tables(2,3) [OF assms] mset_eq_setD [of "handles d" "handles d'"]
    by (simp add: same_mail_def chat_members_set)
  then show ?thesis using assms distinct_chat_members by (simp add: same_mail_def set_eq_iff_mset_eq_distinct [symmetric])
qed

lemma participant_addresses_mail: "same_mail d d' \<Longrightarrow> participant_addresses g d = participant_addresses g d'"
  using arg_cong [OF chat_members_mail, of d d' "image_mset hd_address" g]
  by (simp add: participant_addresses_def map_sort_key properties_for_sort sorted_list_of_multiset_mset [symmetric]
      flip: sorted_list_of_multiset_mset)

lemma list_chats_mail:
  assumes "same_mail d d'"
  shows "rows_of (list_chats ia d) = rows_of (list_chats ia d')"
  using same_mail_tables(1) [OF assms] mset_eq_setD [OF same_mail_tables(1) [OF assms]]
  by (simp add: list_chats_def rows_of_collect)

lemma attachments_for_message_mail:
  assumes "same_mail d d'"
  shows "rows_of (attachments_for_message g d) = rows_of (attachments_for_message g d')"
  using same_mail_tables(5) [OF assms] mset_eq_setD [OF same_mail_tables(5) [OF assms]]
  by (auto simp: attachments_for_message_def rows_of_collect)

lemma handle_lookup_mail:
  assumes "same_mail d d'"
  shows "lookup_row hd_id i (handles d) = lookup_row hd_id i (handles d')"
proof -
  have "distinct (map hd_id (handles d))" "distinct (map hd_id (handles d'))"
    using assms by (simp_all add: same_mail_def wf_db_def wf_handles_def)
  from lookup_row_Some [OF this(1), of i] lookup_row_Some [OF this(2), of i]
    mset_eq_setD [OF same_mail_tables(2) [OF assms]]
  show ?thesis by (cases "lookup_row hd_id i (handles d)"; cases "lookup_row hd_id i (handles d')") auto
qed

lemma messages_for_chat_mail:
  assumes "same_mail d d'"
  shows "mset (messages_for_chat g (-1) d) = mset (messages_for_chat g (-1) d')"
    and "map mr_date (messages_for_chat g (int n) d) = map mr_date (messages_for_chat g (int n) d')"
proof -
  have v: "message_view d = message_view d'"
    using handle_lookup_mail [OF assms] by (auto simp: fun_eq_iff message_view_def)
  note m = same_mail_tables(4) [OF assms]
  show "mset (messages_for_chat g (-1) d) = mset (messages_for_chat g (-1) d')"
    by (simp add: messages_for_chat_def sql_limit_def v m)
  have "mset (map ms_date (chat_messages g d)) = mset (map ms_date (chat_messages g d'))"
    by (simp add: chat_messages_def m)
  then have "sort (map ms_date (chat_messages g d)) = sort (map ms_date (chat_messages g d'))"
    by (metis sorted_list_of_multiset_mset)
  then show "map mr_date (messages_for_chat g (int n) d) = map mr_date (messages_for_chat g (int n) d')"
    using dates_messages_for_chat [of "int n" g d] dates_messages_for_chat [of "int n" g d'] by simp
qed



end
