(* ===== verification/CoreRuns.thy ===== *)
theory CoreRuns
  imports SystemRuns Mailbox
begin

text \<open>
  The storage inside the running core: whatever the UI, the tasks, the inbound frames and the callbacks do, the
  database changes only by operations of the storage. So what every operation keeps, the core keeps, and the
  database of the core refines the mailbox of \<open>Mailbox\<close>.
\<close>

section \<open>What the operations keep, the core keeps\<close>

lemma storage_frame [simp]:
  "storage (emit ev app) = storage app" "storage (spawn t app) = storage app"
  "storage (drop_task i app) = storage app"
  by (simp_all add: emit_def spawn_def drop_task_def)

locale storage_closed =
  fixes P :: "db \<Rightarrow> bool"
  assumes exec_op_closed: "P d \<Longrightarrow> P (snd (exec_op now op d))"
begin

lemma closed_kv_set: "P d \<Longrightarrow> P (kv_set k v d)"
  using exec_op_closed [where op = "KvSet k v"] by (simp add: modify_def)

lemma closed_upsert_chat: "P d \<Longrightarrow> P (upsert_chat g t s grp now d)"
  using exec_op_closed [where op = "UpsertChat g t s grp"] by (simp add: modify_def)

lemma closed_mark_read: "P d \<Longrightarrow> P (mark_chat_read g now d)"
  using exec_op_closed [where op = "MarkRead g"] by (simp add: modify_def)

lemma closed_pin: "P d \<Longrightarrow> P (set_chat_pin g p n d)"
  using exec_op_closed [where op = "SetPin g p n"] by (simp add: modify_def)

lemma closed_archived: "P d \<Longrightarrow> P (set_chat_archived g a d)"
  using exec_op_closed [where op = "SetArchived g a"] by (simp add: modify_def)

lemma closed_edit: "P d \<Longrightarrow> P (edit_message g t now d)"
  using exec_op_closed [where op = "EditMessage g t"] by (simp add: modify_def)

lemma closed_unsend: "P d \<Longrightarrow> P (unsend_message g d)"
  using exec_op_closed [where op = "UnsendMessage g"] by (simp add: modify_def)

lemma closed_upsert_handle: "preserves P (upsert_handle a s n now)"
proof (rule preservesI)
  fix d assume "P d"
  then have "P (snd (exec_op now (UpsertHandle a s n) d))" by (rule exec_op_closed)
  then show "P (snd (upsert_handle a s n now d))"
    by (simp add: bnd_def ok_def split: prod.splits sum.splits)
qed

lemma closed_participants: "preserves P (set_chat_participants g hs)"
  using exec_op_closed [where op = "SetParticipants g hs"] by (simp add: preserves_def)

lemma closed_insert_message: "preserves P (insert_message r)"
  using exec_op_closed [where op = "InsertMessage r"] by (simp add: preserves_def)

lemma closed_add_reaction: "preserves P (add_reaction g h me r now)"
  using exec_op_closed [where op = "AddReaction g h me r" and now = now] by (simp add: preserves_def)

lemma closed_insert_attachment: "preserves P (insert_attachment g mg fn mime n p)"
  using exec_op_closed [where op = "InsertAttachment g mg fn mime n p"] by (simp add: preserves_def)

lemmas closed_ops = closed_upsert_handle closed_participants closed_insert_message closed_add_reaction
  closed_insert_attachment

lemma keeps_store_rows: "preserves P (store_rows env now inst parts conv)"
  unfolding store_rows_def Let_def
  by (intro keeps closed_ops preserves_modify closed_upsert_chat) (simp_all add: keeps closed_ops)

lemma keeps_receive_round: "P d \<Longrightarrow> P (fst (snd (receive_round env now x (d, q))))"
  using preservesD [OF keeps_store_rows, of d]
  by (auto simp: receive_round_def handle_inst_def store_message_def sql_err_def
      split: recv_result.splits sum.splits option.splits Message.splits prod.splits)
    (metis snd_conv)+

end

section \<open>What every part of the core keeps\<close>

text \<open>A property of the state of the core that an operation of the storage keeps, a write of one of the other
  fields and a spawned task; then the calls, the tasks and the frames keep it.\<close>

locale core_closed =
  fixes Q :: "AppState \<Rightarrow> bool"
  assumes op_closed: "Q app \<Longrightarrow> Q (app\<lparr>storage := snd (exec_op now op (storage app))\<rparr>)"
    and events_closed: "Q app \<Longrightarrow> Q (app\<lparr>events := q\<rparr>)"
    and dsk_closed: "Q app \<Longrightarrow> Q (app\<lparr>dsk := d\<rparr>)"
    and session_closed: "Q app \<Longrightarrow> Q (app\<lparr>session := s\<rparr>)"
    and auth_closed: "Q app \<Longrightarrow> Q (app\<lparr>auth := st\<rparr>)"
    and config_closed: "Q app \<Longrightarrow> Q (app\<lparr>os_cfg := c\<rparr>)"
    and relay_closed: "Q app \<Longrightarrow> Q (app\<lparr>relay := h\<rparr>)"
    and spawn_closed: "Q app \<Longrightarrow> Q (spawn t app)"

text \<open>Whatever the rest of the state, such a property is one of the database that the storage keeps.\<close>

sublocale core_closed \<subseteq> at: storage_closed "\<lambda>d. Q (app\<lparr>storage := d\<rparr>)" for app
  using op_closed [of "app\<lparr>storage := d\<rparr>" for d] by unfold_locales simp

lemma storage_same [simp]: "app\<lparr>storage := storage app\<rparr> = app"
  by (cases app) simp

lemma core_closedI: "storage_closed P \<Longrightarrow> core_closed (\<lambda>app. P (storage app))"
  by unfold_locales (simp_all add: storage_closed.exec_op_closed)

context core_closed
begin

lemma emit_closed: "Q app \<Longrightarrow> Q (emit ev app)"
  by (simp add: emit_def events_closed)

lemma kv_closed: "Q app \<Longrightarrow> Q (app\<lparr>storage := kv_set k v (storage app)\<rparr>)"
  using at.closed_kv_set [where app = app and d = "storage app"] by simp

lemma state_closed: "Q app \<Longrightarrow> Q (set_auth st app)"
  using kv_closed [OF auth_closed, of app] by (simp add: set_auth_def emit_closed)

lemma keeps_in_storage: "(\<And>app. preserves (\<lambda>d. Q (app\<lparr>storage := d\<rparr>)) m) \<Longrightarrow> preserves Q (on_storage env m)"
  unfolding preserves_def on_storage_def sql_err_def
  by (auto split: prod.splits sum.splits) (metis snd_conv storage_same)+

lemma keeps_on_disk: "preserves Q (on_app_disk m)"
  by (auto simp: preserves_def on_app_disk_def dsk_closed split: prod.splits)

lemmas keeps_parts = keeps keeps_in_storage at.closed_ops keeps_on_disk preserves_modify

lemma keeps_send: "preserves Q (send_message_local env g t)"
  unfolding send_message_local_def Let_def
  by (intro keeps_parts emit_closed spawn_closed)

lemma keeps_attaching:
  "preserves Q (thn (on_app_disk (create_dir_all dd))
        (thn (on_app_disk (write_file dest content))
        (thn (on_storage env (insert_message row))
        (thn (on_storage env (insert_attachment ag mg fn mime n dest))
        (thn (modify (emit ev))
        (thn (modify (\<lambda>app. spawn (T app) app)) (ok mg)))))))"
  by (intro keeps_parts emit_closed spawn_closed)

lemma keeps_attach: "preserves Q (attach_file_local env g t path)"
  unfolding attach_file_local_def Let_def
  by (rule preservesI)
    (auto simp del: not_None_eq split: sum.splits option.splits intro!: preservesD [OF keeps_attaching])

lemma keeps_tapback: "preserves Q (tapback_local env g x)"
  unfolding tapback_local_def by (intro keeps_parts spawn_closed)

lemma keeps_persist_config: "preserves Q (persist_os_config env cfg)"
  unfolding persist_os_config_def by (rule preserves_diag) (intro keeps_parts config_closed)

lemma keeps_clear_config: "preserves Q clear_os_config"
  unfolding clear_os_config_def by (rule preserves_diag) (intro keeps_parts config_closed)

lemma keeps_pairing: "preserves Q (complete_pairing env code token)"
  unfolding complete_pairing_def
  by (intro keeps keeps_persist_config preserves_modify state_closed emit_closed)

lemma keeps_unpairing: "preserves Q clear_pairing"
  unfolding clear_pairing_def
  by (intro keeps keeps_clear_config preserves_modify state_closed emit_closed)

lemma keeps_relay: "preserves Q (set_relay_host host)"
  unfolding set_relay_host_def Let_def
proof (intro keeps preserves_modify)
  fix app assume "Q app"
  from kv_closed [OF relay_closed [OF this]] show "Q (app_set_relay_host (trim host) app)"
    by (simp add: app_set_relay_host_def)
qed

lemma keeps_session: "preserves Q (ensure_session env)"
  using session_closed [OF dsk_closed]
  by (auto simp: preserves_def ensure_session_def dsk_closed split: option.splits sum.splits prod.splits)

lemma keeps_sign_in: "preserves Q (start_apple_id_auth env a p)"
  unfolding start_apple_id_auth_def
  by (intro keeps keeps_session preserves_modify state_closed spawn_closed)

lemma keeps_code: "preserves Q (submit_two_factor_code code)"
  by (simp add: preserves_def submit_two_factor_code_def spawn_closed)

lemmas keeps_calls = keeps_send [THEN preservesD] keeps_attach [THEN preservesD] keeps_tapback [THEN preservesD]
  keeps_pairing [THEN preservesD] keeps_unpairing [THEN preservesD] keeps_relay [THEN preservesD]
  keeps_sign_in [THEN preservesD] keeps_code [THEN preservesD]

lemma keeps_updates:
  assumes "Q app"
  shows "Q (app\<lparr>storage := mark_chat_read g now (storage app)\<rparr>)" "Q (app\<lparr>storage := set_chat_pin g p n (storage app)\<rparr>)"
    "Q (app\<lparr>storage := set_chat_archived g a (storage app)\<rparr>)" "Q (app\<lparr>storage := edit_message g t now (storage app)\<rparr>)"
    "Q (app\<lparr>storage := unsend_message g (storage app)\<rparr>)"
  using assms at.closed_mark_read [where app = app and d = "storage app"] at.closed_pin [where app = app and d = "storage app"]
    at.closed_archived [where app = app and d = "storage app"] at.closed_edit [where app = app and d = "storage app"] at.closed_unsend [where app = app and d = "storage app"]
  by simp_all

lemma keeps_call: "Q app \<Longrightarrow> Q (exec_call env c app)"
  by (cases c)
    (auto simp: ui_list_chats_def list_attachments_def mark_read_def pin_chat_def archive_chat_def
      edit_message_local_def unsend_message_local_def poll_events_def
      intro!: keeps_calls keeps_updates emit_closed spawn_closed events_closed split: sum.splits prod.splits)

text \<open>The tasks and the frames.\<close>

lemma keeps_in_session: "Q app \<Longrightarrow> Q (snd (in_app_session m app))"
  using dsk_closed [OF session_closed]
  by (auto simp: in_app_session_def split: option.splits prod.splits)

lemma keeps_apply_login: "Q app \<Longrightarrow> Q (apply_login_state env ls app)"
proof (cases ls)
  case LoggedIn
  assume q: "Q app"
  obtain x app1 where 1: "in_app_session (finalize_login_and_register_ids (ae_session env)) app = (x, app1)" by fastforce
  have "Q app1" using keeps_in_session [OF q] 1 by (metis snd_conv)
  then show ?thesis by (simp add: apply_login_state_def LoggedIn 1 spawn_closed split: sum.splits)
qed (simp_all add: apply_login_state_def spawn_closed)

lemma keeps_prepare_client: "Q app \<Longrightarrow> (\<And>x app'. Q app' \<Longrightarrow> Q (k x app')) \<Longrightarrow> Q (prepare_client m k app)"
  using keeps_in_session [of app m]
  by (auto simp: prepare_client_def spawn_closed split: prod.splits sum.splits)

lemma keeps_task: "Q app \<Longrightarrow> Q (run_task env t app)"
proof (cases t)
  case (ApplyLoginTask ls)
  moreover assume "Q app"
  ultimately show ?thesis using keeps_apply_login [of app env ls] by simp
next
  case (PersistAuthTask st)
  moreover assume "Q app"
  ultimately show ?thesis using state_closed [of app st] by (simp add: set_auth_persist)
qed (auto simp: report_failure_def report_stub_def login_result_def client_ready_def
    intro!: keeps_prepare_client emit_closed spawn_closed events_closed split: sum.splits option.splits prod.splits bool.splits)

lemma keeps_frame: "Q app \<Longrightarrow> Q (receive_task_round env x app)"
  using at.keeps_receive_round [where app = app and d = "storage app" and env = "ae_inbound env"
      and now = "now_epoch (ae_clock env)" and x = x and q = "events app"]
  by (auto simp: receive_task_round_def Let_def intro!: spawn_closed events_closed split: prod.splits)

lemma keeps_step:
  assumes "sys_step app app'" and "\<And>i. i < length (tasks app) \<Longrightarrow> Q (drop_task i app)" and "Q app"
  shows "Q app'"
  using assms
proof (cases rule: sys_step.cases)
  case (users_updated s env us s' d)
  then show ?thesis using dsk_closed [OF session_closed [OF assms(3)]] by simp
qed (simp_all add: keeps_call keeps_task keeps_frame dsk_closed)

end

text \<open>A property of the database alone, over a run.\<close>

lemma storage_over_run:
  assumes "storage_closed P" and "sys_step\<^sup>*\<^sup>* app app'" and "P (storage app)"
  shows "P (storage app')"
  using assms(2,3)
proof (induction rule: rtranclp_induct)
  case (step b c)
  then show ?case using core_closed.keeps_step [OF core_closedI [OF assms(1)]] by simp
qed

section \<open>The database of the core\<close>

interpretation ordered: storage_closed wf_db
  by unfold_locales (rule preservesD [OF keeps_exec_op])

interpretation core_ordered: core_closed "\<lambda>app. wf_db (storage app)"
  by (rule core_closedI) unfold_locales

interpretation history: storage_closed "\<lambda>d. \<exists>ops. d = run_storage ops d0" for d0
  by unfold_locales (metis run_storage_snoc)

interpretation named: storage_closed "\<lambda>d. handle_id_of k d = Some i" for k i
  by unfold_locales (rule handle_id_of_exec)

lemma message_exists_put: "message_exists d g \<Longrightarrow> message_exists (put_message r d) g"
  using lookup_message_put [of g r d] lookup_row_None [of ms_guid g "messages d"]
    lookup_row_None [of ms_guid g "messages (put_message r d)"] by (auto split: if_splits)

lemma message_exists_exec: "message_exists d g \<Longrightarrow> message_exists (snd (exec_op now op d)) g"
  by (cases op)
    (auto simp: sem_defs bnd_def upsert_chat_def set_chat_pin_def set_chat_archived_def update_chat_def
      upsert_handle_id insert_message_eq message_exists_put mark_chat_read_def edit_message_def
      unsend_message_def update_message_def add_reaction_def replace_reaction_def insert_attachment_def
      replace_attachment_def has_row_update_where insert_handle_def)

interpretation stored: storage_closed "\<lambda>d. message_exists d g" for g
  by unfold_locales (rule message_exists_exec)

text \<open>C7: The database of the running core refines the mailbox: between any two states of a run, whatever
  the UI, the tasks, the inbound frames and the callbacks of rustpush did and however it failed, the mailbox
  of the later database is that of the earlier one after a sequence of mailbox operations, no stored message
  has gone, and every handle has kept its id.\<close>

theorem core_database_is_a_mailbox:
  assumes "sys_step\<^sup>*\<^sup>* app app'" and "wf_db (storage app)"
  shows "(\<exists>ops. mailbox_of (storage app') = snd (run_ops (\<lambda>(now, op). mail_op now op) ops (mailbox_of (storage app)))) \<and>
    (\<forall>g. message_exists (storage app) g \<longrightarrow> message_exists (storage app') g) \<and>
    (\<forall>k i. handle_id_of k (storage app) = Some i \<longrightarrow> handle_id_of k (storage app') = Some i)"
proof -
  obtain ops where "storage app' = run_storage ops (storage app)"
    using storage_over_run [OF history.storage_closed_axioms assms(1), of "storage app"] by (metis run_storage_Nil)
  then have "mailbox_of (storage app') = snd (run_ops (\<lambda>(now, op). mail_op now op) ops (mailbox_of (storage app)))"
    using mail.run_sim [OF assms(2), of ops] by (metis run_ops_storage snd_map_prod)
  with storage_over_run [OF named.storage_closed_axioms assms(1)] storage_over_run [OF stored.storage_closed_axioms assms(1)]
  show ?thesis by blast
qed

lemma put_message_exists: "message_exists (put_message r d) (mr_guid r)"
  using lookup_message_put [of "mr_guid r" r d] lookup_row_None [of ms_guid "mr_guid r" "messages (put_message r d)"]
  by simp

theorem core_database_is_a_mailbox_witness:
  fixes app app' :: AppState
  defines "app \<equiv> paired_app\<lparr>storage := put_message (local_row sample_app_env ''m'' ''c'' ''hi'' False) chat_db\<rparr>"
    and "app' \<equiv> exec_call sample_app_env (UiUnsend ''m'') app"
  shows "(\<exists>ops. mailbox_of (storage app') = snd (run_ops (\<lambda>(now, op). mail_op now op) ops (mailbox_of (storage app)))) \<and>
    message_exists (storage app') ''m''"
proof -
  let ?row = "local_row sample_app_env ''m'' ''c'' ''hi'' False"
  have "wf_db chat_db" by (simp add: chat_db_def wf_upsert_chat wf_kv_set wf_empty_db)
  moreover have "insert_message ?row chat_db = (Inr (), put_message ?row chat_db)"
    using chat_db_simps(1) by (simp add: insert_message_eq refs_ok_local)
  ultimately have "wf_db (storage app)" using preservesD [OF keeps_insert_message, of chat_db ?row] by (simp add: app_def)
  moreover have "sys_step\<^sup>*\<^sup>* app app'" unfolding app'_def by (rule r_into_rtranclp) (rule ui)
  moreover have "message_exists (storage app) ''m''"
    using put_message_exists [of ?row chat_db] by (simp add: app_def local_row_def)
  ultimately show ?thesis using core_database_is_a_mailbox [of app app'] by blast
qed

section \<open>From the network to the screen\<close>

lemma filter_key_unique: "distinct (map f xs) \<Longrightarrow> x \<in> set xs \<Longrightarrow> f x = k \<Longrightarrow> filter (\<lambda>y. f y = k) xs = [x]"
  by (induction xs) (auto simp: filter_empty_conv image_iff)

lemma view_fields [simp]:
  "mv_guid (message_row_to_view (message_view d m)) = ms_guid m"
  "mv_text (message_row_to_view (message_view d m)) = ms_text m"
  "mv_sender_address (message_row_to_view (message_view d m)) = mr_sender_address (message_view d m)"
  "mv_date (message_row_to_view (message_view d m)) = ms_date m"
  "mv_date_read (message_row_to_view (message_view d m)) = ms_date_read m"
  "mv_is_from_me (message_row_to_view (message_view d m)) \<longleftrightarrow> ms_is_from_me m \<noteq> 0"
  by (simp_all add: message_row_to_view_def message_view_def Let_def)

text \<open>A stored message is shown once by a list that is long enough.\<close>

lemma shown_once:
  assumes "wf_db d" and "lookup_row ms_guid k (messages d) = Some m" and "ms_chat_guid m = g"
    and "storage app = d" and "int (length (chat_messages g d)) \<le> n"
  shows "[v \<leftarrow> list_messages g n app. mv_guid v = k] = [message_row_to_view (message_view d m)]"
proof -
  let ?xs = "sort_key ms_date (sort_key (\<lambda>m. - ms_date m) (chat_messages g d))"
  have lim: "sql_limit (max n 1) (sort_key (\<lambda>m. - ms_date m) (chat_messages g d)) =
      sort_key (\<lambda>m. - ms_date m) (chat_messages g d)"
    using assms(5) by (auto simp: sql_limit_def)
  have "distinct (map ms_guid (messages d))" using assms(1) by (simp add: wf_db_def wf_messages_def)
  then have dist: "distinct (map ms_guid ?xs)"
    by (simp add: distinct_map chat_messages_def) (blast intro: inj_on_subset)
  have "m \<in> set ?xs" and k: "ms_guid m = k"
    using lookup_row_SomeD [OF assms(2)] assms(3) by (simp_all add: chat_messages_def)
  with filter_key_unique [OF dist] have "filter (\<lambda>x. ms_guid x = k) ?xs = [m]" by blast
  then show ?thesis
    by (simp add: list_messages_def messages_for_chat_def assms(4) chat_messages_def [symmetric] lim filter_map comp_def)
qed

text \<open>One round of a receive loop with a normal message.\<close>

lemma receive_normal:
  fixes env :: app_env and inst :: MessageInst and conv :: ConversationData and app :: AppState
  defines "im \<equiv> \<not> is_sms (ae_inbound env) (mi_message inst)"
  defines "g \<equiv> chat_guid_for (lower (ae_inbound env)) (cd_participants conv) im"
  assumes "wf_db (storage app)" and "mi_message inst = Message normal" and "mi_conversation inst = Some conv"
  obtains d m c where "receive_task_round env (Frame (Inr (Some inst))) app =
      spawn ReceiveLoopTask (app\<lparr>storage := d, events := events app @ [MessageArrived g (mi_id inst)]\<rparr>)"
    and "wf_db d" and "lookup_row ms_guid (mi_id inst) (messages d) = Some m"
    and "ms_text m = raw_text (ae_inbound env) (nm_parts normal)" "ms_date m = epoch_seconds (mi_sent_timestamp inst)"
    and "ms_chat_guid m = g" "ms_date_read m = 0" "ms_is_from_me m = 0"
    and "mr_sender_address (message_view d m) = or_empty (mi_sender inst)"
    and "lookup_row ch_guid g (chats d) = Some c" "ch_service c = Some (if im then SERVICE_IMESSAGE else SERVICE_SMS)"
    and "ch_title c = or_empty (cd_cv_name conv)"
    and "ch_unread_count c =
         (case lookup_row ch_guid g (chats (storage app)) of None \<Rightarrow> 0 | Some c0 \<Rightarrow> ch_unread_count c0) + 1"
    and "set (participant_addresses g d) = set (cd_participants conv)"
proof -
  from store_message_spec [OF assms(3,5), of "ae_inbound env" "now_epoch (ae_clock env)" "nm_parts normal" "events app"]
  obtain d m c where st: "store_message (ae_inbound env) (now_epoch (ae_clock env)) inst (nm_parts normal) (storage app, events app) =
        (Inr (), (d, events app @ [MessageArrived g (mi_id inst)]))" and
    rest: "wf_db d" "lookup_row ms_guid (mi_id inst) (messages d) = Some m"
      "ms_text m = raw_text (ae_inbound env) (nm_parts normal)" "ms_date m = epoch_seconds (mi_sent_timestamp inst)"
      "ms_chat_guid m = g" "ms_date_read m = 0" "ms_is_from_me m = 0"
      "mr_sender_address (message_view d m) = or_empty (mi_sender inst)"
      "lookup_row ch_guid g (chats d) = Some c" "ch_service c = Some (if im then SERVICE_IMESSAGE else SERVICE_SMS)"
      "ch_title c = or_empty (cd_cv_name conv)"
      "ch_unread_count c =
         (case lookup_row ch_guid g (chats (storage app)) of None \<Rightarrow> 0 | Some c0 \<Rightarrow> ch_unread_count c0) + 1"
      "set (participant_addresses g d) = set (cd_participants conv)"
    unfolding im_def [symmetric] g_def [symmetric] by (elim exE conjE) (rule that)
  from st have "receive_task_round env (Frame (Inr (Some inst))) app =
      spawn ReceiveLoopTask (app\<lparr>storage := d, events := events app @ [MessageArrived g (mi_id inst)]\<rparr>)"
    by (simp add: receive_task_round_def receive_round_def handle_inst_def assms(4))
  from this rest show ?thesis by (rule that)
qed

lemma polled [simp]: "fst (poll_events app) = map event_to_dto (events app)"
  by (simp add: poll_events_def poll_bus_def drain_def drain_loop_eq)

lemma reachable_wf: "reachable (started r) sys_step app \<Longrightarrow> wf_db (storage app)"
  using run.reachable_inv [of r app] by (auto simp: sys_inv_def)

text \<open>C3: An inbound message reaches the screen. Whenever a receive loop of the running core reads a normal message
  of a conversation, the step exists and ends with the loop still there, nothing is reported as failed, and from
  then on the UI finds it: the next poll ends with its arrival event, the list of the messages of its chat shows
  it once, with its text, sender and date, unread and as somebody else's, and the chat has the right service and
  title, exactly the participants of the conversation and one more unread message.\<close>

theorem inbound_message_reaches_ui:
  fixes env :: app_env and inst :: MessageInst and conv :: ConversationData and app :: AppState
  defines "im \<equiv> \<not> is_sms (ae_inbound env) (mi_message inst)"
  defines "g \<equiv> chat_guid_for (lower (ae_inbound env)) (cd_participants conv) im"
  assumes "reachable (started r) sys_step app" and "i < length (tasks app)" and "tasks app ! i = ReceiveLoopTask"
    and "mi_message inst = Message normal" and "mi_conversation inst = Some conv"
    and "app' = receive_task_round env (Frame (Inr (Some inst))) (drop_task i app)"
  shows "sys_step app app' \<and> ReceiveLoopTask \<in> set (tasks app') \<and>
    fst (poll_events app') = fst (poll_events app) @ [dto ''message_arrived'' '''' g (mi_id inst) False] \<and>
    (\<exists>v. \<forall>n. int (length (chat_messages g (storage app'))) \<le> n \<longrightarrow>
       [v \<leftarrow> list_messages g n app'. mv_guid v = mi_id inst] = [v] \<and>
       mv_text v = raw_text (ae_inbound env) (nm_parts normal) \<and> mv_sender_address v = or_empty (mi_sender inst) \<and>
       mv_date v = epoch_seconds (mi_sent_timestamp inst) \<and> mv_date_read v = 0 \<and> \<not> mv_is_from_me v) \<and>
    (\<exists>c. lookup_row ch_guid g (chats (storage app')) = Some c \<and>
       ch_service c = Some (if im then SERVICE_IMESSAGE else SERVICE_SMS) \<and> ch_title c = or_empty (cd_cv_name conv) \<and>
       ch_unread_count c =
         (case lookup_row ch_guid g (chats (storage app)) of None \<Rightarrow> 0 | Some c0 \<Rightarrow> ch_unread_count c0) + 1) \<and>
    set (participant_addresses g (storage app')) = set (cd_participants conv)"
proof -
  have wf: "wf_db (storage (drop_task i app))" using reachable_wf [OF assms(3)] by simp
  obtain d m c where app': "app' = spawn ReceiveLoopTask
      (drop_task i app\<lparr>storage := d, events := events (drop_task i app) @ [MessageArrived g (mi_id inst)]\<rparr>)"
    and wf': "wf_db d" and m: "lookup_row ms_guid (mi_id inst) (messages d) = Some m" "ms_chat_guid m = g"
    and mf: "ms_text m = raw_text (ae_inbound env) (nm_parts normal)" "ms_date m = epoch_seconds (mi_sent_timestamp inst)"
      "ms_date_read m = 0" "ms_is_from_me m = 0" "mr_sender_address (message_view d m) = or_empty (mi_sender inst)"
    and c: "lookup_row ch_guid g (chats d) = Some c" "ch_service c = Some (if im then SERVICE_IMESSAGE else SERVICE_SMS)"
      "ch_title c = or_empty (cd_cv_name conv)" "ch_unread_count c =
         (case lookup_row ch_guid g (chats (storage app)) of None \<Rightarrow> 0 | Some c0 \<Rightarrow> ch_unread_count c0) + 1"
    and p: "set (participant_addresses g d) = set (cd_participants conv)"
    using receive_normal [OF wf assms(6,7), of env] unfolding assms(8) im_def [symmetric] g_def [symmetric]
    by (metis storage_frame(3))
  have d: "storage app' = d" by (simp add: app')
  have "sys_step app app'" unfolding assms(8) using assms(4,5) by (rule frame)
  moreover have "ReceiveLoopTask \<in> set (tasks app')" by (simp add: app' spawn_def)
  moreover have "fst (poll_events app') = fst (poll_events app) @ [dto ''message_arrived'' '''' g (mi_id inst) False]"
    by (simp add: app' spawn_def drop_task_def)
  moreover note shown_once [OF wf' m d]
  ultimately show ?thesis using c p mf by (simp add: d)
qed

theorem inbound_message_reaches_ui_witness:
  "\<exists>app app'. reachable (started False) sys_step app \<and> sys_step app app' \<and>
     fst (poll_events app') = fst (poll_events app) @
       [dto ''message_arrived'' '''' (chat_guid_for to_ascii_lowercase [''a'', ''b''] True) ''m1'' False] \<and>
     set (participant_addresses (chat_guid_for to_ascii_lowercase [''a'', ''b''] True) (storage app')) = {''a'', ''b''}"
proof -
  obtain app where r: "reachable (started False) sys_step app" and t: "tasks app = [ReceiveLoopTask]"
    using sign_in_run by blast
  let ?app' = "receive_task_round sample_app_env (Frame (Inr (Some sample_inst))) (drop_task 0 app)"
  have "0 < length (tasks app)" "tasks app ! 0 = ReceiveLoopTask"
    "mi_message sample_inst = Message plain_normal" "mi_conversation sample_inst = Some sample_conv"
    by (simp_all add: t)
  from inbound_message_reaches_ui [OF r this refl, of sample_app_env]
  show ?thesis using r
    by (intro exI [of _ app] exI [of _ ?app'])
      (simp add: sample_app_env_def sample_inbound_def sample_conv_def del: polled)
qed



end
