(* ===== verification/CoreSends.thy ===== *)
theory CoreSends
  imports CoreRuns
begin

text \<open>
  The life of an outgoing message in the running core, from the call of the UI to the end of its task, among
  everything else that happens meanwhile: it is shown at once, stays stored, and its send is never lost.
\<close>

section \<open>Pending tasks\<close>

text \<open>Calls, tasks and frames only add tasks.\<close>

interpretation pending: core_closed "\<lambda>app. \<exists>us. tasks app = ts @ us" for ts
  by unfold_locales (auto simp: spawn_def)

lemma tasks_stay:
  "t \<in> set (tasks app) \<Longrightarrow> t \<in> set (tasks (exec_call env c app))"
  "t \<in> set (tasks app) \<Longrightarrow> t \<in> set (tasks (run_task env u app))"
  "t \<in> set (tasks app) \<Longrightarrow> t \<in> set (tasks (receive_task_round env x app))"
  using pending.keeps_call [where ts = "tasks app" and app = app] pending.keeps_task [where ts = "tasks app" and app = app]
    pending.keeps_frame [where ts = "tasks app" and app = app]
  by (metis Un_iff append_Nil2 set_append)+

lemma task_not_dropped:
  assumes "t \<in> set (tasks app)" and "i < length (tasks app)" and "tasks app ! i \<noteq> t"
  shows "t \<in> set (tasks (drop_task i app))"
proof -
  have "set (tasks app) = set (take i (tasks app)) \<union> {tasks app ! i} \<union> set (drop (Suc i) (tasks app))"
    by (subst id_take_nth_drop [OF assms(2)]) simp
  with assms show ?thesis by (auto simp: drop_task_def)
qed

text \<open>A task other than the receive loop stays until it runs.\<close>

definition was_run :: "task \<Rightarrow> AppState \<Rightarrow> AppState \<Rightarrow> bool" where
  "was_run t b c \<longleftrightarrow> (\<exists>i env. i < length (tasks b) \<and> tasks b ! i = t \<and> c = run_task env t (drop_task i b))"

lemma task_kept_or_run:
  assumes "sys_step b c" and "t \<in> set (tasks b)" and "t \<noteq> ReceiveLoopTask"
  shows "t \<in> set (tasks c) \<or> was_run t b c"
  using assms(1)
proof (cases rule: sys_step.cases)
  case (ui env call)
  then show ?thesis using tasks_stay(1) [OF assms(2)] by simp
next
  case (task i env)
  show ?thesis
  proof (cases "tasks b ! i = t")
    case False
    then show ?thesis using tasks_stay(2) [OF task_not_dropped [OF assms(2) task(2)]] task(1) by blast
  qed (use task in \<open>auto simp: was_run_def\<close>)
next
  case (frame i env x)
  then have "tasks b ! i \<noteq> t" using assms(3) by simp
  then show ?thesis using tasks_stay(3) [OF task_not_dropped [OF assms(2) frame(2)]] frame(1) by blast
qed (use assms(2) in simp_all)

lemma task_kept_or_run_later:
  assumes "sys_step\<^sup>*\<^sup>* a d" and "t \<in> set (tasks a)" and "t \<noteq> ReceiveLoopTask"
  shows "t \<in> set (tasks d) \<or>
    (\<exists>b c. sys_step\<^sup>*\<^sup>* a b \<and> sys_step b c \<and> sys_step\<^sup>*\<^sup>* c d \<and> was_run t b c)"
  using assms(1)
proof (induction rule: rtranclp_induct)
  case (step d e)
  then show ?case
    using task_kept_or_run [OF step(2) _ assms(3)] by (meson rtranclp.rtrancl_into_rtrancl rtranclp.rtrancl_refl)
qed (use assms(2) in simp)

lemma task_can_run:
  assumes "t \<in> set (tasks app)" and "t \<noteq> ReceiveLoopTask"
  shows "\<exists>c. sys_step app c \<and> was_run t app c"
proof -
  from assms(1) obtain i where "i < length (tasks app)" "tasks app ! i = t" by (auto simp: in_set_conv_nth)
  then show ?thesis using task [of i app undefined] assms(2) by (auto simp: was_run_def)
qed

section \<open>Settled sends\<close>

text \<open>The client has taken a message of these parts for these recipients from the first registered handle, and
  its delivery, if it could be awaited, did not fail.\<close>

definition handed_over :: "apple_env \<Rightarrow> AuthSession \<Rightarrow> string list \<Rightarrow> IndexedMessagePart list \<Rightarrow> bool" where
  "handed_over env s ps parts \<longleftrightarrow> ps \<noteq> [] \<and>
     (\<exists>client sender job msg. as_im_client s = Some client \<and> sender_handle env client = Inr sender \<and>
        im_send env client (build_message env ps sender parts) = (Inr job, msg) \<and> await_delivery job = Inr ())"

text \<open>What a text and a file turn into when their task runs; the file is read from the disk then.\<close>

definition text_parts :: "string \<Rightarrow> apple_env \<Rightarrow> disk \<Rightarrow> string + IndexedMessagePart list" where
  "text_parts body env d = Inr [text_part env body]"

definition file_parts :: "string \<Rightarrow> string \<Rightarrow> string \<Rightarrow> apple_env \<Rightarrow> disk \<Rightarrow> string + IndexedMessagePart list" where
  "file_parts body path mime env d =
     map_sum id (\<lambda>p. p # (if body = [] then [] else [text_part env body])) (attachment_part env d path mime)"

lemma send_imessage_handed_over:
  "send_imessage env ps body s = Inr i \<Longrightarrow> \<exists>xs. text_parts body env d = Inr xs \<and> handed_over env s ps xs"
  by (auto simp: send_imessage_def send_parts_Inr text_parts_def handed_over_def)

lemma send_file_handed_over:
  assumes "send_imessage_with_attachments env d ps body [path] [mime] s = Inr i"
  shows "\<exists>xs. file_parts body path mime env d = Inr xs \<and> handed_over env s ps xs"
proof -
  from assms obtain p where p: "attachment_part env d path mime = Inr p"
    by (auto simp: send_imessage_with_attachments_def mime_at_def split: sum.splits)
  then have "send_parts env s ps (p # (if body = [] then [] else [text_part env body])) = Inr i"
    using assms by (simp add: send_imessage_with_attachments_def mime_at_def Let_def split: if_splits)
  then show ?thesis by (auto simp: p file_parts_def handed_over_def send_parts_Inr)
qed

text \<open>A send is settled by a step when its message has been handed over, or when its failure is announced.\<close>

definition send_settled ::
    "bool \<Rightarrow> string \<Rightarrow> string list \<Rightarrow> (apple_env \<Rightarrow> disk \<Rightarrow> string + IndexedMessagePart list) \<Rightarrow> string \<Rightarrow>
       AppState \<Rightarrow> AppState \<Rightarrow> bool" where
  "send_settled signed_in chat ps parts guid b c \<longleftrightarrow>
     (\<exists>env s xs. signed_in \<and> session b = Some s \<and> parts env (dsk b) = Inr xs \<and> handed_over env s ps xs \<and>
        events c = events b) \<or>
     (\<exists>reason. events c = events b @ [MessageFailed chat guid reason])"

lemma drop_task_fields [simp]:
  "session (drop_task i app) = session app" "dsk (drop_task i app) = dsk app" "events (drop_task i app) = events app"
  by (simp_all add: drop_task_def)

lemma reported_settles:
  assumes "c = (case (if signed_in then session b else None) of
       None \<Rightarrow> emit (MessageFailed chat guid ''not signed in'') b'
     | Some s \<Rightarrow> report_failure chat guid (send s) b')"
    and "events b' = events b"
    and "\<And>s i. send s = Inr i \<Longrightarrow> \<exists>xs. parts env (dsk b) = Inr xs \<and> handed_over env s ps xs"
  shows "send_settled signed_in chat ps parts guid b c"
  using assms(1,2)
  by (auto simp: send_settled_def report_failure_def emit_def send_event_def dest!: assms(3)
      split: option.splits sum.splits if_splits)

lemma run_text_settles:
  "was_run (SendTask signed_in chat ps body guid) b c \<Longrightarrow> send_settled signed_in chat ps (text_parts body) guid b c"
  unfolding was_run_def using send_imessage_handed_over by (fastforce intro: reported_settles)

lemma run_file_settles:
  "was_run (SendFileTask signed_in chat ps body path mime guid) b c \<Longrightarrow>
     send_settled signed_in chat ps (file_parts body path mime) guid b c"
  unfolding was_run_def using send_file_handed_over by (fastforce intro: reported_settles)

text \<open>The life of a task that settles when it runs.\<close>

lemma pending_or_settled:
  assumes "sys_step\<^sup>*\<^sup>* a d" and "t \<in> set (tasks a)" and "t \<noteq> ReceiveLoopTask"
    and "\<And>b c. was_run t b c \<Longrightarrow> P b c"
  shows "t \<in> set (tasks d) \<and> (\<exists>c. sys_step d c \<and> P d c) \<or>
    (\<exists>b c. sys_step\<^sup>*\<^sup>* a b \<and> sys_step b c \<and> sys_step\<^sup>*\<^sup>* c d \<and> P b c)"
  using task_kept_or_run_later [OF assms(1-3)] task_can_run [of t d] assms(3,4) by blast

section \<open>Sending\<close>


text \<open>A core started with a stored chat.\<close>

definition chat_app :: AppState where
  "chat_app = initial_app sample_app_env ''data'' (open_db (Some chat_db)) paired_disk"

lemma reachable_chat_app: "reachable (started True) sys_step chat_app"
  by (rule reach_init)
    (auto simp: started_def chat_app_def chat_db_def wf_upsert_chat wf_kv_set wf_empty_db
      intro!: exI [of _ sample_app_env] exI [of _ "''data''"] exI [of _ "Some chat_db"])

lemma chat_app_chat: "chat_exists (storage chat_app) ''c''"
  by (simp add: chat_app_def initial_app_def Let_def open_db_def migrate_def add_service_column_def repair_services_def
      chat_db_def upsert_chat_def upsert_row_def new_chat_def empty_db_def update_where_def kv_set_def)


end
