(* ===== verification/Restarts.thy ===== *)
theory Restarts
  imports CoreSends
begin

text \<open>
  The core over several lives of its process: at any moment it may be stopped, cleanly or not, and started
  again on the database it leaves behind, with whatever the disk then holds. Every start is one the properties
  of \<open>System\<close> and \<open>CoreRuns\<close> speak of, and what was stored before is there after.
\<close>

text \<open>A life goes on with a step of the core, or ends and begins again; the pending tasks, the events that were not
  polled and the session are gone then, the database is what the next \<open>AppState::open\<close> finds.\<close>

inductive life :: "AppState \<Rightarrow> AppState \<Rightarrow> bool" where
  on: "sys_step a b \<Longrightarrow> life a b"
| again: "life a (initial_app env dir (open_db (Some (storage a))) d)"

inductive_cases lifeE: "life a b"

lemma storage_initial_app [simp]: "storage (initial_app env dir st d) = st"
  by (simp add: initial_app_def Let_def)

lemma open_db_tables [simp]:
  "messages (open_db (Some d)) = messages d" "handles (open_db (Some d)) = handles d"
  "chat_handles (open_db (Some d)) = chat_handles d" "reactions (open_db (Some d)) = reactions d"
  "attachments (open_db (Some d)) = attachments d"
  by (simp_all add: open_db_def migrate_def add_service_column_def repair_services_def)

lemma life_reachable:
  assumes "life a b" and "reachable (started True) sys_step a"
  shows "reachable (started True) sys_step b"
  using assms(1)
proof (rule lifeE)
  assume "sys_step a b"
  with assms(2) show ?thesis by (rule reach_step)
next
  fix env dir d
  assume b: "b = initial_app env dir (open_db (Some (storage a))) d"
  have "started True b"
    unfolding started_def b using reachable_wf [OF assms(2)]
    by (intro exI [of _ env] exI [of _ dir] exI [of _ "Some (storage a)"] exI [of _ d]) simp
  then show ?thesis by (rule reach_init)
qed

lemma life_keeps:
  assumes "storage_closed P" and "\<And>d. P d \<Longrightarrow> P (open_db (Some d))" and "life a b" and "P (storage a)"
  shows "P (storage b)"
  using assms(3)
proof (rule lifeE)
  assume "sys_step a b"
  from storage_over_run [OF assms(1) r_into_rtranclp [of sys_step, OF this] assms(4)] show ?thesis .
qed (simp add: assms(2,4))

lemma life_keeps_message: "life a b \<Longrightarrow> message_exists (storage a) g \<Longrightarrow> message_exists (storage b) g"
  by (rule life_keeps [OF stored.storage_closed_axioms]) simp_all

lemma life_keeps_handle: "life a b \<Longrightarrow> handle_id_of k (storage a) = Some i \<Longrightarrow> handle_id_of k (storage b) = Some i"
  by (rule life_keeps [OF named.storage_closed_axioms]) (simp_all add: handle_id_of_def)



end
