(* ===== verification/FileSends.thy ===== *)
theory FileSends
  imports CoreSends
begin

text \<open>
  The life of a file sent from the UI: the copy in the data directory, the message with its attachment, and the
  task that uploads and sends the copy, among everything else that happens meanwhile.
\<close>

section \<open>What the call leaves\<close>

text \<open>The two guids that are drawn, and where the copy goes.\<close>

definition att_guid :: "app_env \<Rightarrow> string" where
  "att_guid env = ''attach-'' @ ae_uuids env 0"

definition file_guid :: "app_env \<Rightarrow> string" where
  "file_guid env = ''temp-'' @ ae_uuids env 1"

definition attachment_dest :: "app_env \<Rightarrow> AppState \<Rightarrow> string \<Rightarrow> string" where
  "attachment_dest env app name =
     join_path (join_path (join_path (ap_data_dir app) ''attachments'') (att_guid env)) name"

definition file_row :: "app_env \<Rightarrow> string \<Rightarrow> string \<Rightarrow> MessageRow" where
  "file_row env chat body = local_row env (file_guid env) chat body True"

text \<open>The attachment that is stored, as the table has it and as the UI is shown it.\<close>

definition attachment_of :: "app_env \<Rightarrow> AppState \<Rightarrow> string \<Rightarrow> string \<Rightarrow> attachment_rec" where
  "attachment_of env app name content = \<lparr>at_guid = att_guid env,
     at_message_guid = file_guid env, at_filename = name, at_mime_type = mime_from_ext name,
     at_size_bytes = int (length content), at_local_path = attachment_dest env app name, at_transfer_state = 0\<rparr>"

definition shown_attachment :: "attachment_rec \<Rightarrow> AttachmentInfo" where
  "shown_attachment a = \<lparr>ai_guid = at_guid a, ai_message_guid = at_message_guid a, ai_filename = at_filename a,
     ai_mime_type = at_mime_type a, ai_size_bytes = at_size_bytes a, ai_local_path = at_local_path a,
     ai_transfer_state = at_transfer_state a\<rparr>"

definition stored_file :: "app_env \<Rightarrow> AppState \<Rightarrow> string \<Rightarrow> string \<Rightarrow> string \<Rightarrow> string \<Rightarrow> db" where
  "stored_file env app chat body name content =
     update_message (file_guid env) (\<lambda>m. m\<lparr>ms_has_attachments := 1\<rparr>)
       (put_message (file_row env chat body) (storage app)\<lparr>attachments :=
          replace_row at_guid (attachment_of env app name content)
            (attachments (put_message (file_row env chat body) (storage app)))\<rparr>)"

lemma on_storage_Inr:
  "m (storage app) = (Inr x, d) \<Longrightarrow> on_storage env m app = (Inr x, app\<lparr>storage := d\<rparr>)"
  by (simp add: on_storage_def sql_err_def)

lemma create_dir_all_cases: "create_dir_all p d = (case blocked d p of Some e \<Rightarrow> (Inl e, d) | None \<Rightarrow> (Inr (), d))"
  by (simp add: create_dir_all_def asks_def split: option.splits)

lemma file_row_guid [simp]: "mr_guid (file_row env chat body) = file_guid env"
  by (simp add: file_row_def local_row_def)

lemma insert_file_attachment:
  "insert_attachment (att_guid env) (file_guid env) name (mime_from_ext name)
      (int (length content)) (attachment_dest env app name) (put_message (file_row env chat body) (storage app)) =
    (Inr (), stored_file env app chat body name content)"
  using put_message_exists [of "file_row env chat body" "storage app"]
  by (simp add: insert_attachment_def sem_defs bnd_def replace_attachment_def stored_file_def attachment_of_def)

lemma participants_stored_file:
  "participant_addresses chat (stored_file env app chat body name content) = participant_addresses chat (storage app)"
  by (simp add: stored_file_def update_message_def participant_addresses_def chat_members_def)

text \<open>A call that succeeds had a readable file with a name and an existing chat.\<close>

lemma attach_file_local_Inr:
  assumes "attach_file_local env chat body path app = (Inr g, app1)"
  obtains content name where "read_file path (dsk app) = Inr content" and "file_name path = Some name"
    and "g = file_guid env" and "read_file (attachment_dest env app name) (dsk app1) = Inr content"
    and "storage app1 = stored_file env app chat body name content"
    and "events app1 = events app @ [MessageSent chat g]"
    and "tasks app1 = tasks app @ [SendFileTask (session app \<noteq> None) chat
           (participant_addresses chat (storage app)) body (attachment_dest env app name) (mime_from_ext name) g]"
proof -
  from assms obtain content name where src: "read_file path (dsk app) = Inr content" "file_name path = Some name"
      "file_exists path (dsk app)"
    by (auto simp: attach_file_local_def Let_def split: if_splits sum.splits option.splits)
  let ?dest = "attachment_dest env app name" and ?g = "file_guid env"
  let ?dir = "join_path (join_path (ap_data_dir app) ''attachments'') (att_guid env)"
  note chain = assms [unfolded attach_file_local_def Let_def, folded att_guid_def file_guid_def, simplified src, simplified]
  have dir: "blocked (dsk app) ?dir = None"
    using chain by (auto simp: thn_def bnd_def on_app_disk_def create_dir_all_cases split: option.splits)
  have wr: "blocked (dsk app) ?dest = None"
    using chain by (auto simp: thn_def bnd_def on_app_disk_def create_dir_all_cases dir write_file_def attempt_def
        attachment_dest_def split: option.splits)
  let ?d = "dsk app\<lparr>files := (files (dsk app))(?dest \<mapsto> content)\<rparr>"
  have disk: "create_dir_all ?dir (dsk app) = (Inr (), dsk app)" "write_file ?dest content (dsk app) = (Inr (), ?d)"
    by (simp_all add: create_dir_all_cases dir write_file_def attempt_def wr)
  have row: "local_row env ?g chat body True = file_row env chat body" by (simp add: file_row_def)
  note step = thn_def bnd_def on_app_disk_def modify_def ok_def
  have ex: "refs_ok (storage app) (file_row env chat body)"
    using chain disk by (auto simp: step attachment_dest_def [symmetric] row on_storage_insert split: if_splits)
  have "app1 = spawn (SendFileTask (session app \<noteq> None) chat (participant_addresses chat (storage app)) body ?dest
          (mime_from_ext name) ?g)
        (emit (MessageSent chat ?g) (app\<lparr>dsk := ?d, storage := stored_file env app chat body name content\<rparr>))" and "g = ?g"
    using chain disk insert_file_attachment [of env name content app chat body]
    by (auto simp: step attachment_dest_def [symmetric] row on_storage_def sql_err_def emit_def insert_message_eq ex
        participants_stored_file spawn_def)
  moreover have "read_file ?dest ?d = Inr content" by (simp add: read_file_def wr)
  ultimately show thesis using src(1,2) by (intro that) (simp_all add: spawn_def emit_def send_event_def)
qed


lemma attachments_of_stored_file:
  "attachments_for_message (file_guid env) (stored_file env app chat body name content) =
     collect [read_attachment (attachment_of env app name content)]"
proof -
  have "filter (\<lambda>a. at_message_guid a = file_guid env)
      (replace_row at_guid (attachment_of env app name content) (attachments (put_message (file_row env chat body) (storage app)))) =
    [attachment_of env app name content]"
    by (auto simp: replace_row_def put_message_def delete_message_def attachment_of_def filter_empty_conv)
  then show ?thesis by (simp add: attachments_for_message_def stored_file_def update_message_def)
qed

lemma attachments_shown:
  assumes "storage app1 = stored_file env app chat body name content"
  shows "list_attachments env' (file_guid env) app1 = ([shown_attachment (attachment_of env app name content)], app1)"
  by (simp add: list_attachments_def assms attachments_of_stored_file read_attachment_def read_i32_def in_i32_def
      attachment_of_def attachment_info_def shown_attachment_def)

lemma message_of_stored_file:
  "lookup_row ms_guid (file_guid env) (messages (stored_file env app chat body name content)) =
     Some (message_of_row (file_row env chat body))"
proof -
  have "(message_of_row (file_row env chat body))\<lparr>ms_has_attachments := 1\<rparr> = message_of_row (file_row env chat body)"
    by (simp add: message_of_row_def file_row_def local_row_def)
  then show ?thesis
    by (simp add: stored_file_def update_message_def lookup_row_update_where lookup_message_put)
qed

section \<open>Sending a file\<close>


text \<open>The call succeeds for a readable file with a name, in a chat that exists, when nothing blocks the copy.\<close>

lemma attach_file_local_ok:
  assumes "files (dsk app) path = Some content" and "blocked (dsk app) = (\<lambda>_. None)" and "file_name path = Some name"
    and "chat_exists (storage app) chat"
  shows "\<exists>app1. attach_file_local env chat body path app = (Inr (file_guid env), app1)"
proof -
  let ?dest = "attachment_dest env app name"
  have src: "file_exists path (dsk app)" "read_file path (dsk app) = Inr content"
    by (simp_all add: file_exists_def read_file_def assms(1,2))
  have row: "local_row env (file_guid env) chat body True = file_row env chat body" by (simp add: file_row_def)
  have ex: "refs_ok (storage app) (file_row env chat body)" by (simp add: file_row_def refs_ok_local assms(4))
  show ?thesis
    unfolding attach_file_local_def Let_def
    unfolding att_guid_def [symmetric] file_guid_def [symmetric]
    using insert_file_attachment [of env name content app chat body]
    by (simp add: src assms(3) thn_def bnd_def on_app_disk_def modify_def ok_def create_dir_all_cases assms(2)
        write_file_def attempt_def attachment_dest_def [symmetric] row on_storage_def sql_err_def emit_def
        insert_message_eq ex spawn_def)
qed

definition file_app :: AppState where
  "file_app = initial_app sample_app_env ''data'' (open_db (Some chat_db)) (paired_disk\<lparr>files := [''p'' \<mapsto> ''x'']\<rparr>)"

lemma reachable_file_app: "reachable (started True) sys_step file_app"
  by (rule reach_init)
    (auto simp: started_def file_app_def chat_db_def wf_upsert_chat wf_kv_set wf_empty_db
      intro!: exI [of _ sample_app_env] exI [of _ "''data''"] exI [of _ "Some chat_db"])


end
