(* ===== verification/NativeLoop.thy ===== *)
theory NativeLoop
  imports Receive
begin

text \<open>
  \<open>rust/src/native.rs\<close>: the message loop of the mobile bindings with its queue of messages the app has not
  taken yet, and the two functions of \<open>rust/src/api/api.rs\<close> the app takes them with. A message waits in the
  queue under a 64-bit key; one task per message announces it again every 30 seconds. What
  \<open>recv_wait\<close> returns is an argument of a round; the calls into the app are a log.
\<close>

section \<open>Messages\<close>

text \<open>\<open>RegisterState\<close>, with its signed and unsigned 64-bit numbers.\<close>

datatype RegisterState =
    Registered int
  | Registering
  | RegFailed "64 word option" string

record ApsAlert =
  aa_title :: string
  aa_body :: string
  aa_sbdy :: string
  aa_defbtn :: string
  aa_albtn :: string

text \<open>The two coordinates are the bits of an \<open>f32\<close>.\<close>

record IdmsRequestedSignIn =
  rq_alert :: ApsAlert
  rq_txnid :: string
  rq_lat :: "32 word"
  rq_lng :: "32 word"
  rq_adsid :: string

record IdmsCircleMessage =
  cm_step :: "32 word"
  cm_atxnid :: string
  cm_pake :: "string option"
  cm_ec :: "32 word option"
  cm_idmsdata :: string

datatype IdmsMessage =
    RequestedSignIn IdmsRequestedSignIn
  | TeardownSignIn string
  | CircleRequest IdmsCircleMessage "IdmsRequestedSignIn option"

record SharedAlbum =
  sa_name :: "string option"
  sa_fullname :: "string option"
  sa_email :: "string option"
  sa_albumguid :: string
  sa_sharingtype :: string
  sa_subscriptiondate :: "string option"
  sa_albumlocation :: "string option"
  sa_assets :: "string list"
  sa_delete :: "string option"

datatype PushMessage =
    IMessage MessageInst
  | SendConfirm string "string option"
  | RegistrationState RegisterState
  | NewPhotostream SharedAlbum
  | FaceTime FTMessage
  | StatusUpdate StatusKitMessage
  | Idms IdmsMessage
  | TwoFaAuthEvent bool
  | CircleFinishEvent
  | BeaconShared string string BeaconAttributes

datatype PollResult = PollStop | PollCont "PushMessage option"

section \<open>The queue and the loop\<close>

text \<open>The calls of \<open>MsgReceiver\<close> the loop makes.\<close>

datatype receiver_call =
    ReceivedMsg "64 word" nat
  | TwofaEvent bool
  | Finish

text \<open>\<open>QUEUED_MESSAGES\<close>, the pending retry tasks (key and count), and the loop.\<close>

record daemon =
  dm_next :: "64 word"
  dm_queued :: "64 word \<Rightarrow> PushMessage option"
  dm_retries :: "(64 word \<times> nat) list"
  dm_calls :: "receiver_call list"
  dm_running :: bool

definition fresh_daemon :: daemon where
  "fresh_daemon = \<lparr>dm_next = 0, dm_queued = (\<lambda>_. None), dm_retries = [], dm_calls = [], dm_running = True\<rparr>"

definition call :: "receiver_call \<Rightarrow> daemon \<Rightarrow> daemon" where
  "call c s = s\<lparr>dm_calls := dm_calls s @ [c]\<rparr>"

definition hand_over :: "PushMessage \<Rightarrow> daemon \<Rightarrow> daemon" where
  "hand_over msg s =
     (let key = dm_next s
      in call (ReceivedMsg key 0)
           (s\<lparr>dm_queued := (dm_queued s)(key := Some msg), dm_next := key + 1,
              dm_retries := dm_retries s @ [(key, 0)]\<rparr>))"

text \<open>One round of the loop; \<open>None\<close> is a panic in \<open>recv_wait\<close>, which is caught and logged.\<close>

fun loop_round :: "PollResult option \<Rightarrow> daemon \<Rightarrow> daemon" where
  "loop_round None s = s"
| "loop_round (Some PollStop) s = call Finish (s\<lparr>dm_running := False\<rparr>)"
| "loop_round (Some (PollCont None)) s = s"
| "loop_round (Some (PollCont (Some msg))) s =
     (case msg of TwoFaAuthEvent success \<Rightarrow> call (TwofaEvent success) s | _ \<Rightarrow> hand_over msg s)"

text \<open>The retry task number \<open>i\<close> after its 30 seconds.\<close>

definition max_retries :: nat where
  "max_retries = 5"

definition retry_round :: "nat \<Rightarrow> daemon \<Rightarrow> daemon" where
  "retry_round i s =
     (case dm_retries s ! i of (key, retry) \<Rightarrow>
        let rest = take i (dm_retries s) @ drop (Suc i) (dm_retries s)
        in if dm_queued s key = None then s\<lparr>dm_retries := rest\<rparr>
           else if retry + 1 > max_retries
           then s\<lparr>dm_queued := (dm_queued s)(key := None), dm_retries := rest\<rparr>
           else call (ReceivedMsg key (retry + 1)) (s\<lparr>dm_retries := (dm_retries s)[i := (key, retry + 1)]\<rparr>))"

section \<open>Taking a message\<close>

text \<open>\<open>str::parse::<u64>\<close>: decimal digits, an optional plus sign, an error on overflow.\<close>

fun parse_digits :: "nat \<Rightarrow> string \<Rightarrow> nat option" where
  "parse_digits acc [] = Some acc"
| "parse_digits acc (c # cs) =
     (if 48 \<le> byte c \<and> byte c \<le> 57 \<and> acc * 10 + (byte c - 48) < 2 ^ 64
      then parse_digits (acc * 10 + (byte c - 48)) cs else None)"

definition parse_u64 :: "string \<Rightarrow> 64 word option" where
  "parse_u64 s =
     (let ds = (case s of [] \<Rightarrow> [] | c # cs \<Rightarrow> if byte c = 43 then cs else s)
      in if ds = [] then None else map_option word_of_nat (parse_digits 0 ds))"

text \<open>In both functions \<open>None\<close> is the panic of \<open>unwrap\<close> on a pointer that is not a number.\<close>

definition ptr_to_dart :: "string \<Rightarrow> daemon \<Rightarrow> PushMessage option option" where
  "ptr_to_dart ptr s = map_option (dm_queued s) (parse_u64 ptr)"

definition complete_msg :: "string \<Rightarrow> daemon \<Rightarrow> daemon option" where
  "complete_msg ptr s = map_option (\<lambda>key. s\<lparr>dm_queued := (dm_queued s)(key := None)\<rparr>) (parse_u64 ptr)"

section \<open>Steps\<close>

inductive daemon_step :: "daemon \<Rightarrow> daemon \<Rightarrow> bool" where
  round: "dm_running s \<Longrightarrow> daemon_step s (loop_round p s)"
| retry: "i < length (dm_retries s) \<Longrightarrow> daemon_step s (retry_round i s)"
| complete: "complete_msg ptr s = Some t \<Longrightarrow> daemon_step s t"

inductive_cases daemon_stepE: "daemon_step s t"

definition notices :: "64 word \<Rightarrow> receiver_call list \<Rightarrow> nat list" where
  "notices key cs = concat (map (\<lambda>c. case c of ReceivedMsg k n \<Rightarrow> if k = key then [n] else [] | _ \<Rightarrow> []) cs)"

definition is_first :: "receiver_call \<Rightarrow> bool" where
  "is_first c \<longleftrightarrow> (case c of ReceivedMsg _ n \<Rightarrow> n = 0 | _ \<Rightarrow> False)"

text \<open>How many messages were handed over; the counter wraps after \<open>2 ^ 64\<close> of them.\<close>

definition handed :: "daemon \<Rightarrow> nat" where
  "handed s = length (filter is_first (dm_calls s))"

end
