(* ===== verification/Circle.thy ===== *)
theory Circle
  imports NativeLoop
begin

text \<open>
  \<open>rust/src/api/api.rs\<close>: approving sign-ins of other devices and the dispatch of push messages. The sessions
  of rustpush (\<open>CircleServerSession\<close>, \<open>CircleClientSession\<close>) are opaque texts changed by a handler, a
  field of \<open>circle_env\<close>; so are the Grand Slam token flow and the anisette code. A panic is an error of
  the computation. The bounded channel \<open>local_broadcast\<close> is a queue (a full one only makes the sender wait).
\<close>

section \<open>State\<close>

text \<open>The two entries of the account's \<open>spd\<close> dictionary the code reads.\<close>

record spd_dict =
  sp_adsid :: "string option"
  sp_dsid :: "nat option"

record account =
  ac_spd :: "spd_dict option"

record ActiveCircleSession =
  cs_session :: string
  cs_atxnid :: string
  cs_txnid :: string
  cs_init_message :: "IdmsCircleMessage option"
  cs_otp :: nat

text \<open>The part of \<open>SharedPushState\<close> these functions work on, with the approvals still to be run.\<close>

record push_state =
  ps_account :: "account option"
  ps_sessions :: "ActiveCircleSession list"
  ps_client :: "string option"
  ps_local :: "PushMessage list"
  ps_albums :: "SharedAlbum list"
  ps_approvals :: "(string \<times> IdmsCircleMessage) list"
  ps_sending :: "string list"

record circle_env =
  gsa_flow :: "spd_dict option"
  push_token :: string
  new_server_session :: "nat \<Rightarrow> nat \<Rightarrow> string \<Rightarrow> string"
  server_handle :: "IdmsCircleMessage \<Rightarrow> string \<Rightarrow> (string + bool) \<times> string"
  client_handle :: "IdmsCircleMessage \<Rightarrow> string \<Rightarrow> (string + LoginState option) \<times> string"
  rnd_otp :: nat
  anisette_code :: "string + nat"

type_synonym 'a push = "(push_state, string, 'a) sem"

definition broadcast :: "PushMessage \<Rightarrow> push_state \<Rightarrow> push_state" where
  "broadcast m s = s\<lparr>ps_local := ps_local s @ [m]\<rparr>"

text \<open>\<open>iter_mut().find(..)\<close>: the first match is changed in place.\<close>

fun update_first :: "('a \<Rightarrow> bool) \<Rightarrow> ('a \<Rightarrow> 'a) \<Rightarrow> 'a list \<Rightarrow> 'a list" where
  "update_first p f [] = []"
| "update_first p f (x # xs) = (if p x then f x # xs else x # update_first p f xs)"

section \<open>Whose sign-in it is\<close>

text \<open>When \<open>spd\<close> is missing, the Grand Slam flow is tried once.\<close>

definition ensure_spd :: "circle_env \<Rightarrow> account \<Rightarrow> account" where
  "ensure_spd env a = (if ac_spd a = None then a\<lparr>ac_spd := gsa_flow env\<rparr> else a)"

definition handle_2fa :: "circle_env \<Rightarrow> IdmsRequestedSignIn \<Rightarrow> bool push" where
  "handle_2fa env signin = (\<lambda>s.
     case ps_account s of
       None \<Rightarrow> (Inr False, s)
     | Some a \<Rightarrow>
         let a' = ensure_spd env a; s' = s\<lparr>ps_account := Some a'\<rparr>
         in (case ac_spd a' of
               None \<Rightarrow> (Inr False, s')
             | Some spd \<Rightarrow> (case sp_adsid spd of
                   None \<Rightarrow> (Inl ''no adsid???s'', s')
                 | Some adsid \<Rightarrow> (Inr (adsid = rq_adsid signin), s'))))"

section \<open>Circle messages\<close>

text \<open>An even step is for the client session of this device.\<close>

definition client_step :: "circle_env \<Rightarrow> IdmsCircleMessage \<Rightarrow> push_state \<Rightarrow> push_state" where
  "client_step env msg s =
     (case ps_client s of
        None \<Rightarrow> s
      | Some c \<Rightarrow>
          (case client_handle env msg c of
             (Inr (Some LoggedIn), _) \<Rightarrow> broadcast CircleFinishEvent (s\<lparr>ps_client := None\<rparr>)
           | (_, c') \<Rightarrow> s\<lparr>ps_client := Some c'\<rparr>))"

text \<open>A new server session, for the first step of a request that came with its sign-in.\<close>

definition open_circle ::
    "circle_env \<Rightarrow> IdmsRequestedSignIn option \<Rightarrow> IdmsCircleMessage \<Rightarrow> unit push" where
  "open_circle env signin msg = (\<lambda>s.
     if cm_step msg \<noteq> 1 then (Inr (), s)
     else case signin of None \<Rightarrow> (Inr (), s) | Some si \<Rightarrow>
     case ps_account s of None \<Rightarrow> (Inr (), s) | Some a \<Rightarrow>
     let a' = ensure_spd env a; s' = s\<lparr>ps_account := Some a'\<rparr>
     in (case ac_spd a' of None \<Rightarrow> (Inr (), s') | Some spd \<Rightarrow>
         case sp_dsid spd of None \<Rightarrow> (Inl ''no dsid???s'', s') | Some dsid \<Rightarrow>
         let new = \<lparr>cs_session = new_server_session env dsid (rnd_otp env) (push_token env),
               cs_atxnid = cm_atxnid msg, cs_txnid = rq_txnid si,
               cs_init_message = Some msg, cs_otp = rnd_otp env\<rparr>;
             all = ps_sessions s' @ [new]
         in (Inr (), s'\<lparr>ps_sessions := (if length all > 5 then tl all else all)\<rparr>)))"

text \<open>A later odd step of a session that exists.\<close>

definition server_step :: "circle_env \<Rightarrow> IdmsCircleMessage \<Rightarrow> ActiveCircleSession \<Rightarrow> push_state \<Rightarrow> push_state" where
  "server_step env msg c s =
     (case server_handle env msg (cs_session c) of (r, st) \<Rightarrow>
        let s1 = s\<lparr>ps_sessions := update_first (\<lambda>a. cs_atxnid a = cm_atxnid msg)
                     (\<lambda>a. a\<lparr>cs_session := st\<rparr>) (ps_sessions s)\<rparr>;
            s2 = (case r of Inl _ \<Rightarrow> s1
                  | Inr success \<Rightarrow> if cm_step msg = 3 then broadcast (TwoFaAuthEvent success) s1 else s1)
        in if cm_step msg = 5
           then s2\<lparr>ps_sessions := filter (\<lambda>a. cs_atxnid a \<noteq> cm_atxnid msg) (ps_sessions s2)\<rparr>
           else s2)"

definition handle_circle ::
    "circle_env \<Rightarrow> IdmsRequestedSignIn option \<Rightarrow> IdmsCircleMessage \<Rightarrow> unit push" where
  "handle_circle env signin msg = (\<lambda>s.
     if cm_step msg mod 2 = 0 then (Inr (), client_step env msg s)
     else case find (\<lambda>a. cs_atxnid a = cm_atxnid msg) (ps_sessions s) of
       None \<Rightarrow> open_circle env signin msg s
     | Some c \<Rightarrow> (Inr (), server_step env msg c s))"

section \<open>Approval by the user\<close>

text \<open>The code to show; the handling of the first message is left to a task.\<close>

definition approve_circle :: "circle_env \<Rightarrow> string \<Rightarrow> nat push" where
  "approve_circle env txnid = (\<lambda>s.
     case find (\<lambda>a. cs_txnid a = txnid) (ps_sessions s) of
       None \<Rightarrow> (anisette_code env, s)
     | Some item \<Rightarrow> (case cs_init_message item of
           None \<Rightarrow> (Inl ''Idms init message missing for approve!'', s)
         | Some msg \<Rightarrow>
             (Inr (cs_otp item), s\<lparr>
                ps_sessions := update_first (\<lambda>a. cs_txnid a = txnid) (\<lambda>a. a\<lparr>cs_init_message := None\<rparr>) (ps_sessions s),
                ps_approvals := ps_approvals s @ [(txnid, msg)]\<rparr>)))"

definition run_approval :: "circle_env \<Rightarrow> string \<times> IdmsCircleMessage \<Rightarrow> push_state \<Rightarrow> push_state" where
  "run_approval env t s =
     (case find (\<lambda>a. cs_txnid a = fst t) (ps_sessions s) of
        None \<Rightarrow> s
      | Some item \<Rightarrow> s\<lparr>ps_sessions := update_first (\<lambda>a. cs_txnid a = fst t)
            (\<lambda>a. a\<lparr>cs_session := snd (server_handle env (snd t) (cs_session a))\<rparr>) (ps_sessions s)\<rparr>)"

text \<open>\<open>get_auth_code\<close> of \<open>native.rs\<close>: an error becomes zero.\<close>

definition get_auth_code :: "circle_env \<Rightarrow> string \<Rightarrow> push_state \<Rightarrow> nat \<times> push_state" where
  "get_auth_code env txnid s = (case approve_circle env txnid s of (Inr code, s') \<Rightarrow> (code, s') | (Inl _, s') \<Rightarrow> (0, s'))"

section \<open>Dispatching a push message\<close>

text \<open>What the services make of one frame; \<open>None\<close> for a service that is absent.\<close>

record frame_results =
  fr_fmfd :: "(string + (string \<times> string \<times> BeaconAttributes) list) option"
  fr_photos :: "(string + string list option) option"
  fr_statuskit :: "string + StatusKitMessage option"
  fr_idms :: "string + IdmsMessage option"
  fr_facetime :: "string + FTMessage option"
  fr_imclient :: "string + MessageInst option"

definition find_album :: "SharedAlbum list \<Rightarrow> string \<Rightarrow> SharedAlbum option" where
  "find_album albums guid = find (\<lambda>a. sa_albumguid a = guid) albums"

definition handle_photostream :: "string list \<Rightarrow> push_state \<Rightarrow> push_state" where
  "handle_photostream changes s = fold (\<lambda>guid s. case find_album (ps_albums s) guid of
     None \<Rightarrow> s
   | Some item \<Rightarrow> if sa_sharingtype item = ''pending'' then broadcast (NewPhotostream item) s else s) changes s"

text \<open>FaceTime, then iMessage; an error of either is logged and the frame is dropped.\<close>

definition dispatch_rest :: "frame_results \<Rightarrow> PollResult" where
  "dispatch_rest fr =
     (case fr_facetime fr of
        Inl _ \<Rightarrow> PollCont None
      | Inr (Some m) \<Rightarrow> PollCont (Some (FaceTime m))
      | Inr None \<Rightarrow> (case fr_imclient fr of
            Inl _ \<Rightarrow> PollCont None
          | Inr m \<Rightarrow> PollCont (map_option IMessage m)))"

definition dispatch_idms :: "circle_env \<Rightarrow> frame_results \<Rightarrow> PollResult push" where
  "dispatch_idms env fr =
     (case fr_idms fr of
        Inl _ \<Rightarrow> ok (PollCont None)
      | Inr None \<Rightarrow> ok (dispatch_rest fr)
      | Inr (Some (CircleRequest circle req)) \<Rightarrow>
          (case req of
             None \<Rightarrow> thn (handle_circle env None circle) (ok (dispatch_rest fr))
           | Some r \<Rightarrow> bnd (handle_2fa env r) (\<lambda>mine.
               if \<not> mine then ok (PollCont None)
               else thn (handle_circle env req circle)
                        (ok (PollCont (Some (Idms (RequestedSignIn r)))))))
      | Inr (Some (RequestedSignIn r)) \<Rightarrow> bnd (handle_2fa env r) (\<lambda>mine.
          if \<not> mine then ok (PollCont None) else ok (PollCont (Some (Idms (RequestedSignIn r)))))
      | Inr (Some msg) \<Rightarrow> ok (PollCont (Some (Idms msg))))"

text \<open>The services of an iCloud account come first; \<open>None\<close> lets the frame go on.\<close>

definition dispatch_icloud :: "frame_results \<Rightarrow> push_state \<Rightarrow> PollResult option \<times> push_state" where
  "dispatch_icloud fr s =
     (if ps_account s = None then (None, s)
      else case fr_fmfd fr of
        Some (Inr ((sender, beacon, attributes) # _)) \<Rightarrow> (Some (PollCont (Some (BeaconShared sender beacon attributes))), s)
      | _ \<Rightarrow>
        let s' = (case fr_photos fr of Some (Inr (Some changes)) \<Rightarrow> handle_photostream changes s | _ \<Rightarrow> s)
        in (case fr_statuskit fr of
              Inl _ \<Rightarrow> (Some (PollCont None), s')
            | Inr None \<Rightarrow> (None, s')
            | Inr (Some m) \<Rightarrow> (Some (PollCont (Some (StatusUpdate m))), s')))"

definition dispatch_frame :: "circle_env \<Rightarrow> frame_results \<Rightarrow> PollResult push" where
  "dispatch_frame env fr = (\<lambda>s.
     case dispatch_icloud fr s of
       (Some r, s') \<Rightarrow> (Inr r, s')
     | (None, s') \<Rightarrow> dispatch_idms env fr s')"

text \<open>What the \<open>select!\<close> of \<open>recv_wait\<close> takes: a frame, a change of the registration, the first
  message of the local queue, or the cancellation.\<close>

datatype wakeup =
    OnFrame frame_results
  | OnRegState RegisterState
  | OnLocal
  | OnCancel

fun wake_ready :: "wakeup \<Rightarrow> push_state \<Rightarrow> bool" where
  "wake_ready OnLocal s \<longleftrightarrow> ps_local s \<noteq> []"
| "wake_ready _ s \<longleftrightarrow> True"

fun recv_wait :: "circle_env \<Rightarrow> bool \<Rightarrow> wakeup \<Rightarrow> PollResult push" where
  "recv_wait env True w = ok PollStop"
| "recv_wait env False (OnFrame fr) = dispatch_frame env fr"
| "recv_wait env False (OnRegState st) = ok (PollCont (Some (RegistrationState st)))"
| "recv_wait env False OnLocal = (\<lambda>s. (Inr (PollCont (Some (hd (ps_local s)))), s\<lparr>ps_local := tl (ps_local s)\<rparr>))"
| "recv_wait env False OnCancel = ok PollStop"

text \<open>\<open>ResourceState\<close> of rustpush, and \<open>get_regstate\<close>.\<close>

datatype ResourceState = Generating | Generated | Failed "64 word option" string | ResClosed

fun get_regstate :: "int \<Rightarrow> ResourceState \<Rightarrow> RegisterState" where
  "get_regstate rereg_time_s Generating = Registering"
| "get_regstate rereg_time_s Generated = Registered rereg_time_s"
| "get_regstate rereg_time_s (Failed retry_wait error) = RegFailed retry_wait error"
| "get_regstate rereg_time_s ResClosed = RegFailed None ''Closed''"

text \<open>
  \<open>send\<close>: \<open>True\<close> when rustpush returned a delivery to await; the task that awaits it then reports its
  outcome in the local queue, under the id of the message as the client left it.
\<close>

definition api_send ::
    "(MessageInst \<Rightarrow> (string + bool) \<times> MessageInst) \<Rightarrow> MessageInst \<Rightarrow> bool push" where
  "api_send client_send inst = (\<lambda>s.
     case client_send inst of
       (Inl e, _) \<Rightarrow> (Inl e, s)
     | (Inr awaits, msg) \<Rightarrow> (Inr awaits, if awaits then s\<lparr>ps_sending := ps_sending s @ [mi_id msg]\<rparr> else s))"

definition finish_send :: "nat \<Rightarrow> string + unit \<Rightarrow> push_state \<Rightarrow> push_state" where
  "finish_send i result s =
     broadcast (SendConfirm (ps_sending s ! i) (case result of Inl e \<Rightarrow> Some e | Inr _ \<Rightarrow> None))
       (s\<lparr>ps_sending := take i (ps_sending s) @ drop (Suc i) (ps_sending s)\<rparr>)"

end
