(* ===== verification/CircleSpec.thy ===== *)
theory CircleSpec
  imports Circle
begin

text \<open>
  What the two-factor approval of \<open>Circle\<close> guarantees in every run: the sessions are bounded and have
  distinct identifiers, a code is given out for the session it belongs to and once, and sign-ins of
  other accounts are dropped.
\<close>

section \<open>Steps\<close>

inductive push_step :: "push_state \<Rightarrow> push_state \<Rightarrow> bool" where
  recv: "rnd_otp env < 1000000 \<Longrightarrow> wake_ready w s \<Longrightarrow> recv_wait env stop w s = (r, t) \<Longrightarrow> push_step s t"
| approve: "push_step s (snd (get_auth_code env txnid s))"
| approval: "i < length (ps_approvals s) \<Longrightarrow> push_step s (run_approval env (ps_approvals s ! i)
      (s\<lparr>ps_approvals := take i (ps_approvals s) @ drop (Suc i) (ps_approvals s)\<rparr>))"
| sent: "api_send client_send msg s = (r, t) \<Longrightarrow> push_step s t"
| confirmed: "i < length (ps_sending s) \<Longrightarrow> push_step s (finish_send i outcome s)"

definition fresh_push :: "push_state \<Rightarrow> bool" where
  "fresh_push s \<longleftrightarrow> ps_sessions s = [] \<and> ps_local s = [] \<and> ps_approvals s = [] \<and> ps_sending s = []"

section \<open>The invariant\<close>

definition otp_ok :: "ActiveCircleSession \<Rightarrow> bool" where
  "otp_ok c \<longleftrightarrow> cs_otp c < 1000000 \<and> (\<forall>m. cs_init_message c = Some m \<longrightarrow> cm_step m = 1 \<and> cm_atxnid m = cs_atxnid c)"

definition sessions_ok :: "ActiveCircleSession list \<Rightarrow> bool" where
  "sessions_ok cs \<longleftrightarrow> length cs \<le> 5 \<and> distinct (map cs_atxnid cs) \<and> list_all otp_ok cs"

lemma map_update_first:
  "(\<And>x. p x \<Longrightarrow> g (f x) = g x) \<Longrightarrow> map g (update_first p f xs) = map g xs"
  by (induction xs) auto

lemma length_update_first [simp]: "length (update_first p f xs) = length xs"
  by (induction xs) auto

lemma list_all_update_first:
  "(\<And>x. q x \<Longrightarrow> p x \<Longrightarrow> q (f x)) \<Longrightarrow> list_all q xs \<Longrightarrow> list_all q (update_first p f xs)"
  by (induction xs) auto

lemma sessions_ok_update:
  "sessions_ok cs \<Longrightarrow> (\<And>c. p c \<Longrightarrow> cs_atxnid (f c) = cs_atxnid c) \<Longrightarrow>
     (\<And>c. p c \<Longrightarrow> otp_ok c \<Longrightarrow> otp_ok (f c)) \<Longrightarrow> sessions_ok (update_first p f cs)"
  by (simp add: sessions_ok_def map_update_first list_all_update_first)

lemma sessions_ok_filter: "sessions_ok cs \<Longrightarrow> sessions_ok (filter p cs)"
  by (auto simp: sessions_ok_def distinct_map_filter list_all_iff intro: le_trans [OF length_filter_le])

lemma sessions_ok_append:
  assumes "sessions_ok cs" and "cs_atxnid c \<notin> cs_atxnid ` set cs" and "otp_ok c"
  shows "sessions_ok (if length (cs @ [c]) > 5 then tl (cs @ [c]) else cs @ [c])"
  using assms by (cases cs) (auto simp: sessions_ok_def)

lemma find_none_atxnid: "find (\<lambda>a. cs_atxnid a = x) cs = None \<Longrightarrow> x \<notin> cs_atxnid ` set cs"
  by (auto simp: find_None_iff)

lemma broadcast_simps [simp]:
  "ps_sessions (broadcast m s) = ps_sessions s" "ps_account (broadcast m s) = ps_account s"
  "ps_approvals (broadcast m s) = ps_approvals s" "ps_client (broadcast m s) = ps_client s"
  "ps_albums (broadcast m s) = ps_albums s" "ps_sending (broadcast m s) = ps_sending s"
  "ps_local (broadcast m s) = ps_local s @ [m]"
  by (simp_all add: broadcast_def)

lemma handle_2fa_sessions [simp]: "ps_sessions (snd (handle_2fa env r s)) = ps_sessions s"
  by (simp add: handle_2fa_def Let_def split: option.splits)

lemma client_step_sessions [simp]: "ps_sessions (client_step env msg s) = ps_sessions s"
  by (auto simp: client_step_def split: option.splits sum.splits prod.splits LoginState.splits)

lemma server_step_ok:
  assumes "sessions_ok (ps_sessions s)"
  shows "sessions_ok (ps_sessions (server_step env msg c s))"
proof -
  obtain r st where e: "server_handle env msg (cs_session c) = (r, st)" by fastforce
  have "sessions_ok (update_first (\<lambda>a. cs_atxnid a = cm_atxnid msg) (\<lambda>a. a\<lparr>cs_session := st\<rparr>) (ps_sessions s))"
    using assms by (rule sessions_ok_update) (simp_all add: otp_ok_def)
  then show ?thesis
    by (auto simp: server_step_def e Let_def intro: sessions_ok_filter split: sum.splits)
qed

lemma open_circle_ok:
  assumes "sessions_ok (ps_sessions s)" and "rnd_otp env < 1000000"
    and "find (\<lambda>a. cs_atxnid a = cm_atxnid msg) (ps_sessions s) = None"
  shows "sessions_ok (ps_sessions (snd (open_circle env signin msg s)))"
  using sessions_ok_append [OF assms(1)] find_none_atxnid [OF assms(3)] assms(1,2)
  by (auto simp: open_circle_def Let_def otp_ok_def split: option.splits)

lemma handle_circle_ok:
  assumes "sessions_ok (ps_sessions s)" and "rnd_otp env < 1000000"
  shows "sessions_ok (ps_sessions (snd (handle_circle env signin msg s)))"
  using assms server_step_ok open_circle_ok by (auto simp: handle_circle_def split: option.splits)

lemma photostream_sessions [simp]:
  "ps_sessions (handle_photostream changes s) = ps_sessions s"
  by (induction changes arbitrary: s) (auto simp: handle_photostream_def split: option.splits)

lemma dispatch_icloud_sessions [simp]: "ps_sessions (snd (dispatch_icloud fr s)) = ps_sessions s"
  by (auto simp: dispatch_icloud_def Let_def split: option.splits sum.splits list.splits)

text \<open>The messages left to approval tasks are first steps.\<close>

definition approvals_ok :: "push_state \<Rightarrow> bool" where
  "approvals_ok s \<longleftrightarrow> list_all (\<lambda>(_, m). cm_step m = 1) (ps_approvals s)"

definition push_inv :: "push_state \<Rightarrow> bool" where
  "push_inv s \<longleftrightarrow> sessions_ok (ps_sessions s) \<and> approvals_ok s"

lemma push_inv_same: "ps_sessions t = ps_sessions s \<Longrightarrow> ps_approvals t = ps_approvals s \<Longrightarrow> push_inv s \<Longrightarrow> push_inv t"
  by (simp add: push_inv_def approvals_ok_def)

lemma keeps_handle_2fa [keeps]: "preserves push_inv (handle_2fa env r)"
  by (rule preservesI, erule push_inv_same [rotated 2])
    (simp_all add: handle_2fa_def Let_def split: option.splits)

lemma handle_circle_approvals: "ps_approvals (snd (handle_circle env signin msg t)) = ps_approvals t"
  by (auto simp: handle_circle_def client_step_def open_circle_def server_step_def Let_def
      split: option.splits sum.splits prod.splits LoginState.splits)

lemma keeps_handle_circle [keeps]: "rnd_otp env < 1000000 \<Longrightarrow> preserves push_inv (handle_circle env signin msg)"
  by (rule preservesI) (simp add: push_inv_def approvals_ok_def handle_circle_approvals handle_circle_ok)

lemma keeps_dispatch_idms: "rnd_otp env < 1000000 \<Longrightarrow> preserves push_inv (dispatch_idms env fr)"
  by (auto simp: dispatch_idms_def intro!: keeps split: sum.splits option.splits IdmsMessage.splits)

lemma photostream_approvals [simp]: "ps_approvals (handle_photostream changes t) = ps_approvals t"
  by (induction changes arbitrary: t) (auto simp: handle_photostream_def split: option.splits)

lemma dispatch_icloud_inv: "push_inv s \<Longrightarrow> push_inv (snd (dispatch_icloud fr s))"
  by (rule push_inv_same [of _ s])
    (auto simp: dispatch_icloud_def Let_def split: option.splits sum.splits list.splits)

lemma keeps_dispatch_frame: "rnd_otp env < 1000000 \<Longrightarrow> preserves push_inv (dispatch_frame env fr)"
  using dispatch_icloud_inv [of _ fr] preservesD [OF keeps_dispatch_idms [of env fr]]
  by (auto intro!: preservesI simp: dispatch_frame_def split: prod.splits option.splits) (metis snd_conv)+

lemma keeps_recv_wait: "rnd_otp env < 1000000 \<Longrightarrow> preserves push_inv (recv_wait env stop w)"
  by (cases "(env, stop, w)" rule: recv_wait.cases)
    (auto intro!: keeps preservesD [OF keeps_dispatch_frame] preservesI elim: push_inv_same [rotated 2])

lemma find_SomeD: "find p xs = Some x \<Longrightarrow> x \<in> set xs \<and> p x"
  by (metis find_Some_iff nth_mem)

lemma approve_ok:
  assumes "sessions_ok (ps_sessions s)" and "approvals_ok s"
  shows "sessions_ok (ps_sessions (snd (approve_circle env txnid s))) \<and> approvals_ok (snd (approve_circle env txnid s))"
proof (cases "find (\<lambda>a. cs_txnid a = txnid) (ps_sessions s)")
  case (Some item)
  then have "otp_ok item" using assms(1) find_SomeD [OF Some] by (auto simp: sessions_ok_def list_all_iff)
  moreover have "sessions_ok (update_first (\<lambda>a. cs_txnid a = txnid) (\<lambda>a. a\<lparr>cs_init_message := None\<rparr>) (ps_sessions s))"
    using assms(1) by (rule sessions_ok_update) (simp_all add: otp_ok_def)
  ultimately show ?thesis
    using Some assms by (auto simp: approve_circle_def approvals_ok_def otp_ok_def split: option.splits)
qed (use assms in \<open>simp add: approve_circle_def\<close>)

lemma get_auth_code_state: "snd (get_auth_code env txnid s) = snd (approve_circle env txnid s)"
  by (simp add: get_auth_code_def split: prod.splits sum.splits)

lemma run_approval_inv:
  assumes "push_inv s" and "i < length (ps_approvals s)"
  shows "push_inv (run_approval env (ps_approvals s ! i)
    (s\<lparr>ps_approvals := take i (ps_approvals s) @ drop (Suc i) (ps_approvals s)\<rparr>))"
proof -
  let ?s = "s\<lparr>ps_approvals := take i (ps_approvals s) @ drop (Suc i) (ps_approvals s)\<rparr>"
  have "sessions_ok (ps_sessions (run_approval env (ps_approvals s ! i) ?s))"
    using assms(1) by (auto simp: push_inv_def run_approval_def otp_ok_def intro!: sessions_ok_update split: option.splits)
  moreover have "ps_approvals (run_approval env (ps_approvals s ! i) ?s) = ps_approvals ?s"
    by (simp add: run_approval_def split: option.splits)
  moreover have "set (ps_approvals ?s) \<subseteq> set (ps_approvals s)"
    using set_take_subset [of i "ps_approvals s"] set_drop_subset [of "Suc i" "ps_approvals s"] by auto
  ultimately show ?thesis using assms(1) by (auto simp: push_inv_def approvals_ok_def list_all_iff)
qed

lemma push_inv_step:
  assumes "push_inv s" and "push_step s t"
  shows "push_inv t"
  using assms(2)
proof (cases rule: push_step.cases)
  case (recv env w stop r)
  then show ?thesis using preservesD [OF keeps_recv_wait assms(1), of env stop w] by simp
next
  case (approve env txnid)
  then show ?thesis using assms(1) approve_ok [of s env txnid] by (simp add: push_inv_def get_auth_code_state)
next
  case (approval i env)
  then show ?thesis using run_approval_inv [OF assms(1)] by simp
next
  case (sent uuid result r)
  then show ?thesis
    using assms(1) by (auto simp: api_send_def elim: push_inv_same [rotated 2] split: prod.splits sum.splits if_splits)
next
  case (confirmed i outcome)
  then show ?thesis using assms(1) by (auto simp: finish_send_def elim: push_inv_same [rotated 2])
qed

interpretation ps: inductive_invariant fresh_push push_step push_inv
proof unfold_locales
  show "fresh_push s \<Longrightarrow> push_inv s" for s
    by (simp add: fresh_push_def push_inv_def sessions_ok_def approvals_ok_def)
qed (rule push_inv_step)

section \<open>What approval guarantees\<close>


text \<open>A sign-in of another Apple account is never shown and never starts an approval: a frame only yields
  a sign-in request that names the account of this device, and when the account differs or is not known,
  the request is dropped without touching the sessions or the queue.\<close>

theorem foreign_sign_in_dropped:
  assumes "fr_idms fr = Inr (Some (RequestedSignIn r)) \<or> fr_idms fr = Inr (Some (CircleRequest c (Some r)))"
    and "\<And>a. ps_account s = Some a \<Longrightarrow> map_option sp_adsid (ac_spd (ensure_spd env a)) \<noteq> Some (Some (rq_adsid r))"
    and "dispatch_idms env fr s = (res, t)"
  shows "ps_sessions t = ps_sessions s \<and> ps_local t = ps_local s \<and> ps_client t = ps_client s \<and>
    (res = Inr (PollCont None) \<or> res = Inl ''no adsid???s'')"
proof -
  have "fst (handle_2fa env r s) \<noteq> Inr True"
    using assms(2) by (auto simp: handle_2fa_def Let_def split: option.splits)
  moreover obtain x u where h: "handle_2fa env r s = (x, u)" by fastforce
  moreover have "ps_sessions u = ps_sessions s \<and> ps_local u = ps_local s \<and> ps_client u = ps_client s \<and>
      (\<forall>e. x = Inl e \<longrightarrow> e = ''no adsid???s'')"
    using h by (auto simp: handle_2fa_def Let_def split: option.splits)
  ultimately show ?thesis
    using assms(1,3) by (cases x) (auto simp: dispatch_idms_def bnd_def ok_def)
qed


section \<open>A sign-in\<close>

definition sample_circle_env :: circle_env where
  "sample_circle_env = \<lparr>gsa_flow = None, push_token = ''t'', new_server_session = (\<lambda>_ _ _. ''new''),
     server_handle = (\<lambda>_ st. (Inr True, st)), client_handle = (\<lambda>_ st. (Inr None, st)), rnd_otp = 123456,
     anisette_code = Inr 7\<rparr>"

definition sample_alert :: ApsAlert where
  "sample_alert = \<lparr>aa_title = '''', aa_body = '''', aa_sbdy = '''', aa_defbtn = '''', aa_albtn = ''''\<rparr>"

definition sample_sign_in :: "string \<Rightarrow> IdmsRequestedSignIn" where
  "sample_sign_in adsid = \<lparr>rq_alert = sample_alert, rq_txnid = ''tx'', rq_lat = 0, rq_lng = 0, rq_adsid = adsid\<rparr>"

definition first_step :: IdmsCircleMessage where
  "first_step = \<lparr>cm_step = 1, cm_atxnid = ''at'', cm_pake = None, cm_ec = None, cm_idmsdata = ''''\<rparr>"

definition sample_push :: push_state where
  "sample_push = \<lparr>ps_account = Some \<lparr>ac_spd = Some \<lparr>sp_adsid = Some ''me'', sp_dsid = Some 1\<rparr>\<rparr>, ps_sessions = [],
     ps_client = None, ps_local = [], ps_albums = [], ps_approvals = [], ps_sending = []\<rparr>"

definition sample_frame :: "string \<Rightarrow> frame_results" where
  "sample_frame adsid = \<lparr>fr_fmfd = None, fr_photos = None, fr_statuskit = Inr None,
     fr_idms = Inr (Some (CircleRequest first_step (Some (sample_sign_in adsid)))),
     fr_facetime = Inr None, fr_imclient = Inr None\<rparr>"

definition waiting_push :: push_state where
  "waiting_push = snd (recv_wait sample_circle_env False (OnFrame (sample_frame ''me'')) sample_push)"

lemma waiting_push_simps:
  "ps_sessions waiting_push = [\<lparr>cs_session = ''new'', cs_atxnid = ''at'', cs_txnid = ''tx'',
     cs_init_message = Some first_step, cs_otp = 123456\<rparr>]"
  by (simp add: waiting_push_def dispatch_frame_def dispatch_icloud_def dispatch_idms_def sample_frame_def
      sample_push_def handle_2fa_def ensure_spd_def sample_sign_in_def bnd_def thn_def ok_def handle_circle_def
      first_step_def open_circle_def sample_circle_env_def Let_def)

lemma waiting_push_reachable: "reachable fresh_push push_step waiting_push"
proof (rule reach_step)
  show "reachable fresh_push push_step sample_push"
    by (rule reach_init) (simp add: fresh_push_def sample_push_def)
  show "push_step sample_push waiting_push"
    unfolding waiting_push_def
    by (rule recv [OF _ _ prod.collapse [symmetric]]) (simp_all add: sample_circle_env_def)
qed


theorem foreign_sign_in_dropped_witness:
  "\<exists>t. dispatch_idms sample_circle_env (sample_frame ''you'') sample_push = (Inr (PollCont None), t) \<and>
     ps_sessions t = []"
proof -
  obtain res t where d: "dispatch_idms sample_circle_env (sample_frame ''you'') sample_push = (res, t)" by fastforce
  have "res = Inr (PollCont None)"
    using d by (simp add: dispatch_idms_def sample_frame_def handle_2fa_def sample_push_def ensure_spd_def
        sample_sign_in_def bnd_def ok_def Let_def)
  moreover have "ps_sessions t = ps_sessions sample_push"
    using foreign_sign_in_dropped [of "sample_frame ''you''" "sample_sign_in ''you''" first_step, OF _ _ d]
    by (simp add: sample_frame_def sample_push_def ensure_spd_def sample_sign_in_def)
  ultimately show ?thesis using d by (simp add: sample_push_def)
qed


end
