(* ===== verification/NativeLoopSpec.thy ===== *)
theory NativeLoopSpec
  imports NativeLoop
begin

text \<open>
  What the queue of \<open>NativeLoop\<close> promises the app: every message is announced at once and then again a
  bounded number of times until it is taken, its pointer stays valid until then, and none is kept forever.
\<close>

section \<open>Pointers as text\<close>

lemma parse_digits_append:
  "parse_digits acc (xs @ ys) = (case parse_digits acc xs of None \<Rightarrow> None | Some a \<Rightarrow> parse_digits a ys)"
  by (induction xs arbitrary: acc) auto

lemma byte_digit: "n < 10 \<Longrightarrow> byte (char_of (48 + n)) = 48 + n"
  by (simp add: byte_def)

lemma parse_show_nat: "n < 2 ^ 64 \<Longrightarrow> parse_digits 0 (show_nat n) = Some n"
proof (induction n rule: show_nat.induct)
  case (1 n)
  show ?case
  proof (cases "n < 10")
    case True
    then show ?thesis by (simp add: show_nat.simps [of n] byte_digit)
  next
    case False
    have d: "n div 10 * 10 + n mod 10 = n" and m: "n mod 10 < 10" by simp_all
    from 1 False have "parse_digits 0 (show_nat (n div 10)) = Some (n div 10)" by simp
    then show ?thesis
      using False 1(2) d byte_digit [OF m] by (simp add: show_nat.simps [of n] parse_digits_append)
  qed
qed

lemma show_nat_head: "\<exists>c cs. show_nat n = c # cs \<and> byte c \<noteq> 43"
proof (induction n rule: show_nat.induct)
  case (1 n)
  then show ?case by (cases "n < 10") (auto simp: show_nat.simps [of n] byte_digit)
qed

lemma parse_pointer: "parse_u64 (show_nat (unat k)) = Some k" for k :: "64 word"
proof -
  obtain c cs where s: "show_nat (unat k) = c # cs" "byte c \<noteq> 43" using show_nat_head by blast
  have "unat k < 2 ^ 64" using unsigned_less [of k] by simp
  from parse_show_nat [OF this] s show ?thesis by (simp add: parse_u64_def)
qed

section \<open>The log\<close>

lemma notices_append [simp]:
  "notices k (cs @ [c]) = notices k cs @
     (case c of ReceivedMsg k' n \<Rightarrow> if k' = k then [n] else [] | _ \<Rightarrow> [])"
  by (simp add: notices_def)

lemma call_simps [simp]:
  "dm_next (call c s) = dm_next s" "dm_queued (call c s) = dm_queued s" "dm_retries (call c s) = dm_retries s"
  "dm_calls (call c s) = dm_calls s @ [c]" "dm_running (call c s) = dm_running s"
  "handed (call c s) = handed s + (if is_first c then 1 else 0)"
  by (simp_all add: call_def handed_def)

lemma handed_simps [simp]:
  "handed (s\<lparr>dm_queued := q\<rparr>) = handed s" "handed (s\<lparr>dm_retries := rs\<rparr>) = handed s"
  "handed (s\<lparr>dm_running := b\<rparr>) = handed s"
  by (simp_all add: handed_def)

definition queue_inv :: "daemon \<Rightarrow> bool" where
  "queue_inv s \<longleftrightarrow> distinct (map fst (dm_retries s)) \<and>
     (\<forall>(k, r) \<in> set (dm_retries s). r \<le> max_retries \<and> notices k (dm_calls s) = [0..<Suc r] \<and> unat k < handed s) \<and>
     (\<forall>k. dm_queued s k \<noteq> None \<longrightarrow> k \<in> fst ` set (dm_retries s)) \<and>
     (\<forall>k. handed s \<le> unat k \<longrightarrow> notices k (dm_calls s) = []) \<and>
     (\<forall>k. \<exists>m \<le> Suc max_retries. notices k (dm_calls s) = [0..<m])"

definition daemon_inv :: "daemon \<Rightarrow> bool" where
  "daemon_inv s \<longleftrightarrow> dm_next s = word_of_nat (handed s) \<and> (handed s \<le> 2 ^ 64 \<longrightarrow> queue_inv s)"

lemma queue_inv_quiet:
  assumes "queue_inv s" and "dm_calls t = dm_calls s \<or> (\<exists>c. dm_calls t = dm_calls s @ [c] \<and> (\<forall>k n. c \<noteq> ReceivedMsg k n))"
    and "distinct (map fst (dm_retries t))" and "set (dm_retries t) \<subseteq> set (dm_retries s)"
    and "\<And>k. dm_queued t k \<noteq> None \<Longrightarrow> dm_queued s k \<noteq> None \<and> (k \<in> fst ` set (dm_retries s) \<longrightarrow> k \<in> fst ` set (dm_retries t))"
  shows "queue_inv t"
proof -
  have n: "notices k (dm_calls t) = notices k (dm_calls s)" for k
    using assms(2) by (auto split: receiver_call.splits)
  have h: "handed t = handed s"
    using assms(2) by (auto simp: handed_def is_first_def split: receiver_call.splits)
  show ?thesis
    unfolding queue_inv_def n h
    using assms(1,3-5) by (auto simp: queue_inv_def)
qed

lemma queue_inv_distinct: "queue_inv s \<Longrightarrow> distinct (map fst (dm_retries s))"
  by (simp add: queue_inv_def)

lemma queue_inv_hand_over:
  assumes q: "queue_inv s" and n: "dm_next s = word_of_nat (handed s)" and h: "handed s < 2 ^ 64"
  shows "queue_inv (hand_over msg s)"
proof -
  let ?key = "dm_next s" and ?t = "hand_over msg s"
  have key: "unat ?key = handed s" using h by (simp add: n unat_of_nat)
  have h': "handed ?t = Suc (handed s)" by (simp add: hand_over_def Let_def is_first_def handed_def)
  have c: "notices k (dm_calls ?t) = notices k (dm_calls s) @ (if k = ?key then [0] else [])" for k
    by (simp add: hand_over_def Let_def)
  have new: "?key \<notin> fst ` set (dm_retries s)" using q key by (force simp: queue_inv_def)
  have empty: "notices ?key (dm_calls s) = []" using q key by (simp add: queue_inv_def)
  have r: "dm_retries ?t = dm_retries s @ [(?key, 0)]" "dm_queued ?t = (dm_queued s)(?key := Some msg)"
    by (simp_all add: hand_over_def Let_def)
  have 1: "distinct (map fst (dm_retries ?t))" using q new by (simp add: queue_inv_def r)
  have 2: "\<forall>(k, n) \<in> set (dm_retries ?t). n \<le> max_retries \<and> notices k (dm_calls ?t) = [0..<Suc n] \<and> unat k < handed ?t"
    using q new empty key by (force simp: queue_inv_def r c h')
  have 3: "\<forall>k. dm_queued ?t k \<noteq> None \<longrightarrow> k \<in> fst ` set (dm_retries ?t)"
    using q by (auto simp: queue_inv_def r)
  have 4: "\<forall>k. handed ?t \<le> unat k \<longrightarrow> notices k (dm_calls ?t) = []"
    using q key by (auto simp: queue_inv_def c h')
  have "\<exists>m \<le> Suc max_retries. notices k (dm_calls ?t) = [0..<m]" for k
  proof (cases "k = ?key")
    case True
    then show ?thesis by (intro exI [of _ 1]) (simp add: c empty)
  next
    case False
    with q show ?thesis by (simp add: queue_inv_def c)
  qed
  with 1 2 3 4 show ?thesis by (simp add: queue_inv_def)
qed

lemma without_index:
  assumes "i < length xs"
  shows "set (take i xs @ drop (Suc i) xs) \<union> {xs ! i} = set xs"
proof -
  have "xs = take i xs @ xs ! i # drop (Suc i) xs" using assms by (rule id_take_nth_drop)
  then have "set xs = set (take i xs @ xs ! i # drop (Suc i) xs)" by simp
  then show ?thesis by auto
qed

lemma distinct_without_index:
  assumes "i < length xs" and "distinct (map f xs)"
  shows "distinct (map f (take i xs @ drop (Suc i) xs)) \<and> f (xs ! i) \<notin> f ` set (take i xs @ drop (Suc i) xs)"
proof -
  have "xs = take i xs @ xs ! i # drop (Suc i) xs" using assms(1) by (rule id_take_nth_drop)
  then have "distinct (map f (take i xs @ xs ! i # drop (Suc i) xs))" using assms(2) by simp
  then show ?thesis by auto
qed

lemma queue_inv_retry:
  assumes q: "queue_inv s" and i: "i < length (dm_retries s)"
  shows "queue_inv (retry_round i s)"
proof -
  obtain key n where e: "dm_retries s ! i = (key, n)" by fastforce
  let ?rest = "take i (dm_retries s) @ drop (Suc i) (dm_retries s)"
  have d: "distinct (map fst ?rest)" "key \<notin> fst ` set ?rest"
    using distinct_without_index [OF i, of fst] q e by (simp_all add: queue_inv_def)
  have sub: "set ?rest \<union> {(key, n)} = set (dm_retries s)" using without_index [OF i] e by simp
  show ?thesis
  proof (cases "dm_queued s key = None \<or> n + 1 > max_retries")
    case True
    let ?t = "s\<lparr>dm_queued := (dm_queued s)(key := None), dm_retries := ?rest\<rparr>"
    have "queue_inv ?t"
    proof (rule queue_inv_quiet [OF q])
      have "fst ` set (dm_retries s) = insert key (fst ` set ?rest)" unfolding sub [symmetric] by auto
      then show "dm_queued s k \<noteq> None \<and> (k \<in> fst ` set (dm_retries s) \<longrightarrow> k \<in> fst ` set (dm_retries ?t))"
        if "dm_queued ?t k \<noteq> None" for k
        using that by (simp split: if_splits)
    qed (use d sub in auto)
    moreover have "retry_round i s = ?t"
      using True e by (auto simp: retry_round_def Let_def fun_upd_idem)
    ultimately show ?thesis by simp
  next
    case False
    let ?t = "call (ReceivedMsg key (n + 1)) (s\<lparr>dm_retries := (dm_retries s)[i := (key, n + 1)]\<rparr>)"
    have t: "retry_round i s = ?t" using False e by (auto simp: retry_round_def Let_def)
    have k: "fst ` set (dm_retries ?t) = fst ` set (dm_retries s)" and dk: "map fst (dm_retries ?t) = map fst (dm_retries s)"
      using i e by (simp_all add: map_update flip: set_map) (metis list_update_id fst_conv nth_map)+
    have set': "set (dm_retries ?t) \<subseteq> insert (key, n + 1) (set ?rest)"
      using i by (auto simp: upd_conv_take_nth_drop)
    have h: "handed ?t = handed s" by (simp add: is_first_def handed_def)
    have c: "notices k' (dm_calls ?t) = notices k' (dm_calls s) @ (if k' = key then [n + 1] else [])" for k'
      by simp
    have old: "(key, n) \<in> set (dm_retries s)" using i e nth_mem by force
    have nk: "notices key (dm_calls s) = [0..<Suc n]" "unat key < handed s"
      using q old by (auto simp: queue_inv_def)
    have "\<forall>(k, r) \<in> set (dm_retries ?t). r \<le> max_retries \<and> notices k (dm_calls ?t) = [0..<Suc r] \<and> unat k < handed ?t"
    proof clarify
      fix k r assume "(k, r) \<in> set (dm_retries ?t)"
      then consider "(k, r) = (key, n + 1)" | "(k, r) \<in> set ?rest" using set' by blast
      then show "r \<le> max_retries \<and> notices k (dm_calls ?t) = [0..<Suc r] \<and> unat k < handed ?t"
      proof cases
        case 1
        then show ?thesis using nk False by (simp add: c is_first_def)
      next
        case 2
        then have "k \<noteq> key" and "(k, r) \<in> set (dm_retries s)" using d(2) sub by force+
        then show ?thesis using q by (auto simp: queue_inv_def c h)
      qed
    qed
    moreover have "\<exists>m \<le> Suc max_retries. notices k (dm_calls ?t) = [0..<m]" for k
    proof (cases "k = key")
      case True
      then show ?thesis using nk False by (intro exI [of _ "n + 2"]) (simp add: c)
    next
      case False
      then show ?thesis using q by (simp add: c queue_inv_def)
    qed
    moreover have "\<forall>k. handed ?t \<le> unat k \<longrightarrow> notices k (dm_calls ?t) = []"
      using q nk(2) by (auto simp: queue_inv_def c h)
    moreover have "\<forall>k. dm_queued ?t k \<noteq> None \<longrightarrow> k \<in> fst ` set (dm_retries ?t)"
      using q k by (simp add: queue_inv_def)
    moreover have "distinct (map fst (dm_retries ?t))" using q by (simp only: dk) (simp add: queue_inv_def)
    ultimately show ?thesis unfolding t queue_inv_def by blast
  qed
qed

section \<open>Reachable states\<close>

lemma handed_retry: "handed (retry_round i s) = handed s"
  by (simp add: retry_round_def Let_def handed_def is_first_def split: prod.splits)

lemma complete_msg_Some:
  "complete_msg ptr s = Some t \<longleftrightarrow> (\<exists>k. parse_u64 ptr = Some k \<and> t = s\<lparr>dm_queued := (dm_queued s)(k := None)\<rparr>)"
  by (auto simp: complete_msg_def)

lemma queue_inv_complete: "queue_inv s \<Longrightarrow> queue_inv (s\<lparr>dm_queued := (dm_queued s)(k := None)\<rparr>)"
  by (rule queue_inv_quiet [of s]) (simp_all add: queue_inv_distinct split: if_splits)

lemma loop_round_cases:
  obtains "loop_round p s = s"
  | "loop_round p s = call Finish (s\<lparr>dm_running := False\<rparr>)"
  | b where "loop_round p s = call (TwofaEvent b) s"
  | msg where "loop_round p s = hand_over msg s"
proof (cases "\<exists>msg. p = Some (PollCont (Some msg))")
  case True
  then obtain msg where "p = Some (PollCont (Some msg))" by blast
  with that show ?thesis by (cases msg) auto
next
  case False
  with that(1,2) show ?thesis by (cases "(p, s)" rule: loop_round.cases) auto
qed

lemma daemon_inv_step:
  assumes i: "daemon_inv s" and "daemon_step s t"
  shows "daemon_inv t"
  using assms(2)
proof (cases rule: daemon_step.cases)
  case (round p)
  have quiet: "daemon_inv (call c (s\<lparr>dm_running := b\<rparr>))" if "\<forall>k n. c \<noteq> ReceivedMsg k n" for c b
  proof -
    have "queue_inv (call c (s\<lparr>dm_running := b\<rparr>))" if q: "queue_inv s"
    proof (rule queue_inv_quiet [OF q])
      show "dm_calls (call c (s\<lparr>dm_running := b\<rparr>)) = dm_calls s \<or>
          (\<exists>c'. dm_calls (call c (s\<lparr>dm_running := b\<rparr>)) = dm_calls s @ [c'] \<and> (\<forall>k n. c' \<noteq> ReceivedMsg k n))"
        using \<open>\<forall>k n. c \<noteq> ReceivedMsg k n\<close> by (intro disjI2 exI [of _ c] conjI) simp_all
    qed (simp_all add: queue_inv_distinct [OF q])
    moreover have "\<not> is_first c" using that by (simp add: is_first_def split: receiver_call.splits)
    ultimately show ?thesis using i by (simp add: daemon_inv_def handed_def)
  qed
  show ?thesis
  proof (cases p s rule: loop_round_cases)
    case 1
    then show ?thesis using i round by simp
  next
    case 2
    then show ?thesis using round quiet [of Finish False] by simp
  next
    case (3 b)
    have "daemon_inv (call (TwofaEvent b) (s\<lparr>dm_running := dm_running s\<rparr>))" by (rule quiet) simp
    moreover have "s\<lparr>dm_running := dm_running s\<rparr> = s" by simp
    ultimately show ?thesis using round 3 by (simp only:)
  next
    case (4 msg)
    have h: "handed t = Suc (handed s)" and "dm_next t = dm_next s + 1"
      using 4 round by (simp_all add: hand_over_def Let_def is_first_def handed_def)
    then show ?thesis
      using i queue_inv_hand_over [of s msg] round 4 by (auto simp: daemon_inv_def)
  qed
next
  case (retry k)
  then show ?thesis
    using i queue_inv_retry [of s k] handed_retry [of k s]
    by (auto simp: daemon_inv_def retry_round_def Let_def split: prod.splits)
next
  case (complete ptr)
  then show ?thesis
    using i queue_inv_complete [of s] by (auto simp: daemon_inv_def complete_msg_Some handed_def)
qed

lemma daemon_inv_fresh: "daemon_inv fresh_daemon"
  by (auto simp: daemon_inv_def queue_inv_def fresh_daemon_def handed_def notices_def intro: exI [of _ 0])

interpretation dm: inductive_invariant "\<lambda>s. s = fresh_daemon" daemon_step daemon_inv
  by unfold_locales (auto intro: daemon_inv_fresh daemon_inv_step)

abbreviation daemon_reachable :: "daemon \<Rightarrow> bool" where
  "daemon_reachable \<equiv> reachable (\<lambda>s. s = fresh_daemon) daemon_step"

lemma reachable_queue_inv: "daemon_reachable s \<Longrightarrow> handed s \<le> 2 ^ 64 \<Longrightarrow> queue_inv s"
  using dm.reachable_inv [of s] by (simp add: daemon_inv_def)

section \<open>What the queue promises\<close>

text \<open>C8: No message of the queue is ever without a pending task that announces it again, and the app is
  told of each message at most six times: at once and then with the numbers one to five in order, and
  never about a message that was not handed over. This holds for every interleaving of rounds of the
  loop, retries and the calls of the app, for the first \<open>2 ^ 64\<close> messages.\<close>

theorem queue_never_forgets: "daemon_reachable s \<Longrightarrow> handed s \<le> 2 ^ 64 \<Longrightarrow>
    (\<forall>k. dm_queued s k \<noteq> None \<longrightarrow> (\<exists>r \<le> max_retries. (k, r) \<in> set (dm_retries s))) \<and>
    (\<forall>k. \<exists>m \<le> 6. notices k (dm_calls s) = [0..<m]) \<and>
    (\<forall>k. handed s \<le> unat k \<longrightarrow> notices k (dm_calls s) = [])"
  using reachable_queue_inv [of s] by (fastforce simp: queue_inv_def max_retries_def)

text \<open>The position of the retry task of a key; one more wake-up of it.\<close>

fun index_of :: "64 word \<Rightarrow> (64 word \<times> nat) list \<Rightarrow> nat" where
  "index_of k [] = 0"
| "index_of k ((k', r) # xs) = (if k' = k then 0 else Suc (index_of k xs))"

lemma index_of_member:
  "distinct (map fst xs) \<Longrightarrow> (k, r) \<in> set xs \<Longrightarrow> index_of k xs < length xs \<and> xs ! index_of k xs = (k, r)"
  by (induction xs) force+

definition retry_key :: "64 word \<Rightarrow> daemon \<Rightarrow> daemon" where
  "retry_key k s = (if k \<in> fst ` set (dm_retries s) then retry_round (index_of k (dm_retries s)) s else s)"

lemma index_of_less: "k \<in> fst ` set xs \<Longrightarrow> index_of k xs < length xs"
proof (induction xs)
  case (Cons x xs)
  then show ?case by (cases x) force
qed simp

lemma queue_inv_task: "queue_inv s \<Longrightarrow> (k, r) \<in> set (dm_retries s) \<Longrightarrow>
    r \<le> max_retries \<and> notices k (dm_calls s) = [0..<Suc r]"
  by (auto simp: queue_inv_def)

lemma retry_key_step: "daemon_reachable s \<Longrightarrow> daemon_reachable (retry_key k s)"
  using reach_step [of "\<lambda>s. s = fresh_daemon" daemon_step s "retry_round (index_of k (dm_retries s)) s"]
    retry [of "index_of k (dm_retries s)" s] index_of_less [of k "dm_retries s"]
  by (auto simp: retry_key_def)

lemma handed_retry_key [simp]: "handed (retry_key k s) = handed s"
  by (simp add: retry_key_def handed_retry)

lemma retry_key_eq:
  assumes "queue_inv s" and "(k, r) \<in> set (dm_retries s)"
  shows "\<exists>i < length (dm_retries s). dm_retries s ! i = (k, r) \<and> retry_key k s = retry_round i s"
  using index_of_member [OF queue_inv_distinct [OF assms(1)] assms(2)] assms(2)
  by (force simp: retry_key_def)

lemma retry_key_more:
  assumes "queue_inv s" and "(k, r) \<in> set (dm_retries s)" and "dm_queued s k \<noteq> None" and "r < max_retries"
  shows "dm_queued (retry_key k s) = dm_queued s \<and> (k, r + 1) \<in> set (dm_retries (retry_key k s))"
proof -
  obtain i where i: "i < length (dm_retries s)" "dm_retries s ! i = (k, r)" "retry_key k s = retry_round i s"
    using retry_key_eq [OF assms(1,2)] by blast
  then show ?thesis using assms(3,4) by (auto simp: retry_round_def Let_def set_update_memI)
qed

lemma retry_key_last:
  assumes "queue_inv s" and "(k, max_retries) \<in> set (dm_retries s)" and "dm_queued s k \<noteq> None"
  shows "dm_queued (retry_key k s) = (dm_queued s)(k := None) \<and> dm_calls (retry_key k s) = dm_calls s"
proof -
  obtain i where i: "i < length (dm_retries s)" "dm_retries s ! i = (k, max_retries)" "retry_key k s = retry_round i s"
    using retry_key_eq [OF assms(1,2)] by blast
  then show ?thesis using assms(3) by (auto simp: retry_round_def Let_def)
qed

lemma dropped_after_retries:
  "daemon_reachable s \<Longrightarrow> handed s \<le> 2 ^ 64 \<Longrightarrow> (k, r) \<in> set (dm_retries s) \<Longrightarrow> dm_queued s k \<noteq> None \<Longrightarrow>
     max_retries - r = n \<Longrightarrow>
     dm_queued ((retry_key k ^^ Suc n) s) = (dm_queued s)(k := None) \<and>
     notices k (dm_calls ((retry_key k ^^ Suc n) s)) = [0..<6]"
proof (induction n arbitrary: s r)
  case 0
  have q: "queue_inv s" using 0 by (intro reachable_queue_inv)
  then have "r = max_retries" using 0 by (fastforce simp: queue_inv_def)
  with 0 have m: "(k, max_retries) \<in> set (dm_retries s)" by simp
  then have "notices k (dm_calls s) = [0..<Suc max_retries]" using queue_inv_task [OF q] by blast
  then have "notices k (dm_calls s) = [0..<6]" by (simp only: max_retries_def) simp
  then show ?case using retry_key_last [OF q m] 0 by simp
next
  case (Suc n)
  have q: "queue_inv s" using Suc.prems by (intro reachable_queue_inv)
  have "r < max_retries" using Suc.prems(5) by simp
  from retry_key_more [OF q Suc.prems(3,4) this]
  have "dm_queued (retry_key k s) = dm_queued s" "(k, r + 1) \<in> set (dm_retries (retry_key k s))" by simp_all
  with Suc.IH [of "retry_key k s" "r + 1"] Suc.prems show ?case
    by (simp add: retry_key_step funpow_swap1 del: funpow.simps(2) add: funpow_Suc_right)
qed

text \<open>A message the app never takes does not stay forever: from any reachable state, at most six wake-ups
  of its task, with nothing else happening to it, announce it for the fifth and last time and then drop
  it, and leave every other message in the queue.\<close>

theorem abandoned_message_dropped:
  assumes "daemon_reachable s" and "handed s \<le> 2 ^ 64" and "dm_queued s k \<noteq> None"
  shows "\<exists>n \<le> 6. dm_queued ((retry_key k ^^ n) s) = (dm_queued s)(k := None) \<and>
    notices k (dm_calls ((retry_key k ^^ n) s)) = [0..<6]"
proof -
  obtain r where "(k, r) \<in> set (dm_retries s)"
    using reachable_queue_inv [OF assms(1,2)] assms(3) by (force simp: queue_inv_def)
  from dropped_after_retries [OF assms(1,2) this assms(3) refl] show ?thesis
    by (intro exI [of _ "Suc (max_retries - r)"]) (simp add: max_retries_def del: funpow.simps)
qed

text \<open>The pointer the app is given stays good: in every reachable state the text of a key fetches the
  message that is queued under it, a new message can be fetched as soon as it is announced, and a step
  changes what a pointer fetches only by the app completing that very pointer, by the sixth wake-up of its
  own task, or, for a pointer that fetches nothing, by a new message. A pointer never comes to fetch
  another message.\<close>

theorem pointer_stays_valid:
  assumes "daemon_reachable s" and "daemon_step s t" and "handed t \<le> 2 ^ 64"
  shows "ptr_to_dart (show_nat (unat k)) s = Some (dm_queued s k) \<and>
    (dm_queued t k = dm_queued s k \<or>
     complete_msg (show_nat (unat k)) s = Some t \<and> dm_queued t k = None \<or>
     (\<exists>i < length (dm_retries s). dm_retries s ! i = (k, max_retries) \<and> t = retry_round i s \<and> dm_queued t k = None) \<or>
     dm_queued s k = None \<and> (\<exists>msg. t = hand_over msg s \<and> k = dm_next s \<and> dm_queued t k = Some msg))"
proof -
  have n: "dm_next s = word_of_nat (handed s)"
    using dm.reachable_inv [OF assms(1)] by (simp add: daemon_inv_def)
  have "dm_queued t k = dm_queued s k \<or>
     complete_msg (show_nat (unat k)) s = Some t \<and> dm_queued t k = None \<or>
     (\<exists>i < length (dm_retries s). dm_retries s ! i = (k, max_retries) \<and> t = retry_round i s \<and> dm_queued t k = None) \<or>
     dm_queued s k = None \<and> (\<exists>msg. t = hand_over msg s \<and> k = dm_next s \<and> dm_queued t k = Some msg)"
    using assms(2)
  proof (cases rule: daemon_step.cases)
    case (round p)
    show ?thesis
    proof (cases p s rule: loop_round_cases)
      case (4 msg)
      then have t: "t = hand_over msg s" using round by simp
      then have h: "handed s < 2 ^ 64"
        using assms(3) by (simp add: hand_over_def Let_def is_first_def handed_def)
      then have "queue_inv s" using assms(1) by (intro reachable_queue_inv) simp_all
      then have "dm_queued s (dm_next s) = None"
        using h by (force simp: queue_inv_def n unat_of_nat)
      then show ?thesis by (auto simp: t hand_over_def Let_def)
    qed (use round in simp_all)
  next
    case (retry i)
    obtain k' r where e: "dm_retries s ! i = (k', r)" by fastforce
    have "handed s \<le> 2 ^ 64" using assms(3) retry(1) by (simp add: handed_retry)
    then have "queue_inv s" by (rule reachable_queue_inv [OF assms(1)])
    moreover have "(k', r) \<in> set (dm_retries s)" using retry(2) e nth_mem by force
    ultimately have "r \<le> max_retries" using queue_inv_task by blast
    then show ?thesis using retry e by (auto simp: retry_round_def Let_def)
  next
    case (complete ptr)
    then obtain k' where "parse_u64 ptr = Some k'" "t = s\<lparr>dm_queued := (dm_queued s)(k' := None)\<rparr>"
      by (auto simp: complete_msg_Some)
    then show ?thesis by (auto simp: complete_msg_def parse_pointer)
  qed
  then show ?thesis by (simp add: ptr_to_dart_def parse_pointer)
qed

section \<open>A message in the queue\<close>

definition one_message :: daemon where
  "one_message = hand_over CircleFinishEvent fresh_daemon"

lemma one_message_step: "daemon_step fresh_daemon one_message"
  using round [of fresh_daemon "Some (PollCont (Some CircleFinishEvent))"]
  by (simp add: one_message_def fresh_daemon_def)

lemma reachable_fresh: "daemon_reachable fresh_daemon"
  by (rule reach_init) simp

lemma reachable_one_message: "daemon_reachable one_message"
  using reachable_fresh one_message_step by (rule reach_step)

lemma one_message_simps:
  "dm_queued one_message 0 = Some CircleFinishEvent" "dm_queued fresh_daemon k = None" "handed one_message = 1"
  by (simp_all add: one_message_def hand_over_def fresh_daemon_def Let_def handed_def is_first_def)

theorem queue_never_forgets_witness:
  "\<exists>r \<le> max_retries. (0, r) \<in> set (dm_retries one_message)"
  using queue_never_forgets [OF reachable_one_message] one_message_simps by simp

theorem abandoned_message_dropped_witness:
  "\<exists>n \<le> 6. dm_queued ((retry_key 0 ^^ n) one_message) 0 = None \<and>
    notices 0 (dm_calls ((retry_key 0 ^^ n) one_message)) = [0..<6]"
  using abandoned_message_dropped [OF reachable_one_message, of 0] one_message_simps by fastforce

theorem pointer_stays_valid_witness:
  "ptr_to_dart (show_nat (unat (0 :: 64 word))) fresh_daemon = Some None \<and>
   (\<exists>msg. one_message = hand_over msg fresh_daemon \<and> dm_queued one_message 0 = Some msg)"
proof -
  have "complete_msg p fresh_daemon \<noteq> Some one_message" for p
    by (auto simp: complete_msg_def one_message_def hand_over_def fresh_daemon_def Let_def call_def)
  moreover have "dm_retries fresh_daemon = []" by (simp add: fresh_daemon_def)
  ultimately show ?thesis
    using pointer_stays_valid [OF reachable_fresh one_message_step, of 0] one_message_simps by auto
qed

end
