(* ===== verification/Phone.thy ===== *)
theory Phone
  imports CircleSpec NativeLoopSpec
begin

text \<open>
  The message path of the mobile bindings from one end to the other: \<open>recv_wait\<close> of \<open>api/api.rs\<close>, with the account
  and the approval sessions of \<open>Circle\<close>, feeds the loop of \<open>native.rs\<close> with the queue of \<open>NativeLoop\<close>, out of
  which the app takes the messages. What \<open>recv_wait\<close> returns is what the loop gets, and a panic in it is
  what the loop catches.
\<close>

section \<open>The composition\<close>

definition caught :: "string + PollResult \<Rightarrow> PollResult option" where
  "caught r = (case r of Inl _ \<Rightarrow> None | Inr x \<Rightarrow> Some x)"

inductive phone_step :: "push_state \<times> daemon \<Rightarrow> push_state \<times> daemon \<Rightarrow> bool" where
  receive: "dm_running d \<Longrightarrow> rnd_otp env < 1000000 \<Longrightarrow> wake_ready w p \<Longrightarrow> recv_wait env stop w p = (r, p') \<Longrightarrow>
    phone_step (p, d) (p', loop_round (caught r) d)"
| approve: "phone_step (p, d) (snd (get_auth_code env txnid p), d)"
| approval: "i < length (ps_approvals p) \<Longrightarrow> phone_step (p, d) (run_approval env (ps_approvals p ! i)
      (p\<lparr>ps_approvals := take i (ps_approvals p) @ drop (Suc i) (ps_approvals p)\<rparr>), d)"
| sent: "api_send client_send msg p = (r, p') \<Longrightarrow> phone_step (p, d) (p', d)"
| confirmed: "i < length (ps_sending p) \<Longrightarrow> phone_step (p, d) (finish_send i outcome p, d)"
| retry: "i < length (dm_retries d) \<Longrightarrow> phone_step (p, d) (p, retry_round i d)"
| complete: "complete_msg ptr d = Some d' \<Longrightarrow> phone_step (p, d) (p, d')"

inductive_cases phone_stepE: "phone_step (p, d) (p', d')"

definition fresh_phone :: "push_state \<times> daemon \<Rightarrow> bool" where
  "fresh_phone s \<longleftrightarrow> fresh_push (fst s) \<and> snd s = fresh_daemon"

text \<open>Each half runs as its own theory has it, so what is proved there holds here.\<close>

lemma phone_step_halves:
  "phone_step s t \<Longrightarrow> (fst t = fst s \<or> push_step (fst s) (fst t)) \<and> (snd t = snd s \<or> daemon_step (snd s) (snd t))"
  by (induction rule: phone_step.induct)
    (auto intro: push_step.intros daemon_step.intros)

lemma phone_halves:
  "reachable fresh_phone phone_step s \<Longrightarrow> reachable fresh_push push_step (fst s) \<and> daemon_reachable (snd s)"
proof (induction rule: reachable.induct)
  case (reach_init s)
  then show ?case by (auto simp: fresh_phone_def intro: reachable.reach_init)
next
  case (reach_step s t)
  then show ?case using phone_step_halves [OF reach_step(2)] by (metis reachable.reach_step)
qed

section \<open>Whose sign-ins the app sees\<close>

definition own :: "IdmsRequestedSignIn \<Rightarrow> push_state \<Rightarrow> bool" where
  "own r p \<longleftrightarrow> (\<exists>a spd. ps_account p = Some a \<and> ac_spd a = Some spd \<and> sp_adsid spd = Some (rq_adsid r))"

lemma own_same: "ps_account p' = ps_account p \<Longrightarrow> own r p' = own r p"
  by (simp add: own_def)

lemma own_broadcast [simp]: "own r (broadcast m p) = own r p"
  by (simp add: own_def)

lemma own_ensure: "own r p \<Longrightarrow> ps_account p = Some a \<Longrightarrow> own r (p\<lparr>ps_account := Some (ensure_spd env a)\<rparr>)"
  by (auto simp: own_def ensure_spd_def)

lemma handle_2fa_own: "handle_2fa env r p = (Inr True, p') \<Longrightarrow> own r p'"
  by (auto simp: handle_2fa_def own_def Let_def split: option.splits)

lemma keeps_own_2fa [keeps]: "preserves (own r) (handle_2fa env q)"
  using own_ensure by (auto simp: preserves_def handle_2fa_def Let_def split: option.splits)

lemma own_client_step [simp]: "own r (client_step env msg p) = own r p"
  by (auto simp: client_step_def own_def split: option.splits sum.splits prod.splits LoginState.splits)

lemma own_server_step [simp]: "own r (server_step env msg c p) = own r p"
  by (auto simp: server_step_def own_def Let_def split: sum.splits prod.splits)

lemma open_circle_account:
  "ps_account (snd (open_circle env signin msg p)) = ps_account p \<or>
   (\<exists>a. ps_account p = Some a \<and> ps_account (snd (open_circle env signin msg p)) = Some (ensure_spd env a))"
  by (simp add: open_circle_def Let_def split: option.splits)

lemma own_open_circle: "own r p \<Longrightarrow> own r (snd (open_circle env signin msg p))"
  using open_circle_account [of env signin msg p] by (auto simp: own_def ensure_spd_def)

lemma keeps_own_circle [keeps]: "preserves (own r) (handle_circle env signin msg)"
  by (auto simp: preserves_def handle_circle_def own_open_circle split: option.splits)

text \<open>The queue of local messages never holds a sign-in.\<close>

definition no_sign_in :: "PushMessage \<Rightarrow> bool" where
  "no_sign_in m \<longleftrightarrow> (\<forall>r. m \<noteq> Idms (RequestedSignIn r))"

definition clean :: "push_state \<Rightarrow> bool" where
  "clean p \<longleftrightarrow> list_all no_sign_in (ps_local p)"

lemma clean_same: "ps_local p' = ps_local p \<Longrightarrow> clean p' = clean p"
  by (simp add: clean_def)

lemma clean_broadcast: "clean p \<Longrightarrow> no_sign_in m \<Longrightarrow> clean (broadcast m p)"
  by (simp add: clean_def)

lemma keeps_clean_2fa [keeps]: "preserves clean (handle_2fa env q)"
  by (auto simp: preserves_def handle_2fa_def clean_def Let_def split: option.splits)

lemma keeps_clean_circle [keeps]: "preserves clean (handle_circle env signin msg)"
  by (auto simp: preserves_def handle_circle_def client_step_def server_step_def open_circle_def clean_def no_sign_in_def
      Let_def split: option.splits sum.splits prod.splits LoginState.splits)

lemma photostream_own_clean: "ps_account (handle_photostream cs p) = ps_account p \<and> (clean p \<longrightarrow> clean (handle_photostream cs p))"
  by (induction cs arbitrary: p)
    (auto simp: handle_photostream_def no_sign_in_def clean_broadcast split: option.splits)

lemma icloud_own_clean: "dispatch_icloud fr p = (x, p') \<Longrightarrow> ps_account p' = ps_account p \<and> (clean p \<longrightarrow> clean p') \<and>
    (\<forall>r. x \<noteq> Some (PollCont (Some (Idms (RequestedSignIn r)))))"
  using photostream_own_clean
  by (auto simp: dispatch_icloud_def Let_def split: if_splits option.splits sum.splits list.splits)

text \<open>What \<open>recv_wait\<close> returns.\<close>

lemma rest_no_sign_in: "dispatch_rest fr \<noteq> PollCont (Some (Idms m))"
  by (auto simp: dispatch_rest_def split: sum.splits option.splits)

definition offers :: "IdmsRequestedSignIn \<Rightarrow> string + PollResult \<Rightarrow> bool" where
  "offers r x \<longleftrightarrow> x = Inr (PollCont (Some (Idms (RequestedSignIn r))))"

lemma idms_own:
  assumes "dispatch_idms env fr p = (x, p')" and "offers r x"
  shows "own r p'"
proof -
  from assms rest_no_sign_in [of fr "RequestedSignIn r"]
  have "fr_idms fr = Inr (Some (RequestedSignIn r)) \<or> (\<exists>c. fr_idms fr = Inr (Some (CircleRequest c (Some r))))"
    by (auto simp: dispatch_idms_def offers_def ok_def thn_def bnd_def split: sum.splits option.splits IdmsMessage.splits
        prod.splits if_splits)
  then show ?thesis
  proof
    assume "fr_idms fr = Inr (Some (RequestedSignIn r))"
    with assms handle_2fa_own [of env r p] show ?thesis
      by (auto simp: dispatch_idms_def offers_def ok_def bnd_def split: sum.splits prod.splits if_splits)
  next
    assume "\<exists>c. fr_idms fr = Inr (Some (CircleRequest c (Some r)))"
    then obtain c where c: "fr_idms fr = Inr (Some (CircleRequest c (Some r)))" by blast
    with assms obtain u where "handle_2fa env r p = (Inr True, u)" "p' = snd (handle_circle env (Some r) c u)"
      by (auto simp: dispatch_idms_def offers_def ok_def thn_def bnd_def split: sum.splits prod.splits if_splits)
    with preservesD [OF keeps_own_circle handle_2fa_own] show ?thesis by simp
  qed
qed

lemma keeps_idms:
  "preserves (own r) (dispatch_idms env fr)" "preserves clean (dispatch_idms env fr)"
  by (auto simp: dispatch_idms_def intro!: keeps split: sum.splits option.splits IdmsMessage.splits)

lemma recv_wait_own:
  assumes "recv_wait env stop w p = (x, p')" and "clean p" and "wake_ready w p"
  shows "clean p' \<and> (\<forall>r. own r p \<longrightarrow> own r p') \<and> (\<forall>r. offers r x \<longrightarrow> own r p')"
proof (cases "(env, stop, w)" rule: recv_wait.cases)
  case (2 env' fr)
  obtain y u where i: "dispatch_icloud fr p = (y, u)" by fastforce
  note k = icloud_own_clean [OF i]
  show ?thesis
  proof (cases y)
    case None
    then have d: "dispatch_idms env fr u = (x, p')" using 2 assms(1) i by (simp add: dispatch_frame_def)
    have "clean p'" using preservesD [OF keeps_idms(2) [of env fr], of u] d k assms(2) by simp
    moreover have "own r p'" if "own r p" for r
      using preservesD [OF keeps_idms(1) [of r env fr], of u] d k that own_same by (metis snd_conv)
    ultimately show ?thesis using idms_own [OF d] by blast
  next
    case (Some z)
    then have "x = Inr z" "p' = u" using 2 assms(1) i by (simp_all add: dispatch_frame_def)
    moreover have "own r u = own r p" for r using k by (intro own_same) simp
    ultimately show ?thesis using k Some assms(2) by (auto simp: offers_def)
  qed
next
  case 4
  then have "p' = p\<lparr>ps_local := tl (ps_local p)\<rparr>" "x = Inr (PollCont (Some (hd (ps_local p))))" "ps_local p \<noteq> []"
    using assms by auto
  then show ?thesis using assms(2)
    by (cases "ps_local p") (auto simp: clean_def own_def offers_def no_sign_in_def)
qed (use assms in \<open>auto simp: offers_def ok_def\<close>)

section \<open>The queue of the app\<close>

definition own_inv :: "push_state \<times> daemon \<Rightarrow> bool" where
  "own_inv s \<longleftrightarrow> clean (fst s) \<and> (\<forall>k r. dm_queued (snd s) k = Some (Idms (RequestedSignIn r)) \<longrightarrow> own r (fst s))"

lemma queued_loop_round:
  "dm_queued (loop_round x d) k = Some m \<Longrightarrow> dm_queued d k = Some m \<or> x = Some (PollCont (Some m))"
  by (cases "(x, d)" rule: loop_round.cases)
    (auto simp: call_def hand_over_def Let_def split: if_splits PushMessage.splits)

lemma own_inv_step: "phone_step s t \<Longrightarrow> own_inv s \<Longrightarrow> own_inv t"
proof (induction rule: phone_step.induct)
  case (receive d env w p stop x p')
  then have c: "clean p" by (simp add: own_inv_def)
  note k = recv_wait_own [OF receive(4) c receive(3)]
  have "own r p'" if "dm_queued (loop_round (caught x) d) key = Some (Idms (RequestedSignIn r))" for key r
    using queued_loop_round [OF that] k receive(5)
    by (auto simp: own_inv_def caught_def offers_def split: sum.splits)
  with k show ?case by (simp add: own_inv_def)
next
  case (approve p d env txnid)
  have "ps_account (snd (get_auth_code env txnid p)) = ps_account p \<and> ps_local (snd (get_auth_code env txnid p)) = ps_local p"
    by (auto simp: get_auth_code_state approve_circle_def split: option.splits)
  with approve show ?case by (simp add: own_inv_def own_def clean_def)
next
  case (approval i p env d)
  then show ?case by (auto simp: own_inv_def own_def clean_def run_approval_def split: option.splits)
next
  case (sent uuid result p x p' d)
  then show ?case by (auto simp: own_inv_def own_def clean_def api_send_def split: prod.splits sum.splits if_splits)
next
  case (confirmed i p outcome d)
  then show ?case by (auto simp: own_inv_def own_def finish_send_def clean_def broadcast_def no_sign_in_def)
next
  case (retry i d p)
  then show ?case
    by (auto simp: own_inv_def retry_round_def Let_def call_def split: prod.splits if_splits)
next
  case (complete ptr d d' p)
  then show ?case by (auto simp: own_inv_def complete_msg_Some split: if_splits)
qed

interpretation phone: inductive_invariant fresh_phone phone_step own_inv
proof unfold_locales
  show "fresh_phone s \<Longrightarrow> own_inv s" for s
    by (auto simp: fresh_phone_def fresh_push_def fresh_daemon_def own_inv_def clean_def)
qed (rule own_inv_step)



end
