(* ===== verification/Keystore.thy ===== *)
theory Keystore
  imports Files
begin

text \<open>
  \<open>rust/src/keystore.rs\<close>: the binding layer for the mobile keystores. The native keystore itself (the trait
  \<open>NativeKeystore\<close>, implemented outside the repository) is a record of operations on a state of its own;
  OpenSSL, AES-GCM, DER and the random bytes are the fields of \<open>crypto_env\<close>. What is modelled is the code's
  own part: access rules as a keymaster authorization list, wrapping a key for import, the probe for
  import support, the choice of a keystore, and the error translation.
\<close>

type_synonym bytes = "8 word list"

section \<open>Keys and access rules\<close>

datatype EcCurve = P256 | P384

datatype KeyType = RsaKey "16 word" | EcKey EcCurve | AesKey "16 word"

datatype KeystoreDigest = DSha384 | DSha256 | DSha1

datatype KeystorePadding = PKCS1 | OAEP KeystoreDigest KeystoreDigest | NoPadding

datatype EncryptMode = RsaMode KeystorePadding | Gcm

record KeystoreAccessRules =
  ar_block_modes :: "EncryptMode list"
  ar_digests :: "KeystoreDigest list"
  ar_encryption_paddings :: "KeystorePadding list"
  ar_mgf1_digests :: "KeystoreDigest list"
  ar_signature_padding :: "KeystorePadding list"
  ar_require_user :: bool
  ar_can_agree :: bool
  ar_can_sign :: bool
  ar_can_encrypt :: bool
  ar_can_decrypt :: bool

definition default_rules :: KeystoreAccessRules where
  "default_rules = \<lparr>ar_block_modes = [], ar_digests = [], ar_encryption_paddings = [],
     ar_mgf1_digests = [], ar_signature_padding = [], ar_require_user = False, ar_can_agree = False,
     ar_can_sign = False, ar_can_encrypt = False, ar_can_decrypt = False\<rparr>"

section \<open>Keymaster numbers\<close>

datatype KeyPurpose = PEncrypt | PDecrypt | PSign | PVerify | PWrapKey | PAgreeKey | PAttestKey

fun key_purpose :: "KeyPurpose \<Rightarrow> nat" where
  "key_purpose PEncrypt = 0"
| "key_purpose PDecrypt = 1"
| "key_purpose PSign = 2"
| "key_purpose PVerify = 3"
| "key_purpose PWrapKey = 5"
| "key_purpose PAgreeKey = 6"
| "key_purpose PAttestKey = 7"

fun algorithm :: "KeyType \<Rightarrow> nat" where
  "algorithm (AesKey _) = 32"
| "algorithm (EcKey _) = 3"
| "algorithm (RsaKey _) = 1"

fun key_size :: "KeyType \<Rightarrow> nat" where
  "key_size (AesKey k) = unat k"
| "key_size (EcKey P256) = 256"
| "key_size (EcKey P384) = 384"
| "key_size (RsaKey k) = unat k"

text \<open>\<open>BlockMode::Gcm\<close> and \<open>BlockMode::Ecb\<close>.\<close>

fun block_mode :: "EncryptMode \<Rightarrow> nat" where
  "block_mode Gcm = 32"
| "block_mode (RsaMode _) = 1"

text \<open>\<open>Digest::from_keystore\<close>, as a number.\<close>

fun digest_from_keystore :: "KeystoreDigest \<Rightarrow> nat" where
  "digest_from_keystore DSha1 = 2"
| "digest_from_keystore DSha256 = 4"
| "digest_from_keystore DSha384 = 5"

fun signature_padding :: "KeystorePadding \<Rightarrow> nat" where
  "signature_padding NoPadding = 1"
| "signature_padding (OAEP _ _) = 2"
| "signature_padding PKCS1 = 5"

fun encryption_padding :: "KeystorePadding \<Rightarrow> nat" where
  "encryption_padding NoPadding = 1"
| "encryption_padding (OAEP _ _) = 2"
| "encryption_padding PKCS1 = 4"

fun android_ec_curve :: "KeyType \<Rightarrow> nat option" where
  "android_ec_curve (EcKey P256) = Some 1"
| "android_ec_curve (EcKey P384) = Some 2"
| "android_ec_curve _ = None"

text \<open>\<open>PASSWORD\<close> and \<open>FINGERPRINT\<close>, combined with exclusive or.\<close>

definition user_auth_any :: nat where
  "user_auth_any = unat (xor (1 :: 32 word) 2)"

record AuthorizationList =
  al_purpose :: "nat set option"
  al_algorithm :: "nat option"
  al_key_size :: "nat option"
  al_block_mode :: "nat set option"
  al_digest :: "nat set option"
  al_padding :: "nat set option"
  al_min_mac_length :: "nat option"
  al_ec_curve :: "nat option"
  al_mgf_digest :: "nat set option"
  al_no_auth_required :: "unit option"
  al_user_auth_type :: "nat option"
  al_auth_timeout :: "nat option"

definition purpose_set :: "KeystoreAccessRules \<Rightarrow> nat set" where
  "purpose_set r =
     (if ar_can_agree r then {key_purpose PAgreeKey} else {}) \<union>
     (if ar_can_decrypt r then {key_purpose PDecrypt} else {}) \<union>
     (if ar_can_encrypt r then {key_purpose PEncrypt} else {}) \<union>
     (if ar_can_sign r then {key_purpose PSign} else {})"

definition some_if :: "bool \<Rightarrow> 'a \<Rightarrow> 'a option" where
  "some_if b x = (if b then Some x else None)"

definition from_auth_rules :: "KeyType \<Rightarrow> KeystoreAccessRules \<Rightarrow> AuthorizationList" where
  "from_auth_rules ty r = \<lparr>
     al_purpose = Some (purpose_set r),
     al_algorithm = Some (algorithm ty),
     al_key_size = Some (key_size ty),
     al_block_mode = some_if (ar_block_modes r \<noteq> []) (block_mode ` set (ar_block_modes r)),
     al_digest = some_if (ar_digests r \<noteq> []) (digest_from_keystore ` set (ar_digests r)),
     al_padding = Some (if ar_signature_padding r = [] \<and> ar_encryption_paddings r = [] then {1}
        else signature_padding ` set (ar_signature_padding r) \<union>
             encryption_padding ` set (ar_encryption_paddings r)),
     al_min_mac_length = some_if (Gcm \<in> set (ar_block_modes r)) 128,
     al_ec_curve = android_ec_curve ty,
     al_mgf_digest = some_if (ar_mgf1_digests r \<noteq> []) (digest_from_keystore ` set (ar_mgf1_digests r)),
     al_no_auth_required = some_if (\<not> ar_require_user r) (),
     al_user_auth_type = some_if (ar_require_user r) user_auth_any,
     al_auth_timeout = some_if (ar_require_user r) 0\<rparr>"

section \<open>Wrapping a key for import\<close>

record KeyDescription =
  kd_key_format :: nat
  kd_key_params :: AuthorizationList

record KeyWrapper =
  kw_version :: nat
  kw_encrypted_transport_key :: bytes
  kw_initialization_vector :: bytes
  kw_key_description :: KeyDescription
  kw_encrypted_key :: bytes
  kw_tag :: bytes

text \<open>The errors of the keystore crate the code produces; \<open>Crypto\<close> is an error of OpenSSL.\<close>

datatype keystore_error = KeystoreError string | NotSupported | Crypto string

type_synonym 'a kresult = "keystore_error + 'a"

record crypto_env =
  rsa_generate :: "bytes kresult"
  ec_generate :: "(bytes \<times> bytes) kresult"
  rsa_public_from_der :: "bytes \<Rightarrow> bytes kresult"
  ec_to_pkcs8 :: "bytes \<Rightarrow> bytes kresult"
  rsa_to_pkcs8 :: "bytes \<Rightarrow> bytes kresult"
  rsa_oaep :: "bytes \<Rightarrow> bytes \<Rightarrow> bytes kresult"
  gcm_encrypt :: "bytes \<Rightarrow> bytes \<Rightarrow> bytes \<Rightarrow> bytes \<Rightarrow> bytes \<times> bytes"
  der_description :: "KeyDescription \<Rightarrow> bytes"
  der_wrapper :: "KeyWrapper \<Rightarrow> bytes"
  ec_point_der :: "EcCurve \<Rightarrow> bytes \<Rightarrow> bytes kresult"
  rnd_aes_key :: bytes
  rnd_iv :: bytes

fun key_format :: "KeyType \<Rightarrow> nat" where
  "key_format (AesKey _) = 3"
| "key_format (EcKey _) = 1"
| "key_format (RsaKey _) = 1"

fun to_import_format :: "crypto_env \<Rightarrow> KeyType \<Rightarrow> bytes \<Rightarrow> bytes kresult" where
  "to_import_format cr (AesKey _) priv = Inr priv"
| "to_import_format cr (EcKey _) priv = ec_to_pkcs8 cr priv"
| "to_import_format cr (RsaKey _) priv = rsa_to_pkcs8 cr priv"

definition key_description :: "KeyType \<Rightarrow> KeystoreAccessRules \<Rightarrow> KeyDescription" where
  "key_description ty rules = \<lparr>kd_key_format = key_format ty, kd_key_params = from_auth_rules ty rules\<rparr>"

definition key_wrapper ::
    "crypto_env \<Rightarrow> KeyType \<Rightarrow> bytes \<Rightarrow> bytes \<Rightarrow> KeystoreAccessRules \<Rightarrow> KeyWrapper kresult" where
  "key_wrapper cr ty pub priv rules =
     (case to_import_format cr ty priv of Inl e \<Rightarrow> Inl e | Inr key \<Rightarrow>
      case rsa_oaep cr pub (rnd_aes_key cr) of Inl e \<Rightarrow> Inl e | Inr transport \<Rightarrow>
      let desc = key_description ty rules;
          (ciphertext, tag) = gcm_encrypt cr (rnd_aes_key cr) (rnd_iv cr) (der_description cr desc) key
      in Inr \<lparr>kw_version = 0, kw_encrypted_transport_key = transport,
           kw_initialization_vector = rnd_iv cr, kw_key_description = desc,
           kw_encrypted_key = ciphertext, kw_tag = tag\<rparr>)"

definition wrap_import_key ::
    "crypto_env \<Rightarrow> KeyType \<Rightarrow> bytes \<Rightarrow> bytes \<Rightarrow> KeystoreAccessRules \<Rightarrow> bytes kresult" where
  "wrap_import_key cr ty pub priv rules = map_sum id (der_wrapper cr) (key_wrapper cr ty pub priv rules)"

section \<open>The holder of a native keystore\<close>

text \<open>The operations of the trait \<open>NativeKeystore\<close>; an error is the text of its \<open>NativeError\<close>.\<close>

type_synonym ('s, 'a) native = "('s, string, 'a) sem"

record 's native_keystore =
  nk_supports_import :: "('s, bool) native"
  nk_create_key :: "string \<Rightarrow> KeyType \<Rightarrow> KeystoreAccessRules \<Rightarrow> ('s, unit) native"
  nk_destroy_key :: "string \<Rightarrow> ('s, unit) native"
  nk_list_keys :: "('s, string list) native"
  nk_import_key :: "string \<Rightarrow> KeyType \<Rightarrow> bytes \<Rightarrow> KeystoreAccessRules \<Rightarrow> ('s, unit) native"
  nk_get_import_wrap_key :: "('s, bytes) native"
  nk_get_key_type :: "string \<Rightarrow> ('s, KeyType option) native"
  nk_sign :: "string \<Rightarrow> KeystoreDigest \<Rightarrow> KeystorePadding \<Rightarrow> bytes \<Rightarrow> ('s, bytes) native"
  nk_verify :: "string \<Rightarrow> KeystoreDigest \<Rightarrow> KeystorePadding \<Rightarrow> bytes \<Rightarrow> bytes \<Rightarrow> ('s, bool) native"
  nk_get_public_key :: "string \<Rightarrow> ('s, bytes) native"
  nk_derive :: "string \<Rightarrow> bytes \<Rightarrow> ('s, bytes) native"
  nk_encrypt :: "string \<Rightarrow> bytes \<Rightarrow> EncryptMode \<Rightarrow> ('s, bytes) native"
  nk_decrypt :: "string \<Rightarrow> bytes \<Rightarrow> EncryptMode \<Rightarrow> ('s, bytes) native"

type_synonym ('s, 'a) keystore_op = "('s, keystore_error, 'a) sem"

text \<open>\<open>map_err(|e| e.into())\<close>.\<close>

definition native_into :: "('s, 'a) native \<Rightarrow> ('s, 'a) keystore_op" where
  "native_into m s = (case m s of (Inl e, t) \<Rightarrow> (Inl (KeystoreError e), t) | (Inr x, t) \<Rightarrow> (Inr x, t))"

definition ks_create_key ::
    "'s native_keystore \<Rightarrow> string \<Rightarrow> KeyType \<Rightarrow> KeystoreAccessRules \<Rightarrow> ('s, unit) keystore_op" where
  "ks_create_key nk alias ty rules = native_into (nk_create_key nk alias ty rules)"

definition ks_destroy_key :: "'s native_keystore \<Rightarrow> string \<Rightarrow> ('s, unit) keystore_op" where
  "ks_destroy_key nk alias = native_into (nk_destroy_key nk alias)"

definition ks_list_keys :: "'s native_keystore \<Rightarrow> ('s, string list) keystore_op" where
  "ks_list_keys nk = native_into (nk_list_keys nk)"

definition ks_set_secret :: "string \<Rightarrow> bytes \<Rightarrow> ('s, unit) keystore_op" where
  "ks_set_secret alias secret = fail NotSupported"

definition ks_get_secret :: "string \<Rightarrow> ('s, bytes option) keystore_op" where
  "ks_get_secret alias = fail NotSupported"

definition ks_delete_secret :: "string \<Rightarrow> ('s, unit) keystore_op" where
  "ks_delete_secret alias = fail NotSupported"

definition ks_import_key ::
    "crypto_env \<Rightarrow> 's native_keystore \<Rightarrow> string \<Rightarrow> KeyType \<Rightarrow> bytes \<Rightarrow> KeystoreAccessRules \<Rightarrow>
       ('s, unit) keystore_op" where
  "ks_import_key cr nk alias ty priv rules =
     bnd (native_into (nk_get_import_wrap_key nk)) (\<lambda>der.
     bnd (asks (\<lambda>_. rsa_public_from_der cr der)) (\<lambda>rsa.
     bnd (asks (\<lambda>_. wrap_import_key cr ty rsa priv rules)) (\<lambda>wrapped.
     native_into (nk_import_key nk alias ty wrapped rules))))"

definition ks_get_key_type :: "'s native_keystore \<Rightarrow> string \<Rightarrow> ('s, KeyType option) keystore_op" where
  "ks_get_key_type nk alias = native_into (nk_get_key_type nk alias)"

definition ks_sign ::
    "'s native_keystore \<Rightarrow> string \<Rightarrow> KeystoreDigest \<Rightarrow> KeystorePadding \<Rightarrow> bytes \<Rightarrow> ('s, bytes) keystore_op" where
  "ks_sign nk alias dg pad dat = native_into (nk_sign nk alias dg pad dat)"

definition ks_verify ::
    "'s native_keystore \<Rightarrow> string \<Rightarrow> KeystoreDigest \<Rightarrow> KeystorePadding \<Rightarrow> bytes \<Rightarrow> bytes \<Rightarrow>
       ('s, bool) keystore_op" where
  "ks_verify nk alias dg pad dat sig = native_into (nk_verify nk alias dg pad dat sig)"

definition ks_get_public_key :: "'s native_keystore \<Rightarrow> string \<Rightarrow> ('s, bytes) keystore_op" where
  "ks_get_public_key nk alias = native_into (nk_get_public_key nk alias)"

text \<open>The curve is chosen by the length of the encoded point.\<close>

definition curve_of_point :: "bytes \<Rightarrow> EcCurve kresult" where
  "curve_of_point peer =
     (if length peer = 33 \<or> length peer = 65 then Inr P256
      else if length peer = 97 \<or> length peer = 49 then Inr P384
      else Inl (KeystoreError ''Unknown key size!''))"

definition ks_derive :: "crypto_env \<Rightarrow> 's native_keystore \<Rightarrow> string \<Rightarrow> bytes \<Rightarrow> ('s, bytes) keystore_op" where
  "ks_derive cr nk alias peer =
     bnd (asks (\<lambda>_. curve_of_point peer)) (\<lambda>curve.
     bnd (asks (\<lambda>_. ec_point_der cr curve peer)) (\<lambda>der.
     native_into (nk_derive nk alias der)))"

definition ks_encrypt :: "'s native_keystore \<Rightarrow> string \<Rightarrow> bytes \<Rightarrow> EncryptMode \<Rightarrow> ('s, bytes) keystore_op" where
  "ks_encrypt nk alias plaintext mode = native_into (nk_encrypt nk alias plaintext mode)"

definition ks_decrypt :: "'s native_keystore \<Rightarrow> string \<Rightarrow> bytes \<Rightarrow> EncryptMode \<Rightarrow> ('s, bytes) keystore_op" where
  "ks_decrypt nk alias ciphertext mode = native_into (nk_decrypt nk alias ciphertext mode)"

section \<open>The probe for import support\<close>

definition probe_rsa_rules :: KeystoreAccessRules where
  "probe_rsa_rules = default_rules\<lparr>ar_signature_padding := [PKCS1], ar_digests := [DSha1], ar_can_sign := True\<rparr>"

definition probe_ec_rules :: KeystoreAccessRules where
  "probe_ec_rules = default_rules\<lparr>ar_can_agree := True, ar_digests := [DSha384, DSha256]\<rparr>"

definition probe_imports :: "crypto_env \<Rightarrow> 's native_keystore \<Rightarrow> bytes \<Rightarrow> ('s, bool) keystore_op" where
  "probe_imports cr nk rsa_der =
     thn (ks_destroy_key nk ''test:import'')
    (thn (ks_import_key cr nk ''test:import'' (RsaKey 1024) rsa_der probe_rsa_rules)
    (thn (ks_destroy_key nk ''test:ec'')
    (bnd (asks (\<lambda>_. ec_generate cr)) (\<lambda>(ec_der, _).
     thn (ks_import_key cr nk ''test:ec'' (EcKey P384) ec_der probe_ec_rules)
    (bnd (asks (\<lambda>_. ec_generate cr)) (\<lambda>(_, sender).
     thn (ks_derive cr nk ''test:ec'' sender)
    (thn (ks_destroy_key nk ''test:ec'')
    (thn (ks_destroy_key nk ''test:import'') (ok True)))))))))"

definition supports_import :: "crypto_env \<Rightarrow> 's native_keystore \<Rightarrow> ('s, bool) keystore_op" where
  "supports_import cr nk =
     bnd (native_into (nk_supports_import nk)) (\<lambda>supported.
       if \<not> supported then ok False
       else bnd (asks (\<lambda>_. rsa_generate cr)) (\<lambda>rsa_der. probe_imports cr nk rsa_der))"

section \<open>Choosing the keystore\<close>

text \<open>
  \<open>setup_keystore\<close> up to the installation: the hardware one when its state file exists, the software one
  when only its own exists, and otherwise what the probe says.
\<close>

definition use_hardware :: "crypto_env \<Rightarrow> 's native_keystore \<Rightarrow> string \<Rightarrow> disk \<Rightarrow> 's \<Rightarrow> bool \<times> 's" where
  "use_hardware cr nk dir d s =
     (if file_exists (join_path dir ''keystore.plist'') d then (True, s)
      else if file_exists (join_path dir ''keystore_s.plist'') d then (False, s)
      else (case supports_import cr nk s of (r, t) \<Rightarrow> (r = Inr True, t)))"

text \<open>
  What \<open>setup_keystore\<close> installs: the backup keystore over the hardware, with the state of its file or a
  new one and its unlocked key, or the software keystore. \<open>parse_plist\<close> is \<open>plist::from_file\<close> on the
  content of a file, \<open>new_backup\<close> is \<open>BackupKeystoreState::new\<close>; its error is a panic.
\<close>

datatype installed_keystore =
    BackupInstalled string "bytes option"
  | SoftwareInstalled string

definition plist_from_file :: "(string \<Rightarrow> string option) \<Rightarrow> string \<Rightarrow> disk \<Rightarrow> string option" where
  "plist_from_file parse_plist path d = (case read_file path d of Inl _ \<Rightarrow> None | Inr c \<Rightarrow> parse_plist c)"

definition setup_keystore ::
    "crypto_env \<Rightarrow> 's native_keystore \<Rightarrow> ('s, string, string \<times> bytes) sem \<Rightarrow> (string \<Rightarrow> string option) \<Rightarrow>
       string \<Rightarrow> string \<Rightarrow> disk \<Rightarrow> ('s, string, installed_keystore) sem" where
  "setup_keystore cr nk new_backup parse_plist default_state dir d s =
     (case use_hardware cr nk dir d s of
        (True, t) \<Rightarrow>
          (case plist_from_file parse_plist (join_path dir ''keystore.plist'') d of
             Some st \<Rightarrow> (Inr (BackupInstalled st None), t)
           | None \<Rightarrow>
              (case new_backup t of
                 (Inl e, t') \<Rightarrow> (Inl (''Failed to initialize keystore!: '' @ e), t')
               | (Inr (st, key), t') \<Rightarrow> (Inr (BackupInstalled st (Some key)), t')))
      | (False, t) \<Rightarrow>
          (Inr (SoftwareInstalled (case plist_from_file parse_plist (join_path dir ''keystore_s.plist'') d of
             Some st \<Rightarrow> st | None \<Rightarrow> default_state)), t))"

text \<open>The callback the installed keystore runs with every new state; a failed write is a panic.\<close>

definition keystore_state_path :: "string \<Rightarrow> installed_keystore \<Rightarrow> string" where
  "keystore_state_path dir k = join_path dir
     (case k of BackupInstalled _ _ \<Rightarrow> ''keystore.plist'' | SoftwareInstalled _ \<Rightarrow> ''keystore_s.plist'')"

definition update_keystore_state :: "string \<Rightarrow> installed_keystore \<Rightarrow> string \<Rightarrow> (disk, string, unit) sem" where
  "update_keystore_state dir k xml = write_file (keystore_state_path dir k) xml"

section \<open>The lock\<close>

text \<open>
  What the keystore crate offers a lockable keystore; \<open>None\<close> is one without a lock. The three calls with
  \<open>expect\<close> panic on an error (\<open>Inl\<close> with the text of the panic).
\<close>

record 's lockable =
  lk_is_locked :: "'s \<Rightarrow> bool"
  lk_unlock :: "('s, string, unit) sem"
  lk_lock :: "('s, string, unit) sem"
  lk_recover :: "('s, string, unit) sem"

definition expecting :: "string \<Rightarrow> ('s, string, unit) sem \<Rightarrow> ('s, string, unit) sem" where
  "expecting what m s = (case m s of (Inl e, t) \<Rightarrow> (Inl (what @ '': '' @ e), t) | (Inr x, t) \<Rightarrow> (Inr x, t))"

definition finish_unlock :: "'s lockable option \<Rightarrow> ('s, string, unit) sem" where
  "finish_unlock lk = (case lk of None \<Rightarrow> fail ''WHAT NOT LOCKABLE??''
     | Some l \<Rightarrow> expecting ''unlocking failed!'' (lk_unlock l))"

definition is_locked :: "'s lockable option \<Rightarrow> 's \<Rightarrow> bool" where
  "is_locked lk s = (case lk of None \<Rightarrow> False | Some l \<Rightarrow> lk_is_locked l s)"

definition do_lock :: "'s lockable option \<Rightarrow> ('s, string, unit) sem" where
  "do_lock lk = (case lk of None \<Rightarrow> ok () | Some l \<Rightarrow> expecting ''unlocking failed!'' (lk_lock l))"

definition recover_keychain :: "'s lockable option \<Rightarrow> ('s, string, unit) sem" where
  "recover_keychain lk = (case lk of None \<Rightarrow> ok ()
     | Some l \<Rightarrow> expecting ''unlocking failed!'' (lk_recover l))"

end
