(* ===== verification/KeystoreSpec.thy ===== *)
theory KeystoreSpec
  imports Keystore
begin

text \<open>
  What the keystore binding promises: the authorization list grants what the access rules say, a wrapped
  key can be unwrapped by the device, the probe leaves no keys behind, and the choice of a keystore is
  kept.
\<close>

section \<open>Authorization lists\<close>

lemma user_auth_any_value: "user_auth_any = 3"
  by (simp add: user_auth_any_def)

lemma purpose_mem:
  "6 \<in> purpose_set r \<longleftrightarrow> ar_can_agree r" "1 \<in> purpose_set r \<longleftrightarrow> ar_can_decrypt r"
  "0 \<in> purpose_set r \<longleftrightarrow> ar_can_encrypt r" "2 \<in> purpose_set r \<longleftrightarrow> ar_can_sign r"
  by (auto simp: purpose_set_def)

lemma digest_inj: "inj digest_from_keystore"
proof (rule injI)
  fix a b assume "digest_from_keystore a = digest_from_keystore b"
  then show "a = b" by (cases a; cases b) simp_all
qed

lemma some_if_eq: "some_if b x = some_if c y \<longleftrightarrow> b = c \<and> (b \<longrightarrow> x = y)"
  by (auto simp: some_if_def)

lemma image_list_eq:
  assumes "inj f" and "some_if (xs \<noteq> []) (f ` set xs) = some_if (ys \<noteq> []) (f ` set ys)"
  shows "set xs = set ys"
  using assms by (auto simp: some_if_eq inj_image_eq_iff)

lemma key_type_inj: "algorithm t = algorithm t' \<Longrightarrow> key_size t = key_size t' \<Longrightarrow> t = t'"
proof (cases t; cases t')
  fix c c'
  assume "key_size t = key_size t'" and "t = EcKey c" and "t' = EcKey c'"
  then show "t = t'" by (cases c; cases c') simp_all
qed (simp_all add: word_unat_eq_iff)

text \<open>The user is asked exactly for rules that require it, and no purpose, MAC length or padding is made up.\<close>

text \<open>The authorization list of a key is complete and consistent: it grants no purpose besides
  encrypting, decrypting, signing and agreeing, has a padding in every case, a curve exactly for
  elliptic-curve keys, a minimum MAC length exactly when GCM is allowed, and either states that no
  authentication is required or demands a password or fingerprint for every use, the latter exactly
  when the rules require the user.\<close>

theorem authorization_list_consistent:
  "(\<exists>p. al_purpose (from_auth_rules ty r) = Some p \<and> p \<subseteq> {0, 1, 2, 6}) \<and>
   (\<exists>p. al_padding (from_auth_rules ty r) = Some p \<and> p \<noteq> {}) \<and>
   (al_ec_curve (from_auth_rules ty r) \<noteq> None) = (algorithm ty = 3) \<and>
   (al_min_mac_length (from_auth_rules ty r) = Some 128) = (Gcm \<in> set (ar_block_modes r)) \<and>
   (al_no_auth_required (from_auth_rules ty r) = Some ()) = (\<not> ar_require_user r) \<and>
   (al_user_auth_type (from_auth_rules ty r) = Some 3 \<and> al_auth_timeout (from_auth_rules ty r) = Some 0) =
     ar_require_user r"
proof -
  have "purpose_set r \<subseteq> {0, 1, 2, 6}" by (auto simp: purpose_set_def)
  moreover have "(android_ec_curve ty \<noteq> None) = (algorithm ty = 3)"
    by (cases ty rule: android_ec_curve.cases) simp_all
  ultimately show ?thesis
    by (simp add: from_auth_rules_def some_if_def user_auth_any_value)
qed

text \<open>Two keys with the same authorization list have the same type and size and allow the same
  operations: the same purposes, digests, authenticated modes and user requirement, and the same
  answer to whether signatures or encryptions may use PKCS#1.\<close>

theorem authorization_list_faithful:
  assumes "from_auth_rules ty r = from_auth_rules ty' r'"
  shows "ty = ty' \<and> ar_can_agree r = ar_can_agree r' \<and> ar_can_sign r = ar_can_sign r' \<and>
    ar_can_encrypt r = ar_can_encrypt r' \<and> ar_can_decrypt r = ar_can_decrypt r' \<and>
    ar_require_user r = ar_require_user r' \<and> set (ar_digests r) = set (ar_digests r') \<and>
    set (ar_mgf1_digests r) = set (ar_mgf1_digests r') \<and>
    (Gcm \<in> set (ar_block_modes r)) = (Gcm \<in> set (ar_block_modes r')) \<and>
    (PKCS1 \<in> set (ar_signature_padding r)) = (PKCS1 \<in> set (ar_signature_padding r')) \<and>
    (PKCS1 \<in> set (ar_encryption_paddings r)) = (PKCS1 \<in> set (ar_encryption_paddings r'))"
proof -
  let ?pad = "\<lambda>r. if ar_signature_padding r = [] \<and> ar_encryption_paddings r = [] then {1}
      else signature_padding ` set (ar_signature_padding r) \<union> encryption_padding ` set (ar_encryption_paddings r)"
  from assms have ty: "algorithm ty = algorithm ty'" "key_size ty = key_size ty'"
    and pur: "purpose_set r = purpose_set r'"
    and dig: "some_if (ar_digests r \<noteq> []) (digest_from_keystore ` set (ar_digests r)) =
        some_if (ar_digests r' \<noteq> []) (digest_from_keystore ` set (ar_digests r'))"
    and mgf: "some_if (ar_mgf1_digests r \<noteq> []) (digest_from_keystore ` set (ar_mgf1_digests r)) =
        some_if (ar_mgf1_digests r' \<noteq> []) (digest_from_keystore ` set (ar_mgf1_digests r'))"
    and mac: "some_if (Gcm \<in> set (ar_block_modes r)) (128 :: nat) = some_if (Gcm \<in> set (ar_block_modes r')) 128"
    and pad: "?pad r = ?pad r'"
    and usr: "some_if (ar_require_user r) user_auth_any = some_if (ar_require_user r') user_auth_any"
    by (simp_all add: from_auth_rules_def)
  have five: "5 \<in> ?pad r \<longleftrightarrow> PKCS1 \<in> set (ar_signature_padding r)" for r
    by (auto simp: image_iff intro!: bexI elim!: signature_padding.elims encryption_padding.elims)
  have four: "4 \<in> ?pad r \<longleftrightarrow> PKCS1 \<in> set (ar_encryption_paddings r)" for r
    by (auto simp: image_iff intro!: bexI elim!: signature_padding.elims encryption_padding.elims)
  show ?thesis
    using key_type_inj [OF ty] purpose_mem [of r] purpose_mem [of r'] pur image_list_eq [OF digest_inj dig]
      image_list_eq [OF digest_inj mgf] mac usr five [of r] five [of r'] four [of r] four [of r'] pad
    by (simp add: some_if_eq)
qed

theorem authorization_list_faithful_witness:
  "from_auth_rules (EcKey P384) probe_ec_rules =
     from_auth_rules (EcKey P384) (probe_ec_rules\<lparr>ar_digests := [DSha256, DSha384, DSha256]\<rparr>) \<and>
   set (ar_digests probe_ec_rules) = set [DSha256, DSha384, DSha256]"
proof -
  have e: "from_auth_rules (EcKey P384) probe_ec_rules =
      from_auth_rules (EcKey P384) (probe_ec_rules\<lparr>ar_digests := [DSha256, DSha384, DSha256]\<rparr>)"
    by (auto simp: from_auth_rules_def probe_ec_rules_def default_rules_def purpose_set_def some_if_def)
  from authorization_list_faithful [OF this] e show ?thesis by simp
qed

section \<open>Wrapping\<close>

text \<open>
  What the device can do: \<open>oaep_dec\<close> with its private key undoes the encryption for its public key \<open>pub\<close>,
  and GCM decryption gives back what was encrypted under the same key, vector and description.
\<close>

definition device_decrypts ::
    "crypto_env \<Rightarrow> bytes \<Rightarrow> (bytes \<Rightarrow> bytes option) \<Rightarrow> (bytes \<Rightarrow> bytes \<Rightarrow> bytes \<Rightarrow> bytes \<Rightarrow> bytes \<Rightarrow> bytes option) \<Rightarrow> bool" where
  "device_decrypts cr pub oaep_dec gcm_dec \<longleftrightarrow>
     (\<forall>k c. rsa_oaep cr pub k = Inr c \<longrightarrow> oaep_dec c = Some k) \<and>
     (\<forall>k iv aad pt. gcm_dec k iv aad (fst (gcm_encrypt cr k iv aad pt)) (snd (gcm_encrypt cr k iv aad pt)) = Some pt)"

definition unwrap ::
    "crypto_env \<Rightarrow> (bytes \<Rightarrow> bytes option) \<Rightarrow> (bytes \<Rightarrow> bytes \<Rightarrow> bytes \<Rightarrow> bytes \<Rightarrow> bytes \<Rightarrow> bytes option) \<Rightarrow>
       KeyWrapper \<Rightarrow> bytes option" where
  "unwrap cr oaep_dec gcm_dec w =
     Option.bind (oaep_dec (kw_encrypted_transport_key w)) (\<lambda>k.
       gcm_dec k (kw_initialization_vector w) (der_description cr (kw_key_description w))
         (kw_encrypted_key w) (kw_tag w))"

text \<open>C39: A wrapped key reaches the device: whoever holds the private key of the wrapping key recovers
  from the wrapper exactly the key in its import format, authenticated together with the description,
  and that description is the authorization list of the requested rules.\<close>

theorem wrapped_key_unwraps:
  assumes "device_decrypts cr pub oaep_dec gcm_dec" and "key_wrapper cr ty pub priv rules = Inr w"
  shows "map_option Inr (unwrap cr oaep_dec gcm_dec w) = Some (to_import_format cr ty priv) \<and>
    kd_key_params (kw_key_description w) = from_auth_rules ty rules \<and>
    kd_key_format (kw_key_description w) = key_format ty \<and> kw_version w = 0"
proof -
  from assms(2) obtain key transport where k: "to_import_format cr ty priv = Inr key"
      and t: "rsa_oaep cr pub (rnd_aes_key cr) = Inr transport"
      and w: "w = \<lparr>kw_version = 0, kw_encrypted_transport_key = transport,
        kw_initialization_vector = rnd_iv cr, kw_key_description = key_description ty rules,
        kw_encrypted_key = fst (gcm_encrypt cr (rnd_aes_key cr) (rnd_iv cr) (der_description cr (key_description ty rules)) key),
        kw_tag = snd (gcm_encrypt cr (rnd_aes_key cr) (rnd_iv cr) (der_description cr (key_description ty rules)) key)\<rparr>"
    by (auto simp: key_wrapper_def Let_def split_beta split: sum.splits)
  from assms(1) t have "oaep_dec transport = Some (rnd_aes_key cr)" by (simp add: device_decrypts_def)
  with assms(1) k show ?thesis by (simp add: w unwrap_def device_decrypts_def key_description_def)
qed

definition sample_crypto :: crypto_env where
  "sample_crypto = \<lparr>rsa_generate = Inr [1], ec_generate = Inr ([2], replicate 97 4),
     rsa_public_from_der = Inr, ec_to_pkcs8 = (\<lambda>k. Inr (8 # k)), rsa_to_pkcs8 = (\<lambda>k. Inr (8 # k)),
     rsa_oaep = (\<lambda>pub k. Inr (map (\<lambda>b. b + 1) k)),
     gcm_encrypt = (\<lambda>k iv aad pt. (map (\<lambda>b. b + 2) pt, [])), der_description = (\<lambda>_. [5]),
     der_wrapper = kw_encrypted_key, ec_point_der = (\<lambda>_ p. Inr p), rnd_aes_key = [7], rnd_iv = [9]\<rparr>"

theorem wrapped_key_unwraps_witness:
  "\<exists>w. key_wrapper sample_crypto (EcKey P384) [1] [3] probe_ec_rules = Inr w \<and>
    unwrap sample_crypto (\<lambda>c. Some (map (\<lambda>b. b - 1) c)) (\<lambda>k iv aad c t. Some (map (\<lambda>b. b - 2) c)) w = Some [8, 3]"
proof -
  have d: "device_decrypts sample_crypto [1] (\<lambda>c. Some (map (\<lambda>b. b - 1) c))
      (\<lambda>k iv aad c t. Some (map (\<lambda>b. b - 2) c))"
    by (auto simp: device_decrypts_def sample_crypto_def comp_def)
  obtain w where w: "key_wrapper sample_crypto (EcKey P384) [1] [3] probe_ec_rules = Inr w"
    by (simp add: key_wrapper_def sample_crypto_def Let_def)
  have "to_import_format sample_crypto (EcKey P384) [3] = Inr [8, 3]" by (simp add: sample_crypto_def)
  with wrapped_key_unwraps [OF d w] w show ?thesis by (auto simp: map_option_case split: option.splits)
qed

section \<open>Curves\<close>

text \<open>A peer key is accepted only when its length is that of a compressed or uncompressed point of one
  of the two curves; any other length is an error before the native keystore is asked.\<close>

theorem derive_checks_length:
  "(length peer \<notin> {33, 65, 49, 97}) =
     (ks_derive cr nk alias peer s = (Inl (KeystoreError ''Unknown key size!''), s) \<and>
      curve_of_point peer = Inl (KeystoreError ''Unknown key size!''))"
  by (auto simp: curve_of_point_def ks_derive_def asks_def)

section \<open>The probe\<close>

text \<open>
  What the trait asks of a native keystore as far as keys are listed (\<open>held\<close>): destroying a key removes
  it, importing adds at most the named key, and the other calls of the probe change no keys.
\<close>

definition native_laws :: "('s \<Rightarrow> string set) \<Rightarrow> 's native_keystore \<Rightarrow> bool" where
  "native_laws held nk \<longleftrightarrow>
     (\<forall>a s. held (snd (nk_destroy_key nk a s)) \<subseteq> held s \<and>
        held s - {a} \<subseteq> held (snd (nk_destroy_key nk a s)) \<and>
        (fst (nk_destroy_key nk a s) = Inr () \<longrightarrow> a \<notin> held (snd (nk_destroy_key nk a s)))) \<and>
     (\<forall>a ty w r s. held s \<subseteq> held (snd (nk_import_key nk a ty w r s)) \<and>
        held (snd (nk_import_key nk a ty w r s)) \<subseteq> insert a (held s)) \<and>
     (\<forall>s. held (snd (nk_get_import_wrap_key nk s)) = held s) \<and>
     (\<forall>a p s. held (snd (nk_derive nk a p s)) = held s) \<and>
     (\<forall>s. held (snd (nk_supports_import nk s)) = held s)"

definition test_keys :: "string set" where
  "test_keys = {''test:import'', ''test:ec''}"

text \<open>The keys besides those of the probe stay.\<close>

definition other_keys :: "('s \<Rightarrow> string set) \<Rightarrow> 's \<Rightarrow> string set" where
  "other_keys held s = held s - test_keys"

lemma snd_native_into [simp]: "snd (native_into m s) = snd (m s)"
  by (simp add: native_into_def split: prod.splits sum.splits)

lemma preserves_other_keys:
  assumes "native_laws held nk"
  shows "preserves (\<lambda>s. other_keys held s = K) (supports_import cr nk)"
proof -
  have t: "''test:import'' \<in> test_keys" "''test:ec'' \<in> test_keys" by (simp_all add: test_keys_def)
  have destroy: "preserves (\<lambda>s. other_keys held s = K) (ks_destroy_key nk a)" if "a \<in> test_keys" for a
  proof (rule preservesI)
    fix s assume "other_keys held s = K"
    moreover have "held (snd (nk_destroy_key nk a s)) \<subseteq> held s" "held s - {a} \<subseteq> held (snd (nk_destroy_key nk a s))"
      using assms by (simp_all add: native_laws_def)
    ultimately show "other_keys held (snd (ks_destroy_key nk a s)) = K"
      using that by (auto simp: other_keys_def ks_destroy_key_def)
  qed
  have wrapk: "preserves (\<lambda>s. other_keys held s = K) (native_into (nk_get_import_wrap_key nk))"
    using assms by (auto simp: native_laws_def other_keys_def intro!: preservesI)
  have imp: "preserves (\<lambda>s. other_keys held s = K) (native_into (nk_import_key nk a ty w r))"
    if "a \<in> test_keys" for a ty w r
  proof (rule preservesI)
    fix s assume "other_keys held s = K"
    moreover have "held s \<subseteq> held (snd (nk_import_key nk a ty w r s))"
        "held (snd (nk_import_key nk a ty w r s)) \<subseteq> insert a (held s)"
      using assms by (simp_all add: native_laws_def)
    ultimately show "other_keys held (snd (native_into (nk_import_key nk a ty w r) s)) = K"
      using that by (auto simp: other_keys_def)
  qed
  have der: "preserves (\<lambda>s. other_keys held s = K) (native_into (nk_derive nk a p))" for a p
    using assms by (auto simp: native_laws_def other_keys_def intro!: preservesI)
  have sup: "preserves (\<lambda>s. other_keys held s = K) (native_into (nk_supports_import nk))"
    using assms by (auto simp: native_laws_def other_keys_def intro!: preservesI)
  show ?thesis
    unfolding supports_import_def probe_imports_def ks_import_key_def ks_derive_def split_beta
    by (intro keeps sup destroy wrapk imp der t)
qed

lemma destroyed:
  "native_laws held nk \<Longrightarrow> ks_destroy_key nk a s = (Inr u, t) \<Longrightarrow> a \<notin> held t \<and> held t \<subseteq> held s"
proof -
  assume laws: "native_laws held nk" and "ks_destroy_key nk a s = (Inr u, t)"
  then have d: "nk_destroy_key nk a s = (Inr (), t)"
    by (auto simp: ks_destroy_key_def native_into_def split: prod.splits sum.splits)
  have "held (snd (nk_destroy_key nk a s)) \<subseteq> held s \<and>
      (fst (nk_destroy_key nk a s) = Inr () \<longrightarrow> a \<notin> held (snd (nk_destroy_key nk a s)))"
    using laws by (simp add: native_laws_def)
  with d show ?thesis by simp
qed

lemma probe_destroyed:
  assumes "supports_import cr nk s = (Inr True, t)" and laws: "native_laws held nk"
  shows "held t \<inter> test_keys = {}"
proof -
  from assms(1) obtain u v where e: "ks_destroy_key nk ''test:ec'' u = (Inr (), v)"
      and i: "ks_destroy_key nk ''test:import'' v = (Inr (), t)"
    unfolding supports_import_def probe_imports_def split_beta
    by (auto simp: ok_def elim!: bnd_InrE thn_InrE split: if_splits)
  from destroyed [OF laws e] destroyed [OF laws i] show ?thesis by (auto simp: test_keys_def)
qed

text \<open>The probe for import support leaves no trace: whatever it answers, every key that is not one of
  its two test keys is still there and none has been added, and when it answers that importing works
  the test keys are gone too.\<close>

theorem probe_leaves_no_keys:
  assumes "native_laws held nk"
  shows "other_keys held (snd (supports_import cr nk s)) = other_keys held s \<and>
    (fst (supports_import cr nk s) = Inr True \<longrightarrow>
       held (snd (supports_import cr nk s)) = held s - test_keys)"
proof -
  have o: "other_keys held (snd (supports_import cr nk s)) = other_keys held s"
    using preservesD [OF preserves_other_keys [OF assms, where K = "other_keys held s" and cr = cr], of s] by simp
  moreover have "held (snd (supports_import cr nk s)) \<inter> test_keys = {}"
    if "fst (supports_import cr nk s) = Inr True"
    using probe_destroyed [OF _ assms, of cr s] that by (metis prod.collapse)
  ultimately show ?thesis by (auto simp: other_keys_def)
qed

text \<open>A native keystore whose state is the list of the keys it holds.\<close>

definition list_native :: "string list native_keystore" where
  "list_native = \<lparr>nk_supports_import = asks (\<lambda>_. Inr True),
     nk_create_key = (\<lambda>a ty r. modify (\<lambda>ks. a # ks)),
     nk_destroy_key = (\<lambda>a. modify (filter (\<lambda>k. k \<noteq> a))),
     nk_list_keys = asks Inr, nk_import_key = (\<lambda>a ty w r. modify (\<lambda>ks. a # ks)),
     nk_get_import_wrap_key = asks (\<lambda>_. Inr [1]), nk_get_key_type = (\<lambda>a. asks (\<lambda>_. Inr None)),
     nk_sign = (\<lambda>a d p x. asks (\<lambda>_. Inr x)), nk_verify = (\<lambda>a d p x s. asks (\<lambda>_. Inr True)),
     nk_get_public_key = (\<lambda>a. asks (\<lambda>_. Inr [])), nk_derive = (\<lambda>a p. asks (\<lambda>_. Inr p)),
     nk_encrypt = (\<lambda>a p m. asks (\<lambda>_. Inr p)), nk_decrypt = (\<lambda>a c m. asks (\<lambda>_. Inr c))\<rparr>"

theorem probe_leaves_no_keys_witness:
  "fst (supports_import sample_crypto list_native [''mine'']) = Inr True \<and>
   set (snd (supports_import sample_crypto list_native [''mine''])) = {''mine''}"
proof -
  have "native_laws set list_native"
    by (auto simp: native_laws_def list_native_def asks_def modify_def)
  moreover have f: "fst (supports_import sample_crypto list_native [''mine'']) = Inr True"
    by (simp add: supports_import_def probe_imports_def ks_import_key_def ks_destroy_key_def ks_derive_def
        native_into_def list_native_def sample_crypto_def sem_defs bnd_def wrap_import_key_def key_wrapper_def
        curve_of_point_def Let_def)
  ultimately show ?thesis
    using probe_leaves_no_keys [of set list_native sample_crypto "[''mine'']"] by (simp add: test_keys_def)
qed

section \<open>The choice of the keystore\<close>

lemma setup_keystore_Inr:
  assumes "setup_keystore cr nk new_backup parse dflt dir d s = (Inr k, s')"
  shows "fst (use_hardware cr nk dir d s) = (case k of BackupInstalled _ _ \<Rightarrow> True | SoftwareInstalled _ \<Rightarrow> False)"
  using assms by (auto simp: setup_keystore_def split: prod.splits bool.splits option.splits sum.splits)

lemma use_hardware_saved:
  assumes "fst (use_hardware cr nk dir d s) = hardware"
    and "keystore_state_path dir k = join_path dir (if hardware then ''keystore.plist'' else ''keystore_s.plist'')"
    and "update_keystore_state dir k xml d = (Inr (), d')"
  shows "use_hardware cr' nk' dir d' t = (hardware, t)"
proof -
  have d': "d' = d\<lparr>files := (files d)(keystore_state_path dir k := Some xml)\<rparr>"
    using assms(3) by (auto simp: update_keystore_state_def write_file_def attempt_def split: option.splits)
  show ?thesis
  proof (cases hardware)
    case True
    then show ?thesis using assms(2) by (simp add: use_hardware_def file_exists_def d')
  next
    case False
    with assms(1) have "\<not> file_exists (join_path dir ''keystore.plist'') d"
      by (simp add: use_hardware_def split: if_splits)
    then show ?thesis using False assms(2) by (simp add: use_hardware_def file_exists_def d')
  qed
qed

text \<open>The choice between the hardware and the software keystore is made once: as soon as the chosen
  keystore has saved its state, every later start installs the same kind of keystore with exactly the
  state that was saved, whatever a probe would say, and without probing or creating keys again.\<close>

theorem keystore_choice_sticks:
  assumes "setup_keystore cr nk new_backup parse dflt dir d s = (Inr k, s')"
    and "update_keystore_state dir k xml d = (Inr (), d')" and "parse xml = Some st"
  shows "setup_keystore cr' nk' new_backup' parse dflt' dir d' t =
    (Inr (case k of BackupInstalled _ _ \<Rightarrow> BackupInstalled st None | SoftwareInstalled _ \<Rightarrow> SoftwareInstalled st), t)"
proof -
  have rd: "plist_from_file parse (keystore_state_path dir k) d' = Some st"
    using fs.read_written [of "keystore_state_path dir k" xml d "()" d'] assms(2,3)
    by (simp add: update_keystore_state_def plist_from_file_def)
  show ?thesis
  proof (cases k)
    case (BackupInstalled st0 key)
    with setup_keystore_Inr [OF assms(1)] have "fst (use_hardware cr nk dir d s) = True" by simp
    from use_hardware_saved [OF this _ assms(2), of cr' nk' t] rd BackupInstalled
    show ?thesis by (simp add: setup_keystore_def keystore_state_path_def)
  next
    case (SoftwareInstalled st0)
    with setup_keystore_Inr [OF assms(1)] have "fst (use_hardware cr nk dir d s) = False" by simp
    from use_hardware_saved [OF this _ assms(2), of cr' nk' t] rd SoftwareInstalled
    show ?thesis by (simp add: setup_keystore_def keystore_state_path_def)
  qed
qed

theorem keystore_choice_sticks_witness:
  fixes d :: disk
  defines "d \<equiv> \<lparr>files = (\<lambda>_. None), blocked = (\<lambda>_. None)\<rparr>"
  shows "setup_keystore sample_crypto (list_native\<lparr>nk_supports_import := asks (\<lambda>_. Inr False)\<rparr>)
      (ok (''new'', [1])) Some '''' ''d'' d [] = (Inr (SoftwareInstalled ''''), []) \<and>
    setup_keystore sample_crypto list_native (ok (''new'', [1])) Some '''' ''d''
      (snd (update_keystore_state ''d'' (SoftwareInstalled '''') ''x'' d)) [''k''] = (Inr (SoftwareInstalled ''x''), [''k''])"
proof -
  have u: "setup_keystore sample_crypto (list_native\<lparr>nk_supports_import := asks (\<lambda>_. Inr False)\<rparr>)
      (ok (''new'', [1])) Some '''' ''d'' d [] = (Inr (SoftwareInstalled ''''), [])"
    by (simp add: setup_keystore_def use_hardware_def file_exists_def d_def supports_import_def native_into_def
        sem_defs bnd_def plist_from_file_def read_file_def)
  obtain d' where w: "update_keystore_state ''d'' (SoftwareInstalled '''') ''x'' d = (Inr (), d')"
    by (simp add: update_keystore_state_def write_file_def attempt_def d_def)
  from keystore_choice_sticks [OF u w, of "''x''" sample_crypto list_native "ok (''new'', [1])"]
  show ?thesis using u w by simp
qed

end
