(* ===== verification/Plist.thy ===== *)
theory Plist
  imports Keystore "HOL-Library.Countable"
begin

text \<open>
  Property lists: the values of the plist crate, dictionaries with the operations the code uses on them
  (entries in insertion order, each key once), and property-list files on the disk. The two codecs of the
  crate are a parameter; what the code relies on is that a written value reads back.
\<close>

section \<open>Values\<close>

datatype plist =
    PArray "plist list"
  | PDict "(string \<times> plist) list"
  | PBool bool
  | PData "8 word list"
  | PDate string
  | PReal string
  | PInt int
  | PString string

instance plist :: countable
  by countable_datatype

type_synonym dict = "(string \<times> plist) list"

definition dict_get :: "string \<Rightarrow> dict \<Rightarrow> plist option" where
  "dict_get k m = map_of m k"

text \<open>\<open>get_mut(k)\<close> followed by an assignment through the reference.\<close>

definition dict_set :: "string \<Rightarrow> plist \<Rightarrow> dict \<Rightarrow> dict" where
  "dict_set k v m = map (\<lambda>(k', w). (k', if k' = k then v else w)) m"

definition dict_insert :: "string \<Rightarrow> plist \<Rightarrow> dict \<Rightarrow> dict" where
  "dict_insert k v m = (if dict_get k m = None then m @ [(k, v)] else dict_set k v m)"

definition dict_remove :: "string \<Rightarrow> dict \<Rightarrow> dict" where
  "dict_remove k m = filter (\<lambda>(k', _). k' \<noteq> k) m"

definition as_dict :: "plist \<Rightarrow> dict option" where
  "as_dict v = (case v of PDict m \<Rightarrow> Some m | _ \<Rightarrow> None)"

definition as_string :: "plist \<Rightarrow> string option" where
  "as_string v = (case v of PString s \<Rightarrow> Some s | _ \<Rightarrow> None)"

definition as_data :: "plist \<Rightarrow> 8 word list option" where
  "as_data v = (case v of PData b \<Rightarrow> Some b | _ \<Rightarrow> None)"

text \<open>The entry of a key when it has the given shape.\<close>

definition get_dict :: "string \<Rightarrow> dict \<Rightarrow> dict option" where
  "get_dict k m = Option.bind (dict_get k m) as_dict"

definition get_data :: "string \<Rightarrow> dict \<Rightarrow> 8 word list option" where
  "get_data k m = Option.bind (dict_get k m) as_data"

definition get_string :: "string \<Rightarrow> dict \<Rightarrow> string option" where
  "get_string k m = Option.bind (dict_get k m) as_string"

lemma dict_get_set: "dict_get k (dict_set k' v m) = (if k = k' then map_option (\<lambda>_. v) (dict_get k m) else dict_get k m)"
  by (induction m) (auto simp: dict_get_def dict_set_def)

lemma dict_get_insert: "dict_get k (dict_insert k' v m) = (if k = k' then Some v else dict_get k m)"
  by (cases "dict_get k' m") (auto simp: dict_insert_def dict_get_set, auto simp: dict_get_def map_add_def split: option.splits)

lemma dict_get_remove: "dict_get k (dict_remove k' m) = (if k = k' then None else dict_get k m)"
  by (induction m) (auto simp: dict_get_def dict_remove_def)

lemma as_shapes [simp]:
  "as_dict v = Some m \<longleftrightarrow> v = PDict m" "as_data v = Some b \<longleftrightarrow> v = PData b" "as_string v = Some s \<longleftrightarrow> v = PString s"
  by (cases v; auto simp: as_dict_def as_data_def as_string_def)+

lemma get_shapes:
  "get_dict k m = Some x \<longleftrightarrow> dict_get k m = Some (PDict x)"
  "get_data k m = Some b \<longleftrightarrow> dict_get k m = Some (PData b)"
  "get_string k m = Some s \<longleftrightarrow> dict_get k m = Some (PString s)"
  by (simp_all add: get_dict_def get_data_def get_string_def bind_eq_Some_conv)

section \<open>Fields of bytes\<close>

text \<open>The functions serde calls for the fields of bytes: data as they are, and 16 bytes, where another length is
  the panic of an \<open>unwrap\<close> (left).\<close>

definition bin_serialize :: "8 word list \<Rightarrow> plist" where
  "bin_serialize x = PData x"

definition bin_deserialize :: "plist \<Rightarrow> 8 word list option" where
  "bin_deserialize v = as_data v"

definition bin_deserialize_16 :: "plist \<Rightarrow> string + 8 word list option" where
  "bin_deserialize_16 v =
     (case as_data v of
        None \<Rightarrow> Inr None
      | Some s \<Rightarrow> if length s = 16 then Inr (Some s) else Inl ''called `Result::unwrap()` on an `Err` value'')"

lemma bin_roundtrip: "bin_deserialize (bin_serialize x) = Some x"
  by (simp add: bin_deserialize_def bin_serialize_def)

lemma bin_roundtrip_16:
  "bin_deserialize_16 (bin_serialize x) = (if length x = 16 then Inr (Some x) else Inl ''called `Result::unwrap()` on an `Err` value'')"
  by (simp add: bin_deserialize_16_def bin_serialize_def as_data_def)

lemma bin_fields [simp]: "bin_serialize x = PData x" "bin_deserialize v = as_data v"
  by (simp_all add: bin_serialize_def bin_deserialize_def)

lemma bin_deserialize_entry [simp]: "Option.bind (dict_get k m) bin_deserialize = get_data k m"
  by (simp add: get_data_def bin_deserialize_def [abs_def])

section \<open>Files\<close>

record plist_codec =
  pl_parse :: "string \<Rightarrow> plist option"
  pl_xml :: "plist \<Rightarrow> string"

definition plist_roundtrip :: "plist_codec \<Rightarrow> bool" where
  "plist_roundtrip c \<longleftrightarrow> (\<forall>v. pl_parse c (pl_xml c v) = Some v)"

definition read_plist :: "plist_codec \<Rightarrow> string \<Rightarrow> disk \<Rightarrow> plist option" where
  "read_plist c path d = (case read_file path d of Inl _ \<Rightarrow> None | Inr s \<Rightarrow> pl_parse c s)"

definition read_dict :: "plist_codec \<Rightarrow> string \<Rightarrow> disk \<Rightarrow> dict option" where
  "read_dict c path d = Option.bind (read_plist c path d) as_dict"

definition read_dicts :: "plist_codec \<Rightarrow> string \<Rightarrow> disk \<Rightarrow> dict list option" where
  "read_dicts c path d =
     (case read_plist c path d of
        Some (PArray vs) \<Rightarrow> those (map as_dict vs)
      | _ \<Rightarrow> None)"

text \<open>\<open>plist::to_file_xml\<close>, and \<open>fs::write\<close> of \<open>plist_to_string\<close>.\<close>

definition write_plist :: "plist_codec \<Rightarrow> string \<Rightarrow> plist \<Rightarrow> (disk, string, unit) sem" where
  "write_plist c path v = write_file path (pl_xml c v)"


lemma read_written_plist:
  "plist_roundtrip c \<Longrightarrow> write_plist c path v d = (Inr u, d') \<Longrightarrow> read_plist c path d' = Some v"
  using fs.read_written [of path "pl_xml c v" d u d']
  by (simp add: write_plist_def read_plist_def plist_roundtrip_def)

lemma read_other_plist: "path \<noteq> p \<Longrightarrow> read_plist c p (snd (write_plist c path v d)) = read_plist c p d"
  using fs.read_other [of path p "pl_xml c v" d] by (simp add: write_plist_def read_plist_def)

lemma write_plist_failed: "write_plist c path v d = (Inl e, d') \<Longrightarrow> d' = d"
  unfolding write_plist_def by (rule fs.write_failed)

lemma as_dicts_PDict: "those (map as_dict (map PDict ms)) = Some ms"
  by (induction ms) (simp_all add: as_dict_def)

text \<open>A codec that round-trips: values are countable, a file is the number of its value in unary.\<close>

definition unary_codec :: plist_codec where
  "unary_codec = \<lparr>pl_parse = (\<lambda>s. Some (from_nat (length s))), pl_xml = (\<lambda>v. replicate (to_nat v) CHR ''1'')\<rparr>"

lemma unary_codec_roundtrip [simp]: "plist_roundtrip unary_codec"
  by (simp add: plist_roundtrip_def unary_codec_def)

lemma read_plist_file:
  "plist_roundtrip c \<Longrightarrow> blocked d p = None \<Longrightarrow> files d p = Some (pl_xml c v) \<Longrightarrow> read_plist c p d = Some v"
  by (simp add: read_plist_def read_file_def plist_roundtrip_def)

lemma write_plist_ok:
  "blocked d p = None \<Longrightarrow> write_plist c p v d = (Inr (), d\<lparr>files := (files d)(p := Some (pl_xml c v))\<rparr>)"
  by (simp add: write_plist_def write_file_def attempt_def)

end
