(* ===== verification/Migrate.thy ===== *)
theory Migrate
  imports Plist
begin

text \<open>
  \<open>migrate\<close> of \<open>rust/src/api/api.rs\<close>: private keys that older versions kept in the property lists of the data
  directory move into the keystore, and the lists keep a handle instead. The state is the disk and the
  list of keys imported so far; an \<open>expect\<close> or \<open>unwrap\<close> that fails is an error with its text. Parsers of
  rustpush types, encryption and key derivation are the fields of \<open>migrate_env\<close>.
\<close>

section \<open>State\<close>

record imported_key =
  ik_handle :: string
  ik_type :: KeyType
  ik_der :: "8 word list"
  ik_rules :: KeystoreAccessRules

type_synonym 'a mig = "(disk \<times> imported_key list, string, 'a) sem"

record migrate_env =
  mg_codec :: plist_codec
  serial_number :: "plist \<Rightarrow> string option"
  import_ok :: "string \<Rightarrow> KeyType \<Rightarrow> 8 word list \<Rightarrow> bool"
  ngm_save :: "plist \<Rightarrow> string + 8 word list"
  anisette_mid :: "plist \<Rightarrow> 8 word list option"
  base64_encode :: "8 word list \<Rightarrow> string"
  bad_bottle_key :: "plist \<Rightarrow> 8 word list option"
  bottle_save :: "string \<Rightarrow> plist \<Rightarrow> string + 8 word list"
  ensure_secret :: "string \<Rightarrow> nat \<Rightarrow> 8 word list option"
  cloud_key :: "8 word list \<Rightarrow> 8 word list \<Rightarrow> string + plist"
  gsa_encrypt :: "8 word list \<Rightarrow> 8 word list option"
  findmy_reencode :: "plist \<Rightarrow> (string + string) option"

definition import_key :: "migrate_env \<Rightarrow> string \<Rightarrow> string \<Rightarrow> KeyType \<Rightarrow> 8 word list \<Rightarrow> KeystoreAccessRules \<Rightarrow> unit mig" where
  "import_key env what handle ty der rules = (\<lambda>(d, ks).
     if import_ok env handle ty der
     then (Inr (), (d, ks @ [\<lparr>ik_handle = handle, ik_type = ty, ik_der = der, ik_rules = rules\<rparr>]))
     else (Inl what, (d, ks)))"

definition save_plist :: "migrate_env \<Rightarrow> string \<Rightarrow> plist \<Rightarrow> unit mig" where
  "save_plist env path v = (\<lambda>(d, ks).
     case write_plist (mg_codec env) path v d of
       (Inl e, d') \<Rightarrow> (Inl (''failed to save!: '' @ e), (d', ks))
     | (Inr _, d') \<Rightarrow> (Inr (), (d', ks)))"

definition expect :: "string \<Rightarrow> 'a option \<Rightarrow> 'a mig" where
  "expect what x = (case x of None \<Rightarrow> fail what | Some y \<Rightarrow> ok y)"

definition unwrap_none :: string where
  "unwrap_none = ''called `Option::unwrap()` on a `None` value''"

definition rsa_rules :: KeystoreAccessRules where
  "rsa_rules = default_rules\<lparr>ar_signature_padding := [PKCS1], ar_digests := [DSha1], ar_can_sign := True\<rparr>"

text \<open>
  A dictionary entry \<open>private\<close> that still holds the key itself: it is imported under the handle and
  replaced by it. The first component says whether there was one.
\<close>

definition move_private ::
    "migrate_env \<Rightarrow> string \<Rightarrow> string \<Rightarrow> KeyType \<Rightarrow> KeystoreAccessRules \<Rightarrow> string \<Rightarrow> dict \<Rightarrow> (bool \<times> dict) mig" where
  "move_private env what handle ty rules field item =
     (case get_data field item of
        None \<Rightarrow> ok (False, item)
      | Some cert \<Rightarrow> thn (import_key env what handle ty cert rules)
          (ok (True, dict_set field (PString handle) item)))"

section \<open>The hardware file\<close>

definition hw_path :: "string \<Rightarrow> string" where
  "hw_path dir = join_path dir ''hw_info.plist''"

text \<open>
  The key pair of the push state. The innermost \<open>item\<close> of the code is the key pair, which shadows the
  whole dictionary: this is what is written to the file.
\<close>

definition migrate_push :: "migrate_env \<Rightarrow> string \<Rightarrow> dict \<Rightarrow> dict mig" where
  "migrate_push env dir item =
     (case dict_get ''os_config'' item of
        None \<Rightarrow> ok item
      | Some v \<Rightarrow> bnd (expect ''got os '' (serial_number env v)) (\<lambda>serial.
         case get_dict ''push'' item of None \<Rightarrow> ok item | Some push \<Rightarrow>
         case get_dict ''keypair'' push of None \<Rightarrow> ok item | Some keypair \<Rightarrow>
         bnd (move_private env ''failed to import RSA'' (''activation:'' @ serial) (RsaKey 1024) rsa_rules
                ''private'' keypair) (\<lambda>(moved, keypair').
           if moved
           then thn (save_plist env (hw_path dir) (PDict keypair'))
                    (ok (dict_set ''push'' (PDict (dict_set ''keypair'' (PDict keypair') push)) item))
           else ok item)))"

definition migrate_identity :: "migrate_env \<Rightarrow> string \<Rightarrow> dict \<Rightarrow> unit mig" where
  "migrate_identity env dir item =
     (case get_dict ''identity'' item of
        None \<Rightarrow> ok ()
      | Some m \<Rightarrow> bnd (asks (\<lambda>_. ngm_save env (PDict m))) (\<lambda>saved.
          save_plist env (hw_path dir) (PDict (dict_set ''identity'' (PData saved) item))))"

definition migrate_hardware :: "migrate_env \<Rightarrow> string \<Rightarrow> unit mig" where
  "migrate_hardware env dir = (\<lambda>(d, ks).
     case read_dict (mg_codec env) (hw_path dir) d of
       None \<Rightarrow> (Inr (), (d, ks))
     | Some item \<Rightarrow> bnd (migrate_push env dir item) (migrate_identity env dir) (d, ks))"

section \<open>The users file\<close>

definition users_path :: "string \<Rightarrow> string" where
  "users_path dir = join_path dir ''id.plist''"

text \<open>The registrations: their key is the one of the user, so only the handle is put in.\<close>

definition relink_service :: "string \<Rightarrow> string \<times> plist \<Rightarrow> string + string \<times> plist" where
  "relink_service handle s =
     (case as_dict (snd s) of
        None \<Rightarrow> Inl unwrap_none
      | Some m \<Rightarrow> Inr (fst s, case get_dict ''id_keypair'' m of
            None \<Rightarrow> snd s
          | Some kp \<Rightarrow> (case get_data ''private'' kp of
                None \<Rightarrow> snd s
              | Some _ \<Rightarrow> PDict (dict_set ''id_keypair'' (PDict (dict_set ''private'' (PString handle) kp)) m))))"

definition migrate_user :: "migrate_env \<Rightarrow> dict \<Rightarrow> (bool \<times> dict) mig" where
  "migrate_user env user =
     bnd (expect unwrap_none (get_string ''user_id'' user)) (\<lambda>user_id.
     let handle = ''ids:'' @ user_id
     in bnd (case get_dict ''auth_keypair'' user of
               None \<Rightarrow> ok (False, user)
             | Some kp \<Rightarrow> bnd (move_private env ''failed to import RSA'' handle (RsaKey 2048) rsa_rules ''private'' kp)
                 (\<lambda>(moved, kp'). ok (moved, if moved then dict_set ''auth_keypair'' (PDict kp') user else user)))
          (\<lambda>(moved, user').
             case get_dict ''registration'' user' of
               None \<Rightarrow> ok (moved, user')
             | Some services \<Rightarrow> bnd (asks (\<lambda>_. collect (map (relink_service handle) services)))
                 (\<lambda>services'. ok (moved, dict_set ''registration'' (PDict services') user'))))"

definition migrate_users :: "migrate_env \<Rightarrow> string \<Rightarrow> unit mig" where
  "migrate_users env dir = (\<lambda>(d, ks).
     case read_dicts (mg_codec env) (users_path dir) d of
       None \<Rightarrow> (Inr (), (d, ks))
     | Some users \<Rightarrow> bnd (for_each (migrate_user env) users) (\<lambda>results.
         if list_ex fst results
         then save_plist env (users_path dir) (PArray (map (\<lambda>r. PDict (snd r)) results))
         else ok ()) (d, ks))"

section \<open>The keychain file\<close>

definition keychain_path :: "string \<Rightarrow> string" where
  "keychain_path dir = join_path dir ''keychain.plist''"

definition anisette_state_path :: "string \<Rightarrow> string" where
  "anisette_state_path dir = join_path dir ''anisette_test/state.plist''"

definition ec_sign_rules :: KeystoreAccessRules where
  "ec_sign_rules = default_rules\<lparr>ar_can_sign := True, ar_digests := [DSha384, DSha256]\<rparr>"

definition ec_agree_rules :: KeystoreAccessRules where
  "ec_agree_rules = default_rules\<lparr>ar_can_agree := True, ar_digests := [DSha384, DSha256]\<rparr>"

text \<open>Both keys of the user identity; only the signing key decides whether the rest is migrated.\<close>

definition migrate_user_identity :: "migrate_env \<Rightarrow> string \<Rightarrow> dict \<Rightarrow> (bool \<times> dict) mig" where
  "migrate_user_identity env mid users =
     (case get_dict ''user_identity'' users of
        None \<Rightarrow> ok (False, users)
      | Some item \<Rightarrow>
          bnd (move_private env ''Failed to import EC'' (''keychain:signing:'' @ mid) (EcKey P384) ec_sign_rules
                 ''signing_key'' item) (\<lambda>(migrate, item1).
          bnd (move_private env ''Failed to import EC'' (''keychain:encryption:'' @ mid) (EcKey P384) ec_agree_rules
                 ''encryption_key'' item1) (\<lambda>(_, item2).
          ok (migrate, dict_set ''user_identity'' (PDict item2) users))))"

definition migrate_bottle :: "migrate_env \<Rightarrow> string \<Rightarrow> dict \<Rightarrow> string + dict" where
  "migrate_bottle env dsid users =
     (case dict_get ''current_bottle'' users of
        None \<Rightarrow> Inr users
      | Some v \<Rightarrow>
     case bad_bottle_key env v of None \<Rightarrow> Inl ''bottle Identity parse'' | Some key \<Rightarrow>
     case as_dict v of None \<Rightarrow> Inl unwrap_none | Some m \<Rightarrow>
     case bottle_save env dsid (PDict (dict_insert ''escrowed_signing_key'' (PData key) m)) of
       Inl e \<Rightarrow> Inl e
     | Inr saved \<Rightarrow> Inr (dict_set ''current_bottle'' (PData saved) users))"

definition migrate_cloud_keys :: "migrate_env \<Rightarrow> string \<Rightarrow> dict \<Rightarrow> string + dict" where
  "migrate_cloud_keys env dsid users =
     (case dict_get ''keystore'' users of
        Some (PArray items) \<Rightarrow>
          (case ensure_secret env (''keychain:cloudkey-access-key:'' @ dsid) 64 of
             None \<Rightarrow> Inl ''wha''
           | Some secret \<Rightarrow>
               map_sum id (\<lambda>vs. dict_set ''keystore'' (PArray vs) users)
                 (collect (map (\<lambda>v. case as_data v of None \<Rightarrow> Inr v | Some dat \<Rightarrow> cloud_key env secret dat) items)))
      | _ \<Rightarrow> Inr users)"

definition clear_items :: "dict \<Rightarrow> dict" where
  "clear_items users = (if get_dict ''items'' users = None then users else dict_set ''items'' (PDict []) users)"

definition migrate_keychain :: "migrate_env \<Rightarrow> string \<Rightarrow> unit mig" where
  "migrate_keychain env dir = (\<lambda>(d, ks).
     case read_dict (mg_codec env) (keychain_path dir) d of
       None \<Rightarrow> (Inr (), (d, ks))
     | Some users \<Rightarrow>
     case Option.bind (read_plist (mg_codec env) (anisette_state_path dir) d) (anisette_mid env) of
       None \<Rightarrow> (Inr (), (d, ks))
     | Some mid \<Rightarrow>
        bnd (expect unwrap_none (get_string ''dsid'' users)) (\<lambda>dsid.
        bnd (migrate_user_identity env (base64_encode env mid) users) (\<lambda>(migrate, users1).
          if \<not> migrate then ok ()
          else bnd (asks (\<lambda>_. migrate_bottle env dsid users1)) (\<lambda>users2.
               bnd (asks (\<lambda>_. migrate_cloud_keys env dsid users2)) (\<lambda>users3.
               save_plist env (keychain_path dir) (PDict (clear_items users3)))))) (d, ks))"

section \<open>The account file\<close>

definition gsa_path :: "string \<Rightarrow> string" where
  "gsa_path dir = join_path dir ''gsa.plist''"

definition findmy_path :: "string \<Rightarrow> string" where
  "findmy_path dir = join_path dir ''findmy.plist''"

text \<open>\<open>findmy_reencode\<close> parses a state (\<open>None\<close> when it is not one) and encodes it, with the panic of a failure.\<close>

definition migrate_findmy :: "migrate_env \<Rightarrow> string \<Rightarrow> unit mig" where
  "migrate_findmy env dir = (\<lambda>(d, ks).
     case Option.bind (read_plist (mg_codec env) (findmy_path dir) d) (findmy_reencode env) of
       None \<Rightarrow> (Inr (), (d, ks))
     | Some (Inl e) \<Rightarrow> (Inl e, (d, ks))
     | Some (Inr content) \<Rightarrow> (case write_file (findmy_path dir) content d of (r, d') \<Rightarrow> (r, (d', ks))))"

definition migrate_gsa :: "migrate_env \<Rightarrow> string \<Rightarrow> unit mig" where
  "migrate_gsa env dir = (\<lambda>(d, ks).
     case read_dict (mg_codec env) (gsa_path dir) d of
       None \<Rightarrow> (Inr (), (d, ks))
     | Some account \<Rightarrow> (case get_data ''password'' account of
           None \<Rightarrow> (Inr (), (d, ks))
         | Some password \<Rightarrow>
             bnd (expect ''Undo'' (gsa_encrypt env password)) (\<lambda>encrypted.
             thn (save_plist env (gsa_path dir)
                    (PDict (dict_insert ''encrypted_password'' (PData encrypted) (dict_remove ''password'' account))))
                 (migrate_findmy env dir)) (d, ks)))"

section \<open>The whole migration\<close>

definition migrate_dir :: "migrate_env \<Rightarrow> string \<Rightarrow> unit mig" where
  "migrate_dir env dir =
     thn (migrate_hardware env dir)
    (thn (migrate_users env dir)
    (thn (migrate_keychain env dir)
         (migrate_gsa env dir)))"

section \<open>Reading the hardware file\<close>

text \<open>\<open>SavedHardwareState\<close> needs its three fields; \<open>bin_deserialize\<close> takes data only.\<close>

record ('p, 'c) SavedHardwareState =
  sh_push :: 'p
  sh_identity :: "8 word list"
  sh_os_config :: 'c

definition parse_hardware ::
    "(plist \<Rightarrow> 'p option) \<Rightarrow> (plist \<Rightarrow> 'c option) \<Rightarrow> plist \<Rightarrow> ('p, 'c) SavedHardwareState option" where
  "parse_hardware parse_push parse_config v =
     (case as_dict v of None \<Rightarrow> None | Some m \<Rightarrow>
      case Option.bind (dict_get ''push'' m) parse_push of None \<Rightarrow> None | Some p \<Rightarrow>
      case Option.bind (dict_get ''identity'' m) bin_deserialize of None \<Rightarrow> None | Some i \<Rightarrow>
      case Option.bind (dict_get ''os_config'' m) parse_config of None \<Rightarrow> None | Some c \<Rightarrow>
        Some \<lparr>sh_push = p, sh_identity = i, sh_os_config = c\<rparr>)"

definition read_hardware ::
    "(plist \<Rightarrow> 'p option) \<Rightarrow> (plist \<Rightarrow> 'c option) \<Rightarrow> plist_codec \<Rightarrow> string \<Rightarrow> disk \<Rightarrow>
       ('p, 'c) SavedHardwareState option" where
  "read_hardware parse_push parse_config c dir d =
     Option.bind (read_plist c (hw_path dir) d) (parse_hardware parse_push parse_config)"

end
