(* ===== verification/Accounts.thy ===== *)
theory Accounts
  imports Migrate Circle
begin

text \<open>
  The account files of \<open>rust/src/api/api.rs\<close>: signing in (\<open>try_auth\<close>, \<open>do_login\<close>, \<open>verify_2fa_sms\<close> and the
  end of \<open>verify_2fa\<close>), the stored account (\<open>GSAConfig\<close>, \<open>restore_account\<close>, \<open>get_available_user\<close>) and
  signing out (\<open>reset_user\<close>, \<open>reset_state\<close>). The state is the disk. Values of rustpush types that are only
  stored are their property-list form; what rustpush computes and what the servers answer are the
  fields of \<open>account_env\<close>. A panic is an error with its text.
\<close>

type_synonym 'a files_op = "(disk, string, 'a) sem"

section \<open>The stored account\<close>

record GSAConfig =
  gsa_username :: string
  gsa_encrypted_password :: "8 word list"
  gsa_postdata_done :: "bool option"

text \<open>The derived serialisation: an absent option has no entry, an entry of another shape is an error.\<close>

definition gsa_plist :: "GSAConfig \<Rightarrow> plist" where
  "gsa_plist g = PDict ([(''username'', PString (gsa_username g)),
      (''encrypted_password'', PData (gsa_encrypted_password g))] @
      (case gsa_postdata_done g of None \<Rightarrow> [] | Some b \<Rightarrow> [(''postdata_done'', PBool b)]))"

definition parse_flag :: "plist option \<Rightarrow> bool option option" where
  "parse_flag v = (case v of None \<Rightarrow> Some None | Some (PBool b) \<Rightarrow> Some (Some b) | _ \<Rightarrow> None)"

definition parse_gsa :: "plist \<Rightarrow> GSAConfig option" where
  "parse_gsa v =
     (case as_dict v of None \<Rightarrow> None | Some m \<Rightarrow>
      case get_string ''username'' m of None \<Rightarrow> None | Some u \<Rightarrow>
      case get_data ''encrypted_password'' m of None \<Rightarrow> None | Some p \<Rightarrow>
      case parse_flag (dict_get ''postdata_done'' m) of None \<Rightarrow> None | Some f \<Rightarrow>
        Some \<lparr>gsa_username = u, gsa_encrypted_password = p, gsa_postdata_done = f\<rparr>)"

section \<open>What the code calls\<close>

record AppleAccount =
  aa_username :: "string option"
  aa_hashed_password :: "8 word list option"
  aa_spd :: "dict option"
  aa_pet :: "string option"

record LoginDelegates =
  ld_mobileme :: "plist option"
  ld_ids :: "plist option"

record account_env =
  ae_codec :: plist_codec
  aes_ensure :: "string \<Rightarrow> nat \<Rightarrow> KeystoreAccessRules \<Rightarrow> string + string"
  aes_encrypt :: "string \<Rightarrow> EncryptMode \<Rightarrow> 8 word list \<Rightarrow> string + 8 word list"
  aes_decrypt :: "string \<Rightarrow> EncryptMode \<Rightarrow> 8 word list \<Rightarrow> string + 8 word list"
  sha256_bytes :: "string \<Rightarrow> 8 word list"
  new_account :: "bool \<Rightarrow> string + AppleAccount"
  update_postdata :: "AppleAccount \<Rightarrow> (string + unit) \<times> AppleAccount"
  login_email_pass :: "string \<Rightarrow> 8 word list \<Rightarrow> AppleAccount \<Rightarrow> (string + LoginState) \<times> AppleAccount"
  accept_terms :: "string \<Rightarrow> AppleAccount \<Rightarrow> string + LoginDelegates"
  login_delegates :: "AppleAccount \<Rightarrow> string + LoginDelegates"
  statuskit_restore :: "plist \<Rightarrow> plist option"
  statuskit_default :: plist
  statuskit_without_key :: "plist \<Rightarrow> plist"
  findmy_new :: "string \<Rightarrow> string + string"
  shared_streams_new :: "string \<Rightarrow> plist \<Rightarrow> plist option"
  cloudkit_new :: "string \<Rightarrow> plist option"
  keychain_new :: "string \<Rightarrow> string \<Rightarrow> plist \<Rightarrow> plist option"
  authenticate_apple :: "plist \<Rightarrow> string + plist"
  push_ok :: "plist \<Rightarrow> bool"
  config_ok :: "plist \<Rightarrow> bool"
  identity_restore :: "8 word list \<Rightarrow> plist option"

section \<open>The anisette state\<close>

datatype ProvisionedFlavor = FlavorMac | FlavorIOS

record ProvisionedAnisette =
  pa_client_secret :: "8 word list"
  pa_mid :: "8 word list"
  pa_metadata :: "8 word list"
  pa_rinfo :: string
  pa_flavor :: ProvisionedFlavor

record AnisetteState =
  an_keychain_identifier :: "8 word list"
  an_provisioned :: "ProvisionedAnisette option"

definition parse_flavor :: "plist option \<Rightarrow> ProvisionedFlavor option" where
  "parse_flavor v = (case v of
      None \<Rightarrow> Some FlavorMac
    | Some (PString s) \<Rightarrow> if s = ''Mac'' then Some FlavorMac else if s = ''IOS'' then Some FlavorIOS else None
    | _ \<Rightarrow> None)"

definition parse_provisioned :: "plist \<Rightarrow> ProvisionedAnisette option" where
  "parse_provisioned v =
     (case as_dict v of None \<Rightarrow> None | Some m \<Rightarrow>
      case (get_data ''client_secret'' m, get_data ''mid'' m, get_data ''metadata'' m, get_string ''rinfo'' m,
            parse_flavor (dict_get ''flavor'' m)) of
        (Some c, Some i, Some x, Some r, Some f) \<Rightarrow>
          Some \<lparr>pa_client_secret = c, pa_mid = i, pa_metadata = x, pa_rinfo = r, pa_flavor = f\<rparr>
      | _ \<Rightarrow> None)"

text \<open>
  The entries in the order of the file: data of another length than 16 as identifier is a panic
  (\<open>Inl\<close>), an entry of the wrong shape an error (\<open>Inr False\<close>).
\<close>

fun anisette_entries :: "dict \<Rightarrow> string + bool" where
  "anisette_entries [] = Inr True"
| "anisette_entries ((k, v) # m) =
     (if k = ''keychain_identifier''
      then (case bin_deserialize_16 v of
              Inl e \<Rightarrow> Inl e
            | Inr None \<Rightarrow> Inr False
            | Inr (Some _) \<Rightarrow> anisette_entries m)
      else if k = ''provisioned'' \<and> parse_provisioned v = None then Inr False
      else anisette_entries m)"

definition parse_anisette :: "plist \<Rightarrow> string + AnisetteState option" where
  "parse_anisette v =
     (case as_dict v of None \<Rightarrow> Inr None | Some m \<Rightarrow>
      case anisette_entries m of Inl e \<Rightarrow> Inl e | Inr good \<Rightarrow>
        Inr (if good then map_option (\<lambda>i. \<lparr>an_keychain_identifier = i,
                 an_provisioned = Option.bind (dict_get ''provisioned'' m) parse_provisioned\<rparr>)
               (get_data ''keychain_identifier'' m) else None))"

text \<open>Whether the login has to look like a Mac: only when the stored anisette state was provisioned as one.\<close>

definition get_login_config :: "plist_codec \<Rightarrow> string \<Rightarrow> disk \<Rightarrow> string + bool" where
  "get_login_config c dir d =
     (case read_plist c (anisette_state_path dir) d of None \<Rightarrow> Inr False | Some v \<Rightarrow>
      map_sum id (\<lambda>st. case Option.bind st an_provisioned of None \<Rightarrow> False | Some p \<Rightarrow> pa_flavor p = FlavorMac)
        (parse_anisette v))"

section \<open>The key of the stored password\<close>

definition gsa_key_rules :: KeystoreAccessRules where
  "gsa_key_rules = default_rules\<lparr>ar_block_modes := [Gcm], ar_can_encrypt := True, ar_can_decrypt := True\<rparr>"

definition gsa_get_password :: "account_env \<Rightarrow> GSAConfig \<Rightarrow> string + 8 word list" where
  "gsa_get_password env g =
     (case aes_ensure env ''gsa:password'' 256 gsa_key_rules of
        Inl e \<Rightarrow> Inl e | Inr key \<Rightarrow> aes_decrypt env key Gcm (gsa_encrypted_password g))"

definition gsa_encrypt_password :: "account_env \<Rightarrow> 8 word list \<Rightarrow> string + 8 word list" where
  "gsa_encrypt_password env password =
     (case aes_ensure env ''gsa:password'' 256 gsa_key_rules of
        Inl e \<Rightarrow> Inl e | Inr key \<Rightarrow> aes_encrypt env key Gcm password)"

definition read_gsa :: "account_env \<Rightarrow> string \<Rightarrow> disk \<Rightarrow> GSAConfig option" where
  "read_gsa env dir d = Option.bind (read_plist (ae_codec env) (gsa_path dir) d) parse_gsa"

definition get_available_user :: "account_env \<Rightarrow> string \<Rightarrow> disk \<Rightarrow> string option" where
  "get_available_user env dir d = map_option gsa_username (read_gsa env dir d)"

section \<open>Files of the account\<close>

definition statuskit_path :: "string \<Rightarrow> string" where
  "statuskit_path dir = join_path dir ''statuskit.plist''"

definition cloudkit_path :: "string \<Rightarrow> string" where
  "cloudkit_path dir = join_path dir ''cloudkit.plist''"

definition shared_streams_path :: "string \<Rightarrow> string" where
  "shared_streams_path dir = join_path dir ''sharedstreams.plist''"

definition facetime_path :: "string \<Rightarrow> string" where
  "facetime_path dir = join_path dir ''facetime.plist''"

definition passwords_path :: "string \<Rightarrow> string" where
  "passwords_path dir = join_path dir ''passwords.plist''"

text \<open>\<open>StatusKitState { my_key: None, ..from_file(path).unwrap_or_default() }\<close> back into the file.\<close>

definition drop_statuskit_key :: "account_env \<Rightarrow> string \<Rightarrow> unit files_op" where
  "drop_statuskit_key env dir = (\<lambda>d.
     let old = Option.bind (read_plist (ae_codec env) (statuskit_path dir) d) (statuskit_restore env)
     in write_plist (ae_codec env) (statuskit_path dir)
          (statuskit_without_key env (case old of Some s \<Rightarrow> s | None \<Rightarrow> statuskit_default env)) d)"

text \<open>A state file is written when the state could be made and there is no such file yet.\<close>

definition store_new :: "string \<Rightarrow> string option \<Rightarrow> unit files_op" where
  "store_new path content = (\<lambda>d.
     case content of
       None \<Rightarrow> (Inr (), d)
     | Some c \<Rightarrow> if file_exists path d then (Inr (), d) else write_file path c d)"

definition store_new_plist :: "plist_codec \<Rightarrow> string \<Rightarrow> plist option \<Rightarrow> unit files_op" where
  "store_new_plist c path v = store_new path (map_option (pl_xml c) v)"

section \<open>Signing in\<close>

definition as_unsigned :: "plist \<Rightarrow> int option" where
  "as_unsigned v = (case v of PInt i \<Rightarrow> if 0 \<le> i then Some i else None | _ \<Rightarrow> None)"

text \<open>\<open>spd.get(k).ok_or(..)?.as_..().unwrap()\<close>.\<close>

definition spd_entry :: "string \<Rightarrow> (plist \<Rightarrow> 'a option) \<Rightarrow> string \<Rightarrow> dict \<Rightarrow> string + 'a" where
  "spd_entry missing shape k spd =
     (case dict_get k spd of None \<Rightarrow> Inl missing
      | Some v \<Rightarrow> (case shape v of None \<Rightarrow> Inl unwrap_none | Some x \<Rightarrow> Inr x))"

definition lift_result :: "string + 'a \<Rightarrow> ('s, string, 'a) sem" where
  "lift_result r = asks (\<lambda>_. r)"

definition unwrap :: "'a option \<Rightarrow> ('s, string, 'a) sem" where
  "unwrap x = (case x of None \<Rightarrow> fail unwrap_none | Some y \<Rightarrow> ok y)"

definition write_account_files ::
    "account_env \<Rightarrow> string \<Rightarrow> string \<Rightarrow> string \<Rightarrow> LoginDelegates \<Rightarrow> unit files_op" where
  "write_account_files env dir dsid adsid delegates =
     thn (drop_statuskit_key env dir)
    (bnd (unwrap (ld_mobileme delegates)) (\<lambda>mobileme.
     thn (\<lambda>d. if file_exists (findmy_path dir) d then (Inr (), d)
              else bnd (lift_result (findmy_new env dsid)) (write_file (findmy_path dir)) d)
    (thn (store_new_plist (ae_codec env) (shared_streams_path dir) (shared_streams_new env dsid mobileme))
    (thn (store_new_plist (ae_codec env) (cloudkit_path dir) (cloudkit_new env dsid))
         (store_new_plist (ae_codec env) (keychain_path dir) (keychain_new env dsid adsid mobileme))))))"

text \<open>Everything the login needs, before the first file is written; \<open>finish\<close> answers new terms.\<close>

definition login_inputs ::
    "account_env \<Rightarrow> string option \<Rightarrow> AppleAccount \<Rightarrow>
       ('s, string, string \<times> string \<times> LoginDelegates \<times> GSAConfig) sem" where
  "login_inputs env finish account =
     thn (case aa_pet account of None \<Rightarrow> fail ''No pet!'' | Some _ \<Rightarrow> ok ())
    (bnd (case aa_spd account of None \<Rightarrow> fail ''No spd!'' | Some spd \<Rightarrow> ok spd) (\<lambda>spd.
     bnd (lift_result (spd_entry ''No acname!'' as_string ''acname'' spd)) (\<lambda>acname.
     bnd (lift_result (spd_entry ''No dsid!'' as_unsigned ''DsPrsId'' spd)) (\<lambda>dsid.
     bnd (lift_result (spd_entry ''No adsid!'' as_string ''adsid'' spd)) (\<lambda>adsid.
     bnd (lift_result (case finish of Some f \<Rightarrow> accept_terms env f account
                       | None \<Rightarrow> login_delegates env account)) (\<lambda>delegates.
     bnd (unwrap (aa_username account)) (\<lambda>username.
     bnd (unwrap (aa_hashed_password account)) (\<lambda>hashed.
     bnd (lift_result (gsa_encrypt_password env hashed)) (\<lambda>encrypted.
     ok (show_int dsid, adsid, delegates,
         \<lparr>gsa_username = username, gsa_encrypted_password = encrypted, gsa_postdata_done = Some True\<rparr>))))))))))"

definition login_files ::
    "account_env \<Rightarrow> string \<Rightarrow> string option \<Rightarrow> AppleAccount \<Rightarrow> (disk, string, plist) sem" where
  "login_files env dir finish account =
     bnd (login_inputs env finish account) (\<lambda>(dsid, adsid, delegates, config).
     thn (write_plist (ae_codec env) (gsa_path dir) (gsa_plist config))
    (thn (write_account_files env dir dsid adsid delegates)
    (bnd (unwrap (ld_ids delegates)) (\<lambda>ids.
     lift_result (authenticate_apple env ids)))))"

definition do_login ::
    "account_env \<Rightarrow> string \<Rightarrow> string option \<Rightarrow> (disk \<times> AppleAccount, string, plist) sem" where
  "do_login env dir finish = (\<lambda>(d, account0).
     case update_postdata env account0 of
       (Inl e, account) \<Rightarrow> (Inl e, (d, account))
     | (Inr _, account) \<Rightarrow> (case login_files env dir finish account d of (r, d') \<Rightarrow> (r, (d', account))))"

definition do_login_unless_no_pet ::
    "account_env \<Rightarrow> string \<Rightarrow> (disk \<times> AppleAccount, string, plist option) sem" where
  "do_login_unless_no_pet env dir = (\<lambda>(d, account).
     if aa_pet account = None then (Inr None, (d, account))
     else bnd (do_login env dir None) (\<lambda>user. ok (Some user)) (d, account))"

definition try_icloud_login ::
    "account_env \<Rightarrow> string \<Rightarrow> (disk \<times> AppleAccount, string, plist option) sem" where
  "try_icloud_login env dir = do_login_unless_no_pet env dir"

text \<open>What \<open>verify_2fa\<close> and \<open>verify_2fa_sms\<close> do once the code was taken: a PET makes extra steps unnecessary.\<close>

definition finish_verification ::
    "account_env \<Rightarrow> string \<Rightarrow> LoginState \<Rightarrow> (disk \<times> AppleAccount, string, LoginState \<times> plist option) sem" where
  "finish_verification env dir login_state =
     bnd (do_login_unless_no_pet env dir) (\<lambda>user.
       ok (case (user, login_state) of (Some _, LsNeedsExtraStep _) \<Rightarrow> LoggedIn | _ \<Rightarrow> login_state, user))"

definition verify_2fa_sms ::
    "account_env \<Rightarrow> string \<Rightarrow> (AppleAccount \<Rightarrow> (string + LoginState) \<times> AppleAccount) \<Rightarrow>
       (disk \<times> AppleAccount, string, LoginState \<times> plist option) sem" where
  "verify_2fa_sms env dir check = (\<lambda>(d, account).
     case check account of
       (Inl e, account') \<Rightarrow> (Inl e, (d, account'))
     | (Inr st, account') \<Rightarrow> finish_verification env dir st (d, account'))"

text \<open>
  The wait of \<open>verify_2fa\<close>: the messages that come in its 30 seconds, each with what the identity service
  makes of it (an error, nothing, or a message) and what the client session answers to a circle request.
  Other messages are skipped, an error ends the wait.
\<close>

fun await_circle :: "(string + (IdmsMessage \<times> (string + LoginState option)) option) list \<Rightarrow> string + LoginState" where
  "await_circle [] = Inl ''Timed Out!''"
| "await_circle (Inl e # _) = Inl e"
| "await_circle (Inr None # ms) = await_circle ms"
| "await_circle (Inr (Some (CircleRequest _ _, Inl e)) # _) = Inl e"
| "await_circle (Inr (Some (CircleRequest _ _, Inr (Some st))) # _) = Inr st"
| "await_circle (Inr (Some (_, _)) # ms) = await_circle ms"

definition verify_2fa ::
    "account_env \<Rightarrow> string \<Rightarrow> string + unit \<Rightarrow>
       (string + (IdmsMessage \<times> (string + LoginState option)) option) list \<Rightarrow>
       (disk \<times> AppleAccount, string, LoginState \<times> plist option) sem" where
  "verify_2fa env dir sent msgs =
     thn (lift_result sent) (bnd (lift_result (await_circle msgs)) (finish_verification env dir))"

section \<open>Signing out\<close>

text \<open>\<open>let _ = remove_file(..)\<close>: a failure is ignored.\<close>

definition try_remove :: "string \<Rightarrow> disk \<Rightarrow> disk" where
  "try_remove p d = snd (remove_file p d)"

definition user_files :: "string \<Rightarrow> string list" where
  "user_files dir = [gsa_path dir, findmy_path dir, facetime_path dir, cloudkit_path dir, keychain_path dir,
     passwords_path dir, shared_streams_path dir]"

definition reset_user :: "account_env \<Rightarrow> string \<Rightarrow> unit files_op" where
  "reset_user env dir = (\<lambda>d. drop_statuskit_key env dir (fold try_remove (user_files dir) d))"

definition try_auth ::
    "account_env \<Rightarrow> string \<Rightarrow> (string \<times> string) option \<Rightarrow> (disk, string, AppleAccount \<times> LoginState) sem" where
  "try_auth env dir creds =
     bnd (asks (get_login_config (ae_codec env) dir)) (\<lambda>require_mac.
     bnd (lift_result (new_account env require_mac)) (\<lambda>account.
     bnd (case creds of
            Some (username, password) \<Rightarrow> thn (reset_user env dir) (ok (username, sha256_bytes env password))
          | None \<Rightarrow> bnd (asks (\<lambda>d. case read_gsa env dir d of None \<Rightarrow> Inl ''no account'' | Some g \<Rightarrow> Inr g))
                     (\<lambda>g. bnd (lift_result (gsa_get_password env g)) (\<lambda>p. ok (gsa_username g, p))))
         (\<lambda>(username, hashed). case login_email_pass env username hashed account of
            (Inl e, _) \<Rightarrow> fail e
          | (Inr st, account') \<Rightarrow> ok (account', st))))"

text \<open>The account of a previous run; only a missing \<open>postdata_done\<close> makes it write.\<close>

definition with_stored_login :: "account_env \<Rightarrow> GSAConfig \<Rightarrow> AppleAccount \<Rightarrow> AppleAccount" where
  "with_stored_login env g account = account\<lparr>aa_username := Some (gsa_username g),
     aa_hashed_password := (case gsa_get_password env g of Inl _ \<Rightarrow> None | Inr p \<Rightarrow> Some p)\<rparr>"

definition open_account :: "account_env \<Rightarrow> string \<Rightarrow> GSAConfig \<Rightarrow> (disk, string, AppleAccount) sem" where
  "open_account env dir g =
     bnd (asks (get_login_config (ae_codec env) dir)) (\<lambda>require_mac.
     bnd (case new_account env require_mac of Inl e \<Rightarrow> fail (''aacbf?: '' @ e) | Inr a \<Rightarrow> ok a) (\<lambda>account.
     if gsa_postdata_done g = None
     then thn (write_plist (ae_codec env) (gsa_path dir) (gsa_plist (g\<lparr>gsa_postdata_done := Some True\<rparr>)))
            (ok (snd (update_postdata env (with_stored_login env g account))))
     else ok (with_stored_login env g account)))"

definition restore_account :: "account_env \<Rightarrow> string \<Rightarrow> (disk, string, AppleAccount option) sem" where
  "restore_account env dir = (\<lambda>d.
     case read_gsa env dir d of
       None \<Rightarrow> (Inr None, d)
     | Some g \<Rightarrow> bnd (open_account env dir g) (\<lambda>a. ok (Some a)) d)"

section \<open>Resetting\<close>

text \<open>What is sent to the poll task and the servers, in order; none of the answers is looked at.\<close>

datatype net_call = CancelPoll | Deregister plist | LogoutAll

definition id_cache_path :: "string \<Rightarrow> string" where
  "id_cache_path dir = join_path dir ''id_cache.plist''"

definition load_hardware :: "account_env \<Rightarrow> string \<Rightarrow> disk \<Rightarrow> (plist, plist) SavedHardwareState option" where
  "load_hardware env dir d =
     read_hardware (\<lambda>v. if push_ok env v then Some v else None) (\<lambda>v. if config_ok env v then Some v else None)
       (ae_codec env) dir d"

definition logout_calls :: "account_env \<Rightarrow> string \<Rightarrow> bool \<Rightarrow> disk \<Rightarrow> net_call list" where
  "logout_calls env dir has_account d =
     (case Option.bind (load_hardware env dir d) (\<lambda>h. identity_restore env (sh_identity h)) of
        None \<Rightarrow> [] | Some i \<Rightarrow> [Deregister i]) @
     (if has_account then [LogoutAll] else [])"

text \<open>The cached keys of other users go, what else the file holds (the replay counters) stays.\<close>

definition clear_id_cache :: "account_env \<Rightarrow> string \<Rightarrow> unit files_op" where
  "clear_id_cache env dir = (\<lambda>d.
     case read_dict (ae_codec env) (id_cache_path dir) d of
       None \<Rightarrow> (Inr (), d)
     | Some m \<Rightarrow> (case dict_get ''cache'' m of
           None \<Rightarrow> (Inl ''No cache?'', d)
         | Some v \<Rightarrow> if as_dict v = None then (Inl unwrap_none, d)
                     else write_plist (ae_codec env) (id_cache_path dir) (PDict (dict_set ''cache'' (PDict []) m)) d))"

definition reset_state ::
    "account_env \<Rightarrow> string \<Rightarrow> bool \<Rightarrow> bool \<Rightarrow> bool \<Rightarrow> (disk \<times> net_call list, string, unit) sem" where
  "reset_state env dir has_account reset_hw logout = (\<lambda>(d, calls).
     let calls' = calls @ [CancelPoll] @ (if logout then logout_calls env dir has_account d else [])
     in case thn (if logout then reset_user env dir else ok ())
            (thn (\<lambda>d. clear_id_cache env dir (try_remove (users_path dir) d))
            (modify (\<lambda>d. if reset_hw
               then fold try_remove [hw_path dir, id_cache_path dir, statuskit_path dir] d else d))) d of
          (r, d') \<Rightarrow> (r, (d', calls')))"

end
