(* ===== verification/Startup.thy ===== *)
theory Startup
  imports Accounts
begin

text \<open>
  Registering the device and starting again, from \<open>rust/src/api/api.rs\<close>: the hardware file
  (\<open>set_identity\<close>, \<open>setup_push\<close>), the registered users (\<open>register_ids\<close>, \<open>save_users\<close>, \<open>restore_users\<close>), the
  state files the services keep, and \<open>SharedPushState::restore\<close>, which puts a signed-in state together from
  the files. The clients that rustpush makes of the states are represented by the states.
\<close>

section \<open>What the code calls\<close>

text \<open>The alert of Apple is the one of \<open>rust/src/api/mirrors.rs\<close>.\<close>

record SupportAction =
  sac_url :: string
  sac_button :: string

record SupportAlert =
  sal_title :: string
  sal_body :: string
  sal_action :: "SupportAction option"

datatype register_error = CustomerMessage SupportAlert | OtherError string

record startup_env =
  su_account :: account_env
  su_migrate :: migrate_env
  push_default :: plist
  aps_connect :: "plist \<Rightarrow> plist option \<Rightarrow> plist \<times> string option"
  identity_save :: "plist \<Rightarrow> string + 8 word list"
  user_ok :: "plist \<Rightarrow> bool"
  register_users :: "plist \<Rightarrow> plist list \<Rightarrow> (register_error + unit) \<times> plist list"
  key_cache_ok :: "plist \<Rightarrow> bool"
  cloudkit_ok :: "plist \<Rightarrow> bool"
  keychain_ok :: "plist \<Rightarrow> bool"
  streams_ok :: "plist \<Rightarrow> bool"
  passwords_restore :: "plist \<Rightarrow> plist option"
  passwords_default :: plist
  facetime_restore :: "plist \<Rightarrow> plist option"
  facetime_default :: plist
  findmy_restore :: "string \<Rightarrow> string option"
  findmy_client :: "string \<Rightarrow> string + unit"

definition su_codec :: "startup_env \<Rightarrow> plist_codec" where
  "su_codec env = ae_codec (su_account env)"

section \<open>The hardware file\<close>

definition save_hardware ::
    "startup_env \<Rightarrow> string \<Rightarrow> plist \<Rightarrow> 8 word list \<Rightarrow> plist \<Rightarrow> unit files_op" where
  "save_hardware env dir push ident config =
     write_plist (su_codec env) (hw_path dir)
       (PDict [(''push'', push), (''identity'', bin_serialize ident), (''os_config'', config)])"

definition saved_identity :: "startup_env \<Rightarrow> plist \<Rightarrow> string + 8 word list" where
  "saved_identity env identity =
     (case identity_save env identity of Inl e \<Rightarrow> Inl (''failed to save: '' @ e) | Inr b \<Rightarrow> Inr b)"

definition set_identity :: "startup_env \<Rightarrow> string \<Rightarrow> plist \<Rightarrow> plist \<Rightarrow> unit files_op" where
  "set_identity env dir config identity =
     bnd (lift_result (saved_identity env identity)) (\<lambda>ident. save_hardware env dir (push_default env) ident config)"

text \<open>The state of the connection after the attempt, and its error; only a connection without error is saved.\<close>

definition setup_push ::
    "startup_env \<Rightarrow> string \<Rightarrow> plist \<Rightarrow> plist \<Rightarrow> plist option \<Rightarrow> (disk, string, plist \<times> string option) sem" where
  "setup_push env dir config identity state =
     (case aps_connect env config state of (push, error) \<Rightarrow>
        bnd (lift_result (saved_identity env identity)) (\<lambda>ident.
        if error = None then thn (save_hardware env dir push ident config) (ok (push, None))
        else ok (push, error)))"

text \<open>The task \<open>setup_push\<close> leaves behind: each signal of new keys writes the file again.\<close>

datatype refresh_signal = Generated plist | SignalLagged | SignalClosed

fun refresh_hardware ::
    "startup_env \<Rightarrow> string \<Rightarrow> plist \<Rightarrow> 8 word list \<Rightarrow> (refresh_signal \<times> bool) list \<Rightarrow> unit files_op" where
  "refresh_hardware env dir config ident [] = ok ()"
| "refresh_hardware env dir config ident ((Generated push, alive) # sigs) =
     (if alive then thn (save_hardware env dir push ident config) (refresh_hardware env dir config ident sigs)
      else ok ())"
| "refresh_hardware env dir config ident ((SignalLagged, _) # sigs) = refresh_hardware env dir config ident sigs"
| "refresh_hardware env dir config ident ((SignalClosed, _) # sigs) = ok ()"

section \<open>The registered users\<close>

definition save_users :: "startup_env \<Rightarrow> string \<Rightarrow> plist list \<Rightarrow> unit files_op" where
  "save_users env dir users = write_plist (su_codec env) (users_path dir) (PArray users)"

definition restore_users :: "startup_env \<Rightarrow> string \<Rightarrow> disk \<Rightarrow> plist list option" where
  "restore_users env dir d =
     (case read_plist (su_codec env) (users_path dir) d of
        Some (PArray vs) \<Rightarrow> if list_all (user_ok env) vs then Some vs else None
      | _ \<Rightarrow> None)"

text \<open>The users after the registration, or the alert Apple wants shown instead.\<close>

definition register_ids ::
    "startup_env \<Rightarrow> string \<Rightarrow> plist \<Rightarrow> plist list \<Rightarrow> (disk, string, plist list option \<times> SupportAlert option) sem" where
  "register_ids env dir identity users =
     (case register_users env identity users of
        (Inl (CustomerMessage alert), _) \<Rightarrow> ok (None, Some alert)
      | (Inl (OtherError e), _) \<Rightarrow> fail e
      | (Inr _, users') \<Rightarrow> thn (save_users env dir users') (ok (Some users', None)))"

text \<open>
  \<open>make_imclient\<close> marks once whether a key cache was there at its first start; failures are ignored. Its
  callback saves the users with their new keys.
\<close>

definition try_create :: "string \<Rightarrow> disk \<Rightarrow> disk" where
  "try_create p d = snd (write_file p [] d)"

definition mark_incident :: "startup_env \<Rightarrow> string \<Rightarrow> disk \<Rightarrow> disk" where
  "mark_incident env dir d =
     (if file_exists (join_path dir ''incident'') d then d
      else try_create (join_path dir ''incident'')
        (if \<exists>v \<in> set_option (read_plist (su_codec env) (id_cache_path dir) d). key_cache_ok env v
         then try_create (join_path dir ''incident_affected'') d else d))"

definition on_keys_updated :: "startup_env \<Rightarrow> string \<Rightarrow> plist list \<Rightarrow> unit files_op" where
  "on_keys_updated env dir users = save_users env dir users"

section \<open>The states of the services\<close>

definition load_valid :: "startup_env \<Rightarrow> (plist \<Rightarrow> bool) \<Rightarrow> string \<Rightarrow> disk \<Rightarrow> plist option" where
  "load_valid env valid path d =
     (case read_plist (su_codec env) path d of Some v \<Rightarrow> if valid v then Some v else None | None \<Rightarrow> None)"

definition load_or_default :: "startup_env \<Rightarrow> (plist \<Rightarrow> plist option) \<Rightarrow> plist \<Rightarrow> string \<Rightarrow> disk \<Rightarrow> plist" where
  "load_or_default env restore_state def path d =
     (case Option.bind (read_plist (su_codec env) path d) restore_state of Some v \<Rightarrow> v | None \<Rightarrow> def)"

definition make_shared_streams :: "startup_env \<Rightarrow> string \<Rightarrow> disk \<Rightarrow> plist option" where
  "make_shared_streams env dir = load_valid env (streams_ok env) (shared_streams_path dir)"

definition make_cloudkit :: "startup_env \<Rightarrow> string \<Rightarrow> disk \<Rightarrow> plist option" where
  "make_cloudkit env dir = load_valid env (cloudkit_ok env) (cloudkit_path dir)"

definition make_keychain :: "startup_env \<Rightarrow> string \<Rightarrow> disk \<Rightarrow> plist option" where
  "make_keychain env dir = load_valid env (keychain_ok env) (keychain_path dir)"

definition make_passwords :: "startup_env \<Rightarrow> string \<Rightarrow> disk \<Rightarrow> plist" where
  "make_passwords env dir = load_or_default env (passwords_restore env) (passwords_default env) (passwords_path dir)"

definition make_facetime :: "startup_env \<Rightarrow> string \<Rightarrow> disk \<Rightarrow> plist" where
  "make_facetime env dir = load_or_default env (facetime_restore env) (facetime_default env) (facetime_path dir)"

definition make_statuskit :: "startup_env \<Rightarrow> string \<Rightarrow> disk \<Rightarrow> plist" where
  "make_statuskit env dir =
     load_or_default env (statuskit_restore (su_account env)) (statuskit_default (su_account env)) (statuskit_path dir)"

definition make_findmy :: "startup_env \<Rightarrow> string \<Rightarrow> disk \<Rightarrow> string + string option" where
  "make_findmy env dir d =
     (case read_file (findmy_path dir) d of Inl _ \<Rightarrow> Inr None | Inr content \<Rightarrow>
      case findmy_restore env content of None \<Rightarrow> Inr None | Some st \<Rightarrow>
        map_sum id (\<lambda>_. Some st) (findmy_client env st))"

text \<open>The callbacks that keep the files up to date; a failed write is a panic.\<close>

definition on_state_updated :: "startup_env \<Rightarrow> string \<Rightarrow> plist \<Rightarrow> unit files_op" where
  "on_state_updated env path st = write_plist (su_codec env) path st"

section \<open>Starting again\<close>

record SharedICloudServices =
  ic_account :: AppleAccount
  ic_cloudkit :: plist
  ic_keychain :: "plist option"
  ic_passwords :: "plist option"
  ic_fmfd :: "string option"
  ic_sharedstreams :: "plist option"
  ic_cloud_messages :: bool
  ic_statuskit :: plist

record SharedPushState =
  sp_os_config :: plist
  sp_conn :: plist
  sp_users :: "plist list"
  sp_identity :: plist
  sp_icloud :: "SharedICloudServices option"
  sp_facetime :: plist

text \<open>The services are made when there is an account; a missing CloudKit state is a panic then.\<close>

definition restore_icloud :: "startup_env \<Rightarrow> string \<Rightarrow> AppleAccount \<Rightarrow> (disk, string, SharedICloudServices) sem" where
  "restore_icloud env dir account =
     bnd (asks (\<lambda>d. case make_cloudkit env dir d of None \<Rightarrow> Inl ''todo remove'' | Some c \<Rightarrow> Inr c)) (\<lambda>cloudkit.
     bnd (asks (\<lambda>d. Inr (make_keychain env dir d))) (\<lambda>keychain.
     bnd (asks (\<lambda>d. if keychain = None then Inr None else make_findmy env dir d)) (\<lambda>fmfd.
     asks (\<lambda>d. Inr \<lparr>ic_account = account, ic_cloudkit = cloudkit, ic_keychain = keychain,
        ic_passwords = map_option (\<lambda>_. make_passwords env dir d) keychain, ic_fmfd = fmfd,
        ic_sharedstreams = make_shared_streams env dir d, ic_cloud_messages = (keychain \<noteq> None),
        ic_statuskit = make_statuskit env dir d\<rparr>))))"

definition restore_device ::
    "startup_env \<Rightarrow> string \<Rightarrow> (plist, plist) SavedHardwareState \<Rightarrow> plist list \<Rightarrow> plist \<Rightarrow>
       (disk, string, SharedPushState) sem" where
  "restore_device env dir hw users identity =
     bnd (setup_push env dir (sh_os_config hw) identity (Some (sh_push hw))) (\<lambda>(push, _).
     thn (modify (mark_incident env dir))
    (bnd (asks (get_login_config (su_codec env) dir)) (\<lambda>_.
     bnd (restore_account (su_account env) dir) (\<lambda>account.
     bnd (case account of None \<Rightarrow> ok None
            | Some a \<Rightarrow> bnd (restore_icloud env dir a) (\<lambda>i. ok (Some i))) (\<lambda>icloud.
     asks (\<lambda>d. Inr \<lparr>sp_os_config = sh_os_config hw, sp_conn = push, sp_users = users, sp_identity = identity,
        sp_icloud = icloud, sp_facetime = make_facetime env dir d\<rparr>))))))"

definition restore_files :: "startup_env \<Rightarrow> string \<Rightarrow> (disk, string, SharedPushState option) sem" where
  "restore_files env dir = (\<lambda>d.
     case load_hardware (su_account env) dir d of None \<Rightarrow> (Inr None, d) | Some hw \<Rightarrow>
     case restore_users env dir d of None \<Rightarrow> (Inr None, d) | Some users \<Rightarrow>
     case identity_restore (su_account env) (sh_identity hw) of None \<Rightarrow> (Inr None, d) | Some identity \<Rightarrow>
       bnd (restore_device env dir hw users identity) (\<lambda>st. ok (Some st)) d)"

text \<open>The migration encrypts a password the way \<open>GSAConfig\<close> does; a panic in it ends the start.\<close>

definition start_migration :: "startup_env \<Rightarrow> migrate_env" where
  "start_migration env = (su_migrate env)\<lparr>mg_codec := su_codec env,
     gsa_encrypt := (\<lambda>b. case gsa_encrypt_password (su_account env) b of Inl _ \<Rightarrow> None | Inr c \<Rightarrow> Some c)\<rparr>"

definition restore :: "startup_env \<Rightarrow> string \<Rightarrow> SharedPushState option mig" where
  "restore env dir = (\<lambda>(d, ks).
     case migrate_dir (start_migration env) dir (d, ks) of
       (Inl _, s) \<Rightarrow> (Inl ''panicked'', s)
     | (Inr _, (d', ks')) \<Rightarrow> (case restore_files env dir d' of (r, d'') \<Rightarrow> (r, (d'', ks'))))"

end
