(* ===== verification/MigrateSpec.thy ===== *)
theory MigrateSpec
  imports Migrate
begin

text \<open>
  What the migration of \<open>Migrate\<close> leaves behind: no private key and no password stays in the files of
  the users and of the account, every key went into the keystore under its handle, and a second run
  changes nothing. The hardware file is the exception: it loses its other entries.
\<close>

section \<open>One entry\<close>

lemma import_key_InrD: "import_key env what h ty der rules s = (Inr u, t) \<Longrightarrow>
    t = (fst s, snd s @ [\<lparr>ik_handle = h, ik_type = ty, ik_der = der, ik_rules = rules\<rparr>])"
  by (cases s) (auto simp: import_key_def split: if_splits)

lemma save_plist_InrD:
  assumes "save_plist env path v (d, ks) = (Inr u, (d', ks'))"
  shows "write_plist (mg_codec env) path v d = (Inr u, d') \<and> ks' = ks"
  using assms by (auto simp: save_plist_def split: prod.splits sum.splits)

lemma get_data_set_string: "get_data k (dict_set k (PString h) m) = None"
  by (cases "dict_get k m") (simp_all add: get_data_def dict_get_set as_data_def)

definition moved_key :: "string \<Rightarrow> KeyType \<Rightarrow> KeystoreAccessRules \<Rightarrow> string \<Rightarrow> dict \<Rightarrow> imported_key list" where
  "moved_key h ty rules field item = (case get_data field item of None \<Rightarrow> []
     | Some der \<Rightarrow> [\<lparr>ik_handle = h, ik_type = ty, ik_der = der, ik_rules = rules\<rparr>])"

lemma move_private_InrD:
  assumes "move_private env what h ty rules field item (d, ks) = (Inr (moved, item'), s)"
  shows "s = (d, ks @ moved_key h ty rules field item) \<and> (moved \<longleftrightarrow> get_data field item \<noteq> None) \<and>
         item' = (if moved then dict_set field (PString h) item else item) \<and> get_data field item' = None"
proof (cases "get_data field item")
  case None
  then show ?thesis using assms by (simp add: move_private_def moved_key_def ok_def)
next
  case (Some der)
  then have "thn (import_key env what h ty der rules) (ok (True, dict_set field (PString h) item)) (d, ks)
      = (Inr (moved, item'), s)"
    using assms by (simp add: move_private_def)
  then show ?thesis using Some
    by (auto simp: moved_key_def ok_def get_data_set_string elim!: thn_InrE dest!: import_key_InrD)
qed

section \<open>The users\<close>

definition raw_private :: "dict \<Rightarrow> 8 word list option" where
  "raw_private user = Option.bind (get_dict ''auth_keypair'' user) (get_data ''private'')"

text \<open>The key a user entry still holds, as the keystore is to get it.\<close>

definition user_key :: "dict \<Rightarrow> imported_key list" where
  "user_key user = (case (get_string ''user_id'' user, raw_private user) of
      (Some uid, Some der) \<Rightarrow>
        [\<lparr>ik_handle = ''ids:'' @ uid, ik_type = RsaKey 2048, ik_der = der, ik_rules = rsa_rules\<rparr>]
    | _ \<Rightarrow> [])"

text \<open>The two halves of the step for one user, on their own.\<close>

definition relink_user :: "string \<Rightarrow> dict \<Rightarrow> string + dict" where
  "relink_user handle user =
     (case get_dict ''registration'' user of None \<Rightarrow> Inr user
      | Some services \<Rightarrow> map_sum id (\<lambda>ss. dict_set ''registration'' (PDict ss) user)
                           (collect (map (relink_service handle) services)))"

definition move_auth :: "migrate_env \<Rightarrow> string \<Rightarrow> dict \<Rightarrow> (bool \<times> dict) mig" where
  "move_auth env handle user =
     (case get_dict ''auth_keypair'' user of
        None \<Rightarrow> ok (False, user)
      | Some kp \<Rightarrow> bnd (move_private env ''failed to import RSA'' handle (RsaKey 2048) rsa_rules ''private'' kp)
          (\<lambda>(moved, kp'). ok (moved, if moved then dict_set ''auth_keypair'' (PDict kp') user else user)))"

lemma relink_step: "(case get_dict ''registration'' user' of
               None \<Rightarrow> ok (moved, user')
             | Some services \<Rightarrow> bnd (asks (\<lambda>_. collect (map (relink_service h) services)))
                 (\<lambda>services'. ok (moved, dict_set ''registration'' (PDict services') user'))) =
        bnd (asks (\<lambda>_. relink_user h user')) (\<lambda>u. ok (moved, u))"
proof (cases "get_dict ''registration'' user'")
  case (Some services)
  then show ?thesis
    by (cases "collect (map (relink_service h) services)")
      (simp_all add: relink_user_def fun_eq_iff bnd_def asks_def ok_def)
qed (simp add: relink_user_def fun_eq_iff bnd_def asks_def ok_def)

lemma migrate_user_eq: "migrate_user env user =
   bnd (expect unwrap_none (get_string ''user_id'' user)) (\<lambda>uid.
   bnd (move_auth env (''ids:'' @ uid) user)
       (\<lambda>(moved, user'). bnd (asks (\<lambda>_. relink_user (''ids:'' @ uid) user')) (\<lambda>u. ok (moved, u))))"
  unfolding migrate_user_def move_auth_def Let_def relink_step ..

lemma relink_user_keeps:
  assumes "relink_user h user = Inr user'" and "k \<noteq> ''registration''"
  shows "dict_get k user' = dict_get k user"
proof (cases "get_dict ''registration'' user")
  case (Some services)
  with assms show ?thesis
    by (cases "collect (map (relink_service h) services)") (auto simp: relink_user_def dict_get_set)
qed (use assms in \<open>simp add: relink_user_def\<close>)

lemma relink_service_again:
  "relink_service h s = Inr s' \<Longrightarrow> \<exists>s''. relink_service h s' = Inr s''"
  by (auto simp: relink_service_def as_dict_def split: plist.splits option.splits)

lemma collect_InrD: "collect xs = Inr ys \<Longrightarrow> xs = map Inr ys"
  by (induction xs arbitrary: ys rule: collect.induct) (auto split: sum.splits)

lemma collect_again:
  assumes "\<And>x y. f x = Inr y \<Longrightarrow> \<exists>z. f y = Inr z" and "collect (map f xs) = Inr ys"
  shows "\<exists>zs. collect (map f ys) = Inr zs"
proof -
  have "\<exists>z. f y = Inr z" if "y \<in> set ys" for y
  proof -
    have "Inr y \<in> set (map f xs)" using collect_InrD [OF assms(2)] that by simp
    then obtain x where "f x = Inr y" by auto
    then show ?thesis by (rule assms(1))
  qed
  then show ?thesis by (simp add: collect_Inr_iff)
qed

lemma relink_user_again:
  assumes "relink_user h user = Inr user'"
  shows "\<exists>u. relink_user h user' = Inr u"
proof (cases "get_dict ''registration'' user")
  case (Some services)
  then obtain ss where ss: "collect (map (relink_service h) services) = Inr ss"
    and u: "user' = dict_set ''registration'' (PDict ss) user"
    using assms by (cases "collect (map (relink_service h) services)") (auto simp: relink_user_def)
  have "get_dict ''registration'' user' = Some ss"
    using Some by (simp add: u get_shapes dict_get_set)
  moreover obtain zs where "collect (map (relink_service h) ss) = Inr zs"
    using collect_again [of "relink_service h" services ss] relink_service_again ss by blast
  ultimately show ?thesis by (simp add: relink_user_def)
qed (use assms in \<open>auto simp: relink_user_def\<close>)

lemma move_auth_InrD:
  assumes "move_auth env h user (d, ks) = (Inr (moved, user'), s)"
  shows "s = (d, ks @ (case raw_private user of None \<Rightarrow> [] | Some der \<Rightarrow>
             [\<lparr>ik_handle = h, ik_type = RsaKey 2048, ik_der = der, ik_rules = rsa_rules\<rparr>]))"
    and "moved \<longleftrightarrow> raw_private user \<noteq> None"
    and "raw_private user' = None"
    and "k \<noteq> ''auth_keypair'' \<Longrightarrow> dict_get k user' = dict_get k user"
proof -
  have "s = (d, ks @ (case raw_private user of None \<Rightarrow> [] | Some der \<Rightarrow>
             [\<lparr>ik_handle = h, ik_type = RsaKey 2048, ik_der = der, ik_rules = rsa_rules\<rparr>])) \<and>
        (moved \<longleftrightarrow> raw_private user \<noteq> None) \<and> raw_private user' = None \<and>
        (k \<noteq> ''auth_keypair'' \<longrightarrow> dict_get k user' = dict_get k user)"
  proof (cases "get_dict ''auth_keypair'' user")
    case None
    then show ?thesis using assms by (auto simp: move_auth_def raw_private_def ok_def)
  next
    case (Some kp)
    then obtain kp' t where
      m: "move_private env ''failed to import RSA'' h (RsaKey 2048) rsa_rules ''private'' kp (d, ks) = (Inr (moved, kp'), t)"
      and r: "s = t" "user' = (if moved then dict_set ''auth_keypair'' (PDict kp') user else user)"
      using assms by (auto simp: move_auth_def ok_def elim!: bnd_InrE)
    have raw: "raw_private user = get_data ''private'' kp" using Some by (simp add: raw_private_def)
    have "raw_private user' = get_data ''private'' kp'"
    proof (cases moved)
      case True
      then have "dict_get ''auth_keypair'' user' = Some (PDict kp')" using r Some by (simp add: dict_get_set get_shapes)
      then show ?thesis by (simp add: raw_private_def get_dict_def as_dict_def)
    next
      case False
      then show ?thesis using r raw move_private_InrD [OF m] by simp
    qed
    then show ?thesis using move_private_InrD [OF m] r raw
      by (auto simp: moved_key_def dict_get_set)
  qed
  then show "s = (d, ks @ (case raw_private user of None \<Rightarrow> [] | Some der \<Rightarrow>
             [\<lparr>ik_handle = h, ik_type = RsaKey 2048, ik_der = der, ik_rules = rsa_rules\<rparr>]))"
    and "moved \<longleftrightarrow> raw_private user \<noteq> None" and "raw_private user' = None"
    and "k \<noteq> ''auth_keypair'' \<Longrightarrow> dict_get k user' = dict_get k user" by blast+
qed

lemma move_auth_none: "raw_private user = None \<Longrightarrow> move_auth env h user s = (Inr (False, user), s)"
  by (cases s) (auto simp: move_auth_def raw_private_def move_private_def ok_def split: option.splits)

lemma raw_private_cong: "dict_get ''auth_keypair'' u = dict_get ''auth_keypair'' v \<Longrightarrow> raw_private u = raw_private v"
  by (simp add: raw_private_def get_dict_def)

lemma migrate_user_InrD:
  assumes "migrate_user env user (d, ks) = (Inr (moved, user'), s)"
  shows "s = (d, ks @ user_key user)" and "moved \<longleftrightarrow> raw_private user \<noteq> None" and "raw_private user' = None"
    and "\<exists>u. migrate_user env user' t = (Inr (False, u), t)"
proof -
  obtain uid user1 s1 where uid: "get_string ''user_id'' user = Some uid"
    and m: "move_auth env (''ids:'' @ uid) user (d, ks) = (Inr (moved, user1), s1)"
    and r: "relink_user (''ids:'' @ uid) user1 = Inr user'" and s: "s = s1"
    using assms unfolding migrate_user_eq
    by (auto simp: expect_def ok_def fail_def asks_def elim!: bnd_InrE split: option.splits)
  note mD = move_auth_InrD [OF m]
  have raw: "raw_private user' = None"
    using raw_private_cong [OF relink_user_keeps [OF r, of "''auth_keypair''"]] mD(3) by simp
  have uid': "get_string ''user_id'' user' = Some uid"
    using uid mD(4) [of "''user_id''"] relink_user_keeps [OF r, of "''user_id''"] by (simp add: get_string_def)
  show "s = (d, ks @ user_key user)" and "moved \<longleftrightarrow> raw_private user \<noteq> None" and "raw_private user' = None"
    using uid mD(1,2) s raw by (simp_all add: user_key_def split: option.splits)
  obtain u where "relink_user (''ids:'' @ uid) user' = Inr u" using relink_user_again [OF r] by blast
  then have "migrate_user env user' t = (Inr (False, u), t)"
    unfolding migrate_user_eq by (simp add: uid' expect_def move_auth_none [OF raw] asks_def ok_def)
  then show "\<exists>u. migrate_user env user' t = (Inr (False, u), t)" ..
qed

lemma for_each_users_InrD:
  assumes "for_each (migrate_user env) us (d, ks) = (Inr rs, s)"
  shows "s = (d, ks @ concat (map user_key us)) \<and> list_all (\<lambda>r. raw_private (snd r) = None) rs \<and>
         length rs = length us \<and> (list_ex fst rs \<longleftrightarrow> \<not> list_all (\<lambda>u. raw_private u = None) us) \<and>
         (\<exists>rs'. for_each (migrate_user env) (map snd rs) t = (Inr rs', t) \<and> \<not> list_ex fst rs')"
  using assms
proof (induction us arbitrary: ks rs)
  case Nil
  then show ?case by (simp add: ok_def)
next
  case (Cons u us)
  then obtain m v s1 rs1 where m: "migrate_user env u (d, ks) = (Inr (m, v), s1)"
    and f: "for_each (migrate_user env) us s1 = (Inr rs1, s)" and rs: "rs = (m, v) # rs1"
    by (auto simp: ok_def elim!: bnd_InrE)
  note mD = migrate_user_InrD [OF m]
  note IH = Cons.IH [OF f [unfolded mD(1)]]
  obtain w where "migrate_user env v t = (Inr (False, w), t)" using mD(4) by blast
  then show ?case using IH mD(1-3) by (auto simp: rs ok_def)
qed

lemma read_dicts_eq: "read_dicts c p d = Option.bind (read_plist c p d)
    (\<lambda>v. case v of PArray vs \<Rightarrow> those (map as_dict vs) | _ \<Rightarrow> None)"
  by (simp add: read_dicts_def split: option.splits plist.splits)

lemma read_written_dicts:
  "plist_roundtrip c \<Longrightarrow> write_plist c p (PArray (map (\<lambda>r. PDict (f r)) rs)) d = (Inr u, d') \<Longrightarrow>
     read_dicts c p d' = Some (map f rs)"
  using as_dicts_PDict [of "map f rs"] read_written_plist [of c p "PArray (map (\<lambda>r. PDict (f r)) rs)" d u d']
  by (simp add: read_dicts_eq comp_def)

lemma read_written_dict:
  "plist_roundtrip c \<Longrightarrow> write_plist c p (PDict m) d = (Inr u, d') \<Longrightarrow> read_dict c p d' = Some m"
  using read_written_plist [of c p "PDict m" d u d'] by (simp add: read_dict_def as_dict_def)

lemma migrate_users_read:
  assumes "read_dicts (mg_codec env) (users_path dir) d = Some us"
  shows "migrate_users env dir (d, ks) =
     bnd (for_each (migrate_user env) us) (\<lambda>results.
         if list_ex fst results
         then save_plist env (users_path dir) (PArray (map (\<lambda>r. PDict (snd r)) results))
         else ok ()) (d, ks)"
  using assms by (simp add: migrate_users_def)

text \<open>C12: After a successful migration of the users no authentication key is left in
  \<open>id.plist\<close>, each key that was there has been imported once, under the handle of its user and in
  the order of the file, and running the migration again changes nothing.\<close>

theorem users_migrated:
  assumes "plist_roundtrip (mg_codec env)"
    and "read_dicts (mg_codec env) (users_path dir) d = Some us"
    and "migrate_users env dir (d, ks) = (Inr (), (d', ks'))"
  shows "ks' = ks @ concat (map user_key us) \<and>
         (\<exists>us'. read_dicts (mg_codec env) (users_path dir) d' = Some us' \<and> length us' = length us \<and>
                list_all (\<lambda>u. raw_private u = None) us') \<and>
         migrate_users env dir (d', ks') = (Inr (), (d', ks'))"
proof -
  obtain rs s where f: "for_each (migrate_user env) us (d, ks) = (Inr rs, s)"
    and w: "(if list_ex fst rs
         then save_plist env (users_path dir) (PArray (map (\<lambda>r. PDict (snd r)) rs))
         else ok ()) s = (Inr (), (d', ks'))"
    using assms(3) unfolding migrate_users_read [OF assms(2)] by (elim bnd_InrE)
  note fD = for_each_users_InrD [OF f]
  have "ks' = ks @ concat (map user_key us) \<and> read_dicts (mg_codec env) (users_path dir) d' =
      Some (if list_ex fst rs then map snd rs else us)"
    using w fD assms(2) read_written_dicts [OF assms(1), of "users_path dir" snd rs]
    by (auto simp: ok_def split: if_splits dest: save_plist_InrD)
  moreover have "list_all (\<lambda>u. raw_private u = None) (map snd rs)" using fD by (simp add: list_all_iff)
  moreover have "migrate_users env dir (d', ks') = (Inr (), (d', ks'))"
  proof (cases "list_ex fst rs")
    case True
    then have "read_dicts (mg_codec env) (users_path dir) d' = Some (map snd rs)" using calculation(1) by simp
    moreover obtain rs' where "for_each (migrate_user env) (map snd rs) (d', ks') = (Inr rs', (d', ks'))"
      and "\<not> list_ex fst rs'"
      using for_each_users_InrD [OF f] by blast
    ultimately show ?thesis by (simp add: migrate_users_read ok_def)
  next
    case False
    then have "list_all (\<lambda>u. raw_private u = None) us" using fD by simp
    then have nil: "concat (map user_key us) = []" by (auto simp: list_all_iff user_key_def split: option.splits)
    then have "d' = d \<and> ks' = ks" using False w fD by (simp add: ok_def nil del: concat_eq_Nil_conv)
    then show ?thesis using assms(3) by simp
  qed
  ultimately show ?thesis using fD by (auto split: if_splits)
qed

section \<open>The hardware file\<close>

lemma save_plist_ok:
  "blocked d p = None \<Longrightarrow> save_plist env p v (d, ks) =
     (Inr (), (d\<lparr>files := (files d)(p := Some (pl_xml (mg_codec env) v))\<rparr>, ks))"
  by (simp add: save_plist_def write_plist_ok)

lemma bnd_pair: "bnd m f s = (case m s of (Inl e, t) \<Rightarrow> (Inl e, t) | (Inr x, t) \<Rightarrow> f x t)"
  by (simp add: bnd_def)

lemma move_private_ok:
  assumes "get_data field item = Some der" and "import_ok env h ty der"
  shows "move_private env what h ty rules field item (d, ks) = (Inr (True, dict_set field (PString h) item),
           (d, ks @ [\<lparr>ik_handle = h, ik_type = ty, ik_der = der, ik_rules = rules\<rparr>]))"
  using assms by (simp add: move_private_def thn_def bnd_pair import_key_def ok_def)

text \<open>The step of the push key on its own: what is on the disk after it, and what it hands on.\<close>

lemma migrate_push_moves:
  assumes "dict_get ''os_config'' item = Some v" and "serial_number env v = Some serial"
    and "get_dict ''push'' item = Some push" and "get_dict ''keypair'' push = Some kp"
    and "get_data ''private'' kp = Some der"
    and "import_ok env (''activation:'' @ serial) (RsaKey 1024) der" and "blocked d (hw_path dir) = None"
  defines "h \<equiv> ''activation:'' @ serial"
  defines "kp' \<equiv> dict_set ''private'' (PString h) kp"
  shows "migrate_push env dir item (d, ks) =
     (Inr (dict_set ''push'' (PDict (dict_set ''keypair'' (PDict kp') push)) item),
      (d\<lparr>files := (files d)(hw_path dir := Some (pl_xml (mg_codec env) (PDict kp')))\<rparr>,
       ks @ [\<lparr>ik_handle = h, ik_type = RsaKey 1024, ik_der = der, ik_rules = rsa_rules\<rparr>]))"
  using assms(1-7)
  by (simp add: migrate_push_def expect_def bnd_pair move_private_ok save_plist_ok thn_def ok_def h_def kp'_def)

text \<open>C25: When the identity of the hardware file was already converted and the push key is not, the
  migration replaces the whole file by the key pair alone: the device's configuration, push state and identity
  are gone, and the hardware can no longer be read, so that the app starts without a device.\<close>

theorem migration_loses_hardware:
  assumes "plist_roundtrip (mg_codec env)" and "blocked d (hw_path dir) = None"
    and "read_dict (mg_codec env) (hw_path dir) d = Some item"
    and "dict_get ''os_config'' item = Some v" and "serial_number env v = Some serial"
    and "get_dict ''push'' item = Some push" and "get_dict ''keypair'' push = Some kp"
    and "get_data ''private'' kp = Some der"
    and "import_ok env (''activation:'' @ serial) (RsaKey 1024) der"
    and "get_data ''identity'' item = Some ident" and "dict_get ''identity'' kp = None"
  shows "\<exists>d'. migrate_hardware env dir (d, ks) = (Inr (), (d',
             ks @ [\<lparr>ik_handle = ''activation:'' @ serial, ik_type = RsaKey 1024, ik_der = der, ik_rules = rsa_rules\<rparr>])) \<and>
           read_dict (mg_codec env) (hw_path dir) d' =
             Some (dict_set ''private'' (PString (''activation:'' @ serial)) kp) \<and>
           read_hardware parse_push parse_config (mg_codec env) dir d' = None"
proof -
  let ?kp = "dict_set ''private'' (PString (''activation:'' @ serial)) kp"
  let ?d = "d\<lparr>files := (files d)(hw_path dir := Some (pl_xml (mg_codec env) (PDict ?kp)))\<rparr>"
  let ?item = "dict_set ''push'' (PDict (dict_set ''keypair'' (PDict ?kp) push)) item"
  have r: "read_plist (mg_codec env) (hw_path dir) ?d = Some (PDict ?kp)"
    using assms(1,2) by (simp add: read_plist_file)
  have "get_dict ''identity'' ?item = None"
    using assms(10) by (simp add: get_dict_def get_shapes dict_get_set as_dict_def)
  then have "migrate_hardware env dir (d, ks) = (Inr (), (?d,
             ks @ [\<lparr>ik_handle = ''activation:'' @ serial, ik_type = RsaKey 1024, ik_der = der, ik_rules = rsa_rules\<rparr>]))"
    using migrate_push_moves [OF assms(4-9,2)] assms(3)
    by (simp add: migrate_hardware_def bnd_pair migrate_identity_def ok_def)
  moreover have "get_data ''identity'' ?kp = None"
    using assms(11) by (simp add: get_data_def dict_get_set)
  then have "parse_hardware parse_push parse_config (PDict ?kp) = None"
    by (simp add: parse_hardware_def as_dict_def split: option.split)
  ultimately show ?thesis using r by (auto simp: read_hardware_def read_dict_def as_dict_def)
qed

text \<open>With an identity still to convert, the second write puts the whole file back.\<close>

lemma migration_converts_hardware:
  assumes "plist_roundtrip (mg_codec env)" and "blocked d (hw_path dir) = None"
    and "read_dict (mg_codec env) (hw_path dir) d = Some item"
    and "dict_get ''os_config'' item = Some v" and "serial_number env v = Some serial"
    and "get_dict ''push'' item = Some push" and "get_dict ''keypair'' push = Some kp"
    and "get_data ''private'' kp = Some der"
    and "import_ok env (''activation:'' @ serial) (RsaKey 1024) der"
    and "get_dict ''identity'' item = Some m" and "ngm_save env (PDict m) = Inr ident"
  shows "\<exists>d' item'. fst (migrate_hardware env dir (d, ks)) = Inr () \<and> fst (snd (migrate_hardware env dir (d, ks))) = d' \<and>
           read_dict (mg_codec env) (hw_path dir) d' = Some item' \<and>
           dict_get ''os_config'' item' = Some v \<and> get_data ''identity'' item' = Some ident"
proof -
  let ?kp = "dict_set ''private'' (PString (''activation:'' @ serial)) kp"
  let ?item = "dict_set ''push'' (PDict (dict_set ''keypair'' (PDict ?kp) push)) item"
  let ?new = "dict_set ''identity'' (PData ident) ?item"
  have "get_dict ''identity'' ?item = Some m"
    using assms(10) by (simp add: get_shapes dict_get_set)
  then have "fst (migrate_hardware env dir (d, ks)) = Inr ()"
    and f: "fst (snd (migrate_hardware env dir (d, ks))) =
       d\<lparr>files := (files d)(hw_path dir := Some (pl_xml (mg_codec env) (PDict ?new)))\<rparr>"
    using migrate_push_moves [OF assms(4-9,2)] assms(2,3,11)
    by (simp_all add: migrate_hardware_def bnd_pair migrate_identity_def asks_def save_plist_ok)
  moreover have "read_dict (mg_codec env) (hw_path dir)
       (d\<lparr>files := (files d)(hw_path dir := Some (pl_xml (mg_codec env) (PDict ?new)))\<rparr>) = Some ?new"
    using assms(1,2) by (simp add: read_dict_def read_plist_file as_dict_def)
  moreover have "dict_get ''os_config'' ?new = Some v \<and> get_data ''identity'' ?new = Some ident"
    using assms(4,10) by (simp add: get_shapes dict_get_set)
  ultimately show ?thesis by auto
qed

section \<open>The account file\<close>

lemma paths_differ: "findmy_path dir \<noteq> gsa_path dir"
  by (simp add: findmy_path_def gsa_path_def)

lemma migrate_findmy_other:
  assumes "migrate_findmy env dir (d, ks) = (r, (d', ks'))"
  shows "ks' = ks \<and> read_plist c (gsa_path dir) d' = read_plist c (gsa_path dir) d"
proof (cases "Option.bind (read_plist (mg_codec env) (findmy_path dir) d) (findmy_reencode env)")
  case (Some x)
  have "read_plist c (gsa_path dir) (snd (write_file (findmy_path dir) b d)) = read_plist c (gsa_path dir) d" for b
    by (simp add: read_plist_def fs.read_other [OF paths_differ])
  then show ?thesis
    using assms Some by (cases x) (auto simp: migrate_findmy_def split: prod.splits, metis snd_conv)
qed (use assms in \<open>simp add: migrate_findmy_def\<close>)

text \<open>A successful migration of the account leaves no readable password in \<open>gsa.plist\<close>:
  the entry is gone, its encryption is stored instead, every other entry is as before and no key is
  imported.\<close>

theorem password_leaves_account_file:
  assumes "plist_roundtrip (mg_codec env)"
    and "read_dict (mg_codec env) (gsa_path dir) d = Some account"
    and "get_data ''password'' account = Some password"
    and "migrate_gsa env dir (d, ks) = (Inr (), (d', ks'))"
  shows "ks' = ks \<and> (\<exists>secret account'. gsa_encrypt env password = Some secret \<and>
           read_dict (mg_codec env) (gsa_path dir) d' = Some account' \<and>
           dict_get ''password'' account' = None \<and>
           dict_get ''encrypted_password'' account' = Some (PData secret) \<and>
           (\<forall>k. k = ''password'' \<or> k = ''encrypted_password'' \<or> dict_get k account' = dict_get k account))"
proof -
  let ?new = "\<lambda>secret. dict_insert ''encrypted_password'' (PData secret) (dict_remove ''password'' account)"
  obtain secret d1 ks1 where e: "gsa_encrypt env password = Some secret"
    and s: "save_plist env (gsa_path dir) (PDict (?new secret)) (d, ks) = (Inr (), (d1, ks1))"
    and f: "migrate_findmy env dir (d1, ks1) = (Inr (), (d', ks'))"
    using assms(2-4)
    by (auto simp: migrate_gsa_def expect_def fail_def ok_def elim!: bnd_InrE thn_InrE split: option.splits)
  have "read_dict (mg_codec env) (gsa_path dir) d1 = Some (?new secret)" and "ks1 = ks"
    using save_plist_InrD [OF s] read_written_dict [OF assms(1)] by blast+
  then have "read_dict (mg_codec env) (gsa_path dir) d' = Some (?new secret) \<and> ks' = ks"
    using migrate_findmy_other [OF f, of "mg_codec env"] by (simp add: read_dict_def)
  then show ?thesis using e by (auto simp: dict_get_insert dict_get_remove)
qed

section \<open>Examples\<close>

definition sample_migration :: migrate_env where
  "sample_migration = \<lparr>mg_codec = unary_codec, serial_number = as_string, import_ok = (\<lambda>_ _ _. True),
     ngm_save = (\<lambda>_. Inr [7]), anisette_mid = (\<lambda>_. None), base64_encode = (\<lambda>_. []),
     bad_bottle_key = (\<lambda>_. None), bottle_save = (\<lambda>_ _. Inr []), ensure_secret = (\<lambda>_ _. None),
     cloud_key = (\<lambda>_ _. Inr (PData [])), gsa_encrypt = (\<lambda>b. Some (rev b)), findmy_reencode = (\<lambda>_. None)\<rparr>"

definition one_file :: "string \<Rightarrow> plist \<Rightarrow> disk" where
  "one_file p v = \<lparr>files = [p \<mapsto> pl_xml unary_codec v], blocked = (\<lambda>_. None)\<rparr>"

lemma read_one_file [simp]: "read_plist unary_codec q (one_file p v) = (if q = p then Some v else None)"
  by (simp add: read_plist_def read_file_def one_file_def unary_codec_def)

lemma unblocked_one_file [simp]: "blocked (one_file p v) q = None"
  by (simp add: one_file_def)

definition sample_user :: dict where
  "sample_user = [(''user_id'', PString ''U1''), (''auth_keypair'', PDict [(''private'', PData [1, 2])]),
     (''registration'', PDict [(''madrid'', PDict [(''id_keypair'', PDict [(''private'', PData [1, 2])])])])]"

definition sample_hardware :: dict where
  "sample_hardware = [(''os_config'', PString ''SN''), (''identity'', PData [9]),
     (''push'', PDict [(''keypair'', PDict [(''private'', PData [1]), (''cert'', PData [2])])])]"

lemmas sample_migration_simps = sample_migration_def sample_user_def sample_hardware_def read_dicts_def read_dict_def
  as_dict_def as_string_def as_data_def get_dict_def get_data_def get_string_def dict_get_def dict_set_def

theorem users_migrated_witness:
  "\<exists>d'. migrate_users sample_migration ''d'' (one_file (users_path ''d'') (PArray [PDict sample_user]), []) =
      (Inr (), (d', [\<lparr>ik_handle = ''ids:U1'', ik_type = RsaKey 2048, ik_der = [1, 2], ik_rules = rsa_rules\<rparr>])) \<and>
    (\<exists>u. read_dicts unary_codec (users_path ''d'') d' = Some [u] \<and> raw_private u = None)"
proof -
  let ?d = "one_file (users_path ''d'') (PArray [PDict sample_user])"
  obtain d' ks' where r: "migrate_users sample_migration ''d'' (?d, []) = (Inr (), (d', ks'))"
    by (simp add: Let_def migrate_users_def migrate_user_def move_private_def import_key_def relink_service_def expect_def
        bnd_pair thn_def ok_def asks_def save_plist_ok sample_migration_simps)
  have k: "user_key sample_user =
      [\<lparr>ik_handle = ''ids:U1'', ik_type = RsaKey 2048, ik_der = [1, 2], ik_rules = rsa_rules\<rparr>]"
    by (simp add: user_key_def raw_private_def sample_migration_simps)
  have c: "mg_codec sample_migration = unary_codec" by (simp add: sample_migration_def)
  have "read_dicts unary_codec (users_path ''d'') ?d = Some [sample_user]"
    by (simp add: read_dicts_def as_dict_def)
  from users_migrated [of sample_migration, unfolded c, OF unary_codec_roundtrip this r] r k
  show ?thesis by (auto simp: length_Suc_conv)
qed

theorem migration_loses_hardware_witness:
  "\<exists>d'. fst (snd (migrate_hardware sample_migration ''d'' (one_file (hw_path ''d'') (PDict sample_hardware), []))) = d' \<and>
     read_hardware Some Some unary_codec ''d'' (one_file (hw_path ''d'') (PDict sample_hardware)) \<noteq> None \<and>
     read_hardware Some Some unary_codec ''d'' d' = None"
proof -
  let ?d = "one_file (hw_path ''d'') (PDict sample_hardware)"
  have "\<exists>d'. migrate_hardware sample_migration ''d'' (?d, []) = (Inr (), (d',
           [] @ [\<lparr>ik_handle = ''activation:'' @ ''SN'', ik_type = RsaKey 1024, ik_der = [1], ik_rules = rsa_rules\<rparr>])) \<and>
      read_dict (mg_codec sample_migration) (hw_path ''d'') d' =
        Some (dict_set ''private'' (PString (''activation:'' @ ''SN'')) [(''private'', PData [1]), (''cert'', PData [2])]) \<and>
      read_hardware Some Some (mg_codec sample_migration) ''d'' d' = None"
    by (rule migration_loses_hardware [of sample_migration ?d "''d''" sample_hardware "PString ''SN''" "''SN''"
          "[(''keypair'', PDict [(''private'', PData [1]), (''cert'', PData [2])])]" _ _ "[9]"])
      (simp_all add: sample_migration_simps)
  moreover have "read_hardware Some Some unary_codec ''d'' ?d \<noteq> None"
    by (simp add: read_hardware_def parse_hardware_def sample_migration_simps)
  moreover have "mg_codec sample_migration = unary_codec" by (simp add: sample_migration_def)
  ultimately show ?thesis by auto
qed

theorem password_leaves_account_file_witness:
  "\<exists>d' ks' account'. migrate_gsa sample_migration ''d''
      (one_file (gsa_path ''d'') (PDict [(''username'', PString ''a''), (''password'', PData [1, 2])]), []) =
        (Inr (), (d', ks')) \<and>
     read_dict unary_codec (gsa_path ''d'') d' = Some account' \<and> dict_get ''password'' account' = None \<and>
     dict_get ''encrypted_password'' account' = Some (PData [2, 1])"
proof -
  let ?a = "[(''username'', PString ''a''), (''password'', PData [1, 2])]"
  let ?d = "one_file (gsa_path ''d'') (PDict ?a)"
  have c: "mg_codec sample_migration = unary_codec" by (simp add: sample_migration_def)
  obtain d' ks' where r: "migrate_gsa sample_migration ''d'' (?d, []) = (Inr (), (d', ks'))"
    by (simp add: migrate_gsa_def migrate_findmy_def expect_def bnd_pair thn_def ok_def save_plist_ok sample_migration_simps
        split: option.split)
  have "read_dict unary_codec (gsa_path ''d'') ?d = Some ?a" and "get_data ''password'' ?a = Some [1, 2]"
    by (simp_all add: sample_migration_simps)
  from password_leaves_account_file [of sample_migration, unfolded c, OF unary_codec_roundtrip this r] r
  show ?thesis by (auto simp: sample_migration_def)
qed

end
