(* ===== verification/AccountsSpec.thy ===== *)
theory AccountsSpec
  imports Accounts MigrateSpec
begin

text \<open>
  What the account files of \<open>Accounts\<close> guarantee: a login is found again by the next start, with the
  password it was made with, even when the step after it fails; signing out and resetting remove exactly
  what they should.
\<close>

section \<open>Frames\<close>

text \<open>A computation keeps the content of a file when it writes other files only.\<close>

definition same_file :: "string \<Rightarrow> disk \<Rightarrow> disk \<Rightarrow> bool" where
  "same_file p d0 d \<longleftrightarrow> files d p = files d0 p \<and> blocked d = blocked d0"

lemma same_file_refl [simp]: "same_file p d d"
  by (simp add: same_file_def)

lemma same_file_read: "same_file p d0 d \<Longrightarrow> read_file p d = read_file p d0"
  by (simp add: same_file_def read_file_def split: option.split)

lemma same_file_plist: "same_file p d0 d \<Longrightarrow> read_plist c p d = read_plist c p d0"
  by (simp add: read_plist_def same_file_read)

lemma same_after: "(\<And>d0. preserves (same_file p d0) m) \<Longrightarrow> m s = (r, t) \<Longrightarrow> same_file p s t"
  using preservesD [of "same_file p s" m s] by simp

lemma keeps_write_other: "p \<noteq> q \<Longrightarrow> preserves (same_file p d0) (write_file q c)"
  by (auto intro!: preservesI simp: same_file_def write_file_def attempt_def split: option.splits)

lemma keeps_write_plist_other: "p \<noteq> q \<Longrightarrow> preserves (same_file p d0) (write_plist c q v)"
  by (simp add: write_plist_def keeps_write_other)

lemma same_file_try_remove: "p \<noteq> q \<Longrightarrow> same_file p d0 d \<Longrightarrow> same_file p d0 (try_remove q d)"
  by (auto simp: same_file_def try_remove_def remove_file_def attempt_def split: option.splits)

lemma same_file_removes: "p \<notin> set qs \<Longrightarrow> same_file p d0 d \<Longrightarrow> same_file p d0 (fold try_remove qs d)"
  by (induction qs arbitrary: d) (auto simp: same_file_try_remove)

lemma blocked_try_remove [simp]: "blocked (try_remove q d) = blocked d"
  by (auto simp: try_remove_def remove_file_def attempt_def split: option.splits)

lemma blocked_removes [simp]: "blocked (fold try_remove qs d) = blocked d"
  by (induction qs arbitrary: d) simp_all

lemma files_try_remove:
  "blocked d q = None \<Longrightarrow> files (try_remove q d) p = (if p = q then None else files d p)"
  by (auto simp: try_remove_def remove_file_def attempt_def file_exists_def)

lemma files_removes:
  "(\<And>q. q \<in> set qs \<Longrightarrow> blocked d q = None) \<Longrightarrow> files (fold try_remove qs d) p = (if p \<in> set qs then None else files d p)"
  by (induction qs arbitrary: d) (auto simp: files_try_remove)

lemmas path_defs = gsa_path_def findmy_path_def facetime_path_def cloudkit_path_def keychain_path_def
  passwords_path_def shared_streams_path_def statuskit_path_def users_path_def hw_path_def id_cache_path_def
  anisette_state_path_def

lemma keeps_store_new [keeps]: "p \<noteq> q \<Longrightarrow> preserves (same_file p d0) (store_new q content)"
  using preservesD [OF keeps_write_other [of p q]]
  by (auto intro!: preservesI simp: store_new_def split: option.splits)

lemma keeps_store_new_plist: "p \<noteq> q \<Longrightarrow> preserves (same_file p d0) (store_new_plist c q v)"
  by (simp add: store_new_plist_def keeps_store_new)

lemma keeps_lift_result [keeps]: "preserves P (lift_result r)"
  unfolding lift_result_def by (rule keeps)

lemma keeps_unwrap [keeps]: "preserves P (unwrap x)"
  by (cases x) (auto simp: unwrap_def intro: keeps)

lemma keeps_drop_statuskit: "p \<noteq> statuskit_path dir \<Longrightarrow> preserves (same_file p d0) (drop_statuskit_key env dir)"
  using preservesD [OF keeps_write_plist_other [of p "statuskit_path dir"]]
  by (auto intro!: preservesI simp: drop_statuskit_key_def Let_def)

lemma keeps_findmy_file:
  assumes "p \<noteq> findmy_path dir"
  shows "preserves (same_file p d0) (\<lambda>d. if file_exists (findmy_path dir) d then (Inr (), d)
              else bnd (lift_result r) (write_file (findmy_path dir)) d)"
proof (rule preservesI)
  fix d assume "same_file p d0 d"
  then show "same_file p d0 (snd (if file_exists (findmy_path dir) d then (Inr (), d)
              else bnd (lift_result r) (write_file (findmy_path dir)) d))"
    using preservesD [OF preserves_bnd [OF keeps_lift_result keeps_write_other [OF assms]]] by auto
qed

text \<open>The account file, the users and the hardware are not touched by the files written after it.\<close>

lemma keeps_account_files:
  assumes "p \<notin> {statuskit_path dir, findmy_path dir, shared_streams_path dir, cloudkit_path dir, keychain_path dir}"
  shows "preserves (same_file p d0) (write_account_files env dir dsid adsid delegates)"
  unfolding write_account_files_def
  using assms by (intro preserves_thn preserves_bnd keeps_drop_statuskit keeps_unwrap keeps_findmy_file keeps_store_new_plist) auto

section \<open>The stored account\<close>

lemma gsa_file_roundtrip: "parse_gsa (gsa_plist g) = Some g"
  by (cases "gsa_postdata_done g")
    (simp_all add: parse_gsa_def gsa_plist_def as_dict_def get_string_def get_data_def dict_get_def as_string_def
      as_data_def parse_flag_def)

lemma read_written_gsa:
  assumes "plist_roundtrip (ae_codec env)" and "write_plist (ae_codec env) (gsa_path dir) (gsa_plist g) d = (Inr u, d')"
  shows "read_gsa env dir d' = Some g"
  using read_written_plist [OF assms] by (simp add: read_gsa_def gsa_file_roundtrip)

lemma same_gsa: "same_file (gsa_path dir) d0 d \<Longrightarrow> read_gsa env dir d = read_gsa env dir d0"
  by (simp add: read_gsa_def same_file_plist)

section \<open>Signing in\<close>

lemma keeps_login_inputs [keeps]: "preserves P (login_inputs env finish account)"
  unfolding login_inputs_def by (auto intro!: keeps split: option.split)

lemma login_inputs_state: "login_inputs env finish account s = (r, t) \<Longrightarrow> t = s"
  using preservesD [OF keeps_login_inputs [of "(=) s" env finish account], of s] by simp

lemma login_inputs_InrD:
  assumes "login_inputs env finish account s = (Inr (dsid, adsid, delegates, g), t)"
  shows "\<exists>u p c. aa_username account = Some u \<and> aa_hashed_password account = Some p \<and>
           gsa_encrypt_password env p = Inr c \<and>
           g = \<lparr>gsa_username = u, gsa_encrypted_password = c, gsa_postdata_done = Some True\<rparr>"
  using assms
  by (auto simp: login_inputs_def unwrap_def lift_result_def asks_def ok_def fail_def
      elim!: bnd_InrE thn_InrE split: option.splits)

text \<open>
  What a login does to the account file: nothing, when it fails before the file; otherwise the file
  holds the account, whatever comes after.
\<close>

lemma login_files_account:
  assumes rt: "plist_roundtrip (ae_codec env)" and run: "login_files env dir finish account d = (r, d')"
  shows "(same_file (gsa_path dir) d d' \<and> (\<exists>e. r = Inl e)) \<or>
         (\<exists>u p c. aa_username account = Some u \<and> aa_hashed_password account = Some p \<and>
            gsa_encrypt_password env p = Inr c \<and> blocked d' = blocked d \<and>
            read_gsa env dir d' = Some \<lparr>gsa_username = u, gsa_encrypted_password = c, gsa_postdata_done = Some True\<rparr>)"
proof -
  obtain i t where i: "login_inputs env finish account d = (i, t)" by fastforce
  have t: "t = d" using login_inputs_state [OF i] .
  show ?thesis
  proof (cases i)
    case (Inl e)
    then show ?thesis using run i t by (auto simp: login_files_def bnd_def)
  next
    case (Inr x)
    then obtain dsid adsid delegates g where x: "x = (dsid, adsid, delegates, g)" by (cases x) auto
    obtain w d1 where w: "write_plist (ae_codec env) (gsa_path dir) (gsa_plist g) d = (w, d1)" by fastforce
    show ?thesis
    proof (cases w)
      case (Inl e)
      moreover have "d1 = d" using w Inl write_plist_failed by blast
      ultimately show ?thesis using run i t Inr x w by (auto simp: login_files_def bnd_def thn_def)
    next
      case (Inr u)
      let ?rest = "thn (write_account_files env dir dsid adsid delegates)
          (bnd (unwrap (ld_ids delegates)) (\<lambda>ids. lift_result (authenticate_apple env ids)))"
      have "(r, d') = ?rest d1" using run i t \<open>i = Inr x\<close> x w Inr by (simp add: login_files_def bnd_def thn_def)
      moreover have "preserves (same_file (gsa_path dir) d1) ?rest"
        by (intro keeps keeps_account_files) (simp add: path_defs)
      ultimately have s: "same_file (gsa_path dir) d1 d'" using preservesD same_file_refl by (metis snd_conv)
      have b: "blocked d1 = blocked d" using w blocked_write_file [of "gsa_path dir" _ d]
        by (metis snd_conv write_plist_def)
      have "read_gsa env dir d' = Some g"
        using same_gsa [OF s] read_written_gsa [OF rt] w Inr by simp
      then show ?thesis using login_inputs_InrD i \<open>i = Inr x\<close> x s b by (fastforce simp: same_file_def)
    qed
  qed
qed

text \<open>What the password of the file decrypts to is what was encrypted, by the keystore.\<close>

definition aes_ok :: "account_env \<Rightarrow> bool" where
  "aes_ok env \<longleftrightarrow> (\<forall>k b c. aes_encrypt env k Gcm b = Inr c \<longrightarrow> aes_decrypt env k Gcm c = Inr b)"

lemma password_decrypts:
  "aes_ok env \<Longrightarrow> gsa_encrypt_password env p = Inr c \<Longrightarrow> gsa_encrypted_password g = c \<Longrightarrow> gsa_get_password env g = Inr p"
  by (auto simp: aes_ok_def gsa_encrypt_password_def gsa_get_password_def split: sum.splits)


section \<open>Verification codes\<close>

text \<open>after a code was taken, the answer asks for extra steps only when there is no PET; with one the
  user has been logged in, and no other answer is changed.\<close>

theorem no_extra_step_with_pet:
  assumes "finish_verification env dir st (d, account) = (Inr (st', user), s)"
  shows "(aa_pet account = None \<longrightarrow> user = None \<and> st' = st \<and> s = (d, account)) \<and>
         (aa_pet account \<noteq> None \<longrightarrow> (\<exists>u. user = Some u \<and> do_login env dir None (d, account) = (Inr u, s)) \<and>
            st' = (case st of LsNeedsExtraStep _ \<Rightarrow> LoggedIn | _ \<Rightarrow> st))"
  using assms
  by (cases "aa_pet account")
    (auto simp: finish_verification_def do_login_unless_no_pet_def ok_def elim!: bnd_InrE split: LoginState.splits)

section \<open>Signing out\<close>

lemma paths_distinct:
  "distinct [gsa_path dir, findmy_path dir, facetime_path dir, cloudkit_path dir, keychain_path dir,
     passwords_path dir, shared_streams_path dir, statuskit_path dir, users_path dir, hw_path dir, id_cache_path dir]"
  by (simp add: path_defs join_path_inj)

lemma drop_statuskit_ok:
  "blocked d (statuskit_path dir) = None \<Longrightarrow> \<exists>v. drop_statuskit_key env dir d =
     (Inr (), d\<lparr>files := (files d)(statuskit_path dir := Some (pl_xml (ae_codec env) v))\<rparr>)"
  by (auto simp: drop_statuskit_key_def Let_def write_plist_ok)

lemma reset_user_files:
  assumes "\<forall>p. blocked d p = None"
  shows "\<exists>d'. reset_user env dir d = (Inr (), d') \<and> blocked d' = blocked d \<and>
     (\<forall>p \<in> set (user_files dir). files d' p = None) \<and>
     (\<forall>p. p \<notin> set (user_files dir) \<and> p \<noteq> statuskit_path dir \<longrightarrow> files d' p = files d p)"
proof -
  let ?d = "fold try_remove (user_files dir) d"
  obtain v where "drop_statuskit_key env dir ?d =
      (Inr (), ?d\<lparr>files := (files ?d)(statuskit_path dir := Some (pl_xml (ae_codec env) v))\<rparr>)"
    using drop_statuskit_ok [of ?d dir env] assms by auto
  moreover have "statuskit_path dir \<notin> set (user_files dir)" by (simp add: user_files_def path_defs)
  ultimately show ?thesis using assms by (auto simp: reset_user_def files_removes)
qed

lemma clear_id_cache_InrD:
  assumes "plist_roundtrip (ae_codec env)" and "clear_id_cache env dir d = (Inr (), d')"
  shows "(\<forall>p. p \<noteq> id_cache_path dir \<longrightarrow> same_file p d d') \<and>
     read_dict (ae_codec env) (id_cache_path dir) d' =
       map_option (dict_set ''cache'' (PDict [])) (read_dict (ae_codec env) (id_cache_path dir) d)"
proof (cases "read_dict (ae_codec env) (id_cache_path dir) d")
  case None
  then show ?thesis using assms(2) by (auto simp: clear_id_cache_def)
next
  case (Some m)
  then have w: "write_plist (ae_codec env) (id_cache_path dir) (PDict (dict_set ''cache'' (PDict []) m)) d = (Inr (), d')"
    using assms(2) by (auto simp: clear_id_cache_def split: option.splits if_splits)
  have "same_file p d d'" if "p \<noteq> id_cache_path dir" for p
    using preservesD [OF keeps_write_plist_other [OF that]] w same_file_refl by (metis snd_conv)
  then show ?thesis using Some read_written_dict [OF assms(1) w] by simp
qed

text \<open>What survives a reset: everything the flags do not name.\<close>

lemma reset_state_files:
  assumes "plist_roundtrip (ae_codec env)" and "\<forall>p. blocked d p = None"
    and "reset_state env dir has_account reset_hw logout (d, calls) = (Inr (), (d', calls'))"
  shows "blocked d' = blocked d"
    and "files d' (users_path dir) = None"
    and "logout \<Longrightarrow> p \<in> set (user_files dir) \<Longrightarrow> files d' p = None"
    and "\<not> logout \<Longrightarrow> p \<in> set (user_files dir) \<Longrightarrow> files d' p = files d p"
    and "reset_hw \<Longrightarrow> files d' (hw_path dir) = None \<and> files d' (id_cache_path dir) = None"
    and "\<not> reset_hw \<Longrightarrow> files d' (hw_path dir) = files d (hw_path dir) \<and>
           read_dict (ae_codec env) (id_cache_path dir) d' =
             map_option (dict_set ''cache'' (PDict [])) (read_dict (ae_codec env) (id_cache_path dir) d)"
proof -
  obtain d1 where d1: "(if logout then reset_user env dir else ok ()) d = (Inr (), d1)" and b1: "blocked d1 = blocked d"
    and f1: "\<forall>q \<in> set (user_files dir). files d1 q = (if logout then None else files d q)"
    and g1: "\<forall>q. q \<notin> set (user_files dir) \<and> q \<noteq> statuskit_path dir \<longrightarrow> files d1 q = files d q"
    using reset_user_files [OF assms(2), of env dir] by (cases logout) (auto simp: ok_def)
  obtain d2 where d2: "clear_id_cache env dir (try_remove (users_path dir) d1) = (Inr (), d2)"
    and d': "d' = (if reset_hw then fold try_remove [hw_path dir, id_cache_path dir, statuskit_path dir] d2 else d2)"
    using assms(3) d1 by (auto simp: reset_state_def Let_def modify_def split: prod.splits elim!: thn_InrE)
  note c = clear_id_cache_InrD [OF assms(1) d2]
  have ub: "blocked d1 (users_path dir) = None" using b1 assms(2) by simp
  have s: "files d2 q = (if q = users_path dir then None else files d1 q)" if "q \<noteq> id_cache_path dir" for q
    using c that by (auto simp: same_file_def files_try_remove [of d1 "users_path dir"] ub)
  have b2: "blocked d2 = blocked d"
    using c b1 paths_distinct [of dir] by (metis blocked_try_remove same_file_def distinct_length_2_or_more)
  have fd: "files d' q = (if reset_hw \<and> q \<in> {hw_path dir, id_cache_path dir, statuskit_path dir} then None else files d2 q)" for q
    unfolding d' using b2 assms(2) by (cases reset_hw) (simp_all add: files_removes del: fold_simps fold.simps)
  show "blocked d' = blocked d" by (simp add: d' b2)
  show "files d' (users_path dir) = None" using s [of "users_path dir"] fd paths_distinct [of dir] by auto
  have u: "p \<in> set (user_files dir) \<Longrightarrow> p \<notin> {hw_path dir, id_cache_path dir, statuskit_path dir, users_path dir}" for p
    using paths_distinct [of dir] by (auto simp: user_files_def)
  show "logout \<Longrightarrow> p \<in> set (user_files dir) \<Longrightarrow> files d' p = None"
    and "\<not> logout \<Longrightarrow> p \<in> set (user_files dir) \<Longrightarrow> files d' p = files d p"
    using u [of p] fd [of p] s [of p] f1 by auto
  show "reset_hw \<Longrightarrow> files d' (hw_path dir) = None \<and> files d' (id_cache_path dir) = None" by (simp add: fd)
  assume "\<not> reset_hw"
  then have "d' = d2" by (simp add: d')
  have "hw_path dir \<notin> set (user_files dir)" "hw_path dir \<noteq> statuskit_path dir" "hw_path dir \<noteq> id_cache_path dir"
    "hw_path dir \<noteq> users_path dir" "id_cache_path dir \<notin> set (user_files dir)" "id_cache_path dir \<noteq> statuskit_path dir"
    "id_cache_path dir \<noteq> users_path dir"
    by (simp_all add: user_files_def path_defs)
  moreover from this have "same_file (id_cache_path dir) d (try_remove (users_path dir) d1)"
    using g1 b1 assms(2) by (simp add: same_file_def files_try_remove)
  ultimately show "files d' (hw_path dir) = files d (hw_path dir) \<and>
           read_dict (ae_codec env) (id_cache_path dir) d' =
             map_option (dict_set ''cache'' (PDict [])) (read_dict (ae_codec env) (id_cache_path dir) d)"
    using s [of "hw_path dir"] g1 c \<open>d' = d2\<close> by (simp add: read_dict_def same_file_plist)
qed

end
