(* ===== verification/StartupSpec.thy ===== *)
theory StartupSpec
  imports Startup AccountsSpec
begin

text \<open>
  What a start finds: a registered device is restored with its configuration, identity and users; after a
  reset there is nothing to restore; and an account without CloudKit state makes every start panic.
\<close>

section \<open>Registering and starting again\<close>

lemma read_hw_path: "load_hardware env dir d =
   Option.bind (read_plist (ae_codec env) (hw_path dir) d)
     (parse_hardware (\<lambda>v. if push_ok env v then Some v else None) (\<lambda>v. if config_ok env v then Some v else None))"
  by (simp add: load_hardware_def read_hardware_def)

lemma saved_hardware_loads:
  assumes "plist_roundtrip (su_codec env)" and "save_hardware env dir push ident config d = (Inr (), d')"
    and "push_ok (su_account env) push" and "config_ok (su_account env) config"
  shows "load_hardware (su_account env) dir d' = Some \<lparr>sh_push = push, sh_identity = ident, sh_os_config = config\<rparr>"
  using read_written_plist [OF assms(1), of "hw_path dir" _ d "()" d'] assms(2-4)
  by (auto simp: save_hardware_def read_hw_path su_codec_def parse_hardware_def as_dict_def get_data_def dict_get_def
      as_data_def)

lemma saved_users_load:
  assumes "plist_roundtrip (su_codec env)" and "save_users env dir users d = (Inr (), d')" and "list_all (user_ok env) users"
  shows "restore_users env dir d' = Some users"
  using read_written_plist [OF assms(1), of "users_path dir" "PArray users" d "()" d'] assms(2,3)
  by (simp add: save_users_def restore_users_def)

lemma keeps_save_users: "p \<noteq> users_path dir \<Longrightarrow> preserves (same_file p d0) (save_users env dir users)"
  unfolding save_users_def by (rule keeps_write_plist_other)

lemma keeps_save_hardware: "p \<noteq> hw_path dir \<Longrightarrow> preserves (same_file p d0) (save_hardware env dir push ident config)"
  unfolding save_hardware_def by (rule keeps_write_plist_other)

lemma same_load_hardware: "same_file (hw_path dir) d0 d \<Longrightarrow> load_hardware env dir d = load_hardware env dir d0"
  by (simp add: read_hw_path same_file_plist)

lemma same_restore_users: "same_file (users_path dir) d0 d \<Longrightarrow> restore_users env dir d = restore_users env dir d0"
  by (simp add: restore_users_def same_file_plist)

lemma same_login_config: "same_file (anisette_state_path dir) d0 d \<Longrightarrow> get_login_config c dir d = get_login_config c dir d0"
  by (simp add: get_login_config_def same_file_plist)

lemma register_ids_InrD:
  assumes "register_ids env dir identity users d = (Inr (Some us, alert), d')"
  shows "save_users env dir us d = (Inr (), d')" and "alert = None"
  using assms by (auto simp: register_ids_def ok_def fail_def elim!: thn_InrE split: prod.splits sum.splits register_error.splits)

lemma same_mark_incident:
  "p \<noteq> join_path dir ''incident'' \<Longrightarrow> p \<noteq> join_path dir ''incident_affected'' \<Longrightarrow>
     same_file p d0 d \<Longrightarrow> same_file p d0 (mark_incident env dir d)"
  using preservesD [OF keeps_write_other [of p]] by (auto simp: mark_incident_def try_create_def)

lemma setup_push_cases:
  assumes "setup_push env dir config identity state d = (r, d')" and "p \<noteq> hw_path dir"
  shows "same_file p d d'"
proof -
  have "preserves (same_file p d) (setup_push env dir config identity state)"
    unfolding setup_push_def by (auto intro!: keeps keeps_save_hardware [OF assms(2)] split: prod.splits)
  then show ?thesis using assms(1) same_file_refl by (metis preservesD snd_conv)
qed

lemma same_file_trans: "same_file p a b \<Longrightarrow> same_file p b c \<Longrightarrow> same_file p a c"
  by (simp add: same_file_def)

text \<open>A start without a stored account, on files that are in order.\<close>

lemma restore_without_account:
  assumes "plist_roundtrip (su_codec env)" and "load_hardware (su_account env) dir d = Some hw"
    and "restore_users env dir d = Some us" and "identity_restore (su_account env) (sh_identity hw) = Some identity"
    and "identity_save env identity = Inr b"
    and "aps_connect env (sh_os_config hw) (Some (sh_push hw)) = (push, None)"
    and "blocked d (hw_path dir) = None" and "read_gsa (su_account env) dir d = None"
    and "get_login_config (su_codec env) dir d = Inr mac"
  shows "\<exists>st d'. restore_files env dir d = (Inr (Some st), d') \<and> sp_users st = us \<and>
           sp_os_config st = sh_os_config hw \<and> sp_identity st = identity \<and> sp_conn st = push \<and> sp_icloud st = None \<and>
           read_plist (su_codec env) (hw_path dir) d' =
             Some (PDict [(''push'', push), (''identity'', PData b), (''os_config'', sh_os_config hw)])"
proof -
  let ?v = "PDict [(''push'', push), (''identity'', PData b), (''os_config'', sh_os_config hw)]"
  let ?d = "d\<lparr>files := (files d)(hw_path dir := Some (pl_xml (su_codec env) ?v))\<rparr>"
  let ?e = "mark_incident env dir ?d"
  have sp: "setup_push env dir (sh_os_config hw) identity (Some (sh_push hw)) d = (Inr (push, None), ?d)"
    using assms(5-7)
    by (simp add: setup_push_def saved_identity_def lift_result_def asks_def bnd_def thn_def save_hardware_def
        write_plist_ok ok_def)
  have se: "same_file p ?d ?e" if "p \<noteq> join_path dir ''incident''" "p \<noteq> join_path dir ''incident_affected''" for p
    by (rule same_mark_incident) (use that in simp_all)
  have sd: "same_file p d ?d" if "p \<noteq> hw_path dir" for p
    using that by (simp add: same_file_def)
  have g: "read_gsa (su_account env) dir ?e = None"
    using same_gsa [OF same_file_trans [OF sd se]] assms(8) by (simp add: path_defs)
  have m: "get_login_config (su_codec env) dir ?e = Inr mac"
    using same_login_config [OF same_file_trans [OF sd se]] assms(9) by (simp add: path_defs)
  have "read_plist (su_codec env) (hw_path dir) ?d = Some ?v"
    using assms(1,7) by (simp add: read_plist_file)
  then have v: "read_plist (su_codec env) (hw_path dir) ?e = Some ?v"
    using same_file_plist [OF se [of "hw_path dir"]] by (simp add: path_defs)
  have "restore_account (su_account env) dir ?e = (Inr None, ?e)" using g by (simp add: restore_account_def)
  then show ?thesis
    using assms(2-4) sp m v
    by (simp add: restore_files_def restore_device_def bnd_pair thn_def modify_def asks_def ok_def)
qed

text \<open>C15: A device that connected once and was registered is found again: the next start restores its
  configuration, identity and registered users, without iCloud services as long as nobody signed in, and it
  saves the connection it made.\<close>

theorem registered_device_restored:
  assumes "plist_roundtrip (su_codec env)"
    and "identity_save env identity = Inr b" and "identity_restore (su_account env) b = Some identity"
    and "aps_connect env config None = (push, None)" and "aps_connect env config (Some push) = (push', None)"
    and "push_ok (su_account env) push" and "config_ok (su_account env) config"
    and "setup_push env dir config identity None d = (Inr (push, None), d1)"
    and "register_ids env dir identity users d1 = (Inr (Some us, alert), d2)" and "list_all (user_ok env) us"
    and "read_gsa (su_account env) dir d = None" and "get_login_config (su_codec env) dir d = Inr mac"
  shows "\<exists>st d3. restore_files env dir d2 = (Inr (Some st), d3) \<and> sp_users st = us \<and> sp_os_config st = config \<and>
           sp_identity st = identity \<and> sp_conn st = push' \<and> sp_icloud st = None \<and>
           read_plist (su_codec env) (hw_path dir) d3 =
             Some (PDict [(''push'', push'), (''identity'', PData b), (''os_config'', config)])"
proof -
  note r = register_ids_InrD [OF assms(9)]
  have sv: "saved_identity env identity = Inr b" using assms(2) by (simp add: saved_identity_def)
  then have hw: "save_hardware env dir push b config d = (Inr (), d1)"
    using assms(8,4) by (auto simp: setup_push_def lift_result_def asks_def ok_def elim!: bnd_InrE thn_InrE)
  have s12: "same_file p d1 d2" if "p \<noteq> users_path dir" for p
    using preservesD [OF keeps_save_users [OF that]] r(1) same_file_refl by (metis snd_conv)
  have s01: "same_file p d d1" if "p \<noteq> hw_path dir" for p
    using setup_push_cases [OF assms(8) that] .
  have l: "load_hardware (su_account env) dir d2 = Some \<lparr>sh_push = push, sh_identity = b, sh_os_config = config\<rparr>"
    using saved_hardware_loads [OF assms(1) hw assms(6,7)] same_load_hardware [OF s12] by (simp add: path_defs)
  have u: "restore_users env dir d2 = Some us" by (rule saved_users_load [OF assms(1) r(1) assms(10)])
  have bl: "blocked d2 (hw_path dir) = None"
    using hw s12 [of "hw_path dir"] by (auto simp: same_file_def save_hardware_def write_plist_def path_defs
        write_file_def attempt_def split: option.splits)
  have "same_file p d d2" if "p \<noteq> hw_path dir" "p \<noteq> users_path dir" for p
    using same_file_trans [OF s01 s12] that by blast
  then have "read_gsa (su_account env) dir d2 = None" and "get_login_config (su_codec env) dir d2 = Inr mac"
    using assms(11,12) same_gsa [of dir d d2] same_login_config [of dir d d2] by (simp_all add: path_defs)
  from restore_without_account [OF assms(1) l u _ assms(2) _ bl this] assms(3,5) show ?thesis by simp
qed

section \<open>The type of the hardware file\<close>

lemma save_hardware_cases:
  assumes "plist_roundtrip (su_codec env)" and "push_ok (su_account env) push" and "config_ok (su_account env) config"
    and "load_hardware (su_account env) dir d = Some \<lparr>sh_push = p, sh_identity = ident, sh_os_config = config\<rparr>"
  shows "\<exists>p'. load_hardware (su_account env) dir (snd (save_hardware env dir push ident config d)) =
           Some \<lparr>sh_push = p', sh_identity = ident, sh_os_config = config\<rparr>"
proof (cases "save_hardware env dir push ident config d")
  case (Pair r d')
  show ?thesis
  proof (cases r)
    case (Inl e)
    then have "d' = d" using Pair write_plist_failed by (auto simp: save_hardware_def)
    then show ?thesis using Pair assms(4) by simp
  next
    case (Inr u)
    then show ?thesis using Pair saved_hardware_loads [OF assms(1) _ assms(2,3)] by (cases u) auto
  qed
qed


section \<open>Resetting and starting again\<close>

lemma no_file_no_plist: "files d p = None \<Longrightarrow> read_plist c p d = None"
  by (auto simp: read_plist_def read_file_def split: option.splits)

lemma same_files_plist: "files d p = files d0 p \<Longrightarrow> blocked d = blocked d0 \<Longrightarrow> read_plist c p d = read_plist c p d0"
  by (rule same_file_plist) (simp add: same_file_def)


section \<open>An account without CloudKit state\<close>

lemma restore_icloud_panics:
  "make_cloudkit env dir d = None \<Longrightarrow> restore_icloud env dir a d = (Inl ''todo remove'', d)"
  by (simp add: restore_icloud_def bnd_def asks_def)

lemma keeps_open_account: "p \<noteq> gsa_path dir \<Longrightarrow> preserves (same_file p d0) (open_account acc dir g)"
  unfolding open_account_def by (auto intro!: keeps keeps_write_plist_other split: sum.split)

lemma keeps_restore_account:
  assumes "p \<noteq> gsa_path dir"
  shows "preserves (same_file p d0) (restore_account acc dir)"
  using preservesD [OF preserves_bnd [OF keeps_open_account [OF assms] preserves_ok]]
  by (auto intro!: preservesI simp: restore_account_def split: option.split)

lemma restore_account_some:
  "read_gsa acc dir d \<noteq> None \<Longrightarrow> restore_account acc dir d = (Inr x, d') \<Longrightarrow> x \<noteq> None"
  by (auto simp: restore_account_def ok_def elim!: bnd_InrE)

text \<open>With an account and no CloudKit state a start never succeeds.\<close>

lemma start_panics:
  assumes "load_hardware (su_account env) dir d \<noteq> None" and "restore_users env dir d \<noteq> None"
    and "\<forall>hw. load_hardware (su_account env) dir d = Some hw \<longrightarrow> identity_restore (su_account env) (sh_identity hw) \<noteq> None"
    and "read_gsa (su_account env) dir d \<noteq> None" and "make_cloudkit env dir d = None"
  shows "\<exists>e. fst (restore_files env dir d) = Inl e"
proof (rule ccontr)
  obtain hw us i where h: "load_hardware (su_account env) dir d = Some hw" "restore_users env dir d = Some us"
      "identity_restore (su_account env) (sh_identity hw) = Some i"
    using assms(1-3) by blast
  assume "\<not> (\<exists>e. fst (restore_files env dir d) = Inl e)"
  then obtain x d' where "restore_files env dir d = (Inr x, d')" by (metis old.sum.exhaust prod.collapse)
  then obtain st where "restore_device env dir hw us i d = (Inr st, d')"
    by (auto simp: restore_files_def h ok_def elim!: bnd_InrE)
  then obtain r d1 mac account d3 ic where
    sp: "setup_push env dir (sh_os_config hw) i (Some (sh_push hw)) d = (r, d1)"
    and a: "restore_account (su_account env) dir (mark_incident env dir d1) = (Inr account, d3)"
    and c: "(case account of None \<Rightarrow> ok None | Some a \<Rightarrow> bnd (restore_icloud env dir a) (\<lambda>i. ok (Some i))) d3 = (Inr ic, d')"
    by (auto simp: restore_device_def modify_def asks_def elim!: bnd_InrE thn_InrE split: prod.splits)
  have s: "same_file p d (mark_incident env dir d1)"
    if "p \<noteq> hw_path dir" "p \<noteq> join_path dir ''incident''" "p \<noteq> join_path dir ''incident_affected''" for p
    by (rule same_mark_incident) (use that setup_push_cases [OF sp] in simp_all)
  have "read_gsa (su_account env) dir (mark_incident env dir d1) \<noteq> None"
    using assms(4) same_gsa [OF s] by (simp add: path_defs)
  then obtain acc where "account = Some acc" using restore_account_some [OF _ a] by blast
  have "make_cloudkit env dir (mark_incident env dir d1) = None"
    using assms(5) same_file_plist [OF s [of "cloudkit_path dir"]]
    by (simp add: make_cloudkit_def load_valid_def path_defs)
  moreover have "same_file (cloudkit_path dir) (mark_incident env dir d1) d3"
    by (rule same_after [OF keeps_restore_account a]) (simp add: path_defs)
  ultimately have "make_cloudkit env dir d3 = None" by (simp add: make_cloudkit_def load_valid_def same_file_plist)
  with c \<open>account = Some acc\<close> show False by (simp add: bnd_pair restore_icloud_panics)
qed

lemma keeps_login_files:
  "p \<notin> {gsa_path dir, statuskit_path dir, findmy_path dir, shared_streams_path dir, cloudkit_path dir, keychain_path dir} \<Longrightarrow>
     preserves (same_file p d0) (login_files env dir finish account)"
  unfolding login_files_def
  by (auto intro!: keeps keeps_write_plist_other keeps_account_files split: prod.splits)

lemma keeps_no_cloudkit:
  assumes "\<And>dsid. cloudkit_new env dsid = None"
  shows "preserves (same_file (cloudkit_path dir) d0) (login_files env dir finish account)"
proof -
  have n: "preserves (same_file (cloudkit_path dir) d0) (store_new_plist (ae_codec env) q None)" for q
    by (simp add: preserves_def store_new_plist_def store_new_def)
  have "preserves (same_file (cloudkit_path dir) d0) (write_account_files env dir dsid adsid delegates)" for dsid adsid delegates
    unfolding write_account_files_def assms
    by (intro preserves_thn preserves_bnd keeps_drop_statuskit keeps_unwrap keeps_findmy_file n keeps_store_new_plist)
      (simp_all add: path_defs)
  then show ?thesis
    unfolding login_files_def
    by (auto intro!: keeps keeps_write_plist_other simp: path_defs split: prod.splits)
qed


section \<open>The incident marker\<close>

text \<open>whether a key cache was there at the first start is decided once: a second start changes
  nothing, whatever became of the cache in between.\<close>

theorem incident_decided_once:
  assumes "\<forall>p. blocked d p = None"
  shows "file_exists (join_path dir ''incident'') (mark_incident env dir d) \<and>
         mark_incident env dir ((mark_incident env dir d)\<lparr>files := (files (mark_incident env dir d))(id_cache_path dir := c)\<rparr>) =
           (mark_incident env dir d)\<lparr>files := (files (mark_incident env dir d))(id_cache_path dir := c)\<rparr>"
proof -
  have "file_exists (join_path dir ''incident'') (mark_incident env dir d)"
    using assms by (auto simp: mark_incident_def try_create_def write_file_def attempt_def file_exists_def)
  then show ?thesis by (simp add: mark_incident_def file_exists_def id_cache_path_def)
qed

section \<open>Examples\<close>

definition sample_account :: account_env where
  "sample_account = \<lparr>ae_codec = unary_codec, aes_ensure = (\<lambda>k _ _. Inr k), aes_encrypt = (\<lambda>_ _ b. Inr (rev b)),
     aes_decrypt = (\<lambda>_ _ b. Inr (rev b)), sha256_bytes = (\<lambda>_. [1, 2]),
     new_account = (\<lambda>_. Inr \<lparr>aa_username = None, aa_hashed_password = None, aa_spd = None, aa_pet = None\<rparr>),
     update_postdata = (\<lambda>a. (Inr (), a)), login_email_pass = (\<lambda>_ _ a. (Inr LoggedIn, a)),
     accept_terms = (\<lambda>_ _. Inl ''no terms''),
     login_delegates = (\<lambda>_. Inr \<lparr>ld_mobileme = Some (PBool True), ld_ids = Some (PBool True)\<rparr>),
     statuskit_restore = Some, statuskit_default = PDict [], statuskit_without_key = id,
     findmy_new = (\<lambda>_. Inr ''findmy''), shared_streams_new = (\<lambda>_ _. None), cloudkit_new = (\<lambda>_. None),
     keychain_new = (\<lambda>_ _ _. None), authenticate_apple = (\<lambda>_. Inr (PString ''user'')), push_ok = (\<lambda>_. True),
     config_ok = (\<lambda>_. True), identity_restore = (\<lambda>b. Some (PData b))\<rparr>"

definition sample_start :: startup_env where
  "sample_start = \<lparr>su_account = sample_account, su_migrate = sample_migration, push_default = PString [],
     aps_connect = (\<lambda>_ _. (PString ''push'', None)),
     identity_save = (\<lambda>v. case as_data v of None \<Rightarrow> Inl ''identity'' | Some b \<Rightarrow> Inr b), user_ok = (\<lambda>_. True),
     register_users = (\<lambda>_ us. (Inr (), us)), key_cache_ok = (\<lambda>_. True), cloudkit_ok = (\<lambda>_. True),
     keychain_ok = (\<lambda>_. True), streams_ok = (\<lambda>_. True), passwords_restore = Some, passwords_default = PDict [],
     facetime_restore = Some, facetime_default = PDict [], findmy_restore = Some, findmy_client = (\<lambda>_. Inr ())\<rparr>"

definition sample_login :: AppleAccount where
  "sample_login = \<lparr>aa_username = Some ''a@b.c'', aa_hashed_password = Some [3, 4],
     aa_spd = Some [(''acname'', PString ''a''), (''DsPrsId'', PInt 7), (''adsid'', PString ''x'')], aa_pet = Some ''pet''\<rparr>"

definition sample_hw_file :: plist where
  "sample_hw_file = PDict [(''push'', PString ''push''), (''identity'', PData [9]), (''os_config'', PString ''mac'')]"

definition sample_disk :: disk where
  "sample_disk = one_file (hw_path ''d'') sample_hw_file"

definition bare_disk :: disk where
  "bare_disk = \<lparr>files = (\<lambda>_. None), blocked = (\<lambda>_. None)\<rparr>"

lemma bare_disk_simps [simp]: "files bare_disk p = None" "blocked bare_disk p = None"
  by (simp_all add: bare_disk_def)

lemma sample_codec [simp]: "ae_codec sample_account = unary_codec" "su_codec sample_start = unary_codec"
  "su_account sample_start = sample_account"
  by (simp_all add: sample_account_def sample_start_def su_codec_def)

lemma sample_facts [simp]: "push_ok sample_account v" "config_ok sample_account v" "user_ok sample_start v"
  "identity_restore sample_account b = Some (PData b)" "aps_connect sample_start c st = (PString ''push'', None)"
  "identity_save sample_start (PData b) = Inr b" "register_users sample_start i us = (Inr (), us)"
  by (simp_all add: sample_account_def sample_start_def as_data_def)

lemma sample_loads: "load_hardware sample_account ''d'' sample_disk =
    Some \<lparr>sh_push = PString ''push'', sh_identity = [9], sh_os_config = PString ''mac''\<rparr>"
  by (simp add: read_hw_path sample_disk_def sample_hw_file_def parse_hardware_def as_dict_def dict_get_def
      get_data_def as_data_def)

text \<open>On a disk without blocked paths the file operations succeed.\<close>

definition succeeds :: "'a files_op \<Rightarrow> bool" where
  "succeeds m \<longleftrightarrow> (\<forall>d. (\<forall>p. blocked d p = None) \<longrightarrow> (\<exists>x d'. m d = (Inr x, d') \<and> (\<forall>p. blocked d' p = None)))"

lemma succeeds_ok [intro]: "succeeds (ok x)"
  by (simp add: succeeds_def ok_def)

lemma succeeds_bnd [intro]: "succeeds m \<Longrightarrow> (\<And>x. succeeds (f x)) \<Longrightarrow> succeeds (bnd m f)"
  by (fastforce simp: succeeds_def bnd_pair)

lemma succeeds_thn [intro]: "succeeds m \<Longrightarrow> succeeds k \<Longrightarrow> succeeds (thn m k)"
  unfolding thn_def by (rule succeeds_bnd)

lemma succeeds_write_file [intro]: "succeeds (write_file p c)"
  by (simp add: succeeds_def write_file_def attempt_def)

lemma succeeds_write_plist [intro]: "succeeds (write_plist c p v)"
  unfolding write_plist_def by (rule succeeds_write_file)

lemma succeeds_drop_statuskit [intro]: "succeeds (drop_statuskit_key env dir)"
  using succeeds_write_plist by (auto simp: succeeds_def drop_statuskit_key_def Let_def)

lemma succeeds_store_new [intro]: "succeeds (store_new_plist c p v)"
  using succeeds_write_file by (auto simp: succeeds_def store_new_plist_def store_new_def split: option.split)

lemma lift_Inr [simp]: "lift_result (Inr x) = ok x"
  by (simp add: lift_result_def asks_def ok_def fun_eq_iff)

lemma unwrap_Some [simp]: "unwrap (Some x) = ok x"
  by (simp add: unwrap_def)

lemma succeeds_unless_exists [intro]:
  "succeeds m \<Longrightarrow> succeeds (\<lambda>d. if file_exists p d then (Inr (), d) else m d)"
  by (simp add: succeeds_def)

lemma sample_inputs: "login_inputs sample_account None sample_login =
    ok (show_int 7, ''x'', \<lparr>ld_mobileme = Some (PBool True), ld_ids = Some (PBool True)\<rparr>,
      \<lparr>gsa_username = ''a@b.c'', gsa_encrypted_password = [4, 3], gsa_postdata_done = Some True\<rparr>)"
  by (simp add: login_inputs_def sample_login_def spd_entry_def dict_get_def as_string_def as_unsigned_def
      gsa_encrypt_password_def thn_def) (simp add: sample_account_def)

lemma sample_login_runs:
  "\<exists>user d'. do_login sample_account ''d'' None (sample_disk, sample_login) = (Inr user, (d', sample_login)) \<and>
     (\<forall>p. blocked d' p = None)"
proof -
  have a: "authenticate_apple sample_account v = Inr (PString ''user'')" "findmy_new sample_account x = Inr ''findmy''"
    "update_postdata sample_account b = (Inr (), b)" for v x b
    by (simp_all add: sample_account_def)
  have "succeeds (login_files sample_account ''d'' None sample_login)"
    by (simp add: login_files_def sample_inputs write_account_files_def a)
      (intro succeeds_thn succeeds_bnd succeeds_write_plist succeeds_drop_statuskit succeeds_unless_exists
        succeeds_store_new succeeds_write_file succeeds_ok, simp add: a succeeds_ok)
  then have "\<exists>user d'. login_files sample_account ''d'' None sample_login sample_disk = (Inr user, d') \<and> (\<forall>p. blocked d' p = None)"
    by (simp add: succeeds_def sample_disk_def)
  then show ?thesis by (auto simp: do_login_def a)
qed



theorem no_extra_step_with_pet_witness:
  "\<exists>user s. finish_verification sample_account ''d'' (LsNeedsExtraStep ''x'') (sample_disk, sample_login) = (Inr (LoggedIn, Some user), s)"
proof -
  obtain user d1 where l: "do_login sample_account ''d'' None (sample_disk, sample_login) = (Inr user, (d1, sample_login))"
    using sample_login_runs by blast
  have "aa_pet sample_login = Some ''pet''" by (simp add: sample_login_def)
  then obtain st u s where r: "finish_verification sample_account ''d'' (LsNeedsExtraStep ''x'') (sample_disk, sample_login) = (Inr (st, u), s)"
    using l by (simp add: finish_verification_def do_login_unless_no_pet_def bnd_pair ok_def)
  from no_extra_step_with_pet [OF r] r show ?thesis using \<open>aa_pet sample_login = Some ''pet''\<close> by auto
qed


theorem registered_device_restored_witness:
  "\<exists>d1 d2 st d3. setup_push sample_start ''d'' (PString ''mac'') (PData [9]) None bare_disk = (Inr (PString ''push'', None), d1) \<and>
     register_ids sample_start ''d'' (PData [9]) [PString ''u''] d1 = (Inr (Some [PString ''u''], None), d2) \<and>
     restore_files sample_start ''d'' d2 = (Inr (Some st), d3) \<and> sp_users st = [PString ''u'']"
proof -
  obtain d1 where d1: "setup_push sample_start ''d'' (PString ''mac'') (PData [9]) None bare_disk = (Inr (PString ''push'', None), d1)"
    and b: "\<forall>p. blocked d1 p = None"
    by (simp add: setup_push_def saved_identity_def save_hardware_def thn_def bnd_pair write_plist_ok ok_def)
  obtain d2 where d2: "register_ids sample_start ''d'' (PData [9]) [PString ''u''] d1 = (Inr (Some [PString ''u''], None), d2)"
    using b by (simp add: register_ids_def save_users_def thn_def bnd_pair write_plist_ok ok_def)
  have "\<exists>st d3. restore_files sample_start ''d'' d2 = (Inr (Some st), d3) \<and> sp_users st = [PString ''u''] \<and>
      sp_os_config st = PString ''mac'' \<and> sp_identity st = PData [9] \<and> sp_conn st = PString ''push'' \<and> sp_icloud st = None \<and>
      read_plist (su_codec sample_start) (hw_path ''d'') d3 =
        Some (PDict [(''push'', PString ''push''), (''identity'', PData [9]), (''os_config'', PString ''mac'')])"
    by (rule registered_device_restored [of sample_start "PData [9]" "[9]" _ _ _ "''d''" bare_disk d1 "[PString ''u'']" _ None d2 False])
      (use d1 d2 in \<open>simp_all add: read_gsa_def no_file_no_plist get_login_config_def\<close>)
  then show ?thesis using d1 d2 by blast
qed

theorem incident_decided_once_witness:
  "file_exists (join_path ''d'' ''incident'') (mark_incident sample_start ''d'' bare_disk)"
  using incident_decided_once [of bare_disk "''d''" sample_start] by simp


end
