(* ===== verification/DeviceInfo.thy ===== *)
theory DeviceInfo
  imports OsConfigSpec "HOL-Library.Countable"
begin

text \<open>
  The device configurations of \<open>rust/src/api/api.rs\<close>: made from validation data, from a relay or from the
  encoded form a QR code carries, shown to the user, and checked against the relay. They are the same
  configurations \<open>OsConfig\<close> makes for the Qt client, and the decoders are shown to agree.
\<close>

section \<open>Hexadecimal text\<close>

definition hex_digit_lower :: "nat \<Rightarrow> char" where
  "hex_digit_lower n = char_of (if n < 10 then 48 + n else 87 + n)"

text \<open>The loop appends \<open>{:02x}\<close> of each byte.\<close>

primrec encode_hex_from :: "string \<Rightarrow> 8 word list \<Rightarrow> string" where
  "encode_hex_from s [] = s"
| "encode_hex_from s (b # bs) =
     encode_hex_from (s @ [hex_digit_lower (unat b div 16), hex_digit_lower (unat b mod 16)]) bs"

definition encode_hex :: "8 word list \<Rightarrow> string" where
  "encode_hex bytes = encode_hex_from [] bytes"

definition random_udid :: "8 word list \<Rightarrow> string" where
  "random_udid rnd = to_ascii_uppercase (encode_hex rnd)"

section \<open>Making a configuration\<close>

record HwExtra =
  he_version :: string
  he_protocol_version :: "32 word"
  he_device_id :: string
  he_icloud_ua :: string
  he_aoskit_version :: string

text \<open>The parser of validation data is rustpush's.\<close>

definition config_from_validation_data ::
    "(8 word list \<Rightarrow> string + HardwareConfig) \<Rightarrow> 8 word list \<Rightarrow> 8 word list \<Rightarrow> HwExtra \<Rightarrow> string + os_config" where
  "config_from_validation_data from_validation rnd data extra =
     (case from_validation data of
        Inl e \<Rightarrow> Inl e
      | Inr inner \<Rightarrow> Inr (MacOS \<lparr>mc_inner = inner, mc_version = he_version extra,
          mc_protocol_version = he_protocol_version extra, mc_device_id = he_device_id extra,
          mc_icloud_ua = he_icloud_ua extra, mc_aoskit_version = he_aoskit_version extra,
          mc_udid = Some (random_udid rnd)\<rparr>))"

definition config_from_relay ::
    "device_env \<Rightarrow> 8 word list \<Rightarrow> string \<Rightarrow> string \<Rightarrow> string \<Rightarrow> string option \<Rightarrow> string + os_config" where
  "config_from_relay env rnd uuid code host token =
     (case get_versions env host code token of
        Inl e \<Rightarrow> Inl e
      | Inr versions \<Rightarrow> Inr (RelayOS \<lparr>rc_version = versions,
          rc_icloud_ua = ''com.apple.iCloudHelper/282 CFNetwork/1408.0.4 Darwin/22.5.0'',
          rc_aoskit_version = ''com.apple.AOSKit/282 (com.apple.accountsd/113)'', rc_dev_uuid = uuid,
          rc_protocol_version = 1660, rc_host = host, rc_code = code, rc_beeper_token = token,
          rc_udid = Some (random_udid rnd)\<rparr>))"

text \<open>A failed decode is an error; a missing section or a MAC address of another length a panic.\<close>

definition config_from_encoded :: "device_env \<Rightarrow> 8 word list \<Rightarrow> 8 word list \<Rightarrow> string + os_config" where
  "config_from_encoded env rnd encoded =
     (case hw_decode env encoded of
        Inl e \<Rightarrow> Inl e
      | Inr copied \<Rightarrow> (case hw_inner copied of
          None \<Rightarrow> Inl ''called `Option::unwrap()` on a `None` value''
        | Some inner \<Rightarrow>
            if length (ih_io_mac_address inner) \<noteq> 6 then Inl ''called `Result::unwrap()` on an `Err` value''
            else Inr (MacOS \<lparr>mc_inner = \<lparr>hc_product_name = ih_product_name inner,
                hc_io_mac_address = ih_io_mac_address inner,
                hc_platform_serial_number = ih_platform_serial_number inner,
                hc_platform_uuid = ih_platform_uuid inner, hc_root_disk_uuid = ih_root_disk_uuid inner,
                hc_board_id = ih_board_id inner, hc_os_build_num = ih_os_build_num inner,
                hc_platform_serial_number_enc = ih_platform_serial_number_enc inner,
                hc_platform_uuid_enc = ih_platform_uuid_enc inner,
                hc_root_disk_uuid_enc = ih_root_disk_uuid_enc inner, hc_rom = ih_rom inner,
                hc_rom_enc = ih_rom_enc inner, hc_mlb = ih_mlb inner, hc_mlb_enc = ih_mlb_enc inner\<rparr>,
              mc_version = hw_version copied, mc_protocol_version = word_of_int (hw_protocol_version copied),
              mc_device_id = hw_device_id copied, mc_icloud_ua = hw_icloud_ua copied,
              mc_aoskit_version = hw_aoskit_version copied, mc_udid = Some (random_udid rnd)\<rparr>)))"

section \<open>Showing a configuration\<close>

record DebugMeta =
  dm_hardware_version :: string
  dm_serial_number :: string
  dm_user_version :: string

record DeviceInfo =
  di_name :: string
  di_serial :: string
  di_os_version :: string
  di_encoded_data :: "8 word list option"

definition hw_message :: "MacOSConfig \<Rightarrow> HwInfo" where
  "hw_message copied = \<lparr>hw_inner = Some \<lparr>ih_product_name = hc_product_name (mc_inner copied),
       ih_io_mac_address = hc_io_mac_address (mc_inner copied),
       ih_platform_serial_number = hc_platform_serial_number (mc_inner copied),
       ih_platform_uuid = hc_platform_uuid (mc_inner copied),
       ih_root_disk_uuid = hc_root_disk_uuid (mc_inner copied), ih_board_id = hc_board_id (mc_inner copied),
       ih_os_build_num = hc_os_build_num (mc_inner copied),
       ih_platform_serial_number_enc = hc_platform_serial_number_enc (mc_inner copied),
       ih_platform_uuid_enc = hc_platform_uuid_enc (mc_inner copied),
       ih_root_disk_uuid_enc = hc_root_disk_uuid_enc (mc_inner copied), ih_rom = hc_rom (mc_inner copied),
       ih_rom_enc = hc_rom_enc (mc_inner copied), ih_mlb = hc_mlb (mc_inner copied),
       ih_mlb_enc = hc_mlb_enc (mc_inner copied)\<rparr>,
     hw_version = mc_version copied, hw_protocol_version = sint (mc_protocol_version copied),
     hw_device_id = mc_device_id copied, hw_icloud_ua = mc_icloud_ua copied,
     hw_aoskit_version = mc_aoskit_version copied\<rparr>"

definition get_device_info ::
    "(os_config \<Rightarrow> DebugMeta) \<Rightarrow> (HwInfo \<Rightarrow> 8 word list) \<Rightarrow> os_config \<Rightarrow> DeviceInfo" where
  "get_device_info debug_meta hw_encode config =
     (let debug_info = debug_meta config
      in \<lparr>di_name = dm_hardware_version debug_info, di_serial = dm_serial_number debug_info,
          di_os_version = dm_user_version debug_info,
          di_encoded_data = (case config of MacOS c \<Rightarrow> Some (hw_encode (hw_message c)) | RelayOS _ \<Rightarrow> None)\<rparr>)"

section \<open>Checking a relay\<close>

datatype validation_error = RelayError nat string | OtherPushError string

definition text_contains :: "string \<Rightarrow> string \<Rightarrow> bool" where
  "text_contains p s \<longleftrightarrow> list_ex (starts_with p) (suffixes s)"

definition relay_code :: "os_config \<Rightarrow> string option" where
  "relay_code config = (case config of MacOS _ \<Rightarrow> None | RelayOS relay \<Rightarrow> Some (rc_code relay))"

definition validate_relay :: "os_config \<Rightarrow> (validation_error + 8 word list) \<Rightarrow> string option" where
  "validate_relay config generated =
     (case generated of
        Inl (RelayError _ message) \<Rightarrow>
          if \<not> text_contains ''Subscription not active!'' message \<and> \<not> text_contains ''Ticket not activated!'' message \<and>
             \<not> text_contains ''Sorry, your hosted device is currently offline!'' message
          then None else relay_code config
      | _ \<Rightarrow> relay_code config)"

section \<open>The same configurations as the Qt client's\<close>

lemma encode_hex_from_append: "encode_hex_from s bs = s @ encode_hex_from [] bs"
proof (induction bs arbitrary: s)
  case (Cons b bs)
  let ?h = "[hex_digit_lower (unat b div 16), hex_digit_lower (unat b mod 16)]"
  show ?case using Cons [of "s @ ?h"] Cons [of ?h] by simp
qed simp

lemma upper_hex_digit: "n < 16 \<Longrightarrow> ascii_upper_char (hex_digit_lower n) = hex_digit n"
  by (auto simp: ascii_upper_char_def hex_digit_lower_def hex_digit_def byte_def)

lemma random_udid_eq: "random_udid bs = generate_udid bs"
proof (induction bs)
  case (Cons b bs)
  have "random_udid (b # bs) = map ascii_upper_char
      [hex_digit_lower (unat b div 16), hex_digit_lower (unat b mod 16)] @ random_udid bs"
    unfolding random_udid_def encode_hex_def to_ascii_uppercase_def
    by (simp add: encode_hex_from_append [of "[_, _]"])
  then show ?case
    using unat_nibbles [of b] by (simp add: Cons generate_udid_concat hex_byte_def upper_hex_digit)
qed (simp add: random_udid_def encode_hex_def to_ascii_uppercase_def generate_udid_concat)

text \<open>The two decoders of a hardware payload agree: the one of the mobile bindings returns a
  configuration exactly when the one of the Qt client does, and it is the same one, with the same identifier
  from the same random bytes; the one of the bindings panics where the other reports an error.\<close>

theorem decoders_agree:
  "config_from_encoded env rnd payload = Inr cfg \<longleftrightarrow>
     (\<exists>c. cfg = MacOS c \<and> parse_payload env rnd payload = Inr c)"
  by (auto simp: config_from_encoded_def parse_payload_def random_udid_eq hardware_config_def
      split: sum.splits option.splits if_splits)

text \<open>C20: What the device page encodes decodes to the same Mac: everything of the configuration but its
  identifier comes back, the protocol version through its signed 32-bit form.\<close>

theorem device_code_roundtrip:
  assumes "\<And>m. - (2 ^ 31) \<le> hw_protocol_version m \<Longrightarrow> hw_protocol_version m < 2 ^ 31 \<Longrightarrow>
             hw_decode env (hw_encode m) = Inr m"
    and "length (hc_io_mac_address (mc_inner c)) = 6"
    and "di_encoded_data (get_device_info debug_meta hw_encode (MacOS c)) = Some code"
  shows "config_from_encoded env rnd code = Inr (MacOS (c\<lparr>mc_udid := Some (generate_udid rnd)\<rparr>))"
proof -
  have code: "code = hw_encode (hw_message c)" using assms(3) by (simp add: get_device_info_def Let_def)
  have "- (2 ^ 31) \<le> sint (mc_protocol_version c) \<and> sint (mc_protocol_version c) < 2 ^ 31"
    using sint_ge [of "mc_protocol_version c"] sint_lt [of "mc_protocol_version c"] by simp
  then have "hw_decode env code = Inr (hw_message c)"
    unfolding code by (intro assms(1)) (simp_all add: hw_message_def)
  then show ?thesis using assms(2)
    by (simp add: config_from_encoded_def hw_message_def random_udid_eq)
qed

text \<open>a configuration from a relay is the one pairing with the same code and relay stores, whenever
  the code is not a local one.\<close>

theorem relay_configurations_agree:
  assumes "parse_local_code env rnd code = Inr None"
  shows "config_from_relay env rnd uuid code host token = Inr cfg \<longleftrightarrow>
         (\<exists>r. cfg = RelayOS r \<and> pair env rnd uuid host code token = Inr (Relay r))"
  using assms
  by (auto simp: config_from_relay_def pair_def relay_config_def random_udid_eq split: sum.splits)

section \<open>Examples\<close>

text \<open>A message codec that round-trips: the number of the message in unary.\<close>

definition inner_tuple :: "InnerHwInfo \<Rightarrow> _" where
  "inner_tuple i = ((ih_product_name i, ih_io_mac_address i, ih_platform_serial_number i, ih_platform_uuid i,
     ih_root_disk_uuid i, ih_board_id i, ih_os_build_num i), (ih_platform_serial_number_enc i, ih_platform_uuid_enc i,
     ih_root_disk_uuid_enc i, ih_rom i, ih_rom_enc i, ih_mlb i, ih_mlb_enc i))"

definition tuple_inner :: "_ \<Rightarrow> InnerHwInfo" where
  "tuple_inner t = (case t of ((a, b, c, d, e, f, g), (h, i, j, k, l, m, n)) \<Rightarrow>
     \<lparr>ih_product_name = a, ih_io_mac_address = b, ih_platform_serial_number = c, ih_platform_uuid = d,
      ih_root_disk_uuid = e, ih_board_id = f, ih_os_build_num = g, ih_platform_serial_number_enc = h,
      ih_platform_uuid_enc = i, ih_root_disk_uuid_enc = j, ih_rom = k, ih_rom_enc = l, ih_mlb = m, ih_mlb_enc = n\<rparr>)"

definition unary_encode :: "HwInfo \<Rightarrow> 8 word list" where
  "unary_encode h = replicate (to_nat (map_option inner_tuple (hw_inner h), hw_version h, hw_protocol_version h,
     hw_device_id h, hw_icloud_ua h, hw_aoskit_version h)) 1"

definition unary_decode :: "8 word list \<Rightarrow> HwInfo" where
  "unary_decode bs = (case from_nat (length bs) of (i, v, p, d, u, a) \<Rightarrow>
     \<lparr>hw_inner = map_option tuple_inner i, hw_version = v, hw_protocol_version = p, hw_device_id = d,
      hw_icloud_ua = u, hw_aoskit_version = a\<rparr>)"

lemma tuple_inner_tuple: "tuple_inner (inner_tuple i) = i"
  by (cases i) (simp add: inner_tuple_def tuple_inner_def)

lemma unary_roundtrip: "unary_decode (unary_encode m) = m"
  by (cases m) (simp add: unary_decode_def unary_encode_def option.map_comp comp_def tuple_inner_tuple option.map_ident)

definition unary_env :: device_env where
  "unary_env = \<lparr>b64_decode = (\<lambda>_. None), hw_decode = (\<lambda>b. Inr (unary_decode b)), get_versions = (\<lambda>_ _ _. Inr ''v'')\<rparr>"

definition sample_mac :: MacOSConfig where
  "sample_mac = \<lparr>mc_inner = \<lparr>hc_product_name = ''iMac18,1'', hc_io_mac_address = [1, 2, 3, 4, 5, 6],
     hc_platform_serial_number = ''S'', hc_platform_uuid = ''U'', hc_root_disk_uuid = ''R'', hc_board_id = ''B'',
     hc_os_build_num = ''22G'', hc_platform_serial_number_enc = [1], hc_platform_uuid_enc = [2],
     hc_root_disk_uuid_enc = [3], hc_rom = [4], hc_rom_enc = [5], hc_mlb = ''M'', hc_mlb_enc = [6]\<rparr>,
     mc_version = ''13.5'', mc_protocol_version = - 1, mc_device_id = ''D'', mc_icloud_ua = ''I'',
     mc_aoskit_version = ''A'', mc_udid = None\<rparr>"

theorem device_code_roundtrip_witness:
  "config_from_encoded unary_env [255] (unary_encode (hw_message sample_mac)) = Inr (MacOS (sample_mac\<lparr>mc_udid := Some ''FF''\<rparr>))"
proof -
  have "config_from_encoded unary_env [255] (unary_encode (hw_message sample_mac)) =
      Inr (MacOS (sample_mac\<lparr>mc_udid := Some (generate_udid [255])\<rparr>))"
    by (rule device_code_roundtrip [of unary_env unary_encode sample_mac "\<lambda>_. undefined"])
      (simp_all add: unary_env_def unary_roundtrip sample_mac_def get_device_info_def Let_def)
  moreover have "generate_udid [255] = ''FF''" by code_simp
  ultimately show ?thesis by simp
qed

theorem relay_configurations_agree_witness:
  "\<exists>cfg. config_from_relay unary_env [255] ''U'' ''code'' ''host'' None = Inr (RelayOS cfg) \<and>
     pair unary_env [255] ''U'' ''host'' ''code'' None = Inr (Relay cfg)"
proof -
  have p: "parse_local_code unary_env [255] ''code'' = Inr None"
    by (simp add: parse_local_code_def base64_decode_def unary_env_def)
  obtain cfg where c: "config_from_relay unary_env [255] ''U'' ''code'' ''host'' None = Inr (RelayOS cfg)"
    by (simp add: config_from_relay_def unary_env_def)
  with relay_configurations_agree [OF p] show ?thesis by auto
qed

end
