(* ===== verification/Dates.thy ===== *)
theory Dates
  imports Prelude
begin

text \<open>
  The conversions of \<open>rust/src/api/api.rs\<close> between times and the 64-bit milliseconds of the app. A \<open>SystemTime\<close>
  is a number of nanoseconds before or after the epoch, with its seconds a signed 64-bit number, as on the
  Unix systems the bindings are made for. \<open>Date\<close> is a type of the plist crate: its conversions from and to a time are
  parameters.
\<close>

type_synonym SystemTime = int

definition nanos :: int where
  "nanos = 10 ^ 9"

definition time_ok :: "SystemTime \<Rightarrow> bool" where
  "time_ok t \<longleftrightarrow> - (2 ^ 63) * nanos \<le> t \<and> t < 2 ^ 63 * nanos"

text \<open>\<open>duration_since(UNIX_EPOCH).unwrap()\<close>, and \<open>as_millis() as u64\<close>, which wraps.\<close>

definition since_epoch :: "SystemTime \<Rightarrow> string + int" where
  "since_epoch t = (if t < 0 then Inl ''called `Result::unwrap()` on an `Err` value'' else Inr t)"

definition millis_u64 :: "int \<Rightarrow> 64 word" where
  "millis_u64 dur = word_of_int (dur div 10 ^ 6)"

definition systemtime_to_millis :: "SystemTime \<Rightarrow> string + 64 word" where
  "systemtime_to_millis time = map_sum id millis_u64 (since_epoch time)"

definition date_to_ms :: "('d \<Rightarrow> SystemTime) \<Rightarrow> 'd \<Rightarrow> string + 64 word" where
  "date_to_ms time_of date = map_sum id millis_u64 (since_epoch (time_of date))"

text \<open>\<open>SystemTime + Duration\<close> panics where the seconds leave their range.\<close>

definition add_duration :: "SystemTime \<Rightarrow> int \<Rightarrow> string + SystemTime" where
  "add_duration t dur =
     (if time_ok (t + dur) then Inr (t + dur) else Inl ''overflow when adding duration to instant'')"

definition ms_to_date :: "(SystemTime \<Rightarrow> 'd) \<Rightarrow> 64 word \<Rightarrow> string + 'd" where
  "ms_to_date date_of ms = map_sum id date_of (add_duration 0 (uint ms * 10 ^ 6))"

section \<open>Both directions\<close>

lemma ms_in_range: "time_ok (uint (ms :: 64 word) * 10 ^ 6)"
proof -
  have "uint ms < 2 ^ 64" using uint_bounded [of ms] by simp
  moreover have "0 \<le> uint ms" by simp
  ultimately show ?thesis unfolding time_ok_def nanos_def by (simp; linarith)
qed

lemma ms_to_date_Inr: "ms_to_date date_of ms = Inr (date_of (uint ms * 10 ^ 6))"
  using ms_in_range [of ms] by (simp add: ms_to_date_def add_duration_def)

lemma millis_exact: "0 \<le> t \<Longrightarrow> t < 2 ^ 64 * 10 ^ 6 \<Longrightarrow> uint (millis_u64 t) = t div 10 ^ 6"
  by (simp add: millis_u64_def uint_word_of_int take_bit_int_eq_self)

lemma rounded_down: "t div 10 ^ 6 * 10 ^ 6 \<le> t \<and> t < t div 10 ^ 6 * 10 ^ 6 + 10 ^ 6" for t :: int
  by simp linarith

text \<open>Milliseconds and dates convert into each other: every 64-bit number of milliseconds gives a date, which
  gives back the same number; a date from the epoch on, as far as 64 bits of milliseconds reach, comes back
  rounded down to its millisecond; and a date before the epoch makes the conversion panic.\<close>

theorem dates_roundtrip:
  assumes "\<And>t. time_of (date_of t) = t"
  shows "(\<exists>d. ms_to_date date_of ms = Inr d \<and> date_to_ms time_of d = Inr ms) \<and>
    (if time_of d < 0 then \<exists>e. date_to_ms time_of d = Inl e
     else \<exists>ms' d'. date_to_ms time_of d = Inr ms' \<and> ms_to_date date_of ms' = Inr d' \<and>
       (time_of d < 2 ^ 64 * 10 ^ 6 \<longrightarrow> time_of d' \<le> time_of d \<and> time_of d < time_of d' + 10 ^ 6))"
proof -
  have "millis_u64 (uint ms * 10 ^ 6) = ms" by (simp add: millis_u64_def)
  moreover have "uint (millis_u64 (time_of d)) * 10 ^ 6 \<le> time_of d \<and>
      time_of d < uint (millis_u64 (time_of d)) * 10 ^ 6 + 10 ^ 6"
    if "0 \<le> time_of d" "time_of d < 2 ^ 64 * 10 ^ 6"
    unfolding millis_exact [OF that] by (rule rounded_down)
  ultimately show ?thesis
    using assms by (simp add: ms_to_date_Inr date_to_ms_def since_epoch_def)
qed

theorem dates_roundtrip_witness:
  "\<exists>ms' d'. date_to_ms id 1700000000123456789 = Inr ms' \<and> ms_to_date id ms' = Inr d' \<and>
     d' \<le> 1700000000123456789 \<and> 1700000000123456789 < d' + 10 ^ 6"
  using dates_roundtrip [of id id 0 1700000000123456789] by simp

end
