(* ===== verification/Cloud.thy ===== *)
theory Cloud
  imports DeviceInfo Circle Plist Dates
begin

text \<open>
  The iCloud operations of \<open>rust/src/api/api.rs\<close> and \<open>rust/src/native.rs\<close> that do something of their own with
  what the rustpush clients answer: uploads to iCloud Messages, password groups, items of Find My, escrow
  bottles, the quota, albums, request headers and saved passwords. The answers are arguments. A \<open>HashMap\<close>
  that is iterated is the list of its entries in the order met; one that is built is a map.
\<close>

section \<open>Uploads\<close>

record Asset =
  as_signature :: "string option"
  as_receipt :: string

text \<open>\<open>iter().position(..)\<close>.\<close>

fun position :: "('a \<Rightarrow> bool) \<Rightarrow> 'a list \<Rightarrow> nat option" where
  "position p [] = None"
| "position p (x # xs) = (if p x then Some 0 else map_option Suc (position p xs))"

text \<open>Every file is opened and its signature computed before anything is sent.\<close>

definition prepare_file :: "(string \<Rightarrow> string + string) \<Rightarrow> disk \<Rightarrow> string \<times> string \<Rightarrow> string + (string \<times> string \<times> string)" where
  "prepare_file signature_of d f =
     (case read_file (fst f) d of
        Inl e \<Rightarrow> Inl e
      | Inr content \<Rightarrow> map_sum id (\<lambda>sig. (sig, content, snd f)) (signature_of content))"

fun match_uploads :: "(string \<times> string) list \<Rightarrow> string list \<Rightarrow> Asset list \<Rightarrow> (string \<rightharpoonup> Asset) \<Rightarrow> string + (string \<rightharpoonup> Asset)" where
  "match_uploads ups hashes [] finish = Inr finish"
| "match_uploads ups hashes (result # results) finish =
     (case as_signature result of
        None \<Rightarrow> Inl ''called `Option::unwrap()` on a `None` value''
      | Some sig \<Rightarrow> (case position (\<lambda>h. h = sig) hashes of
          None \<Rightarrow> Inl ''called `Option::unwrap()` on a `None` value''
        | Some idx \<Rightarrow> match_uploads ups hashes results (finish(snd (ups ! idx) \<mapsto> result))))"

definition upload_cloud_files ::
    "(string \<Rightarrow> string + string) \<Rightarrow> ((string \<times> string \<times> string) list \<Rightarrow> string + Asset list) \<Rightarrow> disk \<Rightarrow>
       (string \<times> string) list \<Rightarrow> string + (string \<rightharpoonup> Asset)" where
  "upload_cloud_files signature_of upload d ups =
     (case collect (map (prepare_file signature_of d) ups) of
        Inl e \<Rightarrow> Inl e
      | Inr to_upload \<Rightarrow> (case upload to_upload of
          Inl e \<Rightarrow> Inl e
        | Inr results \<Rightarrow> match_uploads ups (map fst to_upload) results Map.empty))"

text \<open>Both uploads are the same code, with another operation of the client.\<close>

definition upload_cloud_attachments ::
    "(string \<Rightarrow> string + string) \<Rightarrow> ((string \<times> string \<times> string) list \<Rightarrow> string + Asset list) \<Rightarrow> disk \<Rightarrow>
       (string \<times> string) list \<Rightarrow> string + (string \<rightharpoonup> Asset)" where
  "upload_cloud_attachments signature_of upload_attachments d ups = upload_cloud_files signature_of upload_attachments d ups"

definition upload_group_photo ::
    "(string \<Rightarrow> string + string) \<Rightarrow> ((string \<times> string \<times> string) list \<Rightarrow> string + Asset list) \<Rightarrow> disk \<Rightarrow>
       (string \<times> string) list \<Rightarrow> string + (string \<rightharpoonup> Asset)" where
  "upload_group_photo signature_of upload_photo d ups = upload_cloud_files signature_of upload_photo d ups"

section \<open>Password groups\<close>

record Contact =
  ct_first_name :: "string option"
  ct_email :: "string option"
  ct_phone :: "string option"

record Participant =
  pt_state :: int
  pt_contact :: "Contact option"
  pt_user_id :: "string option option"

record GroupShare =
  gs_display_name :: string
  gs_participants :: "Participant list"

record PasswordGroup =
  pg_share :: "GroupShare option"
  pg_is_owner :: bool

record GroupSummaryMember =
  gm_name :: "string option"
  gm_handle :: string
  gm_user_id :: "string option"
  gm_is_joined :: bool

record GroupSummary =
  gr_display_name :: string
  gr_is_owner :: bool
  gr_members :: "GroupSummaryMember list"

text \<open>Participants that were removed (state 3) or have no handle are left out.\<close>

definition group_member :: "(Contact \<Rightarrow> string option) \<Rightarrow> Participant \<Rightarrow> GroupSummaryMember option" where
  "group_member to_handle p =
     (if pt_state p = 3 then None
      else case pt_contact p of None \<Rightarrow> None | Some c \<Rightarrow>
           case to_handle c of None \<Rightarrow> None | Some h \<Rightarrow>
             Some \<lparr>gm_name = ct_first_name c, gm_handle = h, gm_user_id = Option.bind (pt_user_id p) id,
                   gm_is_joined = (pt_state p = 2)\<rparr>)"

definition group_summary :: "(Contact \<Rightarrow> string option) \<Rightarrow> PasswordGroup \<Rightarrow> GroupSummary option" where
  "group_summary to_handle grp =
     map_option (\<lambda>item. \<lparr>gr_display_name = gs_display_name item, gr_is_owner = pg_is_owner grp,
        gr_members = List.map_filter (group_member to_handle) (gs_participants item)\<rparr>) (pg_share grp)"

text \<open>The user's own identifier, the groups that are shared, and the invitations as they are; a date is its text.\<close>

record ShareInviteContentData =
  si_invitation_token :: "8 word list"
  si_group_id :: string
  si_sent_time :: string
  si_group_name :: string
  si_share_url :: string
  si_invitee_handle :: string

definition get_groups ::
    "(Contact \<Rightarrow> string option) \<Rightarrow> string + string \<Rightarrow> (string \<times> PasswordGroup) list \<Rightarrow> (string \<rightharpoonup> ShareInviteContentData) \<Rightarrow>
       string + string \<times> (string \<times> GroupSummary) list \<times> (string \<rightharpoonup> ShareInviteContentData)" where
  "get_groups to_handle container groups invite_groups =
     map_sum id (\<lambda>user_id. (user_id,
        List.map_filter (\<lambda>(gid, grp). map_option (\<lambda>s. (gid, s)) (group_summary to_handle grp)) groups,
        invite_groups)) container"

text \<open>What the native side is given: the identifiers by display name.\<close>

definition get_available_groups :: "(string \<times> PasswordGroup) list \<Rightarrow> string \<rightharpoonup> string" where
  "get_available_groups groups =
     map_of (rev (List.map_filter (\<lambda>(gid, grp). map_option (\<lambda>s. (gs_display_name s, gid)) (pg_share grp)) groups))"

section \<open>Items of Find My\<close>

record BeaconNaming =
  bn_emoji :: string
  bn_name :: string
  bn_role_id :: int
  bn_associated_beacon :: string

record MasterRecord =
  mr_product_id :: int
  mr_battery_level :: int
  mr_vendor_id :: int
  mr_model :: string
  mr_system_version :: string

text \<open>Coordinates are the bits of an \<open>f32\<close>; the time is as in the theory of times.\<close>

record LocationReport =
  lr_lat :: "32 word"
  lr_long :: "32 word"
  lr_horizontal_accuracy :: "8 word"
  lr_status :: "8 word"
  lr_confidence :: "8 word"
  lr_timestamp :: SystemTime
  lr_key_index :: u64

record Accessory =
  acc_naming :: BeaconNaming
  acc_last_report :: "LocationReport option"
  acc_master :: MasterRecord

record SharedBeacon =
  sb_product_id :: int
  sb_vendor_id :: int
  sb_model :: string
  sb_system_version :: string
  sb_owner_handle :: string

record SharedBeaconClient =
  sbc_emoji :: string
  sbc_name :: string
  sbc_role_id :: int
  sbc_last_report :: "LocationReport option"

record CircleMember =
  cm_beacon_identifier :: string
  cm_acceptance_state :: int

record FindMyItems =
  fm_accessories :: "(string \<times> Accessory) list"
  fm_circles :: "(string \<times> CircleMember) list"
  fm_shared :: "string \<rightharpoonup> SharedBeacon"
  fm_shared_client :: "string \<rightharpoonup> SharedBeaconClient"

record DartBeaconShareInfo =
  bs_share_id :: string
  bs_acceptance_state :: int
  bs_owner_handle :: string

record DartBeacon =
  db_naming :: BeaconNaming
  db_last_report :: "LocationReport option"
  db_product_id :: int
  db_battery_level :: "int option"
  db_vendor_id :: int
  db_model :: string
  db_system_version :: string
  db_id :: string
  db_shared :: "DartBeaconShareInfo option"

definition own_beacon :: "string \<times> Accessory \<Rightarrow> DartBeacon" where
  "own_beacon x = (case x of (i, a) \<Rightarrow> \<lparr>db_naming = acc_naming a, db_last_report = acc_last_report a,
     db_product_id = mr_product_id (acc_master a), db_battery_level = Some (mr_battery_level (acc_master a)),
     db_vendor_id = mr_vendor_id (acc_master a), db_model = mr_model (acc_master a),
     db_system_version = mr_system_version (acc_master a), db_id = i, db_shared = None\<rparr>)"

definition shared_beacon :: "SharedBeaconClient \<Rightarrow> FindMyItems \<Rightarrow> string \<times> CircleMember \<Rightarrow> DartBeacon option" where
  "shared_beacon def_state s x = (case x of (i, circle) \<Rightarrow>
     map_option (\<lambda>a.
       let st = (case fm_shared_client s (cm_beacon_identifier circle) of Some c \<Rightarrow> c | None \<Rightarrow> def_state)
       in \<lparr>db_naming = \<lparr>bn_emoji = sbc_emoji st, bn_name = sbc_name st, bn_role_id = sbc_role_id st, bn_associated_beacon = i\<rparr>,
           db_last_report = sbc_last_report st, db_product_id = sb_product_id a, db_battery_level = None,
           db_vendor_id = sb_vendor_id a, db_model = sb_model a, db_system_version = sb_system_version a,
           db_id = cm_beacon_identifier circle,
           db_shared = Some \<lparr>bs_share_id = i, bs_acceptance_state = cm_acceptance_state circle,
                             bs_owner_handle = sb_owner_handle a\<rparr>\<rparr>)
       (fm_shared s (cm_beacon_identifier circle)))"

definition get_beacon_items :: "SharedBeaconClient \<Rightarrow> string + unit \<Rightarrow> FindMyItems \<Rightarrow> string + DartBeacon list" where
  "get_beacon_items def_state synced s =
     map_sum id (\<lambda>_. map own_beacon (fm_accessories s) @ List.map_filter (shared_beacon def_state s) (fm_circles s)) synced"

section \<open>Escrow bottles and the quota\<close>

record ViableBottle =
  vb_escrow :: string
  vb_numeric_length :: int
  vb_device_name :: string
  vb_model_class :: string

definition dict_string :: "string \<Rightarrow> string \<Rightarrow> dict \<Rightarrow> string" where
  "dict_string def k m = (case get_string k m of Some s \<Rightarrow> s | None \<Rightarrow> def)"

definition as_unsigned_int :: "plist \<Rightarrow> int option" where
  "as_unsigned_int v = (case v of PInt i \<Rightarrow> if 0 \<le> i then Some i else None | _ \<Rightarrow> None)"

text \<open>A bottle whose metadata is not a dictionary is left out; missing entries get defaults.\<close>

definition viable_bottle :: "string \<times> plist \<Rightarrow> ViableBottle option" where
  "viable_bottle b = map_option (\<lambda>m. \<lparr>vb_escrow = fst b,
     vb_numeric_length = (case Option.bind (dict_get ''SecureBackupNumericPassphraseLength'' m) as_unsigned_int of
        Some i \<Rightarrow> i | None \<Rightarrow> 0),
     vb_device_name = dict_string ''No Name'' ''device_name'' m,
     vb_model_class = dict_string ''iMac'' ''device_model_class'' m\<rparr>) (as_dict (snd b))"

definition get_bottles :: "string + (string \<times> plist) list \<Rightarrow> string + ViableBottle list" where
  "get_bottles viable = map_sum id (List.map_filter viable_bottle) viable"

record QuotaInfo =
  qi_total_bytes :: "64 word"
  qi_available_bytes :: "64 word"
  qi_messages_bytes :: "64 word"

text \<open>\<open>usage\<close> is the use by media, in the order of the answer.\<close>

definition get_quota_info :: "string + (64 word \<times> 64 word \<times> (string \<times> 64 word) list) \<Rightarrow> string + QuotaInfo" where
  "get_quota_info answer = map_sum id (\<lambda>(total, available, usage).
     \<lparr>qi_total_bytes = total, qi_available_bytes = available,
      qi_messages_bytes = (case find (\<lambda>m. fst m = ''messages'') usage of Some m \<Rightarrow> snd m | None \<Rightarrow> 0)\<rparr>) answer"

section \<open>Trusted devices\<close>

datatype push_error = CircleOver | OtherError string

text \<open>Whether setting up the trust is over: there is no session any more, or it just ended.\<close>

definition circle_setup_clique :: "string option \<Rightarrow> (string \<Rightarrow> push_error + unit) \<Rightarrow> string + bool" where
  "circle_setup_clique session setup_trusted_peers =
     (case session of None \<Rightarrow> Inr True | Some inner \<Rightarrow>
      (case setup_trusted_peers inner of
         Inl CircleOver \<Rightarrow> Inr True | Inl (OtherError e) \<Rightarrow> Inl e | Inr _ \<Rightarrow> Inr False))"

section \<open>Albums and status\<close>

text \<open>A refresh asks for a summary of every album without a name, in order, up to the first failure.\<close>

definition nameless_albums :: "SharedAlbum list \<Rightarrow> string list" where
  "nameless_albums albums = map sa_albumguid (filter (\<lambda>a. sa_name a = None) albums)"

definition get_albums ::
    "(SharedAlbum list, string, unit) sem \<Rightarrow> (string \<Rightarrow> (SharedAlbum list, string, unit) sem) \<Rightarrow> (string \<times> 'd) list \<Rightarrow> bool \<Rightarrow>
       (SharedAlbum list, string, SharedAlbum list \<times> string list) sem" where
  "get_albums get_changes get_album_summary dirty refresh =
     thn (if refresh
          then thn get_changes (bnd (asks (\<lambda>albums. Inr (nameless_albums albums))) (\<lambda>guids.
                 thn (for_each get_album_summary guids) (ok ())))
          else ok ())
         (asks (\<lambda>albums. Inr (albums, map fst dirty)))"

text \<open>The statuses by album, with the failure and how long to wait (\<open>u64::MAX\<close> when it is not retried).\<close>

datatype SyncStatus = Synced | Downloading (ss_progress: u64) (ss_total: u64) | Uploading (ss_progress: u64) (ss_total: u64) | Syncing

definition get_syncstatus ::
    "(string \<rightharpoonup> SyncStatus) \<Rightarrow> ResourceState \<Rightarrow> (string \<rightharpoonup> SyncStatus) \<times> (string \<times> 64 word) option" where
  "get_syncstatus statuses st = (statuses, case st of
      Failed retry_wait err \<Rightarrow> Some (err, case retry_wait of Some w \<Rightarrow> w | None \<Rightarrow> - 1)
    | _ \<Rightarrow> None)"

text \<open>What is published when the status changes: no status is being active.\<close>

record StatusKitStatus =
  sk_active :: bool
  sk_id :: "string option"

definition set_status :: "(StatusKitStatus \<Rightarrow> string + unit) \<Rightarrow> string option \<Rightarrow> string + unit" where
  "set_status share_status new_status = share_status \<lparr>sk_active = (new_status = None), sk_id = new_status\<rparr>"

definition request_handles :: "(string list \<Rightarrow> 'token) \<Rightarrow> string list \<Rightarrow> 'token option" where
  "request_handles request to = (if to = [] then None else Some (request to))"

text \<open>The first handle is used; there being none is a panic.\<close>

definition get_ft_link :: "string list \<Rightarrow> (string \<Rightarrow> string \<Rightarrow> string + string) \<Rightarrow> string \<Rightarrow> string + string" where
  "get_ft_link own_handles get_link_for_usage usage =
     (case own_handles of [] \<Rightarrow> Inl ''index out of bounds'' | handle # _ \<Rightarrow> get_link_for_usage handle usage)"

section \<open>Request headers\<close>

definition ANISETTE_INFO_KEY :: string where
  "ANISETTE_INFO_KEY = ''X-Mme-Client-Info''"

text \<open>\<open>headers[k]\<close> panics when the provider left the entry out.\<close>

definition put_client_info ::
    "(string \<Rightarrow> bool \<Rightarrow> string) \<Rightarrow> string \<Rightarrow> (string \<rightharpoonup> string) \<Rightarrow> string + (string \<rightharpoonup> string)" where
  "put_client_info get_adi_mme_info service headers =
     (case headers ANISETTE_INFO_KEY of
        None \<Rightarrow> Inl ''no entry found for key''
      | Some info \<Rightarrow> Inr (headers(ANISETTE_INFO_KEY \<mapsto>
          get_adi_mme_info service (\<not> text_contains ''iPhone OS'' info))))"

definition get_anisette_headers ::
    "(string \<Rightarrow> bool \<Rightarrow> string) \<Rightarrow> string + (string \<rightharpoonup> string) \<Rightarrow> string + (string \<rightharpoonup> string)" where
  "get_anisette_headers get_adi_mme_info headers =
     (case headers of Inl e \<Rightarrow> Inl e
      | Inr h \<Rightarrow> put_client_info get_adi_mme_info ''com.apple.AuthKit/1 (com.apple.findmy/375.20)'' h)"

record contacts_env =
  ct_dsid :: "plist \<Rightarrow> string option"
  ct_headers :: "string + (string \<rightharpoonup> string)"
  ct_family_token :: "string option"
  ct_mme_token :: "string + string"
  ct_base64 :: "string \<Rightarrow> string"

definition get_contacts_headers ::
    "contacts_env \<Rightarrow> (string \<Rightarrow> bool \<Rightarrow> string) \<Rightarrow> plist_codec \<Rightarrow> string \<Rightarrow> disk \<Rightarrow> string + (string \<rightharpoonup> string)" where
  "get_contacts_headers env get_adi_mme_info c dir d =
     (case Option.bind (read_plist c (join_path dir ''sharedstreams.plist'') d) (ct_dsid env) of
        None \<Rightarrow> Inl ''no shared streams state''
      | Some dsid \<Rightarrow>
     case ct_headers env of Inl e \<Rightarrow> Inl e | Inr headers \<Rightarrow>
     case put_client_info get_adi_mme_info ''com.apple.AuthKit/1 (com.apple.AddressBookSourceSync/2695.500.71)'' headers of
        Inl e \<Rightarrow> Inl e
      | Inr h1 \<Rightarrow>
     case ct_family_token env of None \<Rightarrow> Inl ''no Family auth token?'' | Some token \<Rightarrow>
     case ct_mme_token env of Inl e \<Rightarrow> Inl e | Inr mme_token \<Rightarrow>
       Inr (h1(''X-APPLE-FAMILY-AUTH-TOKEN'' \<mapsto> token,
               ''Authorization'' \<mapsto> ''X-MobileMe-AuthToken '' @ ct_base64 env (dsid @ '':'' @ mme_token))))"

section \<open>The verification token\<close>

text \<open>The verification token is a name and a value around the first colon; one without a colon is a panic.\<close>

fun split_once :: "char \<Rightarrow> string \<Rightarrow> (string \<times> string) option" where
  "split_once c [] = None"
| "split_once c (x # xs) = (if x = c then Some ([], xs) else map_option (\<lambda>(a, b). (x # a, b)) (split_once c xs))"

datatype token_answer = TokenOk string | TokenErr string | TokenPanic "string option"

definition special_auth_result :: "(string option \<Rightarrow> string) \<Rightarrow> token_answer \<Rightarrow> string + ((string \<times> string) list \<times> string option)" where
  "special_auth_result show_panic answer = (case answer of
      TokenOk t \<Rightarrow> (case split_once CHR '':'' t of None \<Rightarrow> Inl ''Bad token form??'' | Some parts \<Rightarrow> Inr ([parts], None))
    | TokenErr e \<Rightarrow> Inr ([], Some e)
    | TokenPanic p \<Rightarrow> Inr ([], Some (show_panic p)))"

end
