(* ===== verification/CloudSpec.thy ===== *)
theory CloudSpec
  imports Cloud
begin

text \<open>
  What the uploads of \<open>Cloud\<close> return: every record gets the asset of its own file as long as no two files
  have the same content; of files with the same content only the first one's record is answered.
\<close>

section \<open>Positions\<close>

lemma position_SomeD:
  "position p xs = Some i \<Longrightarrow> i < length xs \<and> p (xs ! i) \<and> (\<forall>j < i. \<not> p (xs ! j))"
proof (induction xs arbitrary: i)
  case (Cons x xs)
  show ?case
  proof (cases "p x")
    case False
    then obtain k where k: "position p xs = Some k" "i = Suc k" using Cons.prems by auto
    show ?thesis using Cons.IH [OF k(1)] False by (auto simp: k(2) nth_Cons split: nat.splits)
  qed (use Cons.prems in auto)
qed simp

lemma position_ex: "x \<in> set xs \<Longrightarrow> p x \<Longrightarrow> \<exists>i. position p xs = Some i"
  by (induction xs) auto

section \<open>Uploads\<close>

definition upload_target :: "(string \<times> string) list \<Rightarrow> string list \<Rightarrow> Asset \<Rightarrow> string option" where
  "upload_target ups hashes r =
     map_option (\<lambda>i. snd (ups ! i)) (Option.bind (as_signature r) (\<lambda>sig. position (\<lambda>h. h = sig) hashes))"

lemma match_uploads_eq:
  "match_uploads ups hashes rs m =
     (if list_all (\<lambda>r. upload_target ups hashes r \<noteq> None) rs
      then Inr (m ++ map_of (rev (map (\<lambda>r. (the (upload_target ups hashes r), r)) rs)))
      else Inl ''called `Option::unwrap()` on a `None` value'')"
  by (induction rs arbitrary: m) (auto simp: upload_target_def split: option.splits)

lemma match_uploads_SomeD:
  assumes "match_uploads ups hashes rs Map.empty = Inr m" and "m k = Some r"
  shows "r \<in> set rs \<and> upload_target ups hashes r = Some k"
proof -
  have a: "list_all (\<lambda>r. upload_target ups hashes r \<noteq> None) rs"
    and m: "m = map_of (rev (map (\<lambda>r. (the (upload_target ups hashes r), r)) rs))"
    using assms(1) by (auto simp: match_uploads_eq split: if_splits)
  have "(k, r) \<in> set (map (\<lambda>r. (the (upload_target ups hashes r), r)) rs)"
    using map_of_SomeD [OF assms(2) [unfolded m]] by simp
  then show ?thesis using a by (auto simp: list_all_iff)
qed

lemma prepare_file_InrD:
  "prepare_file signature_of d u = Inr x \<Longrightarrow>
     \<exists>c. read_file (fst u) d = Inr c \<and> signature_of c = Inr (fst x) \<and> snd (snd x) = snd u"
  by (cases "read_file (fst u) d"; cases "signature_of (projr (read_file (fst u) d))") (auto simp: prepare_file_def)

lemma prepare_hashes:
  assumes "collect (map (prepare_file signature_of d) ups) = Inr to_upload"
  shows "length to_upload = length ups \<and>
    (\<forall>i < length ups. \<exists>c. read_file (fst (ups ! i)) d = Inr c \<and> signature_of c = Inr (fst (to_upload ! i)))"
  using assms
proof (induction ups arbitrary: to_upload)
  case (Cons u ups)
  then obtain x xs where x: "prepare_file signature_of d u = Inr x"
    and xs: "collect (map (prepare_file signature_of d) ups) = Inr xs" and t: "to_upload = x # xs"
    by (cases "prepare_file signature_of d u") (auto split: sum.splits)
  show ?case using Cons.IH [OF xs] prepare_file_InrD [OF x] by (auto simp: t nth_Cons split: nat.splits)
qed simp

text \<open>The assets answered, when their signatures are those of the files.\<close>

lemma upload_target_index:
  assumes "as_signature r \<in> Some ` set hashes" and "length hashes = length ups"
  shows "\<exists>i < length ups. upload_target ups hashes r = Some (snd (ups ! i)) \<and> as_signature r = Some (hashes ! i)"
proof -
  obtain sig where s: "as_signature r = Some sig" "sig \<in> set hashes" using assms(1) by auto
  then obtain i where i: "position (\<lambda>h. h = sig) hashes = Some i"
    using position_ex [of sig hashes "\<lambda>h. h = sig"] by auto
  then show ?thesis using position_SomeD [OF i] s(1) assms(2) by (intro exI [of _ i]) (simp add: upload_target_def)
qed

lemma match_uploads_complete:
  assumes "as_signature ` set rs = Some ` set hashes" and "length hashes = length ups"
    and "distinct hashes" and "distinct (map snd ups)"
  shows "\<exists>m. match_uploads ups hashes rs Map.empty = Inr m \<and> dom m = snd ` set ups \<and>
           (\<forall>i < length ups. \<exists>r. m (snd (ups ! i)) = Some r \<and> as_signature r = Some (hashes ! i))"
proof -
  have tgt: "\<exists>i < length ups. upload_target ups hashes r = Some (snd (ups ! i)) \<and> as_signature r = Some (hashes ! i)"
    if "r \<in> set rs" for r
    using upload_target_index [OF _ assms(2)] assms(1) that by blast
  then have "list_all (\<lambda>r. upload_target ups hashes r \<noteq> None) rs" by (fastforce simp: list_all_iff)
  then obtain m where m: "match_uploads ups hashes rs Map.empty = Inr m"
    and e: "m = map_of (rev (map (\<lambda>r. (the (upload_target ups hashes r), r)) rs))"
    by (auto simp: match_uploads_eq)
  have sub: "dom m \<subseteq> snd ` set ups"
    using match_uploads_SomeD [OF m] tgt by (fastforce simp: dom_def)
  have all: "\<exists>r. m (snd (ups ! i)) = Some r \<and> as_signature r = Some (hashes ! i)" if i: "i < length ups" for i
  proof -
    have "Some (hashes ! i) \<in> as_signature ` set rs" using assms(1,2) i by simp
    then obtain r where r: "r \<in> set rs" "as_signature r = Some (hashes ! i)" by (metis imageE)
    obtain j where j: "j < length ups" "upload_target ups hashes r = Some (snd (ups ! j))" "hashes ! j = hashes ! i"
      using tgt [OF r(1)] r(2) by auto
    then have "j = i" using nth_eq_iff_index_eq [OF assms(3), of j i] assms(2) i by simp
    then have "snd (ups ! i) \<in> fst ` set (rev (map (\<lambda>r. (the (upload_target ups hashes r), r)) rs))"
      using j(2) r(1) by force
    then obtain r' where r': "m (snd (ups ! i)) = Some r'"
      unfolding e by (metis (no_types, lifting) map_of_eq_None_iff not_None_eq)
    obtain k where "k < length ups" "snd (ups ! k) = snd (ups ! i)" "as_signature r' = Some (hashes ! k)"
      using match_uploads_SomeD [OF m r'] tgt [of r'] by auto
    then show ?thesis using r' nth_eq_iff_index_eq [OF assms(4), of k i] i by simp
  qed
  then have "snd ` set ups \<subseteq> dom m" by (fastforce simp: in_set_conv_nth)
  then show ?thesis using m sub all by blast
qed

text \<open>C32: Files with different contents uploaded for different records: when the service answers with one
  asset per signature, in whatever order, every record gets the asset whose signature is that of its own file,
  and no other record gets one.\<close>

theorem uploads_reach_their_records:
  assumes "collect (map (prepare_file signature_of d) ups) = Inr to_upload"
    and "distinct (map fst to_upload)" and "distinct (map snd ups)"
    and "upload to_upload = Inr results"
    and "mset (map as_signature results) = mset (map (Some \<circ> fst) to_upload)"
  shows "\<exists>m. upload_cloud_attachments signature_of upload d ups = Inr m \<and> dom m = snd ` set ups \<and>
    (\<forall>i < length ups. \<exists>r c sig. m (snd (ups ! i)) = Some r \<and> read_file (fst (ups ! i)) d = Inr c \<and>
       signature_of c = Inr sig \<and> as_signature r = Some sig)"
proof -
  note p = prepare_hashes [OF assms(1)]
  have "as_signature ` set results = Some ` set (map fst to_upload)"
    using arg_cong [OF assms(5), of set_mset] by (simp add: image_comp)
  from match_uploads_complete [OF this _ assms(2,3)] p obtain m where
    m: "match_uploads ups (map fst to_upload) results Map.empty = Inr m" "dom m = snd ` set ups"
    and all: "\<forall>i < length ups. \<exists>r. m (snd (ups ! i)) = Some r \<and> as_signature r = Some (map fst to_upload ! i)"
    by auto
  have "upload_cloud_attachments signature_of upload d ups = Inr m"
    using assms(1,4) m by (simp add: upload_cloud_attachments_def upload_cloud_files_def)
  moreover have "\<exists>r c sig. m (snd (ups ! i)) = Some r \<and> read_file (fst (ups ! i)) d = Inr c \<and>
       signature_of c = Inr sig \<and> as_signature r = Some sig" if "i < length ups" for i
    using all p that by fastforce
  ultimately show ?thesis using m(2) by blast
qed

text \<open>When a later file has the same content as an earlier one, the record of the later file gets no
  asset, although the file was uploaded for it.\<close>

theorem duplicate_upload_lost:
  assumes "collect (map (prepare_file signature_of d) ups) = Inr to_upload"
    and "i < j" and "j < length ups" and "fst (to_upload ! i) = fst (to_upload ! j)"
    and "distinct (map snd ups)"
    and "upload_cloud_attachments signature_of upload d ups = Inr m"
  shows "m (snd (ups ! j)) = None"
proof (rule ccontr)
  let ?hs = "map fst to_upload"
  note p = prepare_hashes [OF assms(1)]
  assume "m (snd (ups ! j)) \<noteq> None"
  then obtain r where r: "m (snd (ups ! j)) = Some r" by auto
  obtain results where "match_uploads ups ?hs results Map.empty = Inr m"
    using assms(1,6) by (auto simp: upload_cloud_attachments_def upload_cloud_files_def split: sum.splits)
  from match_uploads_SomeD [OF this r] obtain sig k where
    k: "position (\<lambda>h. h = sig) ?hs = Some k" "snd (ups ! k) = snd (ups ! j)"
    by (auto simp: upload_target_def bind_eq_Some_conv)
  note kD = position_SomeD [OF k(1)]
  have "k = j" using nth_eq_iff_index_eq [OF assms(5), of k j] k(2) kD p assms(3) by simp
  then have "?hs ! i \<noteq> sig" and "?hs ! j = sig" using kD assms(2) by auto
  then show False using assms(2-4) p by simp
qed

section \<open>Examples\<close>

definition two_files :: "string \<Rightarrow> string \<Rightarrow> disk" where
  "two_files x y = \<lparr>files = [''a'' \<mapsto> x, ''b'' \<mapsto> y], blocked = (\<lambda>_. None)\<rparr>"

definition echo_upload :: "(string \<times> string \<times> string) list \<Rightarrow> string + Asset list" where
  "echo_upload us = Inr (rev (map (\<lambda>u. \<lparr>as_signature = Some (fst u), as_receipt = snd (snd u)\<rparr>) us))"

lemma prepare_two: "collect (map (prepare_file Inr (two_files x y)) [(''a'', ''r1''), (''b'', ''r2'')]) =
    Inr [(x, x, ''r1''), (y, y, ''r2'')]"
  by (simp add: prepare_file_def read_file_def two_files_def)

theorem uploads_reach_their_records_witness:
  "\<exists>m r. upload_cloud_attachments Inr echo_upload (two_files ''A'' ''B'') [(''a'', ''r1''), (''b'', ''r2'')] = Inr m \<and>
     dom m = {''r1'', ''r2''} \<and> m ''r2'' = Some r \<and> as_signature r = Some ''B''"
proof -
  have "\<exists>m. upload_cloud_attachments Inr echo_upload (two_files ''A'' ''B'') [(''a'', ''r1''), (''b'', ''r2'')] = Inr m \<and>
      dom m = snd ` set [(''a'', ''r1''), (''b'', ''r2'')] \<and>
      (\<forall>i < length [(''a'', ''r1''), (''b'', ''r2'')]. \<exists>r c sig. m (snd ([(''a'', ''r1''), (''b'', ''r2'')] ! i)) = Some r \<and>
         read_file (fst ([(''a'', ''r1''), (''b'', ''r2'')] ! i)) (two_files ''A'' ''B'') = Inr c \<and>
         (Inr c :: string + string) = Inr sig \<and> as_signature r = Some sig)"
    by (rule uploads_reach_their_records [OF prepare_two, where results =
          "[\<lparr>as_signature = Some ''B'', as_receipt = ''r2''\<rparr>, \<lparr>as_signature = Some ''A'', as_receipt = ''r1''\<rparr>]"])
      (simp_all add: echo_upload_def)
  then obtain m where m: "upload_cloud_attachments Inr echo_upload (two_files ''A'' ''B'') [(''a'', ''r1''), (''b'', ''r2'')] = Inr m"
    and dm: "dom m = snd ` set [(''a'', ''r1''), (''b'', ''r2'')]"
    and all: "\<forall>i < length [(''a'', ''r1''), (''b'', ''r2'')]. \<exists>r c sig. m (snd ([(''a'', ''r1''), (''b'', ''r2'')] ! i)) = Some r \<and>
         read_file (fst ([(''a'', ''r1''), (''b'', ''r2'')] ! i)) (two_files ''A'' ''B'') = Inr c \<and>
         (Inr c :: string + string) = Inr sig \<and> as_signature r = Some sig" by (elim exE conjE)
  obtain r where "m ''r2'' = Some r \<and> as_signature r = Some ''B''"
    using spec [OF all, of 1] by (auto simp: read_file_def two_files_def)
  then show ?thesis using m dm by auto
qed

theorem duplicate_upload_lost_witness:
  "\<exists>m r. upload_cloud_attachments Inr echo_upload (two_files ''A'' ''A'') [(''a'', ''r1''), (''b'', ''r2'')] = Inr m \<and>
     m ''r1'' = Some r \<and> m ''r2'' = None"
proof -
  obtain m where m: "upload_cloud_attachments Inr echo_upload (two_files ''A'' ''A'') [(''a'', ''r1''), (''b'', ''r2'')] = Inr m"
    and r: "m ''r1'' \<noteq> None"
    using prepare_two [of "''A''" "''A''"]
    by (simp add: upload_cloud_attachments_def upload_cloud_files_def echo_upload_def)
  have "m (snd ([(''a'', ''r1''), (''b'', ''r2'')] ! 1)) = None"
    by (rule duplicate_upload_lost [OF prepare_two, of 0 1 "''A''" "''A''", OF _ _ _ _ m]) simp_all
  then show ?thesis using m r by auto
qed

end
