(* ===== verification/Streams.thy ===== *)
theory Streams
  imports Cloud Migrate
begin

text \<open>
  Shared albums and transfers of \<open>rust/src/api/api.rs\<close>: packaging a file for an album (\<open>FFIFilePackager\<close>), the
  task that tells the platform about new files in the album folders (\<open>shared_items\<close>, \<open>subscribe_streams\<close>),
  and the progress streams of uploads. The platform's packager and the transfers are arguments.
\<close>

section \<open>Packaging a file\<close>

text \<open>The types of \<open>rust/src/native.rs\<close>; a thumbnail is its bytes, a duration its decimal text.\<close>

record FileInfo =
  fi_duration :: "string option"
  fi_width :: "32 word"
  fi_height :: "32 word"
  fi_thumbnail :: "string option"

datatype PackagedFile = PackagedInfo FileInfo | PackagedFailure string

record AssetMetadata =
  am_asset_type :: string
  am_asset_type_flags :: nat

record FileMetadata =
  md_width :: nat
  md_height :: nat
  md_uti_type :: string
  md_video_type :: "string option"
  md_asset_metadata :: "AssetMetadata option"

record 'f PreparedAsset =
  pa_files :: "'f list"
  pa_name :: string
  pa_date_created :: nat
  pa_video_duration :: "string option"
  pa_guid :: string

record 'f packager_env =
  pk_packager :: "(string \<Rightarrow> PackagedFile) option"
  pk_prepare :: "string \<Rightarrow> FileMetadata \<Rightarrow> string + 'f"
  pk_created :: "string \<Rightarrow> string + nat option"
  pk_now :: nat
  pk_uuid :: string

definition main_metadata :: "FileInfo \<Rightarrow> FileMetadata" where
  "main_metadata inner =
     (let is_video = fi_duration inner \<noteq> None
      in \<lparr>md_width = unat (fi_width inner), md_height = unat (fi_height inner),
          md_uti_type = (if is_video then ''public.mpeg-4'' else ''public.jpeg''),
          md_video_type = (if is_video then Some ''720p'' else None),
          md_asset_metadata = (if \<not> is_video then Some \<lparr>am_asset_type = ''derivative'', am_asset_type_flags = 2\<rparr> else None)\<rparr>)"

definition thumbnail_metadata :: "FileInfo \<Rightarrow> FileMetadata" where
  "thumbnail_metadata inner = \<lparr>md_width = unat (fi_width inner), md_height = unat (fi_height inner),
     md_uti_type = ''public.jpeg'', md_video_type = Some ''PosterFrame'', md_asset_metadata = None\<rparr>"

definition get_files :: "'f packager_env \<Rightarrow> string \<Rightarrow> disk \<Rightarrow> string + 'f PreparedAsset" where
  "get_files env path d =
     (case pk_packager env of None \<Rightarrow> Inl ''No FFI packager!'' | Some get_file \<Rightarrow>
      case get_file path of PackagedFailure failure \<Rightarrow> Inl failure | PackagedInfo inner \<Rightarrow>
      case read_file path d of Inl e \<Rightarrow> Inl e | Inr content \<Rightarrow>
      case pk_prepare env content (main_metadata inner) of Inl e \<Rightarrow> Inl e | Inr main \<Rightarrow>
      case (case fi_thumbnail inner of None \<Rightarrow> Inr []
            | Some thumbnail \<Rightarrow> map_sum id (\<lambda>f. [f]) (pk_prepare env thumbnail (thumbnail_metadata inner))) of
        Inl e \<Rightarrow> Inl e | Inr rest \<Rightarrow>
      case file_name path of None \<Rightarrow> Inl unwrap_none | Some name \<Rightarrow>
      case pk_created env path of Inl e \<Rightarrow> Inl e | Inr created \<Rightarrow>
        Inr \<lparr>pa_files = main # rest, pa_name = name,
             pa_date_created = (case created of Some t \<Rightarrow> t | None \<Rightarrow> pk_now env),
             pa_video_duration = fi_duration inner, pa_guid = to_ascii_uppercase (pk_uuid env)\<rparr>)"

section \<open>New files in the album folders\<close>

text \<open>
  What the process sees at one moment: which paths exist, and the entries of a folder (\<open>None\<close> when it
  cannot be read; an entry that cannot be read is \<open>None\<close>).
\<close>

record folder_view =
  fv_exists :: "string \<Rightarrow> bool"
  fv_entries :: "string \<Rightarrow> string option list option"

definition note_path :: "string \<Rightarrow> string set \<times> string set \<Rightarrow> string set \<times> string set" where
  "note_path p s = (case s of (seen, new) \<Rightarrow> if p \<in> seen then (seen, new) else (insert p seen, insert p new))"

definition note_entry :: "string option \<Rightarrow> string set \<times> string set \<Rightarrow> string set \<times> string set" where
  "note_entry e s = (case e of None \<Rightarrow> s | Some p \<Rightarrow> note_path p s)"

definition note_folder :: "folder_view \<Rightarrow> string \<Rightarrow> string set \<times> string set \<Rightarrow> string set \<times> string set" where
  "note_folder v folder s = (case fv_entries v folder of None \<Rightarrow> s | Some es \<Rightarrow> fold note_entry es s)"

text \<open>The new paths, and the seen ones afterwards; paths that are gone are forgotten first.\<close>

definition shared_items :: "folder_view \<Rightarrow> string list \<Rightarrow> string set \<Rightarrow> string set \<times> string set" where
  "shared_items v folders seen =
     (case fold (note_folder v) folders ({p \<in> seen. fv_exists v p}, {}) of (seen', new) \<Rightarrow> (new, seen'))"

text \<open>
  The task: a first scan that is not reported, then one scan for every signal that is not drained, until
  the manager is gone. A wake-up is the view and the folders then, or the loss of the manager (\<open>None\<close>);
  the result is what the packager is told, a set for each scan.
\<close>

fun stream_task :: "bool \<Rightarrow> string set \<Rightarrow> (folder_view \<times> string list) option list \<Rightarrow> string set list" where
  "stream_task has_packager seen [] = []"
| "stream_task has_packager seen (None # _) = []"
| "stream_task has_packager seen (Some (v, folders) # ws) =
     (case shared_items v folders seen of (new, seen') \<Rightarrow>
        (if has_packager then [new] else []) @ stream_task has_packager seen' ws)"

definition subscribe_streams :: "bool \<Rightarrow> folder_view \<times> string list \<Rightarrow> (folder_view \<times> string list) option list \<Rightarrow> string set list" where
  "subscribe_streams has_packager start ws =
     stream_task has_packager (snd (shared_items (fst start) (snd start) {})) ws"

section \<open>Progress of uploads\<close>

text \<open>What the sink of a transfer is given: steps, the finished file, or an error.\<close>

datatype 'f sink_event = TransferProgress nat nat "'f option" | SinkError string

definition wrap_sink :: "'f sink_event list \<times> (string + unit) \<Rightarrow> 'f sink_event list" where
  "wrap_sink r = (case r of (evs, Inl e) \<Rightarrow> evs @ [SinkError e] | (evs, Inr _) \<Rightarrow> evs)"

text \<open>
  The upload: the file is opened and prepared, then sent; \<open>steps\<close> are the calls of the progress function.
\<close>

definition run_upload ::
    "(string \<Rightarrow> string + 'p) \<Rightarrow> ('p \<Rightarrow> string \<Rightarrow> (nat \<times> nat) list \<times> (string + 'f)) \<Rightarrow> string \<Rightarrow> disk \<Rightarrow> 'f sink_event list" where
  "run_upload prepare_put send path d = wrap_sink
     (case read_file path d of Inl e \<Rightarrow> ([], Inl e) | Inr content \<Rightarrow>
      case prepare_put content of Inl e \<Rightarrow> ([], Inl e) | Inr prepared \<Rightarrow>
      case send prepared content of (steps, r) \<Rightarrow>
        (case r of
           Inl e \<Rightarrow> (map (\<lambda>(prog, total). TransferProgress prog total None) steps, Inl e)
         | Inr file \<Rightarrow> (map (\<lambda>(prog, total). TransferProgress prog total None) steps @
                         [TransferProgress 0 0 (Some file)], Inr ())))"

definition upload_mmcs ::
    "(string \<Rightarrow> string + 'p) \<Rightarrow> ('p \<Rightarrow> string \<Rightarrow> (nat \<times> nat) list \<times> (string + 'f)) \<Rightarrow> string \<Rightarrow> disk \<Rightarrow> 'f sink_event list" where
  "upload_mmcs prepare_put new_file path d = run_upload prepare_put new_file path d"

definition upload_attachment ::
    "(string \<Rightarrow> string + 'p) \<Rightarrow> (string \<Rightarrow> string \<Rightarrow> string \<Rightarrow> 'p \<Rightarrow> string \<Rightarrow> (nat \<times> nat) list \<times> (string + 'f)) \<Rightarrow>
       string \<Rightarrow> string \<Rightarrow> string \<Rightarrow> string \<Rightarrow> disk \<Rightarrow> 'f sink_event list" where
  "upload_attachment prepare_put new_mmcs path mime uti name d = run_upload prepare_put (new_mmcs mime uti name) path d"

section \<open>What the task reports\<close>

text \<open>The paths a scan lists.\<close>

definition listed :: "folder_view \<Rightarrow> string list \<Rightarrow> string set" where
  "listed v folders = {p. \<exists>folder \<in> set folders. \<exists>es. fv_entries v folder = Some es \<and> Some p \<in> set es}"

lemma note_path_eq: "note_path p (seen, new) = (insert p seen, new \<union> ({p} - seen))"
  by (auto simp: note_path_def)

lemma note_entries_eq:
  "fold note_entry es (seen, new) = (seen \<union> {p. Some p \<in> set es}, new \<union> ({p. Some p \<in> set es} - seen))"
proof (induction es arbitrary: seen new)
  case (Cons e es)
  then show ?case by (cases e) (auto simp: note_entry_def note_path_eq)
qed simp

lemma note_folders_eq:
  "fold (note_folder v) folders (seen, new) = (seen \<union> listed v folders, new \<union> (listed v folders - seen))"
proof (induction folders arbitrary: seen new)
  case (Cons f folders)
  have "note_folder v f (seen, new) = (seen \<union> listed v [f], new \<union> (listed v [f] - seen))"
    by (auto simp: note_folder_def listed_def note_entries_eq split: option.split)
  then show ?case using Cons [of "seen \<union> listed v [f]" "new \<union> (listed v [f] - seen)"] by (auto simp: listed_def)
qed (simp add: listed_def)

lemma shared_items_eq:
  "shared_items v folders seen =
     (listed v folders - {p \<in> seen. fv_exists v p}, {p \<in> seen. fv_exists v p} \<union> listed v folders)"
  by (simp add: shared_items_def note_folders_eq)

text \<open>The seen paths after some scans, and the report of a scan from them.\<close>

definition scan :: "folder_view \<times> string list \<Rightarrow> string set \<Rightarrow> string set" where
  "scan w seen = snd (shared_items (fst w) (snd w) seen)"

lemma stream_task_reports:
  "j < length us \<Longrightarrow> stream_task True seen (map Some us) ! j =
     fst (shared_items (fst (us ! j)) (snd (us ! j)) (fold scan (take j us) seen))"
proof (induction us arbitrary: seen j)
  case (Cons u us)
  have "stream_task True seen (map Some (u # us)) =
      fst (shared_items (fst u) (snd u) seen) # stream_task True (scan u seen) (map Some us)"
    by (cases u) (simp add: scan_def split: prod.split)
  then show ?case using Cons by (cases j) simp_all
qed simp

lemma scan_keeps: "p \<in> seen \<Longrightarrow> (\<And>w. w \<in> set us \<Longrightarrow> fv_exists (fst w) p) \<Longrightarrow> p \<in> fold scan us seen"
  by (induction us arbitrary: seen) (auto simp: scan_def shared_items_eq)

lemma scan_only_listed: "p \<in> fold scan us seen \<Longrightarrow> p \<in> seen \<or> (\<exists>w \<in> set us. p \<in> listed (fst w) (snd w))"
  by (induction us arbitrary: seen) (fastforce simp: scan_def shared_items_eq)+

lemma scanned_not_new:
  assumes "j < length us" and "i \<le> j" and "p \<in> fold scan (take i us) seen"
    and "\<forall>k. i \<le> k \<and> k \<le> j \<longrightarrow> fv_exists (fst (us ! k)) p"
  shows "p \<notin> stream_task True seen (map Some us) ! j"
proof -
  have "take j us = take i us @ take (j - i) (drop i us)"
    using assms(2) by (metis le_add_diff_inverse take_add)
  moreover have "fv_exists (fst w) p" if "w \<in> set (take (j - i) (drop i us))" for w
    using that assms(1,2,4) by (auto simp: in_set_conv_nth)
  then have "p \<in> fold scan (take (j - i) (drop i us)) (fold scan (take i us) seen)"
    by (rule scan_keeps [OF assms(3)])
  ultimately show ?thesis using assms(1,2,4) by (simp add: stream_task_reports shared_items_eq)
qed

text \<open>C33: A file of the album folders is reported once: one that was reported, or was there when the task
  started, is not reported again as long as it exists at every scan, and one that no earlier scan met is
  reported.\<close>

theorem shared_files_reported_once:
  assumes "j < length us" and "reports = subscribe_streams True start (map Some us)"
  shows "(i < j \<and> p \<in> reports ! i \<and> (\<forall>k. i < k \<and> k \<le> j \<longrightarrow> fv_exists (fst (us ! k)) p) \<longrightarrow> p \<notin> reports ! j) \<and>
         (p \<in> listed (fst start) (snd start) \<and> (\<forall>k \<le> j. fv_exists (fst (us ! k)) p) \<longrightarrow> p \<notin> reports ! j) \<and>
         (p \<in> listed (fst (us ! j)) (snd (us ! j)) \<and> p \<notin> listed (fst start) (snd start) \<and>
            (\<forall>k < j. p \<notin> listed (fst (us ! k)) (snd (us ! k))) \<longrightarrow> p \<in> reports ! j)"
proof (intro conjI impI; (elim conjE)?)
  let ?s = "snd (shared_items (fst start) (snd start) {})"
  have s: "?s = listed (fst start) (snd start)" by (simp add: shared_items_eq)
  have r: "reports = stream_task True ?s (map Some us)" by (simp add: assms(2) subscribe_streams_def)
  {
    assume "i < j" and "p \<in> reports ! i" and ex: "\<forall>k. i < k \<and> k \<le> j \<longrightarrow> fv_exists (fst (us ! k)) p"
    then have "p \<in> listed (fst (us ! i)) (snd (us ! i))"
      using assms(1) by (simp add: r stream_task_reports shared_items_eq)
    then have "p \<in> fold scan (take (Suc i) us) ?s"
      using assms(1) \<open>i < j\<close> by (simp add: take_Suc_conv_app_nth scan_def shared_items_eq)
    then show "p \<notin> reports ! j"
      unfolding r using \<open>i < j\<close> ex by (intro scanned_not_new [OF assms(1), of "Suc i"]) auto
  next
    assume "p \<in> listed (fst start) (snd start)" and "\<forall>k \<le> j. fv_exists (fst (us ! k)) p"
    then show "p \<notin> reports ! j"
      unfolding r by (intro scanned_not_new [OF assms(1), of 0]) (auto simp: s)
  next
    assume l: "p \<in> listed (fst (us ! j)) (snd (us ! j))" and n: "p \<notin> listed (fst start) (snd start)"
      and "\<forall>k < j. p \<notin> listed (fst (us ! k)) (snd (us ! k))"
    then have "p \<notin> fold scan (take j us) ?s"
      using scan_only_listed [of p "take j us" ?s] assms(1) by (fastforce simp: s in_set_conv_nth)
    then show "p \<in> reports ! j" using l assms(1) by (simp add: r stream_task_reports shared_items_eq)
  }
qed

definition view_of :: "string list \<Rightarrow> folder_view" where
  "view_of ps = \<lparr>fv_exists = (\<lambda>p. p \<in> set ps), fv_entries = (\<lambda>folder. if folder = ''d'' then Some (map Some ps) else None)\<rparr>"

theorem shared_files_reported_once_witness:
  "''b'' \<notin> subscribe_streams True (view_of [''a''], [''d'']) (map Some [(view_of [''a'', ''b''], [''d'']), (view_of [''a'', ''b''], [''d''])]) ! 1 \<and>
   ''b'' \<in> subscribe_streams True (view_of [''a''], [''d'']) (map Some [(view_of [''a'', ''b''], [''d'']), (view_of [''a'', ''b''], [''d''])]) ! 0"
proof -
  let ?us = "[(view_of [''a'', ''b''], [''d'']), (view_of [''a'', ''b''], [''d''])]"
  have l: "listed (view_of ps) [''d''] = set ps" for ps by (auto simp: listed_def view_of_def)
  have b: "''b'' \<in> subscribe_streams True (view_of [''a''], [''d'']) (map Some ?us) ! 0"
    using shared_files_reported_once [of 0 ?us _ "(view_of [''a''], [''d''])" 0 "''b''", OF _ refl] by (simp add: l)
  moreover have "\<forall>k. 0 < k \<and> k \<le> 1 \<longrightarrow> fv_exists (fst (?us ! k)) ''b''"
    by (auto simp: view_of_def nth_Cons split: nat.split)
  ultimately show ?thesis
    using shared_files_reported_once [of 1 ?us _ "(view_of [''a''], [''d''])" 0 "''b''", OF _ refl] by simp
qed

section \<open>How a transfer ends\<close>

lemma upload_ends:
  "\<exists>steps e. run_upload prepare_put send path d = steps @ [e] \<and>
     list_all (\<lambda>s. \<exists>p t. s = TransferProgress p t None) steps \<and>
     ((\<exists>x. e = SinkError x) \<or> (\<exists>file. e = TransferProgress 0 0 (Some file)))"
  by (auto simp: run_upload_def wrap_sink_def list_all_iff split: sum.splits prod.splits)

end
