(* ===== verification/Downloads.thy ===== *)
theory Downloads
  imports Streams
begin

text \<open>
  The downloads of \<open>rust/src/api/api.rs\<close>: attachments with a progress sink, and the files of messages in the cloud. The
  directory of a target is made first (\<open>Path::parent\<close>), then the file is created empty, then the client of rustpush
  writes it; what the client fetched, and how far it came, is a parameter.
\<close>

section \<open>The parent of a path\<close>

text \<open>On the reversed path without drive and root: separators and \<open>.\<close> components at the end do not count, except
  for a \<open>.\<close> the path starts with.\<close>

function trim_back :: "bool \<Rightarrow> string \<Rightarrow> string" where
  "trim_back root r =
     (let seg = takeWhile (\<lambda>c. \<not> is_sep c) r; more = dropWhile (\<lambda>c. \<not> is_sep c) r
      in if more = [] then (if root \<and> seg = ''.'' then [] else r)
         else if seg = [] \<or> seg = ''.'' then trim_back root (tl more) else r)"
  by pat_completeness auto

lemma shorter_tail: "x \<in> set r \<Longrightarrow> length (dropWhile p r) - Suc 0 < length r"
  using length_dropWhile_le [of p r] by (cases r) auto

termination trim_back
  by (relation "measure (\<lambda>(_, r). length r)") (auto intro: shorter_tail)

declare trim_back.simps [simp del]

definition parent :: "string \<Rightarrow> string option" where
  "parent p =
     (let body = strip_drive p; drive = take (length p - length body) p;
          root = (body \<noteq> [] \<and> is_sep (hd body));
          start = drive @ (if root then [hd body] else []);
          path = trim_back root (rev (if root then tl body else body));
          more = dropWhile (\<lambda>c. \<not> is_sep c) path
      in if path = [] then None
         else if more = [] then Some start
         else Some (start @ rev (trim_back root (tl more))))"

lemma parent_examples:
  "parent ''a/b'' = Some ''a''" "parent ''b'' = Some ''''" "parent '''' = None" "parent ''/'' = None" "parent ''/b'' = Some ''/''"
  "parent ''a//b/.'' = Some ''a''" "parent ''./b'' = Some ''.''" "parent ''C:/a/b'' = Some ''C:/a''" "parent ''C:'' = None"
  by code_simp+

section \<open>Downloads with progress\<close>

text \<open>\<open>fetched\<close>: the calls of the progress function, what was written, and how the transfer ended. A panic (left)
  ends the task without a word to the sink; an error is its last event.\<close>

definition unwrap_none_text :: string where
  "unwrap_none_text = ''called `Option::unwrap()` on a `None` value''"

definition run_download ::
    "(nat \<times> nat) list \<times> string \<times> (string + unit) \<Rightarrow> string \<Rightarrow> disk \<Rightarrow> (string + 'f sink_event list) \<times> disk" where
  "run_download fetched path d = (case parent path of
       None \<Rightarrow> (Inl unwrap_none_text, d)
     | Some dirname \<Rightarrow> (case thn (create_dir_all dirname) (write_file path '''') d of
         (Inl e, d') \<Rightarrow> (Inr (wrap_sink ([], Inl e)), d')
       | (Inr _, d') \<Rightarrow> (case fetched of (steps, content, r) \<Rightarrow>
           (Inr (wrap_sink (map (\<lambda>(prog, total). TransferProgress prog total None) steps, r)),
            snd (write_file path content d')))))"

definition download_attachment ::
    "(nat \<times> nat) list \<times> string \<times> (string + unit) \<Rightarrow> string \<Rightarrow> disk \<Rightarrow> (string + 'f sink_event list) \<times> disk" where
  "download_attachment fetched path d = run_download fetched path d"

definition download_mmcs ::
    "(nat \<times> nat) list \<times> string \<times> (string + unit) \<Rightarrow> string \<Rightarrow> disk \<Rightarrow> (string + 'f sink_event list) \<times> disk" where
  "download_mmcs fetched path d = run_download fetched path d"

section \<open>Files of the cloud\<close>

text \<open>The map from record to open file; a record named twice keeps the later file.\<close>

fun open_targets :: "(string \<times> string) list \<Rightarrow> (string \<rightharpoonup> string) \<Rightarrow> (disk, string, string \<rightharpoonup> string) sem" where
  "open_targets [] m = ok m"
| "open_targets ((file, rec) # fs) m = (case parent file of
       None \<Rightarrow> fail unwrap_none_text
     | Some dirname \<Rightarrow> thn (create_dir_all dirname) (thn (write_file file '''') (open_targets fs (m(rec \<mapsto> file)))))"

text \<open>The client writes what it fetched into the files it was given.\<close>

definition write_fetched :: "(string \<times> string) list \<Rightarrow> (string \<rightharpoonup> string) \<Rightarrow> (string \<rightharpoonup> string) \<Rightarrow> disk \<Rightarrow> disk" where
  "write_fetched fs m contents = fold (\<lambda>(file, rec) d.
     if m rec = Some file then (case contents rec of None \<Rightarrow> d | Some c \<Rightarrow> snd (write_file file c d)) else d) fs"

definition download_files ::
    "((string \<Rightarrow> bool) \<Rightarrow> (string \<rightharpoonup> string) \<times> (string + unit)) \<Rightarrow> (string \<times> string) list \<Rightarrow> (disk, string, unit) sem" where
  "download_files fetch fs = bnd (open_targets fs Map.empty) (\<lambda>m d.
     case fetch (\<lambda>rec. m rec \<noteq> None) of (contents, r) \<Rightarrow> (r, write_fetched fs m contents d))"

text \<open>Both downloads are the same code, with another operation of the client.\<close>

definition download_cloud_attachments ::
    "((string \<Rightarrow> bool) \<Rightarrow> (string \<rightharpoonup> string) \<times> (string + unit)) \<Rightarrow> (string \<times> string) list \<Rightarrow> (disk, string, unit) sem" where
  "download_cloud_attachments download_attachments fs = download_files download_attachments fs"

definition download_cloud_group_photos ::
    "((string \<Rightarrow> bool) \<Rightarrow> (string \<rightharpoonup> string) \<times> (string + unit)) \<Rightarrow> (string \<times> string) list \<Rightarrow> (disk, string, unit) sem" where
  "download_cloud_group_photos download_group_photo fs = download_files download_group_photo fs"

section \<open>Where the contents go\<close>

definition target_ok :: "disk \<Rightarrow> string \<Rightarrow> bool" where
  "target_ok d p \<longleftrightarrow> blocked d p = None \<and> (\<exists>dirname. parent p = Some dirname \<and> blocked d dirname = None)"

lemma open_targets_ok:
  assumes "\<forall>x \<in> set fs. target_ok d (fst x)"
  shows "open_targets fs m d =
    (Inr (m ++ map_of (rev (map prod.swap fs))), d\<lparr>files := (\<lambda>p. if p \<in> fst ` set fs then Some '''' else files d p)\<rparr>)"
  using assms
proof (induction fs arbitrary: m d)
  case (Cons x fs)
  obtain f rec where x: "x = (f, rec)" by force
  let ?d = "d\<lparr>files := (files d)(f \<mapsto> '''')\<rparr>"
  from Cons.prems x obtain dirname where p: "blocked d f = None" "parent f = Some dirname" "blocked d dirname = None"
    by (auto simp: target_ok_def)
  have "\<forall>y \<in> set fs. target_ok ?d (fst y)" using Cons.prems by (auto simp: target_ok_def)
  note IH = Cons.IH [OF this, of "m(rec \<mapsto> f)"]
  have "?d\<lparr>files := (\<lambda>q. if q \<in> fst ` set fs then Some '''' else files ?d q)\<rparr> =
      d\<lparr>files := (\<lambda>q. if q \<in> fst ` set (x # fs) then Some '''' else files d q)\<rparr>"
    by (auto simp: x fun_eq_iff)
  with IH have "open_targets fs (m(rec \<mapsto> f)) ?d = (Inr (m(rec \<mapsto> f) ++ map_of (rev (map prod.swap fs))),
      d\<lparr>files := (\<lambda>q. if q \<in> fst ` set (x # fs) then Some '''' else files d q)\<rparr>)" by (simp only:)
  with p show ?case
    by (simp add: x thn_def bnd_def asks_def create_dir_all_def write_file_def attempt_def map_add_upd_left del: fun_upd_apply)
qed (simp add: ok_def)

lemma write_fetched_file:
  assumes "distinct (map fst fs)" and "\<forall>x \<in> set fs. blocked d (fst x) = None"
  shows "blocked (write_fetched fs m contents d) = blocked d \<and>
    files (write_fetched fs m contents d) p = (case map_of fs p of
       None \<Rightarrow> files d p
     | Some rec \<Rightarrow> if m rec = Some p \<and> contents rec \<noteq> None then contents rec else files d p)"
  using assms
proof (induction fs arbitrary: d)
  case (Cons x fs)
  obtain f rec where x: "x = (f, rec)" by force
  define d1 where "d1 = (if m rec = Some f then (case contents rec of None \<Rightarrow> d | Some c \<Rightarrow> snd (write_file f c d)) else d)"
  have b: "blocked d1 = blocked d" and q: "files d1 p =
      (if p = f \<and> m rec = Some f \<and> contents rec \<noteq> None then contents rec else files d p)"
    using Cons.prems(2) by (auto simp: d1_def x write_file_def attempt_def split: option.splits)
  have "write_fetched (x # fs) m contents d = write_fetched fs m contents d1"
    by (simp add: write_fetched_def x d1_def)
  moreover have "p = f \<Longrightarrow> map_of fs p = None" using Cons.prems(1) by (simp add: x map_of_eq_None_iff)
  ultimately show ?case
    using Cons.IH [of d1] Cons.prems q b by (cases "p = f"; auto simp: x split: option.split)
qed (simp add: write_fetched_def)

lemma own_record: "distinct (map snd fs) \<Longrightarrow> x \<in> set fs \<Longrightarrow> map_of (rev (map prod.swap fs)) (snd x) = Some (fst x)"
  by (intro map_of_is_SomeI) (auto simp: comp_def rev_map [symmetric] prod.swap_def)

lemma later_record_wins:
  assumes "distinct (map fst (A @ y # B))" and "x \<in> set A" and "snd x = snd y"
  shows "map_of (rev (map prod.swap (A @ y # B))) (snd x) \<noteq> Some (fst x)"
proof
  let ?late = "rev (map prod.swap B) @ [prod.swap y]"
  assume "map_of (rev (map prod.swap (A @ y # B))) (snd x) = Some (fst x)"
  moreover have "snd x \<in> dom (map_of ?late)" by (simp add: assms(3) dom_map_of_conv_image_fst prod.swap_def)
  ultimately have "map_of ?late (snd x) = Some (fst x)"
    using assms(3) by (auto simp: map_add_def split: option.splits)
  then have "(snd x, fst x) \<in> set ?late" by (rule map_of_SomeD)
  then have "fst x \<in> fst ` set (y # B)" by (auto simp: prod.swap_def image_iff)
  moreover have "fst x \<in> fst ` set A" using assms(2) by (rule imageI)
  ultimately show False using assms(1) by (metis IntI UnI1 distinct_append disjoint_iff list.set_map map_append)
qed

lemma downloaded_file:
  assumes "distinct (map fst fs)" and "\<forall>x \<in> set fs. target_ok d (fst x)"
    and "fetch (\<lambda>rec. rec \<in> snd ` set fs) = (contents, r)" and "\<forall>x \<in> set fs. contents (snd x) \<noteq> None"
  shows "\<exists>d'. download_files fetch fs d = (r, d') \<and> blocked d' = blocked d \<and>
    (\<forall>x \<in> set fs. files d' (fst x) =
       (if map_of (rev (map prod.swap fs)) (snd x) = Some (fst x) then contents (snd x) else Some '''')) \<and>
    (\<forall>p. p \<notin> fst ` set fs \<longrightarrow> files d' p = files d p)"
proof -
  let ?m = "map_of (rev (map prod.swap fs))"
  let ?d = "d\<lparr>files := (\<lambda>p. if p \<in> fst ` set fs then Some '''' else files d p)\<rparr>"
  have m: "(\<lambda>rec. ?m rec \<noteq> None) = (\<lambda>rec. rec \<in> snd ` set fs)"
    by (auto simp: fun_eq_iff map_of_eq_None_iff image_iff prod.swap_def)
  have w: "blocked (write_fetched fs ?m contents ?d) = blocked d"
    "files (write_fetched fs ?m contents ?d) p = (case map_of fs p of None \<Rightarrow> files ?d p
       | Some rec \<Rightarrow> if ?m rec = Some p \<and> contents rec \<noteq> None then contents rec else files ?d p)" for p
    using write_fetched_file [of fs ?d ?m contents p] assms(1,2) by (auto simp: target_ok_def)
  have "files (write_fetched fs ?m contents ?d) (fst x) =
      (if ?m (snd x) = Some (fst x) then contents (snd x) else Some '''')" if "x \<in> set fs" for x
  proof -
    have "map_of fs (fst x) = Some (snd x)" using assms(1) that by (simp add: map_of_is_SomeI)
    with w(2) [of "fst x"] assms(4) that show ?thesis by auto
  qed
  moreover have "files (write_fetched fs ?m contents ?d) p = files d p" if "p \<notin> fst ` set fs" for p
    using w(2) [of p] that by (simp add: map_of_eq_None_iff [THEN iffD2])
  moreover have "download_files fetch fs d = (r, write_fetched fs ?m contents ?d)"
    by (simp only: download_files_def bnd_def open_targets_ok [OF assms(2)] empty_map_add m assms(3) split sum.case prod.case)
  ultimately show ?thesis using w(1) by simp
qed

text \<open>A download of files of the cloud puts every record into its own file: when no two targets and no two
  records are the same and the client fetches every record it is asked for, each target holds the content of its
  record afterwards, and no other file is touched.\<close>

theorem downloads_reach_their_files:
  assumes "distinct (map fst fs)" and "distinct (map snd fs)" and "\<forall>x \<in> set fs. target_ok d (fst x)"
    and "fetch (\<lambda>rec. rec \<in> snd ` set fs) = (contents, Inr ())" and "\<forall>x \<in> set fs. contents (snd x) \<noteq> None"
  shows "\<exists>d'. download_cloud_attachments fetch fs d = (Inr (), d') \<and>
    (\<forall>x \<in> set fs. files d' (fst x) = contents (snd x)) \<and> (\<forall>p. p \<notin> fst ` set fs \<longrightarrow> files d' p = files d p)"
  using downloaded_file [where fetch = fetch, OF assms(1,3,4,5)] own_record [OF assms(2)]
  by (fastforce simp: download_cloud_attachments_def)

text \<open>When one record is asked for into two files, the later file gets it and the earlier one is left empty,
  although the download reports success.\<close>

theorem record_downloaded_once:
  assumes "distinct (map fst (A @ y # B))" and "x \<in> set A" and "snd x = snd y"
    and "\<forall>z \<in> set (A @ y # B). target_ok d (fst z)"
    and "fetch (\<lambda>rec. rec \<in> snd ` set (A @ y # B)) = (contents, Inr ())"
    and "\<forall>z \<in> set (A @ y # B). contents (snd z) \<noteq> None"
  shows "\<exists>d'. download_cloud_attachments fetch (A @ y # B) d = (Inr (), d') \<and> read_file (fst x) d' = Inr ''''"
proof -
  from downloaded_file [where fetch = fetch, OF assms(1,4,5,6)] later_record_wins [OF assms(1,2,3)] assms(2)
  obtain d' where "download_cloud_attachments fetch (A @ y # B) d = (Inr (), d')" "files d' (fst x) = Some ''''" "blocked d' = blocked d"
    by (fastforce simp: download_cloud_attachments_def)
  moreover have "blocked d (fst x) = None" using assms(2,4) by (auto simp: target_ok_def)
  ultimately show ?thesis by (auto simp: read_file_def)
qed

definition sample_targets :: "(string \<times> string) list" where
  "sample_targets = [(''d/a'', ''r1''), (''d/b'', ''r2'')]"

lemma sample_targets_ok: "\<forall>x \<in> set sample_targets. target_ok empty_disk (fst x)"
proof -
  have "parent ''d/a'' = Some ''d''" "parent ''d/b'' = Some ''d''" by code_simp+
  then show ?thesis by (simp add: sample_targets_def target_ok_def empty_disk_def)
qed

theorem downloads_reach_their_files_witness:
  "\<exists>d'. download_cloud_attachments (\<lambda>_. ([''r1'' \<mapsto> ''one'', ''r2'' \<mapsto> ''two''], Inr ())) sample_targets empty_disk = (Inr (), d') \<and>
     files d' ''d/b'' = Some ''two''"
  using downloads_reach_their_files [of sample_targets empty_disk "\<lambda>_. ([''r1'' \<mapsto> ''one'', ''r2'' \<mapsto> ''two''], Inr ())"]
    sample_targets_ok
  by (fastforce simp: sample_targets_def)

theorem record_downloaded_once_witness:
  "\<exists>d'. download_cloud_attachments (\<lambda>_. ([''r'' \<mapsto> ''one''], Inr ())) [(''d/a'', ''r''), (''d/b'', ''r'')] empty_disk = (Inr (), d') \<and>
     read_file ''d/a'' d' = Inr ''''"
proof -
  have "\<exists>d'. download_cloud_attachments (\<lambda>_. ([''r'' \<mapsto> ''one''], Inr ())) ([(''d/a'', ''r'')] @ (''d/b'', ''r'') # []) empty_disk = (Inr (), d') \<and>
     read_file (fst (''d/a'', ''r'')) d' = Inr ''''"
    by (rule record_downloaded_once) (use sample_targets_ok in \<open>auto simp: sample_targets_def\<close>)
  then show ?thesis by simp
qed

end
