(* ===== verification/Handover.thy ===== *)
theory Handover
  imports Startup NativeLoopSpec
begin

text \<open>
  The raw pointers with which the two halves of the mobile app share the push state: \<open>send_daemon\<close> and
  \<open>service_from_ptr\<close> of \<open>rust/src/api/api.rs\<close>, \<open>init_native\<close> and \<open>get_state\<close> of \<open>rust/src/native.rs\<close>. The
  memory is a map from addresses to boxes and to reference-counted cells; using memory that was given
  back is a fault of its own, and so is an allocation that fails. The allocator is a parameter.
\<close>

section \<open>Memory\<close>

text \<open>The receiving ends of the four channels, with what waits in them.\<close>

record APSWatcher =
  aw_reg_state :: RegisterState
  aw_cancel_poll :: "unit list"
  aw_local_messages :: "PushMessage list"
  aw_inq_queue :: "string list"

record DaemonData =
  dd_watcher :: APSWatcher
  dd_state :: SharedPushState

text \<open>An \<open>Arc\<close>: all strong references together hold one of the weak ones, and the value goes with the last
  strong one.\<close>

record arc_cell =
  ar_value :: SharedPushState
  ar_strong :: nat
  ar_weak :: nat

record heap =
  hp_boxes :: "64 word \<rightharpoonup> DaemonData"
  hp_arcs :: "64 word \<rightharpoonup> arc_cell"

datatype fault = Panicked string | AllocFailed | UseAfterFree

type_synonym 'a mem = "(heap, fault, 'a) sem"
type_synonym allocator = "heap \<Rightarrow> 64 word option"

text \<open>An allocator never hands out memory that is in use.\<close>

definition alloc_ok :: "allocator \<Rightarrow> bool" where
  "alloc_ok alloc \<longleftrightarrow> (\<forall>h a. alloc h = Some a \<longrightarrow> hp_boxes h a = None \<and> hp_arcs h a = None)"

definition box_into_raw :: "allocator \<Rightarrow> DaemonData \<Rightarrow> 64 word mem" where
  "box_into_raw alloc x h = (case alloc h of None \<Rightarrow> (Inl AllocFailed, h)
     | Some a \<Rightarrow> (Inr a, h\<lparr>hp_boxes := (hp_boxes h)(a \<mapsto> x)\<rparr>))"

definition box_from_raw :: "64 word \<Rightarrow> DaemonData mem" where
  "box_from_raw a h = (case hp_boxes h a of None \<Rightarrow> (Inl UseAfterFree, h)
     | Some x \<Rightarrow> (Inr x, h\<lparr>hp_boxes := (hp_boxes h)(a := None)\<rparr>))"

definition arc_new :: "allocator \<Rightarrow> SharedPushState \<Rightarrow> 64 word mem" where
  "arc_new alloc x h = (case alloc h of None \<Rightarrow> (Inl AllocFailed, h)
     | Some a \<Rightarrow> (Inr a, h\<lparr>hp_arcs := (hp_arcs h)(a \<mapsto> \<lparr>ar_value = x, ar_strong = 1, ar_weak = 1\<rparr>)\<rparr>))"

definition with_arc :: "64 word \<Rightarrow> (arc_cell \<Rightarrow> 'a \<times> arc_cell option) \<Rightarrow> 'a mem" where
  "with_arc a f h = (case hp_arcs h a of None \<Rightarrow> (Inl UseAfterFree, h)
     | Some c \<Rightarrow> (case f c of (x, c') \<Rightarrow> (Inr x, h\<lparr>hp_arcs := (hp_arcs h)(a := c')\<rparr>)))"

text \<open>The last weak reference gives the memory back.\<close>

definition drop_weak :: "arc_cell \<Rightarrow> arc_cell option" where
  "drop_weak c = (if ar_weak c \<le> 1 then None else Some (c\<lparr>ar_weak := ar_weak c - 1\<rparr>))"

definition drop_strong :: "arc_cell \<Rightarrow> arc_cell option" where
  "drop_strong c = (let c' = c\<lparr>ar_strong := ar_strong c - 1\<rparr>
     in if ar_strong c \<le> 1 then drop_weak c' else Some c')"

section \<open>The functions\<close>

text \<open>A subscription sees what is sent after it; the senders are the other ends of the two new channels.\<close>

definition subscribe_conn :: "string list" where
  "subscribe_conn = []"

definition import_watcher :: "string list \<Rightarrow> RegisterState \<Rightarrow> APSWatcher" where
  "import_watcher queue reg = \<lparr>aw_reg_state = reg, aw_cancel_poll = [], aw_local_messages = [], aw_inq_queue = queue\<rparr>"

definition build_watcher :: "RegisterState \<Rightarrow> APSWatcher" where
  "build_watcher reg = import_watcher subscribe_conn reg"

definition send_daemon :: "allocator \<Rightarrow> SharedPushState \<Rightarrow> APSWatcher \<Rightarrow> (string \<times> SharedPushState) mem" where
  "send_daemon alloc state watcher =
     bnd (box_into_raw alloc \<lparr>dd_watcher = watcher, dd_state = state\<rparr>) (\<lambda>num. ok (show_nat (unat num), state))"

definition service_from_ptr :: "string \<Rightarrow> SharedPushState option mem" where
  "service_from_ptr ptr = (case parse_u64 ptr of
       None \<Rightarrow> fail (Panicked ''called `Result::unwrap()` on an `Err` value'')
     | Some pointer \<Rightarrow> with_arc pointer
         (\<lambda>c. (if ar_strong c = 0 then None else Some (ar_value c), drop_weak c)))"

record NativePushState =
  np_state :: "64 word"
  np_watcher :: APSWatcher

text \<open>What the task of \<open>init_native\<close> hands to the app; \<open>restored\<close> is the result of \<open>restore\<close>.\<close>

definition init_native :: "allocator \<Rightarrow> (SharedPushState \<times> APSWatcher) option \<Rightarrow> string option \<Rightarrow> NativePushState option mem" where
  "init_native alloc restored handle = (case handle of
       Some s \<Rightarrow> (case parse_u64 s of
           None \<Rightarrow> fail (Panicked ''bad handle??'')
         | Some parsed \<Rightarrow> bnd (box_from_raw parsed) (\<lambda>d.
             bnd (arc_new alloc (dd_state d)) (\<lambda>a.
             ok (Some \<lparr>np_state = a, np_watcher = dd_watcher d\<rparr>))))
     | None \<Rightarrow> (case restored of
           None \<Rightarrow> ok None
         | Some (st, w) \<Rightarrow> bnd (arc_new alloc st) (\<lambda>a. ok (Some \<lparr>np_state = a, np_watcher = w\<rparr>))))"

definition get_state :: "NativePushState \<Rightarrow> 64 word mem" where
  "get_state n = with_arc (np_state n) (\<lambda>c. (np_state n, Some (c\<lparr>ar_weak := ar_weak c + 1\<rparr>)))"

text \<open>The app lets the object go: its state loses the strong reference.\<close>

definition drop_native :: "NativePushState \<Rightarrow> unit mem" where
  "drop_native n = with_arc (np_state n) (\<lambda>c. ((), drop_strong c))"

end
