(* ===== verification/HandoverSpec.thy ===== *)
theory HandoverSpec
  imports Handover
begin

text \<open>
  The pointers of \<open>Handover\<close> under the protocol of the app (each ticket of \<open>send_daemon\<close> and each pointer
  of \<open>get_state\<close> is used once): a step relation, the ownership invariant, and what breaks without it.
\<close>

section \<open>What the app holds\<close>

record handover =
  ho_heap :: heap
  ho_tickets :: "string list"
  ho_natives :: "NativePushState list"
  ho_weaks :: "64 word list"

definition empty_heap :: heap where
  "empty_heap = \<lparr>hp_boxes = Map.empty, hp_arcs = Map.empty\<rparr>"

definition no_handover :: "handover \<Rightarrow> bool" where
  "no_handover s \<longleftrightarrow> s = \<lparr>ho_heap = empty_heap, ho_tickets = [], ho_natives = [], ho_weaks = []\<rparr>"

inductive hand_step :: "allocator \<Rightarrow> handover \<Rightarrow> handover \<Rightarrow> bool" for alloc where
  send: "send_daemon alloc st w (ho_heap s) = (Inr (t, st'), h) \<Longrightarrow>
     hand_step alloc s (s\<lparr>ho_heap := h, ho_tickets := t # ho_tickets s\<rparr>)"
| take: "t \<in> set (ho_tickets s) \<Longrightarrow> init_native alloc r (Some t) (ho_heap s) = (Inr (Some n), h) \<Longrightarrow>
     hand_step alloc s (s\<lparr>ho_heap := h, ho_tickets := remove1 t (ho_tickets s), ho_natives := n # ho_natives s\<rparr>)"
| cold: "init_native alloc r None (ho_heap s) = (Inr (Some n), h) \<Longrightarrow>
     hand_step alloc s (s\<lparr>ho_heap := h, ho_natives := n # ho_natives s\<rparr>)"
| share: "n \<in> set (ho_natives s) \<Longrightarrow> get_state n (ho_heap s) = (Inr p, h) \<Longrightarrow>
     hand_step alloc s (s\<lparr>ho_heap := h, ho_weaks := p # ho_weaks s\<rparr>)"
| adopt: "p \<in> set (ho_weaks s) \<Longrightarrow> service_from_ptr (show_nat (unat p)) (ho_heap s) = (r, h) \<Longrightarrow>
     hand_step alloc s (s\<lparr>ho_heap := h, ho_weaks := remove1 p (ho_weaks s)\<rparr>)"
| release: "n \<in> set (ho_natives s) \<Longrightarrow> drop_native n (ho_heap s) = (r, h) \<Longrightarrow>
     hand_step alloc s (s\<lparr>ho_heap := h, ho_natives := remove1 n (ho_natives s)\<rparr>)"

inductive_cases hand_stepE: "hand_step alloc s t"

section \<open>Ownership\<close>

text \<open>Every box has one ticket; a cell is referred to by the native object that owns it and by the pointers that
  are still out, and by nothing else.\<close>

definition arc_owned :: "NativePushState list \<Rightarrow> 64 word list \<Rightarrow> 64 word \<Rightarrow> arc_cell option \<Rightarrow> bool" where
  "arc_owned ns ws a cell \<longleftrightarrow> (case cell of
       None \<Rightarrow> a \<notin> np_state ` set ns \<and> a \<notin> set ws
     | Some c \<Rightarrow> ar_strong c = (if a \<in> np_state ` set ns then 1 else 0) \<and>
                ar_weak c = ar_strong c + count_list ws a \<and> 0 < ar_weak c)"

definition hand_inv :: "handover \<Rightarrow> bool" where
  "hand_inv s \<longleftrightarrow> distinct (ho_tickets s) \<and> distinct (map np_state (ho_natives s)) \<and>
     set (ho_tickets s) = (\<lambda>a. show_nat (unat a)) ` dom (hp_boxes (ho_heap s)) \<and>
     (\<forall>a. arc_owned (ho_natives s) (ho_weaks s) a (hp_arcs (ho_heap s) a))"

lemma show_pointer_inj: "show_nat (unat a) = show_nat (unat b) \<longleftrightarrow> a = b" for a b :: "64 word"
  by (metis parse_pointer option.inject)

lemma hand_inv_init: "no_handover s \<Longrightarrow> hand_inv s"
  by (simp add: no_handover_def hand_inv_def empty_heap_def arc_owned_def)

lemma count_remove1: "count_list (remove1 x xs) y = count_list xs y - (if x = y then 1 else 0)"
  by (induction xs) (auto simp: count_list_0_iff)

lemma arc_owned_NoneI: "arc_owned ns ws a None \<longleftrightarrow> a \<notin> np_state ` set ns \<and> a \<notin> set ws"
  by (simp add: arc_owned_def)

lemma box_into_raw_Inr:
  "box_into_raw alloc x h = (Inr a, h') \<longleftrightarrow> alloc h = Some a \<and> h' = h\<lparr>hp_boxes := (hp_boxes h)(a \<mapsto> x)\<rparr>"
  by (auto simp: box_into_raw_def split: option.splits)

lemma arc_new_Inr:
  "arc_new alloc x h = (Inr a, h') \<longleftrightarrow>
     alloc h = Some a \<and> h' = h\<lparr>hp_arcs := (hp_arcs h)(a \<mapsto> \<lparr>ar_value = x, ar_strong = 1, ar_weak = 1\<rparr>)\<rparr>"
  by (auto simp: arc_new_def split: option.splits)

lemma box_from_raw_Inr:
  "box_from_raw a h = (Inr x, h') \<longleftrightarrow> hp_boxes h a = Some x \<and> h' = h\<lparr>hp_boxes := (hp_boxes h)(a := None)\<rparr>"
  by (auto simp: box_from_raw_def split: option.splits)

lemma send_daemon_Inr:
  "send_daemon alloc st w h = (Inr (t, st'), h') \<longleftrightarrow> (\<exists>a. alloc h = Some a \<and> t = show_nat (unat a) \<and> st' = st \<and>
     h' = h\<lparr>hp_boxes := (hp_boxes h)(a \<mapsto> \<lparr>dd_watcher = w, dd_state = st\<rparr>)\<rparr>)"
  by (auto simp: send_daemon_def bnd_def ok_def box_into_raw_def split: option.splits)

lemma init_ticket_Inr:
  "init_native alloc r (Some (show_nat (unat a))) h = (Inr n, h') \<longleftrightarrow>
     (\<exists>d b h1. hp_boxes h a = Some d \<and> h1 = h\<lparr>hp_boxes := (hp_boxes h)(a := None)\<rparr> \<and> alloc h1 = Some b \<and>
        n = Some \<lparr>np_state = b, np_watcher = dd_watcher d\<rparr> \<and>
        h' = h1\<lparr>hp_arcs := (hp_arcs h)(b \<mapsto> \<lparr>ar_value = dd_state d, ar_strong = 1, ar_weak = 1\<rparr>)\<rparr>)"
  by (auto simp: init_native_def parse_pointer bnd_def ok_def box_from_raw_def arc_new_def split: option.splits)

lemma init_ticketE:
  assumes "init_native alloc r (Some (show_nat (unat a))) h = (Inr (Some n), h')"
  obtains d b h1 where "hp_boxes h a = Some d" and "h1 = h\<lparr>hp_boxes := (hp_boxes h)(a := None)\<rparr>" and "alloc h1 = Some b"
    and "n = \<lparr>np_state = b, np_watcher = dd_watcher d\<rparr>"
    and "h' = h1\<lparr>hp_arcs := (hp_arcs h)(b \<mapsto> \<lparr>ar_value = dd_state d, ar_strong = 1, ar_weak = 1\<rparr>)\<rparr>"
  using assms unfolding init_ticket_Inr option.inject by metis

lemma init_ticket_safe:
  "hp_boxes h a = Some d \<Longrightarrow> fst (init_native alloc r (Some (show_nat (unat a))) h) \<noteq> Inl UseAfterFree"
  by (simp add: init_native_def parse_pointer box_from_raw_def arc_new_def bnd_def ok_def split: option.splits)

lemma init_cold_Inr:
  "init_native alloc r None h = (Inr (Some n), h') \<longleftrightarrow>
     (\<exists>st w b. r = Some (st, w) \<and> alloc h = Some b \<and> n = \<lparr>np_state = b, np_watcher = w\<rparr> \<and>
        h' = h\<lparr>hp_arcs := (hp_arcs h)(b \<mapsto> \<lparr>ar_value = st, ar_strong = 1, ar_weak = 1\<rparr>)\<rparr>)"
  by (auto simp: init_native_def bnd_def ok_def arc_new_def split: option.splits)

lemma with_arc_Inr:
  "with_arc a f h = (Inr x, h') \<longleftrightarrow> (\<exists>c c'. hp_arcs h a = Some c \<and> f c = (x, c') \<and>
     h' = h\<lparr>hp_arcs := (hp_arcs h)(a := c')\<rparr>)"
  by (auto simp: with_arc_def split: option.splits prod.splits)

section \<open>Each step keeps the ownership\<close>

lemma alloc_okD:
  assumes "alloc_ok alloc" and "alloc h = Some a"
  shows "hp_boxes h a = None" and "hp_arcs h a = None"
  using assms by (auto simp: alloc_ok_def)

lemma inv_send:
  assumes "alloc_ok alloc" and "hand_inv s" and "send_daemon alloc st w (ho_heap s) = (Inr (t, st'), h)"
  shows "hand_inv (s\<lparr>ho_heap := h, ho_tickets := t # ho_tickets s\<rparr>)"
proof -
  from assms(3) obtain a where a: "alloc (ho_heap s) = Some a" "t = show_nat (unat a)"
      "h = (ho_heap s)\<lparr>hp_boxes := (hp_boxes (ho_heap s))(a \<mapsto> \<lparr>dd_watcher = w, dd_state = st\<rparr>)\<rparr>"
    by (auto simp: send_daemon_Inr)
  from a(1) assms(1) have "hp_boxes (ho_heap s) a = None" by (simp add: alloc_ok_def)
  with assms(2) show ?thesis
    by (auto simp: hand_inv_def a(2,3) show_pointer_inj domIff)
qed

lemma owned_new:
  assumes "\<forall>x. arc_owned ns ws x (f x)" and "f b = None"
  shows "distinct (map np_state ns) \<Longrightarrow> distinct (map np_state (\<lparr>np_state = b, np_watcher = w\<rparr> # ns))"
    and "arc_owned (\<lparr>np_state = b, np_watcher = w\<rparr> # ns) ws x
           ((f(b \<mapsto> \<lparr>ar_value = v, ar_strong = 1, ar_weak = 1\<rparr>)) x)"
proof -
  from assms have b: "b \<notin> np_state ` set ns" "b \<notin> set ws" using arc_owned_NoneI by metis+
  then show "distinct (map np_state ns) \<Longrightarrow> distinct (map np_state (\<lparr>np_state = b, np_watcher = w\<rparr> # ns))" by auto
  show "arc_owned (\<lparr>np_state = b, np_watcher = w\<rparr> # ns) ws x
          ((f(b \<mapsto> \<lparr>ar_value = v, ar_strong = 1, ar_weak = 1\<rparr>)) x)"
    using b spec [OF assms(1), of x] by (auto simp: arc_owned_def count_list_0_iff split: option.splits)
qed

lemma inv_take:
  assumes "alloc_ok alloc" and "hand_inv s" and "t \<in> set (ho_tickets s)"
    and "init_native alloc r (Some t) (ho_heap s) = (Inr (Some n), h)"
  shows "hand_inv (s\<lparr>ho_heap := h, ho_tickets := remove1 t (ho_tickets s), ho_natives := n # ho_natives s\<rparr>)"
proof -
  from assms(2,3) have "t \<in> (\<lambda>a. show_nat (unat a)) ` dom (hp_boxes (ho_heap s))" by (simp add: hand_inv_def)
  then obtain a :: "64 word" where t: "t = show_nat (unat a)" by blast
  from assms(4) [unfolded t] obtain d b h1 where h: "hp_boxes (ho_heap s) a = Some d" "h1 = (ho_heap s)\<lparr>hp_boxes := (hp_boxes (ho_heap s))(a := None)\<rparr>" "alloc h1 = Some b"
      "n = \<lparr>np_state = b, np_watcher = dd_watcher d\<rparr>"
      "h = h1\<lparr>hp_arcs := (hp_arcs (ho_heap s))(b \<mapsto> \<lparr>ar_value = dd_state d, ar_strong = 1, ar_weak = 1\<rparr>)\<rparr>"
    by (rule init_ticketE)
  have b: "hp_arcs (ho_heap s) b = None" using alloc_okD(2) [OF assms(1) h(3)] h(2) by simp
  note owned = owned_new [of "ho_natives s" "ho_weaks s" "hp_arcs (ho_heap s)" b, OF _ b]
  from assms(2) show ?thesis
    unfolding hand_inv_def h(4,5) using owned h(2)
    by (auto simp: t set_remove1_eq distinct_remove1 show_pointer_inj simp del: distinct.simps(2) list.map(2) fun_upd_apply)
qed

lemma inv_cold:
  assumes "alloc_ok alloc" and "hand_inv s" and "init_native alloc r None (ho_heap s) = (Inr (Some n), h)"
  shows "hand_inv (s\<lparr>ho_heap := h, ho_natives := n # ho_natives s\<rparr>)"
proof -
  from assms(3) obtain st w b where h: "alloc (ho_heap s) = Some b" "n = \<lparr>np_state = b, np_watcher = w\<rparr>"
      "h = (ho_heap s)\<lparr>hp_arcs := (hp_arcs (ho_heap s))(b \<mapsto> \<lparr>ar_value = st, ar_strong = 1, ar_weak = 1\<rparr>)\<rparr>"
    by (auto simp: init_cold_Inr)
  have b: "hp_arcs (ho_heap s) b = None" using assms(1) h(1) by (auto simp: alloc_ok_def)
  from assms(2) show ?thesis
    unfolding hand_inv_def h(2,3)
    using owned_new [of "ho_natives s" "ho_weaks s" "hp_arcs (ho_heap s)" b, OF _ b]
    by (auto simp del: distinct.simps(2) list.map(2) fun_upd_apply)
qed

lemma owned_upd:
  assumes "\<forall>x. arc_owned ns ws x (f x)" and "arc_owned ns' ws' a c"
    and "\<And>x. x \<noteq> a \<Longrightarrow> (x \<in> np_state ` set ns' \<longleftrightarrow> x \<in> np_state ` set ns) \<and> count_list ws' x = count_list ws x"
  shows "arc_owned ns' ws' x ((f(a := c)) x)"
proof (cases "x = a")
  case False
  with spec [OF assms(1), of x] assms(3) [of x] have "arc_owned ns ws x (f x)" "count_list ws' x = count_list ws x"
    "x \<in> np_state ` set ns' \<longleftrightarrow> x \<in> np_state ` set ns" by auto
  with False show ?thesis by (auto simp: arc_owned_def count_list_0_iff [symmetric] split: option.splits)
qed (simp add: assms(2))

lemma inv_share:
  assumes "hand_inv s" and "n \<in> set (ho_natives s)" and "get_state n (ho_heap s) = (Inr p, h)"
  shows "hand_inv (s\<lparr>ho_heap := h, ho_weaks := p # ho_weaks s\<rparr>)"
proof -
  from assms(3) obtain c where c: "hp_arcs (ho_heap s) (np_state n) = Some c" "p = np_state n"
      "h = (ho_heap s)\<lparr>hp_arcs := (hp_arcs (ho_heap s))(np_state n \<mapsto> c\<lparr>ar_weak := ar_weak c + 1\<rparr>)\<rparr>"
    by (auto simp: get_state_def with_arc_Inr)
  from assms(1) have inv: "\<forall>x. arc_owned (ho_natives s) (ho_weaks s) x (hp_arcs (ho_heap s) x)"
    by (simp add: hand_inv_def)
  have "arc_owned (ho_natives s) (p # ho_weaks s) (np_state n) (Some (c\<lparr>ar_weak := ar_weak c + 1\<rparr>))"
    using spec [OF inv, of "np_state n"] by (auto simp: c(1,2) arc_owned_def)
  with inv have "arc_owned (ho_natives s) (p # ho_weaks s) x
      (((hp_arcs (ho_heap s))(np_state n \<mapsto> c\<lparr>ar_weak := ar_weak c + 1\<rparr>)) x)" for x
    by (rule owned_upd) (simp add: c(2))
  with assms(1) show ?thesis by (simp add: hand_inv_def c(3) del: fun_upd_apply)
qed

lemma owned_adopt:
  assumes "arc_owned ns ws p (Some c)" and "p \<in> set ws"
  shows "arc_owned ns (remove1 p ws) p (drop_weak c)"
proof -
  from assms(2) obtain k where "count_list ws p = Suc k" using count_list_0_iff [of ws p] by (cases "count_list ws p") auto
  with assms show ?thesis
    by (auto simp: arc_owned_def drop_weak_def count_remove1 count_list_0_iff [symmetric])
qed

lemma inv_adopt:
  assumes "hand_inv s" and "p \<in> set (ho_weaks s)" and "service_from_ptr (show_nat (unat p)) (ho_heap s) = (r, h)"
  shows "hand_inv (s\<lparr>ho_heap := h, ho_weaks := remove1 p (ho_weaks s)\<rparr>)"
proof -
  from assms(1) have inv: "\<forall>x. arc_owned (ho_natives s) (ho_weaks s) x (hp_arcs (ho_heap s) x)"
    by (simp add: hand_inv_def)
  from spec [OF inv, of p] assms(2) obtain c where c: "hp_arcs (ho_heap s) p = Some c"
    by (auto simp: arc_owned_def split: option.splits)
  with assms(3) have h: "h = (ho_heap s)\<lparr>hp_arcs := (hp_arcs (ho_heap s))(p := drop_weak c)\<rparr>"
    by (simp add: service_from_ptr_def parse_pointer with_arc_def)
  from spec [OF inv, of p] c have "arc_owned (ho_natives s) (ho_weaks s) p (Some c)" by simp
  then have "arc_owned (ho_natives s) (remove1 p (ho_weaks s)) p (drop_weak c)" using assms(2) by (rule owned_adopt)
  with inv have "arc_owned (ho_natives s) (remove1 p (ho_weaks s)) x (((hp_arcs (ho_heap s))(p := drop_weak c)) x)" for x
    by (rule owned_upd) (simp add: count_remove1)
  with assms(1) show ?thesis by (simp add: hand_inv_def h del: fun_upd_apply)
qed

lemma natives_remove1:
  assumes "distinct (map np_state ns)" and "n \<in> set ns"
  shows "distinct (map np_state (remove1 n ns)) \<and>
    (x \<in> np_state ` set (remove1 n ns) \<longleftrightarrow> x \<in> np_state ` set ns \<and> x \<noteq> np_state n)"
proof -
  have d: "distinct ns" using assms(1) by (simp add: distinct_map)
  have i: "inj_on np_state (set ns)" using assms(1) by (simp add: distinct_map)
  have "distinct (map np_state (remove1 n ns))"
    using i d by (auto simp: distinct_map intro: inj_on_subset)
  moreover have "x \<in> np_state ` set (remove1 n ns) \<longleftrightarrow> x \<in> np_state ` set ns \<and> x \<noteq> np_state n"
    using i d assms(2) by (auto simp: inj_on_def)
  ultimately show ?thesis ..
qed

lemma inv_release:
  assumes "hand_inv s" and "n \<in> set (ho_natives s)" and "drop_native n (ho_heap s) = (r, h)"
  shows "hand_inv (s\<lparr>ho_heap := h, ho_natives := remove1 n (ho_natives s)\<rparr>)"
proof -
  let ?ns = "remove1 n (ho_natives s)"
  from assms(1) have inv: "\<forall>x. arc_owned (ho_natives s) (ho_weaks s) x (hp_arcs (ho_heap s) x)"
    and d: "distinct (map np_state (ho_natives s))" by (simp_all add: hand_inv_def)
  note ns = natives_remove1 [OF d assms(2)]
  from spec [OF inv, of "np_state n"] assms(2) obtain c where c: "hp_arcs (ho_heap s) (np_state n) = Some c"
    by (auto simp: arc_owned_def split: option.splits)
  with assms(3) have h: "h = (ho_heap s)\<lparr>hp_arcs := (hp_arcs (ho_heap s))(np_state n := drop_strong c)\<rparr>"
    by (simp add: drop_native_def with_arc_def)
  have "arc_owned ?ns (ho_weaks s) (np_state n) (drop_strong c)"
    using spec [OF inv, of "np_state n"] assms(2) ns [of "np_state n"] c
    by (auto simp: arc_owned_def drop_strong_def drop_weak_def Let_def count_list_0_iff [symmetric])
  with inv have "arc_owned ?ns (ho_weaks s) x (((hp_arcs (ho_heap s))(np_state n := drop_strong c)) x)" for x
    by (rule owned_upd) (simp add: ns)
  with assms(1) ns show ?thesis by (simp add: hand_inv_def h del: fun_upd_apply)
qed

lemma hand_inv_step: "alloc_ok alloc \<Longrightarrow> hand_inv s \<Longrightarrow> hand_step alloc s t \<Longrightarrow> hand_inv t"
  by (erule hand_stepE) (auto intro: inv_send inv_take inv_cold inv_share inv_adopt inv_release)

interpretation handed: inductive_invariant no_handover "hand_step alloc" "\<lambda>s. alloc_ok alloc \<longrightarrow> hand_inv s"
  by unfold_locales (blast intro: hand_inv_init hand_inv_step)+

section \<open>Safety\<close>

lemma owned_cell:
  assumes "hand_inv s" and "p \<in> np_state ` set (ho_natives s) \<or> p \<in> set (ho_weaks s)"
  shows "\<exists>c. hp_arcs (ho_heap s) p = Some c \<and> (ar_strong c = 0 \<longleftrightarrow> p \<notin> np_state ` set (ho_natives s))"
proof -
  have "arc_owned (ho_natives s) (ho_weaks s) p (hp_arcs (ho_heap s) p)" using assms(1) by (simp add: hand_inv_def)
  with assms(2) show ?thesis by (auto simp: arc_owned_def split: option.splits)
qed

lemma ticket_box:
  assumes "hand_inv s" and "t \<in> set (ho_tickets s)"
  shows "\<exists>a d. t = show_nat (unat a) \<and> hp_boxes (ho_heap s) a = Some d"
proof -
  from assms have "t \<in> (\<lambda>a. show_nat (unat a)) ` dom (hp_boxes (ho_heap s))" by (simp add: hand_inv_def)
  then show ?thesis by blast
qed

lemma with_arc_safe: "hp_arcs h a = Some c \<Longrightarrow> fst (with_arc a f h) = Inr (fst (f c))"
  by (simp add: with_arc_def split: prod.splits)

lemma nothing_leaks:
  assumes "hand_inv s" and "ho_tickets s = []" and "ho_natives s = []" and "ho_weaks s = []"
  shows "ho_heap s = empty_heap"
proof -
  have "hp_arcs (ho_heap s) a = None" for a
  proof -
    have "arc_owned [] [] a (hp_arcs (ho_heap s) a)" using assms by (simp add: hand_inv_def)
    then show ?thesis by (auto simp: arc_owned_def split: option.splits)
  qed
  moreover have "hp_boxes (ho_heap s) a = None" for a
    using assms(1,2) by (auto simp: hand_inv_def)
  ultimately show ?thesis by (simp add: empty_heap_def fun_eq_iff)
qed

text \<open>C26: The raw pointers are safe as long as the app uses each of them once, in any order of hand-overs,
  shares and releases: a ticket never leads to memory that was given back, a shared pointer yields the state exactly
  while the native object lives and nothing afterwards, the native object can always be shared and
  released, and when the app holds nothing any more no memory is left.\<close>

theorem handed_memory_safe:
  assumes "alloc_ok alloc" and "reachable no_handover (hand_step alloc) s"
  shows "(\<forall>t \<in> set (ho_tickets s). fst (init_native alloc r (Some t) (ho_heap s)) \<noteq> Inl UseAfterFree) \<and>
    (\<forall>p \<in> set (ho_weaks s). \<exists>x. fst (service_from_ptr (show_nat (unat p)) (ho_heap s)) = Inr x \<and>
       (x \<noteq> None \<longleftrightarrow> p \<in> np_state ` set (ho_natives s))) \<and>
    (\<forall>n \<in> set (ho_natives s). fst (get_state n (ho_heap s)) = Inr (np_state n) \<and>
       fst (drop_native n (ho_heap s)) = Inr ()) \<and>
    (ho_tickets s = [] \<and> ho_natives s = [] \<and> ho_weaks s = [] \<longrightarrow> ho_heap s = empty_heap)"
proof (intro conjI ballI)
  have inv: "hand_inv s" using handed.reachable_inv assms by blast
  { fix t assume "t \<in> set (ho_tickets s)"
    from ticket_box [OF inv this] obtain a :: "64 word" and d
      where "t = show_nat (unat a)" "hp_boxes (ho_heap s) a = Some d" by blast
    then show "fst (init_native alloc r (Some t) (ho_heap s)) \<noteq> Inl UseAfterFree"
      using init_ticket_safe by metis }
  { fix p assume p: "p \<in> set (ho_weaks s)"
    from owned_cell [OF inv disjI2 [OF p]] obtain c where "hp_arcs (ho_heap s) p = Some c"
      "ar_strong c = 0 \<longleftrightarrow> p \<notin> np_state ` set (ho_natives s)" by (elim exE conjE)
    then show "\<exists>x. fst (service_from_ptr (show_nat (unat p)) (ho_heap s)) = Inr x \<and>
       (x \<noteq> None \<longleftrightarrow> p \<in> np_state ` set (ho_natives s))"
      by (simp add: service_from_ptr_def parse_pointer with_arc_safe) }
  { fix n assume "n \<in> set (ho_natives s)"
    with owned_cell [OF inv disjI1] obtain c where "hp_arcs (ho_heap s) (np_state n) = Some c" by (meson imageI)
    then show "fst (get_state n (ho_heap s)) = Inr (np_state n)" "fst (drop_native n (ho_heap s)) = Inr ()"
      by (simp_all add: get_state_def drop_native_def with_arc_safe) }
  show "ho_tickets s = [] \<and> ho_natives s = [] \<and> ho_weaks s = [] \<longrightarrow> ho_heap s = empty_heap"
    using nothing_leaks [OF inv] by blast
qed

section \<open>What crosses over\<close>

lemma service_eq:
  "hp_arcs h p = Some c \<Longrightarrow> service_from_ptr (show_nat (unat p)) h =
     (Inr (if ar_strong c = 0 then None else Some (ar_value c)), h\<lparr>hp_arcs := (hp_arcs h)(p := drop_weak c)\<rparr>)"
  by (simp add: service_from_ptr_def parse_pointer with_arc_def)

lemma arc_life:
  assumes "hp_arcs h b = None" and "h2 = h\<lparr>hp_arcs := (hp_arcs h)(b \<mapsto> \<lparr>ar_value = st, ar_strong = 1, ar_weak = 1\<rparr>)\<rparr>"
    and "np_state n = b" and "get_state n h2 = (Inr p, h3)"
  shows "p = b" and "service_from_ptr (show_nat (unat p)) h3 = (Inr (Some st), h2)"
    and "\<exists>h4. drop_native n h3 = (Inr (), h4) \<and> service_from_ptr (show_nat (unat p)) h4 = (Inr None, h)"
    and "fst (get_state n (snd (service_from_ptr (show_nat (unat p)) h2))) = Inl UseAfterFree"
proof -
  have e: "(hp_arcs h)(b := None) = hp_arcs h" using assms(1) by auto
  from assms(2-4) have h3: "p = b" "h3 = h\<lparr>hp_arcs := (hp_arcs h)(b \<mapsto> \<lparr>ar_value = st, ar_strong = 1, ar_weak = 2\<rparr>)\<rparr>"
    by (auto simp: get_state_def with_arc_def numeral_2_eq_2)
  then show "p = b" "service_from_ptr (show_nat (unat p)) h3 = (Inr (Some st), h2)"
    by (simp_all add: service_eq drop_weak_def assms(2))
  have "drop_native n h3 = (Inr (), h\<lparr>hp_arcs := (hp_arcs h)(b \<mapsto> \<lparr>ar_value = st, ar_strong = 0, ar_weak = 1\<rparr>)\<rparr>)"
    using assms(3) by (simp add: h3(2) drop_native_def with_arc_def drop_strong_def drop_weak_def)
  then show "\<exists>h4. drop_native n h3 = (Inr (), h4) \<and> service_from_ptr (show_nat (unat p)) h4 = (Inr None, h)"
    by (simp add: h3(1) service_eq drop_weak_def e)
  show "fst (get_state n (snd (service_from_ptr (show_nat (unat p)) h2))) = Inl UseAfterFree"
    using assms(2,3) by (simp add: h3(1) service_eq drop_weak_def get_state_def with_arc_def)
qed

text \<open>C27: The push state crosses to the native side and back: the ticket of \<open>send_daemon\<close> gives the native object
  the watcher and the state that were sent, and a pointer to it yields that state while the object lives and
  nothing after it was released, when all the memory is free again. A ticket or a pointer used twice breaks
  this: the second use of the ticket reads freed memory, and after a use of a pointer that was not handed out
  the native object itself is gone.\<close>

theorem state_crosses_over:
  assumes "alloc_ok alloc" and "send_daemon alloc st w h = (Inr (t, st'), h1)"
    and "init_native alloc r (Some t) h1 = (Inr (Some n), h2)" and "get_state n h2 = (Inr p, h3)"
  shows "st' = st \<and> np_watcher n = w \<and> service_from_ptr (show_nat (unat p)) h3 = (Inr (Some st), h2) \<and>
    (\<exists>h4. drop_native n h3 = (Inr (), h4) \<and> service_from_ptr (show_nat (unat p)) h4 = (Inr None, h)) \<and>
    fst (init_native alloc r (Some t) h2) = Inl UseAfterFree \<and>
    fst (get_state n (snd (service_from_ptr (show_nat (unat p)) h2))) = Inl UseAfterFree"
proof -
  from assms(2) obtain a where a: "alloc h = Some a" "t = show_nat (unat a)" "st' = st"
      "h1 = h\<lparr>hp_boxes := (hp_boxes h)(a \<mapsto> \<lparr>dd_watcher = w, dd_state = st\<rparr>)\<rparr>"
    unfolding send_daemon_Inr by metis
  have e: "(hp_boxes h)(a := None) = hp_boxes h" using alloc_okD(1) [OF assms(1) a(1)] by auto
  from assms(3) [unfolded a(2)] obtain d b h1' where b: "hp_boxes h1 a = Some d"
      "h1' = h1\<lparr>hp_boxes := (hp_boxes h1)(a := None)\<rparr>" "alloc h1' = Some b"
      "n = \<lparr>np_state = b, np_watcher = dd_watcher d\<rparr>"
      "h2 = h1'\<lparr>hp_arcs := (hp_arcs h1)(b \<mapsto> \<lparr>ar_value = dd_state d, ar_strong = 1, ar_weak = 1\<rparr>)\<rparr>"
    by (rule init_ticketE)
  have h1': "h1' = h" using b(2) a(4) e by simp
  have d: "d = \<lparr>dd_watcher = w, dd_state = st\<rparr>" using b(1) a(4) by simp
  have h2: "h2 = h\<lparr>hp_arcs := (hp_arcs h)(b \<mapsto> \<lparr>ar_value = st, ar_strong = 1, ar_weak = 1\<rparr>)\<rparr>"
    using b(5) a(4) h1' d by simp
  have "hp_boxes h2 a = None" using alloc_okD(1) [OF assms(1) a(1)] by (simp add: h2)
  then have "fst (init_native alloc r (Some t) h2) = Inl UseAfterFree"
    by (simp add: a(2) init_native_def parse_pointer box_from_raw_def bnd_def)
  with a(3) b(4) d arc_life [OF alloc_okD(2) [OF assms(1) b(3), unfolded h1'] h2 _ assms(4)] show ?thesis by simp
qed

section \<open>A run\<close>

definition first_fit :: allocator where
  "first_fit h = List.find (\<lambda>a. hp_boxes h a = None \<and> hp_arcs h a = None) [1, 2, 3]"

lemma first_fit_ok: "alloc_ok first_fit"
  by (auto simp: alloc_ok_def first_fit_def find_Some_iff)

definition sample_push_state :: SharedPushState where
  "sample_push_state = \<lparr>sp_os_config = PString ''mac'', sp_conn = PDict [], sp_users = [PString ''user''],
     sp_identity = PData [1], sp_icloud = None, sp_facetime = PDict []\<rparr>"

definition sample_watcher :: APSWatcher where
  "sample_watcher = build_watcher Registering"

lemma sample_handover:
  obtains h1 n h2 h3 where "send_daemon first_fit sample_push_state sample_watcher empty_heap = (Inr (''1'', sample_push_state), h1)"
    and "init_native first_fit None (Some ''1'') h1 = (Inr (Some n), h2)" and "get_state n h2 = (Inr 1, h3)"
proof -
  have one: "show_nat 1 = ''1''" by code_simp
  have "parse_u64 (show_nat (unat (1 :: 64 word))) = Some 1" by (rule parse_pointer)
  then have ptr: "parse_u64 ''1'' = Some 1" by (simp add: one [simplified])
  let ?h1 = "empty_heap\<lparr>hp_boxes := [1 \<mapsto> \<lparr>dd_watcher = sample_watcher, dd_state = sample_push_state\<rparr>]\<rparr>"
  let ?h2 = "empty_heap\<lparr>hp_arcs := [1 \<mapsto> \<lparr>ar_value = sample_push_state, ar_strong = 1, ar_weak = 1\<rparr>]\<rparr>"
  let ?n = "\<lparr>np_state = 1, np_watcher = sample_watcher\<rparr>"
  have "send_daemon first_fit sample_push_state sample_watcher empty_heap = (Inr (''1'', sample_push_state), ?h1)"
    by (simp add: send_daemon_def box_into_raw_def bnd_def ok_def first_fit_def empty_heap_def one [simplified])
  moreover have "init_native first_fit None (Some ''1'') ?h1 = (Inr (Some ?n), ?h2)"
    by (simp add: init_native_def box_from_raw_def arc_new_def bnd_def ok_def first_fit_def empty_heap_def ptr)
  moreover have "get_state ?n ?h2 =
      (Inr 1, empty_heap\<lparr>hp_arcs := [1 \<mapsto> \<lparr>ar_value = sample_push_state, ar_strong = 1, ar_weak = 2\<rparr>]\<rparr>)"
    by (simp add: get_state_def with_arc_def numeral_2_eq_2)
  ultimately show ?thesis by (rule that)
qed

theorem state_crosses_over_witness:
  "\<exists>t h1 n h2 p h3. send_daemon first_fit sample_push_state sample_watcher empty_heap = (Inr (t, sample_push_state), h1) \<and>
     init_native first_fit None (Some t) h1 = (Inr (Some n), h2) \<and> get_state n h2 = (Inr (p :: 64 word), h3) \<and>
     service_from_ptr (show_nat (unat p)) h3 = (Inr (Some sample_push_state), h2)"
  using sample_handover state_crosses_over [OF first_fit_ok] by metis

theorem handed_memory_safe_witness:
  "\<exists>s. reachable no_handover (hand_step first_fit) s \<and> ho_weaks s = [1] \<and> length (ho_natives s) = 1 \<and>
     (\<exists>x. fst (service_from_ptr (show_nat (unat (1 :: 64 word))) (ho_heap s)) = Inr x)"
proof -
  let ?s0 = "\<lparr>ho_heap = empty_heap, ho_tickets = [], ho_natives = [], ho_weaks = []\<rparr>"
  obtain h1 n h2 h3 where h: "send_daemon first_fit sample_push_state sample_watcher empty_heap = (Inr (''1'', sample_push_state), h1)"
    "init_native first_fit None (Some ''1'') h1 = (Inr (Some n), h2)" "get_state n h2 = (Inr 1, h3)"
    by (rule sample_handover)
  have "reachable no_handover (hand_step first_fit) ?s0" by (rule reach_init) (simp add: no_handover_def)
  then have "reachable no_handover (hand_step first_fit) (?s0\<lparr>ho_heap := h1, ho_tickets := [''1'']\<rparr>)"
    using hand_step.send [of first_fit sample_push_state sample_watcher ?s0] h(1) by (auto intro: reach_step)
  from reach_step [OF this hand_step.take [of "''1''" _ first_fit None n h2]] h(2)
  have "reachable no_handover (hand_step first_fit) (?s0\<lparr>ho_heap := h2, ho_natives := [n]\<rparr>)" by simp
  from reach_step [OF this hand_step.share [of n _ 1 h3]] h(3)
  have r: "reachable no_handover (hand_step first_fit) (?s0\<lparr>ho_heap := h3, ho_natives := [n], ho_weaks := [1]\<rparr>)" by simp
  from handed_memory_safe [OF first_fit_ok r] r show ?thesis
    by (intro exI [of _ "?s0\<lparr>ho_heap := h3, ho_natives := [n], ho_weaks := [1]\<rparr>"]) auto
qed

end
