(* ===== verification/CloudRecords.thy ===== *)
theory CloudRecords
  imports Cloud Dates
begin

text \<open>
  The records of the messages kept in iCloud, as \<open>rust/src/api/mirrors.rs\<close> mirrors them: chats, messages with
  the protocol buffers they carry, and attachments. A date of the plist crate is its text, a \<open>SystemTime\<close> is as in
  the theory of times, \<open>MessageFlags\<close> are their bits, and an \<open>f64\<close> or an \<open>i32\<close> is its bits too.
\<close>

section \<open>Chats\<close>

datatype 'a GZipWrapper = GZipWrapper (unzipped: 'a)

record CloudProp =
  cp_gpufc :: "32 word option"
  cp_pv :: "32 word option"
  cp_number_of_times_respondedto_thread :: "32 word option"
  cp_should_force_to_sms :: "bool option"
  cp_last_seen_message_guid :: "string option"
  cp_message_handshake_state :: "32 word option"
  cp_legacy_group_identifiers :: "string list"
  cp_group_photo_guid :: "string option"
  cp_last_modification_date :: "string option"

record CloudParticipant =
  cpt_uri :: string

record CloudProp001 =
  cpo_syndication_type :: "32 word"

record ChatProto =
  chp_unk1 :: "32 word option"

record CloudChat =
  cc_style :: int
  cc_is_filtered :: int
  cc_successful_query :: int
  cc_state :: int
  cc_chat_identifier :: string
  cc_group_id :: string
  cc_service_name :: string
  cc_original_group_id :: string
  cc_properties :: "CloudProp option"
  cc_participants :: "CloudParticipant list"
  cc_prop001 :: CloudProp001
  cc_last_read_message_timestamp :: int
  cc_last_addressed_handle :: string
  cc_guid :: string
  cc_display_name :: "string option"
  cc_proto001 :: "ChatProto GZipWrapper option"
  cc_group_photo_guid :: "string option"
  cc_group_photo :: "Asset option"

section \<open>Messages\<close>

record MessageEdit =
  me_t :: "8 word list"
  me_d :: f64
  me_bcg :: "string option"

record MessageEditRange =
  mer_lo :: "32 word"
  mer_le :: "32 word"

record MessageSummaryInfo =
  msi_ams :: "string option"
  msi_ampt :: "8 word list option"
  msi_amc :: "32 word option"
  msi_amb :: "string option"
  msi_amd :: "string option"
  msi_ec :: "string \<rightharpoonup> MessageEdit list"
  msi_ep :: "32 word list"
  msi_otr :: "string \<rightharpoonup> MessageEditRange"
  msi_ust :: "bool option"
  msi_rp :: "32 word list"
  msi_hbr :: "bool option"
  msi_oui :: "string option"
  msi_osn :: "string option"
  msi_euh :: "string list"

record MessageProto =
  mp_unk1 :: "32 word"
  mp_subject :: "string option"
  mp_text :: "string option"
  mp_attributed_body :: "8 word list option"
  mp_balloon_bundle_id :: "string option"
  mp_payload_data :: "8 word list option"
  mp_message_summary_info :: "8 word list option"
  mp_effect :: "string option"
  mp_date_read :: "u64 option"
  mp_unk10 :: "32 word option"
  mp_unk11 :: "32 word option"
  mp_date_delivered :: "u64 option"
  mp_unk14 :: "32 word option"
  mp_associated_message_type :: "32 word option"
  mp_associated_message_guid :: "string option"
  mp_associated_message_range_location :: "32 word option"
  mp_associated_message_range_length :: "32 word option"

record MessageProto2 =
  mpb_reply :: "string option"

record MessageProto3 =
  mpc_unk2 :: "32 word option"
  mpc_unk3 :: "32 word option"

record MessageProto4 =
  mpd_associated_message_emoji :: "string option"
  mpd_service :: "string option"
  mpd_schedule_type :: "32 word option"
  mpd_schedule_state :: "32 word option"
  mpd_group_id :: "string option"
  mpd_sent_or_received_off_grid :: "32 word option"

type_synonym MessageFlags = "64 word"

record CloudMessage =
  cms_utm :: "SystemTime option"
  cms_type :: int
  cms_error :: int
  cms_chat_id :: string
  cms_sender :: string
  cms_time :: int
  cms_msg_proto_2 :: "MessageProto2 GZipWrapper option"
  cms_destination_caller_id :: string
  cms_msg_proto :: "MessageProto GZipWrapper"
  cms_flags :: MessageFlags
  cms_guid :: string
  cms_msg_proto_3 :: "MessageProto3 GZipWrapper option"
  cms_service :: string
  cms_msg_proto_4 :: "MessageProto4 GZipWrapper option"

section \<open>Attachments\<close>

datatype NumOrString = CloudNum "32 word" | CloudString string | CloudBool bool

record AttachmentMetaExtra =
  ame_preview_generation_state :: "NumOrString option"

record MMCSAttachmentMeta =
  mma_mmcs_signature_hex :: "string option"
  mma_mmcs_owner :: "string option"
  mma_mmcs_url :: "string option"
  mma_decryption_key :: "string option"
  mma_inline_attachment :: "string option"
  mma_message_part :: "string option"
  mma_file_size :: "NumOrString option"
  mma_uti_type :: "string option"
  mma_mime_type :: "string option"
  mma_name :: "string option"

record AttachmentMeta =
  atm_mime_type :: "string option"
  atm_start_date :: int
  atm_total_bytes :: int
  atm_transfer_state :: "32 word"
  atm_is_sticker :: bool
  atm_guid :: string
  atm_hide_attachment :: bool
  atm_user_info :: "MMCSAttachmentMeta option"
  atm_filename :: "string option"
  atm_extras :: "AttachmentMetaExtra option"
  atm_is_outgoing :: bool
  atm_transfer_name :: "string option"
  atm_version :: "32 word"
  atm_uti :: "string option"
  atm_created_date :: int
  atm_pathc :: "string option"
  atm_md5 :: "string option"

record CloudAttachment =
  cat_cm :: "AttachmentMeta GZipWrapper"
  cat_lqa :: Asset

end
