(* ===== verification/CloudMessages.thy ===== *)
theory CloudMessages
  imports CloudRecords
begin

text \<open>
  The functions of \<open>rust/src/api/api.rs\<close> and \<open>rust/src/api/mirrors.rs\<close> that turn the records of iCloud messages, and
  the other types the app keeps as bytes, into property lists and back, that unpack the protocol buffers inside
  the records, and that say which records were saved. How a type of rustpush is laid out in a property list (its
  writer, which may refuse, and its reader) is a parameter.
\<close>

section \<open>Property lists as bytes\<close>

text \<open>\<open>bc_parse\<close> reads every format of the crate, \<open>bc_parse_xml\<close> XML only; \<open>bc_bin\<close> writes the binary one, \<open>bc_xml\<close> XML.\<close>

record byte_codec =
  bc_parse :: "string \<Rightarrow> plist option"
  bc_parse_xml :: "string \<Rightarrow> plist option"
  bc_bin :: "plist \<Rightarrow> string"
  bc_xml :: "plist \<Rightarrow> string"

definition bytes_roundtrip :: "byte_codec \<Rightarrow> bool" where
  "bytes_roundtrip c \<longleftrightarrow> (\<forall>v. bc_parse c (bc_bin c v) = Some v \<and> bc_parse_xml c (bc_xml c v) = Some v \<and>
     bc_parse c (bc_xml c v) = Some v)"

definition shape_roundtrip :: "('a \<Rightarrow> plist option) \<Rightarrow> (plist \<Rightarrow> 'a option) \<Rightarrow> bool" where
  "shape_roundtrip writer reader \<longleftrightarrow> (\<forall>a v. writer a = Some v \<longrightarrow> reader v = Some a)"

definition plist_to_bin :: "byte_codec \<Rightarrow> ('a \<Rightarrow> plist option) \<Rightarrow> 'a \<Rightarrow> string option" where
  "plist_to_bin c writer a = map_option (bc_bin c) (writer a)"

definition plist_to_string :: "byte_codec \<Rightarrow> ('a \<Rightarrow> plist option) \<Rightarrow> 'a \<Rightarrow> string option" where
  "plist_to_string c writer a = map_option (bc_xml c) (writer a)"

definition from_bytes :: "byte_codec \<Rightarrow> (plist \<Rightarrow> 'a option) \<Rightarrow> string \<Rightarrow> 'a option" where
  "from_bytes c reader bytes = Option.bind (bc_parse c bytes) reader"

text \<open>\<open>unwrap()\<close>, whose panic is an error here, and \<open>?\<close>, whose error is passed on.\<close>

definition unwrap :: "'a option \<Rightarrow> string + 'a" where
  "unwrap r = (case r of None \<Rightarrow> Inl ''called `Result::unwrap()` on an `Err` value'' | Some a \<Rightarrow> Inr a)"

definition try_plist :: "'a option \<Rightarrow> string + 'a" where
  "try_plist r = (case r of None \<Rightarrow> Inl ''plist'' | Some a \<Rightarrow> Inr a)"

lemma unwrap_Inr [simp]: "unwrap r = Inr a \<longleftrightarrow> r = Some a"
  by (simp add: unwrap_def split: option.splits)

lemma try_plist_Inr [simp]: "try_plist r = Inr a \<longleftrightarrow> r = Some a"
  by (simp add: try_plist_def split: option.splits)

lemma binary_reads_back:
  "bytes_roundtrip c \<Longrightarrow> shape_roundtrip writer reader \<Longrightarrow> plist_to_bin c writer a = Some b \<Longrightarrow> from_bytes c reader b = Some a"
  by (auto simp: plist_to_bin_def from_bytes_def bytes_roundtrip_def shape_roundtrip_def)

lemma xml_reads_back:
  "bytes_roundtrip c \<Longrightarrow> shape_roundtrip writer reader \<Longrightarrow> plist_to_string c writer a = Some b \<Longrightarrow>
     from_bytes c reader b = Some a \<and> Option.bind (bc_parse_xml c b) reader = Some a"
  by (auto simp: plist_to_string_def from_bytes_def bytes_roundtrip_def shape_roundtrip_def)

section \<open>Protocol buffers in the records\<close>

text \<open>The wrapper only says that the buffer is compressed on its way; unpacking clones what is inside.\<close>

definition decode_chatproto :: "ChatProto GZipWrapper \<Rightarrow> ChatProto" where
  "decode_chatproto wrapped = unzipped wrapped"

definition encode_chatproto :: "ChatProto \<Rightarrow> ChatProto GZipWrapper" where
  "encode_chatproto chat = GZipWrapper chat"

definition decode_messageproto :: "MessageProto GZipWrapper \<Rightarrow> MessageProto" where
  "decode_messageproto wrapped = unzipped wrapped"

definition encode_messageproto :: "MessageProto \<Rightarrow> MessageProto GZipWrapper" where
  "encode_messageproto messageproto = GZipWrapper messageproto"

definition decode_messageproto2 :: "MessageProto2 GZipWrapper \<Rightarrow> MessageProto2" where
  "decode_messageproto2 wrapped = unzipped wrapped"

definition encode_messageproto2 :: "MessageProto2 \<Rightarrow> MessageProto2 GZipWrapper" where
  "encode_messageproto2 messageproto2 = GZipWrapper messageproto2"

definition decode_messageproto3 :: "MessageProto3 GZipWrapper \<Rightarrow> MessageProto3" where
  "decode_messageproto3 wrapped = unzipped wrapped"

definition encode_messageproto3 :: "MessageProto3 \<Rightarrow> MessageProto3 GZipWrapper" where
  "encode_messageproto3 messageproto3 = GZipWrapper messageproto3"

definition decode_messageproto4 :: "MessageProto4 GZipWrapper \<Rightarrow> MessageProto4" where
  "decode_messageproto4 wrapped = unzipped wrapped"

definition encode_messageproto4 :: "MessageProto4 \<Rightarrow> MessageProto4 GZipWrapper" where
  "encode_messageproto4 messageproto4 = GZipWrapper messageproto4"

definition decode_attachmentmeta :: "AttachmentMeta GZipWrapper \<Rightarrow> AttachmentMeta" where
  "decode_attachmentmeta wrapped = unzipped wrapped"

definition encode_attachmentmeta :: "AttachmentMeta \<Rightarrow> AttachmentMeta GZipWrapper" where
  "encode_attachmentmeta attachmentmeta = GZipWrapper attachmentmeta"

section \<open>Records as bytes\<close>

definition save_cloud_chat :: "byte_codec \<Rightarrow> (CloudChat \<Rightarrow> plist option) \<Rightarrow> CloudChat \<Rightarrow> string + string" where
  "save_cloud_chat c writer chat = unwrap (plist_to_bin c writer chat)"

definition restore_cloud_chat :: "byte_codec \<Rightarrow> (plist \<Rightarrow> CloudChat option) \<Rightarrow> string \<Rightarrow> string + CloudChat" where
  "restore_cloud_chat c reader bytes = unwrap (from_bytes c reader bytes)"

text \<open>The summary of a message has two pairs of functions; they differ only in what a text that is no summary does.\<close>

definition encode_summary_info ::
    "byte_codec \<Rightarrow> (MessageSummaryInfo \<Rightarrow> plist option) \<Rightarrow> MessageSummaryInfo \<Rightarrow> string + string" where
  "encode_summary_info c writer info = unwrap (plist_to_bin c writer info)"

definition decode_summary_info ::
    "byte_codec \<Rightarrow> (plist \<Rightarrow> MessageSummaryInfo option) \<Rightarrow> string \<Rightarrow> string + MessageSummaryInfo" where
  "decode_summary_info c reader info = unwrap (from_bytes c reader info)"

definition encode_message_info ::
    "byte_codec \<Rightarrow> (MessageSummaryInfo \<Rightarrow> plist option) \<Rightarrow> MessageSummaryInfo \<Rightarrow> string + string" where
  "encode_message_info c writer info = unwrap (plist_to_bin c writer info)"

definition decode_message_info ::
    "byte_codec \<Rightarrow> (plist \<Rightarrow> MessageSummaryInfo option) \<Rightarrow> string \<Rightarrow> string + MessageSummaryInfo" where
  "decode_message_info c reader info = try_plist (from_bytes c reader info)"

definition encode_profile_message ::
    "byte_codec \<Rightarrow> (ShareProfileMessage \<Rightarrow> plist option) \<Rightarrow> ShareProfileMessage \<Rightarrow> string + string" where
  "encode_profile_message c writer p = unwrap (plist_to_string c writer p)"

definition decode_profile_message ::
    "byte_codec \<Rightarrow> (plist \<Rightarrow> ShareProfileMessage option) \<Rightarrow> string \<Rightarrow> string + ShareProfileMessage" where
  "decode_profile_message c reader s = try_plist (from_bytes c reader s)"

text \<open>A user of the identity service, which only rustpush looks into, is of any type.\<close>

definition save_user :: "byte_codec \<Rightarrow> ('u \<Rightarrow> plist option) \<Rightarrow> 'u \<Rightarrow> string + string" where
  "save_user c writer user = try_plist (plist_to_string c writer user)"

definition restore_user :: "byte_codec \<Rightarrow> (plist \<Rightarrow> 'u option) \<Rightarrow> string \<Rightarrow> string + 'u" where
  "restore_user c reader user = try_plist (from_bytes c reader user)"

section \<open>What was saved\<close>

text \<open>The client answers with a result for each record; the app learns which of them are saved.\<close>

definition saved_records :: "string + (string \<times> (string + 'r)) list \<Rightarrow> string + (string \<times> bool) list" where
  "saved_records answer = map_sum id (map (\<lambda>(a, b). (a, \<not> isl b))) answer"

definition save_chats ::
    "((string \<times> CloudChat) list \<Rightarrow> string + (string \<times> (string + 'r)) list) \<Rightarrow> (string \<times> CloudChat) list \<Rightarrow>
       string + (string \<times> bool) list" where
  "save_chats client_save cs = saved_records (client_save cs)"

definition save_messages ::
    "((string \<times> CloudMessage) list \<Rightarrow> string + (string \<times> (string + 'r)) list) \<Rightarrow> (string \<times> CloudMessage) list \<Rightarrow>
       string + (string \<times> bool) list" where
  "save_messages client_save ms = saved_records (client_save ms)"

definition save_attachments ::
    "((string \<times> CloudAttachment) list \<Rightarrow> string + (string \<times> (string + 'r)) list) \<Rightarrow> (string \<times> CloudAttachment) list \<Rightarrow>
       string + (string \<times> bool) list" where
  "save_attachments client_save atts = saved_records (client_save atts)"

section \<open>Both directions\<close>

lemma protobufs_unpack:
  "decode_chatproto (encode_chatproto a) = a" "decode_messageproto (encode_messageproto b) = b"
  "decode_messageproto2 (encode_messageproto2 d) = d" "decode_messageproto3 (encode_messageproto3 e) = e"
  "decode_messageproto4 (encode_messageproto4 f) = f" "decode_attachmentmeta (encode_attachmentmeta g) = g"
  by (simp_all add: decode_chatproto_def encode_chatproto_def decode_messageproto_def encode_messageproto_def
      decode_messageproto2_def encode_messageproto2_def decode_messageproto3_def encode_messageproto3_def
      decode_messageproto4_def encode_messageproto4_def decode_attachmentmeta_def encode_attachmentmeta_def)

text \<open>Chats, summaries, profiles and users read back; each reader of summaries takes what either writer wrote, and
  where one of them panics the other answers with an error.\<close>

lemma cloud_chats_read_back:
  assumes "bytes_roundtrip c" and "shape_roundtrip writer reader" and "save_cloud_chat c writer chat = Inr b"
  shows "restore_cloud_chat c reader b = Inr chat"
  using assms binary_reads_back by (auto simp: save_cloud_chat_def restore_cloud_chat_def)

lemma summaries_read_back:
  assumes "bytes_roundtrip c" and "shape_roundtrip writer reader"
    and "b \<in> {x. encode_summary_info c writer info = Inr x} \<union> {x. encode_message_info c writer info = Inr x}"
  shows "decode_summary_info c reader b = Inr info \<and> decode_message_info c reader b = Inr info"
  using assms binary_reads_back
  by (auto simp: encode_summary_info_def encode_message_info_def decode_summary_info_def decode_message_info_def)

lemma summary_readers_agree:
  "decode_summary_info c reader b = Inr info \<longleftrightarrow> decode_message_info c reader b = Inr info"
  by (simp add: decode_summary_info_def decode_message_info_def)

lemma profiles_read_back:
  assumes "bytes_roundtrip c" and "shape_roundtrip writer reader" and "encode_profile_message c writer p = Inr s"
  shows "decode_profile_message c reader s = Inr p"
  using assms by (auto simp: encode_profile_message_def decode_profile_message_def dest: xml_reads_back)

lemma users_read_back:
  assumes "bytes_roundtrip c" and "shape_roundtrip writer reader" and "save_user c writer u = Inr s"
  shows "restore_user c reader s = Inr u"
  using assms by (auto simp: save_user_def restore_user_def dest: xml_reads_back)

text \<open>Every record the client answered for is reported, in the same order, as saved exactly if its result is no error.\<close>

lemma saved_records_nth:
  assumes "saved_records (Inr answer) = Inr saved" and "i < length answer"
  shows "length saved = length answer \<and> fst (saved ! i) = fst (answer ! i) \<and> (snd (saved ! i) \<longleftrightarrow> (\<exists>r. snd (answer ! i) = Inr r))"
proof -
  obtain a b where ab: "answer ! i = (a, b)" by fastforce
  have "saved = map (\<lambda>(a, b). (a, \<not> isl b)) answer" using assms(1) by (simp add: saved_records_def)
  with assms(2) ab show ?thesis by (cases b) auto
qed

end
