(* ===== verification/FindMy.thy ===== *)
theory FindMy
  imports Messages
begin

text \<open>
  Calls and places, as \<open>rust/src/api/mirrors.rs\<close> mirrors them: the sessions of FaceTime with their participants, the
  devices of Find My, the friends who share their location, and the trusted numbers a code can be sent to. An \<open>f64\<close>
  is its 64 bits, a set of members is a set, and \<open>ConversationParticipant\<close> and \<open>ConversationLink\<close>, which
  only rustpush looks into, are type parameters.
\<close>

section \<open>FaceTime\<close>

datatype FTMode = FtOutgoing | FtIncoming | FtMissed | FtMissedOutgoing

record 'p FTParticipant =
  fp_token :: "string option"
  fp_handle :: string
  fp_participant_id :: u64
  fp_last_join_date :: "u64 option"
  fp_active :: "'p option"

record ('p, 'l) FTSession =
  fts_group_id :: string
  fts_my_handles :: "string list"
  fts_participants :: "string \<rightharpoonup> 'p FTParticipant"
  fts_link :: "'l option"
  fts_members :: "FTMember set"
  fts_report_id :: string
  fts_start_time :: "u64 option"
  fts_last_rekey :: "u64 option"
  fts_is_propped :: bool
  fts_is_ringing_inaccurate :: bool
  fts_mode :: "FTMode option"
  fts_recent_member_adds :: "string \<rightharpoonup> u64"

section \<open>Places\<close>

record Address =
  ad_administrative_area :: "string option"
  ad_country :: string
  ad_country_code :: string
  ad_formatted_address_lines :: "string list option"
  ad_locality :: "string option"
  ad_state_code :: "string option"
  ad_street_address :: "string option"
  ad_street_name :: "string option"

record Location =
  lo_address :: "Address option"
  lo_altitude :: f64
  lo_floor_level :: int
  lo_horizontal_accuracy :: f64
  lo_is_inaccurate :: bool
  lo_latitude :: f64
  lo_location_id :: "string option"
  lo_location_timestamp :: "int option"
  lo_longitude :: f64
  lo_secure_location_ts :: int
  lo_timestamp :: int
  lo_vertical_accuracy :: f64
  lo_position_type :: "string option"
  lo_is_old :: "bool option"
  lo_location_finished :: "bool option"

record Follow =
  fw_create_timestamp :: int
  fw_expires :: int
  fw_id :: string
  fw_invitation_accepted_handles :: "string list"
  fw_invitation_from_handles :: "string list"
  fw_is_from_messages :: bool
  fw_offer_id :: "string option"
  fw_only_in_event :: bool
  fw_person_id_hash :: string
  fw_secure_locations_capable :: bool
  fw_shallow_or_live_secure_locations_capable :: bool
  fw_source :: string
  fw_tk_permission :: bool
  fw_update_timestamp :: int
  fw_fallback_to_legacy_allowed :: "bool option"
  fw_opted_not_to_share :: "bool option"
  fw_last_location :: "Location option"
  fw_locate_in_progress :: bool

record FoundDevice =
  fd_device_model :: "string option"
  fd_low_power_mode :: "bool option"
  fd_passcode_length :: "int option"
  fd_id :: "string option"
  fd_battery_status :: "string option"
  fd_lost_mode_capable :: "bool option"
  fd_battery_level :: "f64 option"
  fd_location_enabled :: "bool option"
  fd_is_considered_accessory :: "bool option"
  fd_location :: "Location option"
  fd_model_display_name :: "string option"
  fd_device_color :: "string option"
  fd_activation_locked :: "bool option"
  fd_rm2_state :: "int option"
  fd_loc_found_enabled :: "bool option"
  fd_nwd :: "bool option"
  fd_device_status :: "string option"
  fd_fmly_share :: "bool option"
  fd_features :: "string \<rightharpoonup> bool"
  fd_this_device :: "bool option"
  fd_lost_mode_enabled :: "bool option"
  fd_device_display_name :: "string option"
  fd_name :: "string option"
  fd_can_wipe_after_lock :: "bool option"
  fd_is_mac :: "bool option"
  fd_raw_device_model :: "string option"
  fd_ba_uuid :: "string option"
  fd_device_discovery_id :: "string option"
  fd_scd :: "bool option"
  fd_location_capable :: "bool option"
  fd_wipe_in_progress :: "bool option"
  fd_dark_wake :: "bool option"
  fd_device_with_you :: "bool option"
  fd_max_msg_char :: "int option"
  fd_device_class :: "string option"

section \<open>Trusted numbers\<close>

record TrustedPhoneNumber =
  tn_number_with_dial_code :: string
  tn_last_two_digits :: string
  tn_push_mode :: string
  tn_id :: "32 word"

end
