(* ===== verification/Posters.thy ===== *)
theory Posters
  imports Messages
begin

text \<open>
  The poster types of rustpush as \<open>rust/src/api/mirrors.rs\<close> mirrors them: what a contact poster or a chat
  background is made of. A float is the bits of its representation; files are a map from names to contents.
\<close>

type_synonym f32 = "32 word"

section \<open>Colours and fonts\<close>

datatype UIColor =
    RGBAColorSpace (ui_components: "32 word") (ui_green: f64) (ui_blue: f64) (ui_red: f64)
      (ui_green_dbl: "f64 option") (ui_blue_dbl: "f64 option") (ui_red_dbl: "f64 option")
      (ui_alpha_dbl: "f64 option") (ui_alpha: f64) (ui_rgb: "8 word list") (ui_color_space: "32 word")
      (ui_class: string)
  | GrayscaleAlphaColorSpace (ui_components: "32 word") (ui_white: f64) (ui_alpha: f64) (ui_bin: "8 word list")
      (ui_color_space: "32 word") (ui_class: string)

datatype PRPosterContentMaterialStyle =
    DiscreteColorsStyle (pm_variation: f32) (pm_colors: "UIColor list") (pm_vibrant: bool)
      (pm_supports_variation: bool) (pm_needs_to_resolve_variation: bool)
  | VibrantMaterialStyle
  | GradientStyle (pm_gradient_type: "32 word") (pm_colors: "UIColor list") (pm_start_point: string)
      (pm_locations: "f64 list") (pm_end_point: string)

record PRPosterSystemTimeFontConfiguration =
  tfc_is_system_item :: bool
  tfc_time_font_identifier :: string
  tfc_weight :: f64

record PRPosterColor =
  prc_preferred_style :: "32 word"
  prc_identifier :: string
  prc_suggested :: bool
  prc_color :: UIColor

record PRPosterTitleStyleConfiguration =
  pts_alternate_date_enabled :: bool
  pts_contents_luminence :: f64
  pts_group_name :: string
  pts_preferred_title_alignment :: "32 word"
  pts_preferred_title_layout :: "32 word"
  pts_time_font_configuration :: PRPosterSystemTimeFontConfiguration
  pts_time_numbering_system :: "8 word list option"
  pts_title_color :: PRPosterColor
  pts_title_content_style :: "8 word list"
  pts_user_configured :: bool
  pts_title_style :: "PRPosterContentMaterialStyle option"

record PosterColor =
  pc_alpha :: f64
  pc_blue :: f64
  pc_green :: f64
  pc_red :: f64

section \<open>Pictures\<close>

record PhotoPosterContentsFrame =
  pf_width :: f64
  pf_height :: f64
  pf_x :: f64
  pf_y :: f64

record PhotoPosterContentsSize =
  pz_width :: f64
  pz_height :: f64

record PhotoPosterLayer =
  pla_frame :: PhotoPosterContentsFrame
  pla_filename :: string
  pla_z_position :: f32
  pla_identifier :: string

record PhotoPosterLayout =
  plo_clock_intersection :: "32 word"
  plo_device_resolution :: PhotoPosterContentsSize
  plo_visible_frame :: PhotoPosterContentsFrame
  plo_time_frame :: PhotoPosterContentsFrame
  plo_clock_layer_order :: string
  plo_has_top_edge_contact :: bool
  plo_inactive_frame :: PhotoPosterContentsFrame
  plo_image_size :: PhotoPosterContentsSize
  plo_parallax_padding :: PhotoPosterContentsSize

record PhotoPosterProperties =
  ppp_portrait_layout :: PhotoPosterLayout
  ppp_settling_effect_enabled :: bool
  ppp_depth_enabled :: bool
  ppp_clock_area_luminance :: f64
  ppp_parallax_disabled :: bool

record PhotoPosterContents =
  ppc_version :: "32 word"
  ppc_layers :: "PhotoPosterLayer list"
  ppc_properties :: PhotoPosterProperties

record MonogramData =
  mg_top_background_color_description :: PosterColor
  mg_background_color_description :: PosterColor
  mg_initials :: string
  mg_monogram_supported_for_name :: bool

record MemojiData =
  me_background_color_description :: PosterColor
  me_avatar_record_data :: "8 word list"
  me_avatar_pose_data :: "8 word list"
  me_has_body :: bool
  me_avatar_image_data :: "8 word list"

record PosterAsset =
  pa_contents :: PhotoPosterContents
  pa_files :: "string \<rightharpoonup> 8 word list"
  pa_uuid :: string

section \<open>Posters\<close>

text \<open>\<open>TranscriptDynamicUserData\<close> is a struct of one field, an identifier.\<close>

datatype PosterType =
    PhotoPoster (py_assets: "PosterAsset list")
  | MonogramPoster (py_monogram: MonogramData) (py_background: PosterColor)
  | MemojiPoster (py_memoji: MemojiData) (py_background: PosterColor)
  | TranscriptDynamic (py_identifier: string)
  | TranscriptGradient (py_colors: "PosterColor list")

record WallpaperMetadata =
  wm_background_color_key :: "PosterColor option"
  wm_font_color_key :: PosterColor
  wm_font_name_key :: string
  wm_font_size_key :: f32
  wm_font_weight_key :: f32
  wm_is_vertical_key :: bool
  wm_type_key :: string

datatype PosterRole = PRPosterRoleBackdrop | PRPosterRoleIncomingCall

record SimplifiedPoster =
  sim_title_configuration :: PRPosterTitleStyleConfiguration
  sim_type :: PosterType
  sim_role :: PosterRole

record SimplifiedIncomingCallPoster =
  icp_poster :: SimplifiedPoster
  icp_text_metadata :: WallpaperMetadata
  icp_low_res :: "8 word list"

record WatchBackground =
  wb_is_high_key :: bool
  wb_luminance :: f64
  wb_background_image_data :: "8 word list"
  wb_extension_identifier :: string

record SimplifiedTranscriptPoster =
  stp_watch :: WatchBackground
  stp_poster :: SimplifiedPoster

section \<open>Shared names and pictures\<close>

record IMessageNameRecord =
  nmr_name :: string
  nmr_first :: string
  nmr_last :: string

record IMessagePosterRecord =
  pr_low_res_poster :: "8 word list"
  pr_package :: "8 word list"
  pr_meta :: "8 word list"

record IMessageNicknameRecord =
  nn_name :: IMessageNameRecord
  nn_image :: "8 word list option"
  nn_poster :: "IMessagePosterRecord option"

end
