(* ===== verification/Passwords.thy ===== *)
theory Passwords
  imports Messages Dates
begin

text \<open>
  Saved passwords, passkeys and wifi networks: the entries of the keychain as \<open>rust/src/api/mirrors.rs\<close> mirrors
  them, and what \<open>rust/src/api/api.rs\<close> and \<open>rust/src/native.rs\<close> do with them. The password manager of rustpush, the
  readers of the metadata and the one-time codes are parameters, and so is \<open>String::from_utf8\<close>. A panic is an
  error; a task that panics never answers.
\<close>

section \<open>Entries\<close>

record PasswordManagerMeta =
  pm_cdat :: u64
  pm_mdat :: u64
  pm_srvr :: string
  pm_acct :: string
  pm_agrp :: string
  pm_data :: "8 word list"

record PasswordRawEntry =
  pw_cdat :: u64
  pw_mdat :: u64
  pw_srvr :: string
  pw_acct :: string
  pw_agrp :: string
  pw_data :: "8 word list"

record Passkey =
  pk_cdat :: u64
  pk_mdat :: u64
  pk_agrp :: string
  pk_labl :: string
  pk_data :: "8 word list"
  pk_atag :: "8 word list"
  pk_klbl :: "8 word list"

record WifiPassword =
  wp_cdat :: u64
  wp_mdat :: u64
  wp_acct :: string
  wp_svce :: string
  wp_data :: "8 word list"

record PasswordManagerMetaDataFormerlyShared =
  fs_group_name :: "string option"
  fs_credential_identifier :: "string option"

record PasswordManagerMetaChange =
  ch_date :: u64
  ch_password :: "string option"
  ch_old_password :: "string option"
  ch_group_name :: "string option"
  ch_group_id :: "string option"
  ch_share_type :: "string option"
  ch_id :: string
  ch_typ :: string

record PasswordManagerTotp =
  to_secret :: "8 word list"
  to_digits :: "32 word"
  to_issuer :: "string option"
  to_period :: "32 word"
  to_initial_date :: u64
  to_algorithm :: "32 word"
  to_account_name :: "string option"
  to_original_url :: "string option"

text \<open>\<open>PasswordManagerAltDomain\<close> and \<open>PasswordManagerMetaDataCtx\<close> are structs of one field: a domain, and the time of
  the last use.\<close>

record PasswordManagerMetaData =
  md_history :: "PasswordManagerMetaChange list"
  md_alt_domains :: "string list"
  md_totp :: "PasswordManagerTotp option"
  md_ctxt :: "string \<rightharpoonup> f64"
  md_title :: "8 word list option"
  md_notes :: "8 word list option"
  md_formerly_shared :: "PasswordManagerMetaDataFormerlyShared option"
  md_ocpid :: "8 word list option"

definition as_bytes :: "string \<Rightarrow> 8 word list" where
  "as_bytes s = map of_char s"

section \<open>Wifi networks\<close>

text \<open>The entries come from a hash map, in any order; of two of one account the later wins.\<close>

definition wifi_networks ::
    "(8 word list \<Rightarrow> string option) \<Rightarrow> (string \<times> string option \<times> WifiPassword) list \<Rightarrow> string + (string \<rightharpoonup> string)" where
  "wifi_networks from_utf8 entries =
     map_sum id (\<lambda>ps. map_of (rev ps))
       (collect (map (\<lambda>(_, _, p). case from_utf8 (wp_data p) of None \<Rightarrow> Inl ''bad password!'' | Some t \<Rightarrow> Inr (wp_acct p, t)) entries))"

text \<open>What the callback of the app is called with, if it has been set.\<close>

definition sync_wifi_passwords ::
    "(8 word list \<Rightarrow> string option) \<Rightarrow> bool \<Rightarrow> bool \<Rightarrow> (string \<times> string option \<times> WifiPassword) list \<Rightarrow>
       string + ((string \<rightharpoonup> string) \<times> bool) option" where
  "sync_wifi_passwords from_utf8 handle_set user_approve entries =
     map_sum id (\<lambda>nets. if handle_set then Some (nets, user_approve) else None) (wifi_networks from_utf8 entries)"

text \<open>A synchronisation of the passwords ends with the wifi networks; a failed one does not reach them.\<close>

definition sync_passwords ::
    "('s, string, unit) sem \<Rightarrow> ('s \<Rightarrow> (string \<times> string option \<times> WifiPassword) list) \<Rightarrow> (8 word list \<Rightarrow> string option) \<Rightarrow> bool \<Rightarrow>
       ('s, string, ((string \<rightharpoonup> string) \<times> bool) option) sem" where
  "sync_passwords manager_sync wifi_entries from_utf8 handle_set =
     bnd manager_sync (\<lambda>_. asks (\<lambda>s. sync_wifi_passwords from_utf8 handle_set False (wifi_entries s)))"

section \<open>Inserting a password\<close>

text \<open>\<open>modify_password_entry\<close> finds or makes the entry of a site and account in a group and runs a closure on it.\<close>

record PasswordCriteria =
  pc_site :: string
  pc_account :: string

datatype modify_outcome = Modified | ModifyFailed string | ModifyPanicked

definition outcome_err :: "modify_outcome \<Rightarrow> string option" where
  "outcome_err r = (case r of ModifyFailed e \<Rightarrow> Some e | _ \<Rightarrow> None)"

definition set_password :: "string \<Rightarrow> PasswordRawEntry \<Rightarrow> string + PasswordRawEntry" where
  "set_password password pw = Inr (pw\<lparr>pw_data := as_bytes password\<rparr>)"

text \<open>The closure on the metadata: \<open>get_password_data\<close> gives a value of its own, which is changed and then dropped.
  Data that do not parse are a panic.\<close>

definition change_meta ::
    "(PasswordManagerMeta \<Rightarrow> string + PasswordManagerMetaData) \<Rightarrow>
     (SystemTime \<Rightarrow> PasswordManagerMetaData \<Rightarrow> PasswordManagerMetaData) \<Rightarrow>
     (string \<Rightarrow> PasswordManagerMetaData \<Rightarrow> PasswordManagerMetaData) \<Rightarrow>
     SystemTime \<Rightarrow> string \<Rightarrow> PasswordManagerMeta \<Rightarrow> string + PasswordManagerMeta" where
  "change_meta get_password_data set_last_used change_password now password pw =
     (case get_password_data pw of
        Inl e \<Rightarrow> Inl (''Failed to get data?: '' @ e)
      | Inr data \<Rightarrow>
          let data = set_last_used now data; data = change_password password data
          in Inr pw)"

text \<open>Both entries are modified whatever happens to the first, and the app gets the first error; the task of a
  closure that panics never answers (\<open>None\<close>).\<close>

definition keychain_password_insert ::
    "(PasswordCriteria \<Rightarrow> (PasswordRawEntry \<Rightarrow> string + PasswordRawEntry) \<Rightarrow> string option \<Rightarrow> 's \<Rightarrow> modify_outcome \<times> 's) \<Rightarrow>
     (PasswordCriteria \<Rightarrow> (PasswordManagerMeta \<Rightarrow> string + PasswordManagerMeta) \<Rightarrow> string option \<Rightarrow> 's \<Rightarrow> modify_outcome \<times> 's) \<Rightarrow>
     (string \<Rightarrow> PasswordManagerMeta \<Rightarrow> string + PasswordManagerMeta) \<Rightarrow>
     string \<Rightarrow> string \<Rightarrow> string \<Rightarrow> string option \<Rightarrow> 's \<Rightarrow> string option option \<times> 's" where
  "keychain_password_insert modify_raw modify_meta change site user password grp s =
     (let criteria = \<lparr>pc_site = site, pc_account = user\<rparr>
      in case modify_raw criteria (set_password password) grp s of (a, s') \<Rightarrow>
         (case modify_meta criteria (change password) grp s' of (b, s'') \<Rightarrow>
            (if b = ModifyPanicked then None
             else Some (case outcome_err a of Some e \<Rightarrow> Some e | None \<Rightarrow> outcome_err b), s'')))"

section \<open>Inserting a passkey\<close>

text \<open>The two clock readings of the entry, and the key as it is stored; an unreadable key is a panic.\<close>

definition new_passkey ::
    "(8 word list \<Rightarrow> 8 word list option) \<Rightarrow> SystemTime \<Rightarrow> SystemTime \<Rightarrow> string \<Rightarrow> 8 word list \<Rightarrow> 8 word list \<Rightarrow>
       8 word list \<Rightarrow> string + Passkey" where
  "new_passkey encode_pkcs8 now now' site key_id tag key =
     (case systemtime_to_millis now of Inl e \<Rightarrow> Inl e | Inr cdat \<Rightarrow>
      case systemtime_to_millis now' of Inl e \<Rightarrow> Inl e | Inr mdat \<Rightarrow>
      case encode_pkcs8 key of None \<Rightarrow> Inl ''Invalid EC key??'' | Some data \<Rightarrow>
        Inr \<lparr>pk_cdat = cdat, pk_mdat = mdat, pk_agrp = ''com.apple.webkit.webauthn'', pk_labl = site,
             pk_data = data, pk_atag = tag, pk_klbl = key_id\<rparr>)"

definition keychain_passkey_insert ::
    "(string \<Rightarrow> Passkey \<Rightarrow> string option \<Rightarrow> ('s, string, unit) sem) \<Rightarrow> string + Passkey \<Rightarrow> string \<Rightarrow> string option \<Rightarrow>
       's \<Rightarrow> string option option \<times> 's" where
  "keychain_passkey_insert insert_entry passkey record_id grp s =
     (case passkey of Inl _ \<Rightarrow> (None, s)
      | Inr pk \<Rightarrow> (case insert_entry record_id pk grp s of
          (Inl e, s') \<Rightarrow> (Some (Some e), s') | (Inr _, s') \<Rightarrow> (Some None, s')))"

section \<open>What a site gets\<close>

record SavedPassword =
  sv_cred_id :: string
  sv_username :: string
  sv_password :: string
  sv_otp :: "32 word option"

text \<open>A one-time code is that of the first metadata entry of the same account that can make one.\<close>

definition otp_of ::
    "(PasswordManagerMeta \<Rightarrow> string + PasswordManagerMetaData) \<Rightarrow> (PasswordManagerTotp \<Rightarrow> string + 32 word \<times> u64) \<Rightarrow>
       string \<Rightarrow> PasswordManagerMeta \<Rightarrow> 32 word option" where
  "otp_of get_password_data generate_otp acct m =
     (if acct \<noteq> pm_acct m then None
      else case get_password_data m of Inl _ \<Rightarrow> None | Inr d \<Rightarrow>
           case md_totp d of None \<Rightarrow> None | Some totp \<Rightarrow>
           case generate_otp totp of Inl _ \<Rightarrow> None | Inr (code, _) \<Rightarrow> Some code)"

fun find_map :: "('a \<Rightarrow> 'b option) \<Rightarrow> 'a list \<Rightarrow> 'b option" where
  "find_map f [] = None"
| "find_map f (x # xs) = (case f x of Some y \<Rightarrow> Some y | None \<Rightarrow> find_map f xs)"

definition site_passwords ::
    "(8 word list \<Rightarrow> string option) \<Rightarrow> (string \<Rightarrow> PasswordManagerMeta \<Rightarrow> 32 word option) \<Rightarrow> PasswordManagerMeta list \<Rightarrow>
       (string \<times> PasswordRawEntry) list \<Rightarrow> string + SavedPassword list" where
  "site_passwords from_utf8 otp metas entries =
     collect (map (\<lambda>(k, p). case from_utf8 (pw_data p) of
        None \<Rightarrow> Inl ''password not utf8??''
      | Some t \<Rightarrow> Inr \<lparr>sv_cred_id = k, sv_username = pw_acct p, sv_password = t, sv_otp = find_map (otp (pw_acct p)) metas\<rparr>) entries)"

record SavedPasskey =
  sp_cred_id :: string
  sp_id :: "8 word list"
  sp_tag :: "8 word list"
  sp_key :: "8 word list"

definition site_passkeys ::
    "(Passkey \<Rightarrow> string + 8 word list) \<Rightarrow> (string \<times> Passkey) list \<Rightarrow> string + SavedPasskey list" where
  "site_passkeys key_pkcs8 entries = collect (map (\<lambda>(k, p).
     map_sum id (\<lambda>key. \<lparr>sp_cred_id = k, sp_id = pk_klbl p, sp_tag = pk_atag p, sp_key = key\<rparr>) (key_pkcs8 p)) entries)"

text \<open>What the callback gets; no call where a conversion panics.\<close>

definition get_site_config ::
    "string + SavedPassword list \<Rightarrow> string + SavedPasskey list \<Rightarrow> (SavedPassword list \<times> SavedPasskey list) option" where
  "get_site_config passwords passkeys =
     (case passwords of Inl _ \<Rightarrow> None | Inr ps \<Rightarrow> (case passkeys of Inl _ \<Rightarrow> None | Inr ks \<Rightarrow> Some (ps, ks)))"


section \<open>Facts\<close>

text \<open>The interface of the password manager: its modification of an entry runs the closure on the entry the criteria
  find or make, and keeps what the closure left.\<close>

definition stores ::
    "(PasswordCriteria \<Rightarrow> ('p \<Rightarrow> string + 'p) \<Rightarrow> string option \<Rightarrow> 's \<Rightarrow> modify_outcome \<times> 's) \<Rightarrow>
     (PasswordCriteria \<Rightarrow> string option \<Rightarrow> 's \<Rightarrow> 'p) \<Rightarrow> bool" where
  "stores modify_entry look \<longleftrightarrow> (\<forall>c f g s. case f (look c g s) of
       Inl _ \<Rightarrow> fst (modify_entry c f g s) = ModifyPanicked \<and> look c g (snd (modify_entry c f g s)) = look c g s
     | Inr p \<Rightarrow> fst (modify_entry c f g s) = Modified \<and> look c g (snd (modify_entry c f g s)) = p)"

lemma storesD:
  assumes "stores modify_entry look" and "f (look c g s) = Inr p"
  shows "\<exists>t. modify_entry c f g s = (Modified, t) \<and> look c g t = p"
proof -
  from assms have "fst (modify_entry c f g s) = Modified \<and> look c g (snd (modify_entry c f g s)) = p"
    by (auto simp: stores_def split: sum.splits)
  then show ?thesis by (metis prod.collapse)
qed


text \<open>One entry of each kind, as a password manager.\<close>

definition modify_fst :: "PasswordCriteria \<Rightarrow> ('p \<Rightarrow> string + 'p) \<Rightarrow> string option \<Rightarrow> 'p \<times> 'm \<Rightarrow> modify_outcome \<times> 'p \<times> 'm" where
  "modify_fst c f g s = (case f (fst s) of Inl _ \<Rightarrow> (ModifyPanicked, s) | Inr p \<Rightarrow> (Modified, p, snd s))"

definition modify_snd :: "PasswordCriteria \<Rightarrow> ('m \<Rightarrow> string + 'm) \<Rightarrow> string option \<Rightarrow> 'p \<times> 'm \<Rightarrow> modify_outcome \<times> 'p \<times> 'm" where
  "modify_snd c f g s = (case f (snd s) of Inl _ \<Rightarrow> (ModifyPanicked, s) | Inr m \<Rightarrow> (Modified, fst s, m))"

definition sample_raw :: PasswordRawEntry where
  "sample_raw = \<lparr>pw_cdat = 0, pw_mdat = 0, pw_srvr = ''s'', pw_acct = ''u'', pw_agrp = '''', pw_data = []\<rparr>"

definition sample_meta :: PasswordManagerMeta where
  "sample_meta = \<lparr>pm_cdat = 0, pm_mdat = 0, pm_srvr = ''s'', pm_acct = ''u'', pm_agrp = '''', pm_data = []\<rparr>"

definition sample_meta_data :: PasswordManagerMetaData where
  "sample_meta_data = \<lparr>md_history = [], md_alt_domains = [], md_totp = None, md_ctxt = (\<lambda>_. None), md_title = None,
     md_notes = None, md_formerly_shared = None, md_ocpid = None\<rparr>"


text \<open>The app hears of the first error, and the metadata closure runs although the password could not be stored.\<close>

lemma password_error_reported_first:
  assumes "modify_raw \<lparr>pc_site = site, pc_account = user\<rparr> (set_password password) grp s = (ModifyFailed e, s')"
    and "modify_meta \<lparr>pc_site = site, pc_account = user\<rparr> (change password) grp s' = (r, s'')" and "r \<noteq> ModifyPanicked"
  shows "keychain_password_insert modify_raw modify_meta change site user password grp s = (Some (Some e), s'')"
  using assms by (simp add: outcome_err_def keychain_password_insert_def)

text \<open>A one-time code offered with a password is one of metadata of the same account.\<close>

lemma find_map_Some: "find_map f xs = Some y \<Longrightarrow> \<exists>x \<in> set xs. f x = Some y"
  by (induction xs) (auto split: option.splits)

lemma collect_map_mem: "collect (map f xs) = Inr ys \<Longrightarrow> y \<in> set ys \<Longrightarrow> \<exists>x \<in> set xs. f x = Inr y"
proof (induction xs arbitrary: ys)
  case (Cons x xs)
  then show ?case by (cases "f x") (auto split: sum.splits)
qed simp

lemma otp_of_own_account:
  assumes "site_passwords from_utf8 (otp_of get generate) metas entries = Inr ps" and "p \<in> set ps" and "sv_otp p = Some code"
  shows "\<exists>m \<in> set metas. pm_acct m = sv_username p"
proof -
  from collect_map_mem [OF assms(1) [unfolded site_passwords_def] assms(2)]
  obtain e :: PasswordRawEntry where "sv_username p = pw_acct e" and "sv_otp p = find_map (otp_of get generate (pw_acct e)) metas"
    by (auto split: option.splits)
  with assms(3) show ?thesis by (auto simp: otp_of_def dest!: find_map_Some split: if_splits)
qed

text \<open>A passkey reads back under its record with its own id, tag and key.\<close>

lemma passkey_offered:
  assumes "new_passkey encode now now' site key_id tag key = Inr p" and "\<And>d. encode key = Some d \<Longrightarrow> pk_data p = d \<Longrightarrow> pkcs8 p = Inr key"
  shows "site_passkeys pkcs8 [(rec, p)] = Inr [\<lparr>sp_cred_id = rec, sp_id = key_id, sp_tag = tag, sp_key = key\<rparr>]"
  using assms by (auto simp: new_passkey_def site_passkeys_def split: sum.splits option.splits)

text \<open>The app is given the password of every network, and of a network that is there twice that of the later entry.\<close>

lemma wifi_last_wins:
  assumes "\<And>i g q. (i, g, q) \<in> set (es @ (i0, g0, p) # es') \<Longrightarrow> from_utf8 (wp_data q) = Some (text_of q)"
    and "\<And>i g q. (i, g, q) \<in> set es' \<Longrightarrow> wp_acct q \<noteq> wp_acct p"
  shows "\<exists>nets. wifi_networks from_utf8 (es @ (i0, g0, p) # es') = Inr nets \<and> nets (wp_acct p) = Some (text_of p)"
proof -
  let ?f = "\<lambda>(_, _, q). (wp_acct q, text_of q)" and ?es = "es @ (i0, g0, p) # es'"
  have "collect (map (\<lambda>(_, _, q). case from_utf8 (wp_data q) of None \<Rightarrow> Inl ''bad password!'' | Some t \<Rightarrow> Inr (wp_acct q, t)) ?es) =
      Inr (map ?f ?es)"
    by (rule collect_map_eq) (clarsimp simp: assms(1) split del: if_split)
  then have "wifi_networks from_utf8 ?es = Inr (map_of (rev (map ?f ?es)))" by (simp add: wifi_networks_def)
  moreover have "map_of (rev (map ?f es')) (wp_acct p) = None"
    unfolding map_of_eq_None_iff using assms(2) by fastforce
  ultimately show ?thesis by (simp add: map_add_def)
qed

end
