(* ===== verification/Services.thy ===== *)
theory Services
  imports Accounts CloudMessages FindMy Posters Passwords "HOL-Library.AList"
begin

text \<open>
  Operations of \<open>rust/src/api/api.rs\<close> and \<open>rust/src/native.rs\<close> on the clients of single services: albums, friends,
  FaceTime, second factors, the keychain, posters and attachments as property lists. What a client of rustpush
  does to its state is a parameter; what is modelled is which of its operations run, in which order, what is
  kept when one fails, and what the app gets.
\<close>

section \<open>Shared albums\<close>

text \<open>Every change of the albums answers with the list after it.\<close>

definition and_albums :: "('s \<Rightarrow> SharedAlbum list) \<Rightarrow> ('s, string, unit) sem \<Rightarrow> ('s, string, SharedAlbum list) sem" where
  "and_albums albums change = thn change (asks (\<lambda>s. Inr (albums s)))"

definition subscribe ::
    "('s \<Rightarrow> SharedAlbum list) \<Rightarrow> (string \<Rightarrow> ('s, string, unit) sem) \<Rightarrow> string \<Rightarrow> ('s, string, SharedAlbum list) sem" where
  "subscribe albums client_subscribe guid = and_albums albums (client_subscribe guid)"

definition unsubscribe ::
    "('s \<Rightarrow> SharedAlbum list) \<Rightarrow> (string \<Rightarrow> ('s, string, unit) sem) \<Rightarrow> string \<Rightarrow> ('s, string, SharedAlbum list) sem" where
  "unsubscribe albums manager_unsubscribe guid = and_albums albums (manager_unsubscribe guid)"

definition subscribe_token ::
    "('s \<Rightarrow> SharedAlbum list) \<Rightarrow> (string \<Rightarrow> ('s, string, unit) sem) \<Rightarrow> string \<Rightarrow> ('s, string, SharedAlbum list) sem" where
  "subscribe_token albums client_subscribe_token token = and_albums albums (client_subscribe_token token)"

definition add_album ::
    "('s \<Rightarrow> SharedAlbum list) \<Rightarrow> (string \<Rightarrow> string \<Rightarrow> 's \<Rightarrow> 's) \<Rightarrow> string \<Rightarrow> string \<Rightarrow> ('s, string, SharedAlbum list) sem" where
  "add_album albums manager_add guid folder = and_albums albums (modify (manager_add guid folder))"

definition remove_album ::
    "('s \<Rightarrow> SharedAlbum list) \<Rightarrow> (string \<Rightarrow> 's \<Rightarrow> 's) \<Rightarrow> string \<Rightarrow> ('s, string, SharedAlbum list) sem" where
  "remove_album albums manager_remove guid = and_albums albums (modify (manager_remove guid))"

section \<open>Devices and friends\<close>

text \<open>The clients of Find My keep a list that \<open>refresh\<close> brings up to date, and the friend to be followed live.\<close>

record FriendsClient =
  fc_selected_friend :: "string option"
  fc_following :: "Follow list"

type_synonym 'a friends = "(FriendsClient, string, 'a) sem"

definition get_following :: "FriendsClient \<Rightarrow> Follow list" where
  "get_following c = fc_following c"

definition refresh_following :: "unit friends \<Rightarrow> Follow list friends" where
  "refresh_following refresh = thn refresh (asks (\<lambda>c. Inr (fc_following c)))"

definition select_friend :: "unit friends \<Rightarrow> string option \<Rightarrow> Follow list friends" where
  "select_friend refresh friend =
     thn (modify (\<lambda>c. c\<lparr>fc_selected_friend := friend\<rparr>)) (thn refresh (asks (\<lambda>c. Inr (fc_following c))))"

text \<open>The same on the client in the background, behind its lock; selecting there does not refresh.\<close>

definition select_background_friend :: "string option \<Rightarrow> Follow list friends" where
  "select_background_friend friend =
     thn (modify (\<lambda>c. c\<lparr>fc_selected_friend := friend\<rparr>)) (asks (\<lambda>c. Inr (fc_following c)))"

definition get_background_following :: "FriendsClient \<Rightarrow> Follow list" where
  "get_background_following c = fc_following c"

definition refresh_background_following :: "unit friends \<Rightarrow> Follow list friends" where
  "refresh_background_following refresh = thn refresh (asks (\<lambda>c. Inr (fc_following c)))"

definition get_devices :: "('s \<Rightarrow> FoundDevice list) \<Rightarrow> 's \<Rightarrow> FoundDevice list" where
  "get_devices devices s = devices s"

definition refresh_devices :: "('s \<Rightarrow> FoundDevice list) \<Rightarrow> ('s, string, unit) sem \<Rightarrow> ('s, string, FoundDevice list) sem" where
  "refresh_devices devices refresh = thn refresh (asks (\<lambda>s. Inr (devices s)))"

text \<open>Both clients are made for the account of the shared streams.\<close>

definition make_find_my_phone ::
    "plist_codec \<Rightarrow> (plist \<Rightarrow> string option) \<Rightarrow> (string \<Rightarrow> string + 'c) \<Rightarrow> string \<Rightarrow> disk \<Rightarrow> string + 'c" where
  "make_find_my_phone codec streams_dsid client_new dir d =
     (case Option.bind (read_plist codec (shared_streams_path dir) d) streams_dsid of
        None \<Rightarrow> Inl ''plist''
      | Some dsid \<Rightarrow> client_new dsid)"

definition make_find_my_friends ::
    "plist_codec \<Rightarrow> (plist \<Rightarrow> string option) \<Rightarrow> (string \<Rightarrow> bool \<Rightarrow> string + 'c) \<Rightarrow> string \<Rightarrow> disk \<Rightarrow> string + 'c" where
  "make_find_my_friends codec streams_dsid client_new dir d =
     (case Option.bind (read_plist codec (shared_streams_path dir) d) streams_dsid of
        None \<Rightarrow> Inl ''plist''
      | Some dsid \<Rightarrow> client_new dsid False)"

section \<open>FaceTime\<close>

text \<open>The sessions by their identifiers, in the order a walk through the hash map meets them. \<open>ft_sessions\<close> clones
  them; \<open>sessions.get_mut(&guid).expect("state")\<close> operates on one in its place.\<close>

type_synonym ('p, 'l) sessions = "(string \<times> ('p, 'l) FTSession) list"

definition ft_sessions :: "('p, 'l) sessions \<Rightarrow> ('p, 'l) FTSession list" where
  "ft_sessions m = map snd m"

definition with_session ::
    "string \<Rightarrow> (('p, 'l) FTSession, string, 'a) sem \<Rightarrow> (('p, 'l) sessions, string, 'a) sem" where
  "with_session guid f m = (case map_of m guid of None \<Rightarrow> (Inl ''state'', m)
     | Some x \<Rightarrow> (case f x of (r, x') \<Rightarrow> (r, AList.update guid x' m)))"

definition decline_facetime ::
    "(string list \<Rightarrow> (('p, 'l) FTSession, string, unit) sem) \<Rightarrow> (('p, 'l) FTSession, string, unit) sem \<Rightarrow> string \<Rightarrow>
       (('p, 'l) sessions, string, unit) sem" where
  "decline_facetime ensure_allocations decline_invite guid =
     with_session guid (thn (ensure_allocations []) decline_invite)"

definition cancel_facetime ::
    "(('p, 'l) FTSession, string, unit) sem \<Rightarrow> string \<Rightarrow> (('p, 'l) sessions, string, unit) sem" where
  "cancel_facetime unprop_conv guid = with_session guid unprop_conv"

text \<open>The native side declines in a task of its own and only logs an error.\<close>

definition native_decline_facetime ::
    "(string list \<Rightarrow> (('p, 'l) FTSession, string, unit) sem) \<Rightarrow> (('p, 'l) FTSession, string, unit) sem \<Rightarrow> string \<Rightarrow>
       ('p, 'l) sessions \<Rightarrow> ('p, 'l) sessions" where
  "native_decline_facetime ensure_allocations decline_invite guid m =
     snd (decline_facetime ensure_allocations decline_invite guid m)"

section \<open>Second factors\<close>

definition teardown_2fa :: "(string \<Rightarrow> nat \<Rightarrow> string \<Rightarrow> ('s, string, unit) sem) \<Rightarrow> string \<Rightarrow> string \<Rightarrow> ('s, string, unit) sem" where
  "teardown_2fa teardown action txnid = teardown action 100 txnid"

definition native_teardown_2fa :: "(string \<Rightarrow> nat \<Rightarrow> string \<Rightarrow> ('s, string, unit) sem) \<Rightarrow> string \<Rightarrow> string \<Rightarrow> 's \<Rightarrow> 's" where
  "native_teardown_2fa teardown action txnid s = snd (teardown_2fa teardown action txnid s)"

definition send_2fa_to_devices ::
    "(int \<Rightarrow> string + 'c) \<Rightarrow> ('c \<Rightarrow> string option) \<Rightarrow> AppleAccount \<Rightarrow> string + 'c \<times> LoginState \<times> string option" where
  "send_2fa_to_devices session_new session_id account =
     (case aa_spd account of
        None \<Rightarrow> Inl ''called `Option::unwrap()` on a `None` value''
      | Some spd \<Rightarrow> (case dict_get ''DsPrsId'' spd of
          None \<Rightarrow> Inl ''no entry found for key''
        | Some v \<Rightarrow> (case as_unsigned v of
            None \<Rightarrow> Inl ''called `Option::unwrap()` on a `None` value''
          | Some dsid \<Rightarrow> map_sum id (\<lambda>c. (c, Needs2FAVerification, session_id c)) (session_new dsid))))"

text \<open>The answer of the server: the trusted numbers and the state the login is in.\<close>

record auth_extras =
  ax_trusted_phone_numbers :: "TrustedPhoneNumber list"
  ax_new_state :: "LoginState option"

definition get_2fa_sms_opts :: "string + auth_extras \<Rightarrow> string + TrustedPhoneNumber list \<times> LoginState option" where
  "get_2fa_sms_opts extras = map_sum id (\<lambda>x. (ax_trusted_phone_numbers x, ax_new_state x)) extras"

text \<open>A session with another device is cancelled first; the text message is sent only if that worked.\<close>

definition send_2fa_sms ::
    "('c \<Rightarrow> ('s, string, unit) sem) \<Rightarrow> (32 word \<Rightarrow> ('s, string, LoginState) sem) \<Rightarrow> 'c option \<Rightarrow> 32 word \<Rightarrow>
       ('s, string, LoginState) sem" where
  "send_2fa_sms cancel send_sms locked phone_id =
     thn (case locked of None \<Rightarrow> ok () | Some l \<Rightarrow> cancel l) (send_sms phone_id)"

definition get_user_name :: "string \<times> string \<Rightarrow> string" where
  "get_user_name name = fst name @ '' '' @ snd name"

section \<open>The keychain\<close>

text \<open>The keychain is reset before the messages in the cloud; a failure of the first leaves the second alone.\<close>

definition reset_clique ::
    "(string \<Rightarrow> ('s, string, unit) sem) \<Rightarrow> ('s, string, unit) sem \<Rightarrow> string \<Rightarrow> ('s, string, unit) sem" where
  "reset_clique keychain_reset messages_reset device_password = thn (keychain_reset device_password) messages_reset"

section \<open>Answers of the cloud\<close>

definition set_profile ::
    "(IMessageNicknameRecord \<Rightarrow> ShareProfileMessage option \<Rightarrow> (string + unit) \<times> ShareProfileMessage option) \<Rightarrow>
       IMessageNicknameRecord \<Rightarrow> ShareProfileMessage option \<Rightarrow> string + ShareProfileMessage" where
  "set_profile set_record rec existing = (case set_record rec existing of
       (Inl e, _) \<Rightarrow> Inl e
     | (Inr _, None) \<Rightarrow> Inl ''No profile set??''
     | (Inr _, Some m) \<Rightarrow> Inr m)"

text \<open>The carrier gateway: either the name or the error reaches the app.\<close>

definition get_carrier :: "string + string \<Rightarrow> string option \<times> string option" where
  "get_carrier gateway = (case gateway of Inr g \<Rightarrow> (Some g, None) | Inl e \<Rightarrow> (None, Some e))"

text \<open>The native side publishes a status in a task and only logs an error; without iCloud the call itself panics.\<close>

definition publish_status ::
    "(StatusKitStatus \<Rightarrow> 's \<Rightarrow> (string + unit) \<times> 's) option \<Rightarrow> string option \<Rightarrow> 's \<Rightarrow> (string + unit) \<times> 's" where
  "publish_status client guid s = (case client of
       None \<Rightarrow> (Inl ''no icloud!'', s)
     | Some share_status \<Rightarrow> (Inr (), snd (share_status \<lparr>sk_active = (guid = None), sk_id = guid\<rparr> s)))"

section \<open>The callbacks of the app\<close>

text \<open>Two \<open>OnceLock\<close>s: the first packager and the first wifi callback stay.\<close>

definition set_once :: "'a \<Rightarrow> 'a option \<Rightarrow> 'a option" where
  "set_once x slot = (case slot of None \<Rightarrow> Some x | Some y \<Rightarrow> Some y)"

definition start :: "'p \<Rightarrow> 'w \<Rightarrow> 'p option \<times> 'w option \<Rightarrow> 'p option \<times> 'w option" where
  "start packager wifi = map_prod (set_once packager) (set_once wifi)"

section \<open>Posters and attachments as property lists\<close>

text \<open>The entries the local struct \<open>Extras\<close> reads beside those of the old poster.\<close>

definition parse_extras ::
    "(plist \<Rightarrow> WallpaperMetadata option) \<Rightarrow> plist \<Rightarrow> (WallpaperMetadata \<times> 8 word list) option" where
  "parse_extras metadata v = Option.bind (as_dict v) (\<lambda>m.
     Option.bind (Option.bind (dict_get ''text_metadata'' m) metadata) (\<lambda>t.
     Option.bind (get_data ''low_res'' m) (\<lambda>l. Some (t, l))))"

definition from_poster_save ::
    "byte_codec \<Rightarrow> (plist \<Rightarrow> SimplifiedIncomingCallPoster option) \<Rightarrow> (plist \<Rightarrow> SimplifiedPoster option) \<Rightarrow>
       (plist \<Rightarrow> WallpaperMetadata option) \<Rightarrow> string \<Rightarrow> SimplifiedIncomingCallPoster option" where
  "from_poster_save c incoming simple metadata poster =
     (case from_bytes c incoming poster of
        Some p \<Rightarrow> Some p
      | None \<Rightarrow> Option.bind (from_bytes c simple poster) (\<lambda>result.
          Option.bind (from_bytes c (parse_extras metadata) poster) (\<lambda>(t, l).
          Some \<lparr>icp_poster = result, icp_text_metadata = t, icp_low_res = l\<rparr>)))"

definition parse_poster_save ::
    "byte_codec \<Rightarrow> (SimplifiedIncomingCallPoster \<Rightarrow> plist option) \<Rightarrow> SimplifiedIncomingCallPoster \<Rightarrow> string option" where
  "parse_poster_save c to_plist poster = plist_to_bin c to_plist poster"

definition transcript_poster_save ::
    "byte_codec \<Rightarrow> (SimplifiedTranscriptPoster \<Rightarrow> plist option) \<Rightarrow> SimplifiedTranscriptPoster \<Rightarrow> string option" where
  "transcript_poster_save c to_plist poster = plist_to_bin c to_plist poster"

definition from_transcript_poster_save ::
    "byte_codec \<Rightarrow> (plist \<Rightarrow> SimplifiedTranscriptPoster option) \<Rightarrow> string \<Rightarrow> SimplifiedTranscriptPoster option" where
  "from_transcript_poster_save c shape poster = from_bytes c shape poster"

definition save_attachment :: "byte_codec \<Rightarrow> (Attachment \<Rightarrow> plist option) \<Rightarrow> Attachment \<Rightarrow> string + string" where
  "save_attachment c to_plist att = unwrap (plist_to_string c to_plist att)"

definition restore_attachment :: "byte_codec \<Rightarrow> (plist \<Rightarrow> Attachment option) \<Rightarrow> string \<Rightarrow> string + Attachment" where
  "restore_attachment c shape data = unwrap (Option.bind (bc_parse_xml c data) shape)"

definition create_image_array :: "LPImageMetadata \<Rightarrow> LPImageMetadata NSArrayRecord" where
  "create_image_array img = \<lparr>ns_objects = [img], ns_class = NSArray\<rparr>"

definition create_icon_array :: "LPIconMetadata \<Rightarrow> LPIconMetadata NSArrayRecord" where
  "create_icon_array img = \<lparr>ns_objects = [img], ns_class = NSArray\<rparr>"

definition ns_null :: "byte_codec \<Rightarrow> string" where
  "ns_null c = bc_bin c (PString ''$null'')"

section \<open>Facts\<close>

text \<open>A poster saved by this version reads back, and one saved by an older version, which had the poster's own entries
  in the same dictionary as the metadata and the picture, is put together from them.\<close>

lemma posters_read_back:
  assumes "bytes_roundtrip c" and "to_plist p = Some v" and "incoming v = Some p"
  shows "\<exists>b. parse_poster_save c to_plist p = Some b \<and> from_poster_save c incoming simple metadata b = Some p"
  using assms by (simp add: parse_poster_save_def plist_to_bin_def from_poster_save_def from_bytes_def bytes_roundtrip_def)

lemma old_posters_read:
  assumes "bytes_roundtrip c" and "incoming (PDict m) = None" and "simple (PDict m) = Some p"
    and "dict_get ''text_metadata'' m = Some t" and "metadata t = Some tm" and "get_data ''low_res'' m = Some l"
  shows "from_poster_save c incoming simple metadata (bc_bin c (PDict m)) =
    Some \<lparr>icp_poster = p, icp_text_metadata = tm, icp_low_res = l\<rparr>"
  using assms by (simp add: from_poster_save_def from_bytes_def bytes_roundtrip_def parse_extras_def as_dict_def)

lemma attachments_read_back:
  assumes "bytes_roundtrip c" and "to_plist a = Some v" and "shape v = Some a"
  shows "\<exists>s. save_attachment c to_plist a = Inr s \<and> restore_attachment c shape s = Inr a"
  using assms by (simp add: save_attachment_def restore_attachment_def plist_to_string_def bytes_roundtrip_def)

text \<open>A friend that was chosen stays chosen although the refresh failed, and the error hides the list.\<close>

lemma failed_refresh_keeps_selection:
  assumes "refresh (c\<lparr>fc_selected_friend := friend\<rparr>) = (Inl e, c')" and "fc_selected_friend c' = friend"
  shows "\<exists>d. select_friend refresh friend c = (Inl e, d) \<and> fc_selected_friend d = friend"
  using assms by (simp add: select_friend_def thn_def bnd_def modify_def)

text \<open>Declining or cancelling a call touches no other session and keeps their order; a call that is not there is an
  error that changes nothing.\<close>

lemma with_session_others:
  assumes "with_session guid f m = (r, m')"
  shows "map fst m' = map fst m \<and> (k \<noteq> guid \<longrightarrow> map_of m' k = map_of m k)"
proof (cases "map_of m guid")
  case (Some x)
  then have "guid \<in> set (map fst m)" by (force dest: map_of_SomeD)
  moreover obtain x' where "m' = AList.update guid x' m"
    using Some assms by (auto simp: with_session_def split: prod.splits)
  ultimately show ?thesis by (simp add: AList.update_conv' AList.update_keys)
qed (use assms in \<open>simp add: with_session_def\<close>)

lemma unknown_call_unchanged:
  "map_of m guid = None \<Longrightarrow> native_decline_facetime ensure decline guid m = m"
  by (simp add: native_decline_facetime_def decline_facetime_def with_session_def)

end
