(* ===== verification/Desktop.thy ===== *)
theory Desktop
  imports App Startup
begin

text \<open>
  What surrounds the core on a desktop: the functions of \<open>rust/src/ffi.rs\<close> the front end calls before there is an
  app, and the keystore \<open>SharedPushState::restore\<close> of \<open>rust/src/api/api.rs\<close> installs there before it starts
  again. The directories crate and the environment are arguments; the logger itself is not modelled.
\<close>

section \<open>Before the app\<close>

definition core_version :: string where
  "core_version = ''0.1.0''"

text \<open>\<open>project\<close> is the data directory of \<open>ProjectDirs\<close>, \<open>profile\<close> the variable \<open>USERPROFILE\<close>.\<close>

definition default_data_dir :: "string option \<Rightarrow> string option \<Rightarrow> string" where
  "default_data_dir project profile =
     (case project of Some p \<Rightarrow> p
      | None \<Rightarrow> (case profile of
          Some home \<Rightarrow> home @ [backslash] @ ''AppData'' @ [backslash] @ ''Roaming'' @ [backslash] @ ''Locke Werks'' @
            [backslash] @ ''Cavitation''
        | None \<Rightarrow> ''.''))"

definition init_logger_at :: "string \<Rightarrow> (disk, string, unit) sem" where
  "init_logger_at path = bnd (create_dir_all path) (\<lambda>_. ok ())"

section \<open>Starting again with a keystore\<close>

text \<open>The key is a constant of the program; the state is read from \<open>keystore.plist\<close>, or is the default.\<close>

definition DESKTOP_KEY :: string where
  "DESKTOP_KEY = ''desktopisinsecureyoushouldn'tber''"

definition desktop_keystore :: "keystore_env \<Rightarrow> string \<Rightarrow> disk \<Rightarrow> SoftwareKeystore" where
  "desktop_keystore kenv dir d =
     \<lparr>sk_state = keystore_state kenv (join_path dir ''keystore.plist'') d, sk_encryptor = DESKTOP_KEY,
      sk_save_to = join_path dir ''keystore.plist''\<rparr>"

text \<open>The keystore is installed first, and stays installed when the rest panics.\<close>

definition restore_desktop ::
    "startup_env \<Rightarrow> keystore_env \<Rightarrow> string \<Rightarrow>
       ((disk \<times> imported_key list) \<times> SoftwareKeystore option, string, SharedPushState option) sem" where
  "restore_desktop env kenv dir = (\<lambda>((d, ks), slot).
     case restore env dir (d, ks) of
       (r, s) \<Rightarrow> (r, (s, init_keystore (desktop_keystore kenv dir d) slot)))"

text \<open>The state that is kept: a failed write is a panic here.\<close>

definition on_desktop_update :: "keystore_env \<Rightarrow> SoftwareKeystore \<Rightarrow> string \<Rightarrow> (disk, string, unit) sem" where
  "on_desktop_update kenv k st = save_json (state_plist kenv) (sk_save_to k) st"

section \<open>Facts\<close>

text \<open>A start of a fresh process has a keystore whatever else happens, with the same key each time, and the state the
  last update wrote; a process that has a keystore already keeps it.\<close>

lemma desktop_keystore_installed:
  "restore_desktop env kenv dir ((d, ks), None) = (r, (s, k)) \<Longrightarrow> k = Some (desktop_keystore kenv dir d)"
  by (auto simp: restore_desktop_def init_keystore_def split: prod.splits)

lemma desktop_state_kept:
  assumes "\<And>v t. to_string_pretty (state_plist kenv) v = Inr t \<Longrightarrow> from_str (state_plist kenv) t = Inr v"
    and "on_desktop_update kenv (desktop_keystore kenv dir d) st d = (Inr (), d')"
  shows "sk_state (desktop_keystore kenv dir d') = st \<and> sk_encryptor (desktop_keystore kenv dir d') = DESKTOP_KEY"
proof -
  obtain t where t: "to_string_pretty (state_plist kenv) st = Inr t"
      and w: "write_file (join_path dir ''keystore.plist'') t d = (Inr (), d')"
    using assms(2) by (auto simp: on_desktop_update_def desktop_keystore_def save_json_def bnd_def asks_def
        split: sum.splits)
  from fs.read_written [OF w] assms(1) [OF t] show ?thesis
    by (simp add: desktop_keystore_def keystore_state_def)
qed

lemma desktop_keeps_keystore:
  "restore_desktop env kenv dir (s0, Some k0) = (r, (s, k)) \<Longrightarrow> k = Some k0"
  by (auto simp: restore_desktop_def init_keystore_def split: prod.splits)

end
