(* ===== verification/Spec2Isabelle.thy ===== *)
theory Spec2Isabelle
  imports Restarts FileSends Phone KeystoreSpec StartupSpec CloudSpec Downloads HandoverSpec Services Desktop
begin

text \<open>
  Verification of the Rust core of Cavitation, an iMessage client for the desktop: the crate under
  \<open>src/rust\<close>, which keeps the messages in SQLite, talks to Apple through the rustpush library and serves a
  Qt front end through a cxx bridge. The crate also carries the bindings of the earlier mobile app
  (\<open>api/api.rs\<close>, \<open>native.rs\<close>, \<open>keystore.rs\<close>); \<open>lib.rs\<close> does not declare these modules, so the
  desktop build leaves them out, but they hold most of the code and of the account logic.

  The parts of the desktop core and how they interact. \<open>app.rs\<close> opens the data directory: the keystore,
  the database, the settings, the stored sign-in state. \<open>ffi.rs\<close> takes the calls of the user interface;
  each runs against the shared state, and the slow ones spawn a task. Tasks sign in (\<open>integration.rs\<close>),
  create and register the session (\<open>session.rs\<close>, \<open>os_config.rs\<close>, \<open>keychain.rs\<close>), send messages, and
  receive them in a loop (\<open>receive.rs\<close>). All of them write to the database (\<open>storage.rs\<close>) and put events
  on a channel that the interface polls (\<open>events.rs\<close>).

  The parts of the mobile bindings. \<open>restore\<close> in \<open>api.rs\<close> migrates the data directory and rebuilds every
  client from its files; \<open>native.rs\<close> runs a loop over the push messages (\<open>recv_wait\<close>), queues each one
  until the app has taken it, and serves photo albums, passwords and groups; the rest of \<open>api.rs\<close> signs
  in, approves sign-ins of other devices, keeps the account files and wraps the clients of rustpush.

  Theories of the desktop core:
  Prelude (computations over a state that can fail, UTF-8 strings, tables, reachability);
  Files (the disk and the JSON files kept on it);
  Storage, StorageInv, StorageSpec, StorageRun (\<open>storage.rs\<close>: the tables as lists of rows and every method
  of \<open>Storage\<close>; integrity, the effect of each operation, runs of operations);
  Mailbox (what \<open>storage.rs\<close> promises, as a mailbox of maps and sets that the tables refine, with the locale
  \<open>simulation\<close> for runs of two such machines, and the queries as functions of the mailbox);
  Events (\<open>events.rs\<close>: the channel, the translation of events);
  OsConfig, OsConfigSpec (\<open>os_config.rs\<close>: activation codes, the identity file);
  Session, SessionSpec (\<open>session.rs\<close>: creating, restoring and registering a session);
  Keychain (\<open>keychain.rs\<close>: the wrapping key and the process-wide keystore);
  Messages (\<open>mirrors.rs\<close>: the message types of rustpush, with every payload);
  Integration (\<open>integration.rs\<close>: sign-in and sending);
  Receive, ReceiveSpec (\<open>receive.rs\<close>: the receive loop and the storing of an inbound message);
  App (\<open>app.rs\<close>: the state of the application and its start);
  Ffi, FfiSpec (\<open>ffi.rs\<close>: the calls and the tasks);
  System, SystemRuns (the whole core as a step relation: calls, tasks and rounds of the receive loop in any
  order; the invariants of every reachable state, and concrete runs from pairing to receiving);
  CoreRuns (what every part of the core keeps, as the locales \<open>storage_closed\<close> and \<open>core_closed\<close>: the database of the
  running core as a mailbox, inbound messages from the network to the screen);
  CoreSends, FileSends, Restarts (the life of an outgoing message and of a file among all other steps; the core over
  several lives of its process, stopped at any moment).

  Theories of the mobile bindings:
  Keystore, KeystoreSpec (\<open>keystore.rs\<close>: access rules, key wrapping, the choice of the keystore);
  NativeLoop, NativeLoopSpec (\<open>native.rs\<close>: the queue of untaken messages with its retries, as a step relation);
  Circle, CircleSpec (\<open>api.rs\<close>: approving sign-ins of other devices, the dispatch of push messages over all
  handlers in their order, \<open>recv_wait\<close>, the registration state, \<open>send\<close>);
  Phone (\<open>recv_wait\<close> feeding the loop of \<open>native.rs\<close>: both halves as one step relation);
  Plist (property lists and their files, for the next theories);
  Migrate, MigrateSpec (\<open>api.rs\<close>, \<open>migrate\<close>: moving private keys of older versions into the keystore);
  Accounts, AccountsSpec (\<open>api.rs\<close>: the account files, signing in with every second factor, resetting);
  Startup, StartupSpec (\<open>api.rs\<close>: the hardware file, the registered users, the clients made from the files of
  the data directory, and \<open>restore\<close>);
  DeviceInfo (\<open>api.rs\<close>: the device configurations, the code that carries one to another installation);
  Cloud, CloudSpec (\<open>api.rs\<close>, \<open>native.rs\<close>: uploads, password groups, items of Find My, recovery bottles, album
  state and the other requests that compute something of their own);
  Streams (\<open>api.rs\<close>, \<open>native.rs\<close>: packaging files for albums, the task that shares new files, uploads);
  Downloads (\<open>api.rs\<close>: the parent of a path, downloads of attachments and of files of the cloud);
  Handover, HandoverSpec (\<open>api.rs\<close>, \<open>native.rs\<close>: the raw pointers that carry the state between the two halves
  of the app, on a memory with boxes and reference counts, as a step relation);
  Dates (\<open>api.rs\<close>: times and their 64-bit milliseconds);
  Passwords (\<open>api.rs\<close>, \<open>native.rs\<close>, \<open>mirrors.rs\<close>: saved passwords, passkeys and wifi networks);
  Posters (\<open>mirrors.rs\<close>: the types of contact posters and chat backgrounds);
  FindMy, CloudRecords (\<open>mirrors.rs\<close>: the records of Find My and FaceTime, and those of the messages in iCloud);
  CloudMessages (\<open>api.rs\<close>, \<open>mirrors.rs\<close>: the encoders and decoders of these records, and saving batches of them);
  Services (\<open>api.rs\<close>, \<open>native.rs\<close>: albums, friends, FaceTime, second factors, posters and attachments);
  Desktop (\<open>ffi.rs\<close>: what the front end calls before there is an app; \<open>api.rs\<close>: the keystore a restart on a
  desktop installs first).

  How the code is represented. A struct is a record, an enum a datatype with the constructors of the source;
  \<open>Result\<close> is a sum with the error left, and a panic is an error value of its own kind; a function on shared
  state is a function from the state to a result and the new state, so an early return keeps exactly the
  changes made before it. Strings are lists of the bytes of their UTF-8 form. Timestamps and counters of a
  fixed width are words where they can wrap. A lock that is held for a whole function makes it one step; code
  between two awaits is one step, and steps of different tasks interleave in any order: a sign-in, for instance,
  is a chain of tasks (answer, finalising, reading the user, registering, installing the client, label), each of
  which spawns the next.

  What stands outside. The rustpush clients, the plist, JSON, base64 and protobuf codecs, the random source, the
  keystore crate, OpenSSL and the network are arguments of the definitions, collected in environment records;
  where a theorem relies on one of them, its law (what is written reads back, the clock does not go back) is a
  hypothesis, and a witness instantiates it. SQLite is modelled by the statements the code runs, with the
  constraints of the schema; the file system by a map from paths to contents, with unwritable and unreadable
  paths.

  Bounds. Every loop over data is structural recursion; the loop that strips a repeated prefix and the drain of
  the event channel end by a measure; the receive loop and the wait for a second factor are recursions over the
  list of what the stream delivers, so they end where the stream does, and the 30 seconds of the latter are
  a message list that ends. The numbers of the code are kept: five circle sessions, five retries of a message with
  the wait between them as a step, 32 bytes of a wrapping key, 16 of an anisette identifier. The channel of
  local messages holds 999 messages in the code and any number in the model: \<open>recv_wait\<close> sends into the
  channel it alone drains, so a full one would stop it there.

  What is shown. The storage keeps its integrity under every operation, error and interleaving, and refines a
  mailbox of maps and sets: on every run its answers are those of the mailbox, and the queries depend on nothing
  else. The running core changes the database only by these operations, so no message it has stored is lost, not by
  stopping it at any moment either; an inbound message is shown and announced, and an outgoing one stays pending
  until the client has it, with exactly its text, recipients and file, or its failure is announced. The core is never ready without a client, and no step
  replaces a session. Events arrive once and in order. What is kept on disk (pairing, session identity, wrapping key, login, registered
  device, encoded device) survives a restart. A message the app has not taken stays in the queue until it is
  taken or its retries are used up. At most five sign-ins of other devices are pending, the app is never offered
  one of another account, and a code is shown at most once. The migration moves exactly the keys that were in
  the files; a reset removes exactly the files it names. Uploads reach the records they belong to if their
  signatures differ, and a file is reported to an album once. A pointer handed between the halves of the mobile
  app that is used once never leads to freed memory, and nothing leaks. Several theorems state behaviour that
  looks unintended: a second delivery of a message resets it; a second sign-in makes every message count twice;
  old chats all become iMessage chats; a state ready restored without a session; a local device that changes
  its identifier; a migration that leaves the hardware file unreadable; a login without a CloudKit token after
  which the start panics; two equal files of which one is lost; a changed
  password whose history stays as it was.

  Not modelled. Functions of \<open>api.rs\<close> and \<open>native.rs\<close> that hand their arguments to one rustpush call and the
  result back; the loggers and the runtime of \<open>lib.rs\<close>; deleting the anisette directory; the declarations of
  \<open>mirrors.rs\<close> that no modelled code looks into (attributed strings, report messages, device information, the
  personal configuration of StatusKit, the end of an account update, poster user data), which only repeat types of
  rustpush for the binding generator; the Qt front end, whose calls are arbitrary steps of the system.
\<close>

end
